(* ===== verification/Prelude.thy ===== *)
theory Prelude
  imports Main "HOL-Library.Word"
begin

text \<open>
  Shared vocabulary of the development: bytes and C strings, the error value of
  \<^verbatim>\<open>source/shared/RCError.c\<close>, results of fallible operations, and the generic
  lemmas on lists and tables that the component theories rely on.

  A \<open>char *\<close> that may be \<open>NULL\<close> is a \<open>string option\<close>; a byte buffer is a list of
  8-bit characters; a buffer argument given as pointer and length is a
  \<open>bytes option\<close> together with its length. Memory allocation is assumed to succeed.
\<close>

named_theorems rc_split "case splits for results of fallible operations"
named_theorems table_simps "equations for table updates"

type_synonym bytes = "char list"

section \<open>Errors (RCError.c)\<close>

record RCError =
  err_code :: int
  err_message :: string

definition RC_ERROR_MESSAGE_CAPACITY :: nat where
  "RC_ERROR_MESSAGE_CAPACITY = 512"

definition RC_ERROR_CANCELLED :: int where
  "RC_ERROR_CANCELLED = -9999"

definition RCErrorClear :: RCError where
  "RCErrorClear = \<lparr>err_code = 0, err_message = []\<rparr>"

definition RCErrorSet :: "int \<Rightarrow> string \<Rightarrow> RCError" where
  "RCErrorSet c formatted =
     \<lparr>err_code = c, err_message = take (RC_ERROR_MESSAGE_CAPACITY - 1) formatted\<rparr>"

text \<open>The process-wide stop flag is the argument \<open>stop\<close>; a set flag is an error.\<close>

definition RCCheckCancellation :: "bool \<Rightarrow> RCError option" where
  "RCCheckCancellation stop =
     (if \<not> stop then None else Some (RCErrorSet RC_ERROR_CANCELLED ''Shutdown requested''))"

type_synonym 'a res = "RCError + 'a"

definition is_ok :: "'a res \<Rightarrow> bool" where
  "is_ok r = (case r of Inl _ \<Rightarrow> False | Inr _ \<Rightarrow> True)"

lemma is_ok_simps [simp]: "is_ok (Inl e) = False" "is_ok (Inr x) = True"
  by (simp_all add: is_ok_def)

lemma RCErrorSet_simps [simp]:
  "err_code (RCErrorSet c m) = c"
  "length (err_message (RCErrorSet c m)) < RC_ERROR_MESSAGE_CAPACITY"
  by (simp_all add: RCErrorSet_def RC_ERROR_MESSAGE_CAPACITY_def)

text \<open>Sequencing of fallible, state-passing calls: stop at the first failure.\<close>

definition chain :: "'a res \<times> 's \<Rightarrow> ('a \<Rightarrow> 's \<Rightarrow> 'b res \<times> 's) \<Rightarrow> 'b res \<times> 's" where
  "chain p f = (case p of (Inl e, s) \<Rightarrow> (Inl e, s) | (Inr x, s) \<Rightarrow> f x s)"

lemma chain_simps [simp]:
  "chain (Inl e, s) f = (Inl e, s)"
  "chain (Inr x, s) f = f x s"
  by (simp_all add: chain_def)

lemma chain_InrE:
  assumes "chain p f = (Inr y, s')"
  obtains x s where "p = (Inr x, s)" "f x s = (Inr y, s')"
  using assms by (cases p) (auto simp: chain_def split: sum.splits)

lemma chain_cases:
  assumes "chain p f = (r, s')"
  obtains (stopped) e where "p = (Inl e, s')" "r = Inl e" | (goes_on) x s where "p = (Inr x, s)" "f x s = (r, s')"
  using assms by (cases p; cases "fst p") (auto simp: chain_def)

lemma chain_split [rc_split]:
  "P (chain p f) \<longleftrightarrow>
     (\<forall>e s. p = (Inl e, s) \<longrightarrow> P (Inl e, s)) \<and> (\<forall>x s. p = (Inr x, s) \<longrightarrow> P (f x s))"
  by (cases p; cases "fst p") (auto simp: chain_def)

section \<open>C integers and strings\<close>

definition INT_MAX :: nat where "INT_MAX = 2147483647"

definition LLONG_MAX :: int where "LLONG_MAX = 9223372036854775807"

text \<open>\<open>sqlite3_column_int\<close> keeps the low 32 bits of a 64-bit value.\<close>

definition column_int :: "int \<Rightarrow> int" where
  "column_int n = sint (word_of_int n :: 32 word)"

lemma column_int_small: "- (2 ^ 31) \<le> n \<Longrightarrow> n < 2 ^ 31 \<Longrightarrow> column_int n = n"
  by (simp add: column_int_def signed_take_bit_int_eq_self signed_of_int)

definition to_lower :: "char \<Rightarrow> char" where
  "to_lower c = (let n = (of_char c :: nat) in if 65 \<le> n \<and> n \<le> 90 then char_of (n + 32) else c)"

definition to_upper :: "char \<Rightarrow> char" where
  "to_upper c = (let n = (of_char c :: nat) in if 97 \<le> n \<and> n \<le> 122 then char_of (n - 32) else c)"

text \<open>\<open>strcasecmp\<close> and \<open>strncasecmp\<close> used as equality tests, in the C locale.\<close>

definition same_nocase :: "string \<Rightarrow> string \<Rightarrow> bool" where
  "same_nocase a b \<longleftrightarrow> map to_lower a = map to_lower b"

definition same_nocase_n :: "nat \<Rightarrow> string \<Rightarrow> string \<Rightarrow> bool" where
  "same_nocase_n n a b \<longleftrightarrow> map to_lower (take n a) = map to_lower (take n b)"

lemma same_nocase_refl [simp]: "same_nocase a a"
  by (simp add: same_nocase_def)

lemma same_nocase_sym: "same_nocase a b \<Longrightarrow> same_nocase b a"
  by (simp add: same_nocase_def)

lemma same_nocase_trans: "same_nocase a b \<Longrightarrow> same_nocase b c \<Longrightarrow> same_nocase a c"
  by (simp add: same_nocase_def)

lemma same_nocase_length: "same_nocase a b \<Longrightarrow> length a = length b"
  by (metis same_nocase_def length_map)

definition empty_text :: "string option \<Rightarrow> bool" where
  "empty_text s = (case s of None \<Rightarrow> True | Some t \<Rightarrow> t = [])"

text \<open>A nullable buffer column read back as bytes: \<open>NULL\<close> has length zero.\<close>

definition bytes_of :: "bytes option \<Rightarrow> bytes" where
  "bytes_of b = (case b of None \<Rightarrow> [] | Some x \<Rightarrow> x)"

lemma bytes_of_simps [simp]: "bytes_of None = []" "bytes_of (Some x) = x"
  by (simp_all add: bytes_of_def)

text \<open>\<open>blob(q, n, p, len)\<close>: what a bound pointer and length store.\<close>

definition blob :: "bytes option \<Rightarrow> nat \<Rightarrow> bytes option" where
  "blob p len = map_option (take len) p"

text \<open>Decimal formatting, as \<open>%lld\<close> prints it.\<close>

fun show_nat :: "nat \<Rightarrow> string" where
  "show_nat n = (if n < 10 then [char_of (48 + n)]
                 else show_nat (n div 10) @ [char_of (48 + n mod 10)])"

declare show_nat.simps [simp del]

definition show_int :: "int \<Rightarrow> string" where
  "show_int i = (if i < 0 then CHR ''-'' # show_nat (nat (- i)) else show_nat (nat i))"

section \<open>Rows of a table\<close>

definition update_rows :: "('r \<Rightarrow> bool) \<Rightarrow> ('r \<Rightarrow> 'r) \<Rightarrow> 'r list \<Rightarrow> 'r list" where
  "update_rows P f rows = map (\<lambda>r. if P r then f r else r) rows"

definition count_rows :: "('r \<Rightarrow> bool) \<Rightarrow> 'r list \<Rightarrow> nat" where
  "count_rows P rows = length (filter P rows)"

text \<open>The identifier SQLite gives to a new row of an \<open>INTEGER PRIMARY KEY\<close> table.\<close>

definition next_rowid :: "int list \<Rightarrow> int" where
  "next_rowid ids = foldr max ids 0 + 1"

text \<open>\<open>ORDER BY id LIMIT 1\<close>.\<close>

fun least_id :: "int list \<Rightarrow> int option" where
  "least_id [] = None"
| "least_id (i # is) = (case least_id is of None \<Rightarrow> Some i | Some j \<Rightarrow> Some (min i j))"

lemma next_rowid_gt: "i \<in> set ids \<Longrightarrow> i < next_rowid ids"
  by (induction ids) (auto simp: next_rowid_def)

lemma next_rowid_pos: "0 < next_rowid ids"
  by (induction ids) (auto simp: next_rowid_def)

lemma next_rowid_fresh [simp]: "next_rowid ids \<notin> set ids"
  using next_rowid_gt by blast

lemma least_id_None [simp]: "least_id is = None \<longleftrightarrow> is = []"
  by (cases "is") (auto split: option.splits)

lemma least_id_Some: "least_id is = Some i \<Longrightarrow> i \<in> set is \<and> (\<forall>j \<in> set is. i \<le> j)"
proof (induction "is" arbitrary: i)
  case Nil
  then show ?case by simp
next
  case (Cons a "is")
  show ?case
  proof (cases "least_id is")
    case None
    with Cons.prems show ?thesis by simp
  next
    case (Some j)
    with Cons.IH [of j] Cons.prems show ?thesis by (auto simp: min_def split: if_splits)
  qed
qed

lemma update_rows_simps [table_simps]:
  "update_rows P f [] = []"
  "update_rows P f (r # rs) = (if P r then f r else r) # update_rows P f rs"
  by (simp_all add: update_rows_def)

lemma length_update_rows [simp]: "length (update_rows P f rs) = length rs"
  by (simp add: update_rows_def)

lemma set_update_rows: "set (update_rows P f rs) = (\<lambda>r. if P r then f r else r) ` set rs"
  by (simp add: update_rows_def)

lemma in_update_rowsE:
  assumes "r \<in> set (update_rows P f rs)"
  obtains s where "s \<in> set rs" "P s" "r = f s" | "r \<in> set rs" "\<not> P r"
  using assms by (auto simp: set_update_rows split: if_splits)

lemma map_update_rows:
  "(\<And>r. P r \<Longrightarrow> g (f r) = g r) \<Longrightarrow> map g (update_rows P f rs) = map g rs"
  by (auto simp: update_rows_def)

lemma count_rows_zero: "count_rows P rs = 0 \<longleftrightarrow> (\<forall>r \<in> set rs. \<not> P r)"
  by (auto simp: count_rows_def filter_empty_conv)

lemma count_rows_pos: "0 < count_rows P rs \<longleftrightarrow> (\<exists>r \<in> set rs. P r)"
  using count_rows_zero [of P rs] by auto

lemma count_rows_mono: "(\<And>r. P r \<Longrightarrow> Q r) \<Longrightarrow> count_rows P rs \<le> count_rows Q rs"
  by (induction rs) (auto simp: count_rows_def)

lemma distinct_key_eq:
  "distinct (map key rs) \<Longrightarrow> r \<in> set rs \<Longrightarrow> s \<in> set rs \<Longrightarrow> key r = key s \<Longrightarrow> r = s"
  by (induction rs) (auto simp: rev_image_eqI)

lemma filter_key:
  assumes "distinct (map key rs)" and "r \<in> set rs" and "P r" and "\<And>s. P s \<Longrightarrow> key s = key r"
  shows "filter P rs = [r]"
  using assms(1,2)
proof (induction rs)
  case Nil
  then show ?case by simp
next
  case (Cons a rs)
  show ?case
  proof (cases "P a")
    case True
    then have ka: "key a = key r" by (rule assms(4))
    then have "a = r" using Cons.prems by (auto simp: rev_image_eqI)
    moreover have "\<not> P s" if "s \<in> set rs" for s
      using that Cons.prems(1) ka assms(4) by (auto simp: rev_image_eqI)
    ultimately show ?thesis using True by (simp add: filter_empty_conv)
  next
    case False
    with assms(3) Cons.prems have "r \<in> set rs" by auto
    with False Cons.prems(1) Cons.IH show ?thesis by simp
  qed
qed

lemma count_rows_key:
  assumes "distinct (map key rs)" and "r \<in> set rs" and "P r" and "\<And>s. P s \<Longrightarrow> key s = key r"
  shows "count_rows P rs = 1"
  using filter_key [of key rs r P, OF assms] by (simp add: count_rows_def)

lemma find_filter: "find P xs = (case filter P xs of [] \<Rightarrow> None | x # _ \<Rightarrow> Some x)"
  by (induction xs) auto

lemma find_Some_in: "find P xs = Some x \<Longrightarrow> x \<in> set xs \<and> P x"
  by (induction xs) (auto split: if_splits)

lemma find_unique:
  assumes "distinct (map key rs)" and "r \<in> set rs" and "P r" and "\<And>s. P s \<Longrightarrow> key s = key r"
  shows "find P rs = Some r"
  using filter_key [of key rs r P, OF assms] by (simp add: find_filter)

lemma find_append: "find P (xs @ ys) = (case find P xs of None \<Rightarrow> find P ys | Some x \<Rightarrow> Some x)"
  by (induction xs) auto

lemma find_filter_other: "(\<And>x. P x \<Longrightarrow> Q x) \<Longrightarrow> find P (filter Q xs) = find P xs"
  by (induction xs) auto

lemma find_filter_none: "(\<And>x. x \<in> set xs \<Longrightarrow> P x \<Longrightarrow> \<not> Q x) \<Longrightarrow> find P (filter Q xs) = None"
  by (induction xs) auto

end
