(* ===== verification/SQLite.thy ===== *)
theory SQLite
  imports Prelude
begin

text \<open>
  The database connection the C code works through. SQL statements are translated
  where they occur, as functions on the rows of the tables they name; this theory
  holds what they share: the transaction stack (\<open>BEGIN\<close>, \<open>SAVEPOINT\<close>, \<open>RELEASE\<close>,
  \<open>ROLLBACK TO\<close>, \<open>COMMIT\<close>, \<open>ROLLBACK\<close>), autocommit mode, and the outcome of each call.

  SQLite is not part of the repository. Whether a call succeeds is the argument
  \<open>outcome\<close> of the connection, a function of the kind of call and of its number, so
  every theorem holds for every pattern of failing calls; the text of
  \<open>sqlite3_errmsg\<close> is the argument \<open>errmsg\<close>, the value of \<open>sqlite3_errcode\<close> the argument
  \<open>errcode\<close>, and \<open>lower(hex(randomblob(16)))\<close> draws from the sequence \<open>random\<close>, indexed by the
  number of the call that draws.
\<close>

datatype sql_op = Prepare | Step | Exec | Savepoint string | Release string | Undo string
  | Begin | Commit | Rollback

record 't db =
  tables :: 't
  txn :: "(string option \<times> 't) list"
  outcome :: "sql_op \<Rightarrow> nat \<Rightarrow> bool"
  calls :: nat
  errmsg :: string
  errcode :: int
  random :: "nat \<Rightarrow> string"

text \<open>A connection on which every call succeeds, with identifiers that count the calls.\<close>

definition numbered_hex :: "nat \<Rightarrow> string" where
  "numbered_hex n = replicate (32 - length (show_nat n)) CHR ''0'' @ show_nat n"

definition open_db :: "'t \<Rightarrow> 't db" where
  "open_db t = \<lparr>tables = t, txn = [], outcome = (\<lambda>_ _. True), calls = 0, errmsg = [], errcode = 1,
     random = numbered_hex\<rparr>"

text \<open>One call of the library: its outcome, and the connection with the call counted.\<close>

definition sql_call :: "sql_op \<Rightarrow> 't db \<Rightarrow> bool \<times> 't db" where
  "sql_call op d = (outcome d op (calls d), d\<lparr>calls := Suc (calls d)\<rparr>)"

text \<open>\<open>sqlite3_get_autocommit\<close>: no transaction and no savepoint is open.\<close>

definition autocommit :: "'t db \<Rightarrow> bool" where
  "autocommit d \<longleftrightarrow> txn d = []"

definition sql_prepare :: "'t db \<Rightarrow> bool \<times> 't db" where
  "sql_prepare d = sql_call Prepare d"

text \<open>
  Stepping a query: \<open>None\<close> is an error code, \<open>Some None\<close> is \<open>SQLITE_DONE\<close> and
  \<open>Some (Some row)\<close> is \<open>SQLITE_ROW\<close>.
\<close>

definition sql_query :: "('t \<Rightarrow> 'r option) \<Rightarrow> 't db \<Rightarrow> 'r option option \<times> 't db" where
  "sql_query q d = (let (ok, d1) = sql_call Step d in
     if ok then (Some (q (tables d1)), d1) else (None, d1))"

text \<open>
  Stepping a statement that changes rows: \<open>f\<close> gives the new tables and what the caller
  reads of the statement (\<open>sqlite3_changes\<close> or \<open>sqlite3_last_insert_rowid\<close>), or
  \<open>None\<close> for a violated constraint.
\<close>

definition sql_modify :: "('t \<Rightarrow> ('t \<times> 'r) option) \<Rightarrow> 't db \<Rightarrow> 'r option \<times> 't db" where
  "sql_modify f d = (let (ok, d1) = sql_call Step d in
     if \<not> ok then (None, d1)
     else case f (tables d1) of None \<Rightarrow> (None, d1)
          | Some (t, n) \<Rightarrow> (Some n, d1\<lparr>tables := t\<rparr>))"

section \<open>Transactions\<close>

fun find_savepoint ::
  "string \<Rightarrow> (string option \<times> 't) list \<Rightarrow> ('t \<times> (string option \<times> 't) list) option" where
  "find_savepoint n [] = None"
| "find_savepoint n ((m, t) # st) = (if m = Some n then Some (t, st) else find_savepoint n st)"

definition sql_savepoint :: "string \<Rightarrow> 't db \<Rightarrow> bool \<times> 't db" where
  "sql_savepoint n d = (let (ok, d1) = sql_call (Savepoint n) d in
     if ok then (True, d1\<lparr>txn := (Some n, tables d1) # txn d1\<rparr>) else (False, d1))"

definition sql_release :: "string \<Rightarrow> 't db \<Rightarrow> bool \<times> 't db" where
  "sql_release n d = (let (ok, d1) = sql_call (Release n) d in
     if \<not> ok then (False, d1)
     else case find_savepoint n (txn d1) of None \<Rightarrow> (False, d1)
          | Some (t, st) \<Rightarrow> (True, d1\<lparr>txn := st\<rparr>))"

text \<open>The statement pair \<open>ROLLBACK TO n; RELEASE n\<close>, whose result the code ignores.\<close>

definition sql_undo :: "string \<Rightarrow> 't db \<Rightarrow> 't db" where
  "sql_undo n d = (let (ok, d1) = sql_call (Undo n) d in
     if \<not> ok then d1
     else case find_savepoint n (txn d1) of None \<Rightarrow> d1
          | Some (t, st) \<Rightarrow> d1\<lparr>tables := t, txn := st\<rparr>)"

definition sql_begin :: "'t db \<Rightarrow> bool \<times> 't db" where
  "sql_begin d = (let (ok, d1) = sql_call Begin d in
     if ok \<and> txn d1 = [] then (True, d1\<lparr>txn := [(None, tables d1)]\<rparr>) else (False, d1))"

definition sql_commit :: "'t db \<Rightarrow> bool \<times> 't db" where
  "sql_commit d = (let (ok, d1) = sql_call Commit d in
     if ok \<and> txn d1 \<noteq> [] then (True, d1\<lparr>txn := []\<rparr>) else (False, d1))"

definition sql_rollback :: "'t db \<Rightarrow> bool \<times> 't db" where
  "sql_rollback d = (let (ok, d1) = sql_call Rollback d in
     if ok \<and> txn d1 \<noteq> []
     then (True, d1\<lparr>tables := snd (last (txn d1)), txn := []\<rparr>) else (False, d1))"

text \<open>
  The frame every multi-statement operation of the journal and of the stores is written
  in: open a savepoint, run the body, release on success, and undo on failure, also when
  the release itself fails.
\<close>

definition with_savepoint ::
  "string \<Rightarrow> ('t db \<Rightarrow> RCError) \<Rightarrow> ('t db \<Rightarrow> 'a res \<times> 't db) \<Rightarrow> 't db \<Rightarrow> 'a res \<times> 't db" where
  "with_savepoint n err body d =
     (let (ok, d1) = sql_savepoint n d in
      if \<not> ok then (Inl (err d1), d1)
      else case body d1 of
          (Inl e, d2) \<Rightarrow> (Inl e, sql_undo n d2)
        | (Inr x, d2) \<Rightarrow>
            (let (released, d3) = sql_release n d2 in
             if released then (Inr x, d3) else (Inl (err d3), sql_undo n d3)))"

section \<open>What a call keeps\<close>

text \<open>A call leaves the library's behaviour alone; only tables, stack and counter move.\<close>

definition same_library :: "'t db \<Rightarrow> 't db \<Rightarrow> bool" where
  "same_library d d' \<longleftrightarrow> outcome d' = outcome d \<and> errmsg d' = errmsg d"

text \<open>\<open>ROLLBACK TO\<close> an open savepoint followed by its release succeeds.\<close>

definition undo_ok :: "'t db \<Rightarrow> bool" where
  "undo_ok d \<longleftrightarrow> (\<forall>name n. outcome d (Undo name) n)"

lemma same_library_refl [simp]: "same_library d d"
  by (simp add: same_library_def)

lemma same_library_trans [trans]:
  "same_library a b \<Longrightarrow> same_library b c \<Longrightarrow> same_library a c"
  by (simp add: same_library_def)

lemma undo_ok_same: "same_library d d' \<Longrightarrow> undo_ok d' = undo_ok d"
  by (simp add: same_library_def undo_ok_def)

lemma sql_call_keeps:
  "sql_call op d = (ok, d') \<Longrightarrow> tables d' = tables d \<and> txn d' = txn d \<and> same_library d d'"
  by (auto simp: sql_call_def same_library_def)

lemma sql_prepare_keeps:
  "sql_prepare d = (ok, d') \<Longrightarrow> tables d' = tables d \<and> txn d' = txn d \<and> same_library d d'"
  by (auto simp: sql_prepare_def dest: sql_call_keeps)

lemma sql_query_keeps:
  "sql_query q d = (r, d') \<Longrightarrow> tables d' = tables d \<and> txn d' = txn d \<and> same_library d d'"
  by (auto simp: sql_query_def Let_def split: prod.splits if_splits dest: sql_call_keeps)

lemma sql_query_row: "sql_query q d = (Some r, d') \<Longrightarrow> q (tables d) = r"
  by (auto simp: sql_query_def Let_def split: prod.splits if_splits dest: sql_call_keeps)

lemma sql_query_result:
  "sql_query q d = (r, d') \<Longrightarrow> tables d' = tables d \<and> txn d' = txn d \<and> same_library d d' \<and>
     (\<forall>x. r = Some x \<longrightarrow> q (tables d) = x)"
  using sql_query_keeps sql_query_row by blast

lemma sql_modify_keeps: "sql_modify f d = (r, d') \<Longrightarrow> txn d' = txn d \<and> same_library d d'"
  by (auto simp: sql_modify_def Let_def same_library_def split: prod.splits if_splits option.splits
      dest!: sql_call_keeps)

lemma sql_modify_None: "sql_modify f d = (None, d') \<Longrightarrow> tables d' = tables d"
  by (auto simp: sql_modify_def Let_def split: prod.splits if_splits option.splits
      dest!: sql_call_keeps)

lemma sql_modify_Some:
  "sql_modify f d = (Some n, d') \<Longrightarrow> f (tables d) = Some (tables d', n)"
  by (auto simp: sql_modify_def Let_def split: prod.splits if_splits option.splits
      dest!: sql_call_keeps)

lemma sql_begin_result:
  "sql_begin d = (ok, d') \<Longrightarrow>
     tables d' = tables d \<and> same_library d d' \<and>
     txn d' = (if ok then [(None, tables d)] else txn d) \<and> (ok \<longrightarrow> txn d = [])"
  by (auto simp: sql_begin_def Let_def same_library_def split: prod.splits if_splits
      dest!: sql_call_keeps)

lemma sql_commit_result:
  "sql_commit d = (ok, d') \<Longrightarrow>
     tables d' = tables d \<and> same_library d d' \<and> txn d' = (if ok then [] else txn d)"
  by (auto simp: sql_commit_def Let_def same_library_def split: prod.splits if_splits
      dest!: sql_call_keeps)

lemma sql_rollback_result:
  "sql_rollback d = (ok, d') \<Longrightarrow>
     same_library d d' \<and> (if ok then tables d' = snd (last (txn d)) \<and> txn d' = [] \<and> txn d \<noteq> []
                         else tables d' = tables d \<and> txn d' = txn d)"
  by (auto simp: sql_rollback_def Let_def same_library_def split: prod.splits if_splits
      dest!: sql_call_keeps)

section \<open>Savepoint frames are atomic\<close>

lemma sql_modify_result:
  "sql_modify f d = (r, d') \<Longrightarrow> txn d' = txn d \<and> same_library d d' \<and>
     (case r of None \<Rightarrow> tables d' = tables d | Some n \<Rightarrow> f (tables d) = Some (tables d', n))"
  by (cases r) (auto dest: sql_modify_keeps sql_modify_None sql_modify_Some)

text \<open>
  The contract a store offers its multi-statement operations, stated over any store:
  a snapshot that is undone or released gives back the stack it was pushed on, and
  undoing gives back the contents.
\<close>

locale savepoints =
  fixes contents :: "'s \<Rightarrow> 't" and stack :: "'s \<Rightarrow> 'k"
    and push :: "'s \<Rightarrow> bool \<times> 's" and pop :: "'s \<Rightarrow> bool \<times> 's" and revert :: "'s \<Rightarrow> 's"
    and reliable :: "'s \<Rightarrow> bool" and same :: "'s \<Rightarrow> 's \<Rightarrow> bool"
  assumes same_trans: "same a b \<Longrightarrow> same b c \<Longrightarrow> same a c"
    and reliable_same: "same a b \<Longrightarrow> reliable a \<Longrightarrow> reliable b"
    and push_fail: "push s = (False, s') \<Longrightarrow> contents s' = contents s \<and> stack s' = stack s \<and> same s s'"
    and push_ok: "push s = (True, s') \<Longrightarrow> contents s' = contents s \<and> same s s'"
    and pop_ok: "push s = (True, s1) \<Longrightarrow> stack s2 = stack s1 \<Longrightarrow> pop s2 = (True, s3) \<Longrightarrow>
          stack s3 = stack s \<and> contents s3 = contents s2 \<and> same s2 s3"
    and pop_fail: "pop s2 = (False, s3) \<Longrightarrow> stack s3 = stack s2 \<and> same s2 s3"
    and revert_ok: "push s = (True, s1) \<Longrightarrow> stack s2 = stack s1 \<Longrightarrow> reliable s2 \<Longrightarrow>
          stack (revert s2) = stack s \<and> contents (revert s2) = contents s \<and> same s2 (revert s2)"
begin

text \<open>A frame, as an abstract operation over the store.\<close>

definition frame :: "('s \<Rightarrow> 'e) \<Rightarrow> ('s \<Rightarrow> ('e + 'a) \<times> 's) \<Rightarrow> 's \<Rightarrow> ('e + 'a) \<times> 's" where
  "frame err body s =
     (let (ok, s1) = push s in
      if \<not> ok then (Inl (err s1), s1)
      else case body s1 of
          (Inl e, s2) \<Rightarrow> (Inl e, revert s2)
        | (Inr x, s2) \<Rightarrow>
            (let (released, s3) = pop s2 in
             if released then (Inr x, s3) else (Inl (err s3), revert s3)))"

definition balanced :: "('s \<Rightarrow> ('e + 'a) \<times> 's) \<Rightarrow> bool" where
  "balanced body \<longleftrightarrow> (\<forall>s r s'. body s = (r, s') \<longrightarrow> stack s' = stack s \<and> same s s')"

lemma frame_failure:
  assumes "balanced body" and "reliable s" and "frame err body s = (Inl e, s')"
  shows "contents s' = contents s \<and> stack s' = stack s \<and> same s s'"
proof -
  obtain ok s1 where p: "push s = (ok, s1)" by (cases "push s")
  show ?thesis
  proof (cases ok)
    case False
    with p assms(3) push_fail show ?thesis by (auto simp: frame_def)
  next
    case True
    with p have p: "push s = (True, s1)" by simp
    obtain r s2 where b: "body s1 = (r, s2)" by (cases "body s1")
    from assms(1) b have b2: "stack s2 = stack s1" "same s1 s2" by (auto simp: balanced_def)
    from push_ok [OF p] b2(2) have s2: "same s s2" by (blast intro: same_trans)
    then have rel: "reliable s2" using assms(2) by (blast intro: reliable_same)
    show ?thesis
    proof (cases r)
      case (Inl e')
      with p b assms(3) have "s' = revert s2" by (simp add: frame_def)
      with revert_ok [OF p b2(1) rel] s2 show ?thesis by (blast intro: same_trans)
    next
      case (Inr x)
      obtain ok3 s3 where q: "pop s2 = (ok3, s3)" by (cases "pop s2")
      with Inr p b assms(3) have q: "pop s2 = (False, s3)" and s': "s' = revert s3"
        by (auto simp: frame_def split: if_splits)
      from pop_fail [OF q] b2(1) have "stack s3 = stack s1" "same s2 s3" by simp_all
      with revert_ok [OF p, of s3] rel s2 s' show ?thesis
        by (meson reliable_same same_trans)
    qed
  qed
qed

lemma frame_success:
  assumes "balanced body" and "frame err body s = (Inr x, s')"
  obtains s1 s2 where "push s = (True, s1)" "body s1 = (Inr x, s2)"
    "contents s1 = contents s" "same s s1" "contents s' = contents s2" "stack s' = stack s" "same s s'"
proof -
  obtain ok s1 where p: "push s = (ok, s1)" by (cases "push s")
  with assms(2) have p: "push s = (True, s1)" by (auto simp: frame_def split: if_splits)
  obtain r s2 where b: "body s1 = (r, s2)" by (cases "body s1")
  with p assms(2) have b: "body s1 = (Inr x, s2)" and q: "pop s2 = (True, s')"
    by (auto simp: frame_def split: sum.splits prod.splits if_splits)
  from assms(1) b have b2: "stack s2 = stack s1" "same s1 s2" by (auto simp: balanced_def)
  from pop_ok [OF p b2(1) q] push_ok [OF p] b2 that [OF p b] show ?thesis
    by (blast intro: same_trans)
qed

end

lemma find_savepoint_top [simp]: "find_savepoint n ((Some n, t) # st) = Some (t, st)"
  by simp

interpretation sp: savepoints tables txn "sql_savepoint n" "sql_release n" "sql_undo n"
  undo_ok same_library for n
proof (unfold_locales, goal_cases)
  case (1 a b c)
  then show ?case by (rule same_library_trans)
next
  case (2 a b)
  then show ?case by (simp add: undo_ok_same)
next
  case (3 s s')
  then show ?case
    by (auto simp: sql_savepoint_def Let_def split: prod.splits if_splits dest: sql_call_keeps)
next
  case (4 s s')
  then show ?case
    by (auto simp: sql_savepoint_def Let_def same_library_def split: prod.splits if_splits
        dest!: sql_call_keeps)
next
  case (5 s s1 s2 s3)
  then show ?case
    by (auto simp: sql_savepoint_def sql_release_def Let_def same_library_def
        split: prod.splits if_splits option.splits dest!: sql_call_keeps)
next
  case (6 s2 s3)
  then show ?case
    by (auto simp: sql_release_def Let_def split: prod.splits if_splits option.splits
        dest!: sql_call_keeps)
next
  case (7 s s1 s2)
  then show ?case
    by (auto simp: sql_savepoint_def sql_undo_def Let_def same_library_def undo_ok_def sql_call_def
        split: prod.splits if_splits option.splits)
qed

lemma with_savepoint_frame: "with_savepoint n err body d = sp.frame n err body d"
  by (simp add: with_savepoint_def sp.frame_def)

abbreviation balanced :: "('t db \<Rightarrow> 'a res \<times> 't db) \<Rightarrow> bool" where
  "balanced \<equiv> sp.balanced"

lemmas balanced_def = sp.balanced_def

lemma with_savepoint_failure:
  "balanced body \<Longrightarrow> undo_ok d \<Longrightarrow> with_savepoint n err body d = (Inl e, d') \<Longrightarrow>
     tables d' = tables d \<and> txn d' = txn d \<and> same_library d d'"
  unfolding with_savepoint_frame by (rule sp.frame_failure)

lemma with_savepoint_success:
  assumes "balanced body" and "with_savepoint n err body d = (Inr x, d')"
  obtains d1 d2 where "body d1 = (Inr x, d2)" "tables d1 = tables d" "same_library d d1"
    "tables d' = tables d2" "txn d' = txn d" "same_library d d'"
  using sp.frame_success [OF assms(1), of n err d x d'] assms(2)
  unfolding with_savepoint_frame by metis


section \<open>Durable histories\<close>

text \<open>What a crash leaves behind: the tables as of the outermost open transaction.\<close>

definition committed :: "'t db \<Rightarrow> 't" where
  "committed d = last (tables d # map snd (txn d))"

text \<open>The transaction statements, whoever issues them.\<close>

inductive control :: "'t db \<Rightarrow> 't db \<Rightarrow> bool" where
  begin_txn: "sql_begin d = (ok, d') \<Longrightarrow> control d d'"
| commit: "sql_commit d = (ok, d') \<Longrightarrow> control d d'"
| rollback: "sql_rollback d = (ok, d') \<Longrightarrow> control d d'"
| savepoint: "sql_savepoint n d = (ok, d') \<Longrightarrow> control d d'"
| release: "sql_release n d = (ok, d') \<Longrightarrow> control d d'"
| undo: "sql_undo n d = d' \<Longrightarrow> control d d'"

lemma find_savepoint_suffix:
  "find_savepoint n st = Some (t, st') \<Longrightarrow> \<exists>pre. map snd st = pre @ t # map snd st'"
proof (induction n st rule: find_savepoint.induct)
  case (1 n)
  then show ?case by simp
next
  case (2 n m t0 st)
  then show ?case by (metis append_Cons append_Nil find_savepoint.simps(2) list.simps(9) option.inject prod.inject snd_conv)
qed

text \<open>The snapshots a transaction statement leaves are among those it found, in order.\<close>

lemma control_snapshots:
  assumes "control d d'"
  shows "same_library d d' \<and>
    (let old = tables d # map snd (txn d); new = tables d' # map snd (txn d') in
      new = tables d # old \<or> (\<exists>pre. old = pre @ new) \<or> (\<exists>pre mid suf. old = pre @ mid @ suf \<and> new = pre @ suf \<and> pre \<noteq> []))"
  using assms
proof cases
  case (begin_txn ok)
  then show ?thesis by (cases ok) (auto simp: Let_def dest!: sql_begin_result)
next
  case (commit ok)
  then have r: "tables d' = tables d" "same_library d d'" "txn d' = (if ok then [] else txn d)"
    by (auto dest: sql_commit_result)
  show ?thesis
  proof (cases ok)
    case True
    with r have "tables d # map snd (txn d) = [tables d] @ map snd (txn d) @ []"
      "tables d' # map snd (txn d') = [tables d] @ []" by simp_all
    with r show ?thesis unfolding Let_def by blast
  next
    case False
    with r show ?thesis by simp
  qed
next
  case (rollback ok)
  then show ?thesis
    by (cases ok; cases "txn d" rule: rev_cases) (auto simp: Let_def dest!: sql_rollback_result)
next
  case (savepoint n ok)
  then show ?thesis
    by (auto simp: sql_savepoint_def Let_def same_library_def split: prod.splits if_splits
        dest!: sql_call_keeps)
next
  case (release n ok)
  show ?thesis
  proof (cases ok)
    case True
    with release obtain t st where f: "find_savepoint n (txn d) = Some (t, st)"
      and k: "tables d' = tables d" "txn d' = st" "same_library d d'"
      by (auto simp: sql_release_def Let_def same_library_def split: prod.splits if_splits option.splits
          dest!: sql_call_keeps)
    from find_savepoint_suffix [OF f] obtain pre where "map snd (txn d) = pre @ t # map snd st" by blast
    with k have "tables d # map snd (txn d) = [tables d] @ (pre @ [t]) @ map snd st"
      "tables d' # map snd (txn d') = [tables d] @ map snd st" by simp_all
    with k show ?thesis unfolding Let_def by blast
  next
    case False
    with release have "tables d' = tables d" "txn d' = txn d" "same_library d d'"
      by (auto simp: sql_release_def Let_def same_library_def split: prod.splits if_splits option.splits
          dest!: sql_call_keeps)
    then show ?thesis by simp
  qed
next
  case (undo n)
  show ?thesis
  proof (cases "\<exists>t st. find_savepoint n (txn d) = Some (t, st) \<and> tables d' = t \<and> txn d' = st")
    case True
    with undo show ?thesis
      by (auto simp: sql_undo_def Let_def same_library_def split: prod.splits if_splits option.splits
          dest!: sql_call_keeps find_savepoint_suffix)
  next
    case False
    with undo show ?thesis
      by (auto simp: sql_undo_def Let_def same_library_def split: prod.splits if_splits option.splits
          dest!: sql_call_keeps)
  qed
qed

text \<open>
  A component that changes its tables only by \<open>step\<close> keeps its invariant \<open>good\<close> in every
  snapshot, and what has been committed only grows, in the sense of \<open>ext\<close>, whatever
  transaction statements are interleaved.
\<close>

locale tracked_tables =
  fixes good :: "'t \<Rightarrow> bool" and step :: "'t \<Rightarrow> 't \<Rightarrow> bool" and ext :: "'t \<Rightarrow> 't \<Rightarrow> bool"
  assumes step_good: "good t \<Longrightarrow> step t t' \<Longrightarrow> good t'"
    and step_ext: "good t \<Longrightarrow> step t t' \<Longrightarrow> ext t t'"
    and ext_refl: "ext t t"
    and ext_trans: "ext a b \<Longrightarrow> ext b c \<Longrightarrow> ext a c"
begin

definition sound :: "'t db \<Rightarrow> bool" where
  "sound d \<longleftrightarrow> undo_ok d \<and> (\<forall>t \<in> set (tables d # map snd (txn d)). good t) \<and>
     sorted_wrt (\<lambda>a b. ext b a) (tables d # map snd (txn d))"

lemma sound_good: "sound d \<Longrightarrow> good (tables d)"
  by (simp add: sound_def)

lemma last_ext: "sorted_wrt (\<lambda>a b. ext b a) (x # xs) \<Longrightarrow> ext (last (x # xs)) x"
  by (cases xs rule: rev_cases) (auto simp: ext_refl sorted_wrt_append)

lemma control_sound:
  assumes "control d d'" and "sound d"
  shows "sound d' \<and> ext (committed d) (committed d')"
proof -
  let ?old = "tables d # map snd (txn d)" and ?new = "tables d' # map snd (txn d')"
  from assms(2) have u: "undo_ok d" and g: "\<forall>t \<in> set ?old. good t" and s: "sorted_wrt (\<lambda>a b. ext b a) ?old"
    by (simp_all add: sound_def)
  from control_snapshots [OF assms(1)] have lib: "same_library d d'"
    and c: "?new = tables d # ?old \<or> (\<exists>pre. ?old = pre @ ?new) \<or>
      (\<exists>pre mid suf. ?old = pre @ mid @ suf \<and> ?new = pre @ suf \<and> pre \<noteq> [])"
    by (simp_all add: Let_def)
  have "(\<forall>t \<in> set ?new. good t) \<and> sorted_wrt (\<lambda>a b. ext b a) ?new \<and> ext (last ?old) (last ?new)"
    using c
  proof (elim disjE exE conjE)
    assume n: "?new = tables d # ?old"
    then have "last ?new = last ?old" by simp
    moreover have "sorted_wrt (\<lambda>a b. ext b a) (tables d # ?old)"
      using s by (simp add: ext_refl)
    ultimately show ?thesis using g ext_refl unfolding n by simp
  next
    fix pre assume o: "?old = pre @ ?new"
    then have "last ?new = last ?old" by (metis last_appendR list.distinct(1))
    then show ?thesis using g s ext_refl unfolding o by (simp add: sorted_wrt_append)
  next
    fix pre mid suf assume o: "?old = pre @ mid @ suf" and n: "?new = pre @ suf" and ne: "pre \<noteq> []"
    have sd: "sorted_wrt (\<lambda>a b. ext b a) (pre @ mid @ suf)" using s unfolding o .
    have "ext (last ?old) (last ?new)"
    proof (cases suf rule: rev_cases)
      case Nil
      with ne have "last ?new = last pre" "last ?new \<in> set pre" by (simp_all add: n)
      moreover have "last ?old \<in> set mid \<or> last ?old = last pre"
        using Nil by (cases mid rule: rev_cases) (auto simp: o)
      ultimately show ?thesis using sd ext_refl by (auto simp: sorted_wrt_append)
    next
      case (snoc xs x)
      then show ?thesis by (simp add: o n ext_refl)
    qed
    then show ?thesis using g sd unfolding o n by (auto simp: sorted_wrt_append)
  qed
  with u lib show ?thesis
    by (simp add: sound_def committed_def undo_ok_same)
qed

lemma step_sound:
  assumes "sound d" and "txn d' = txn d" and "same_library d d'"
    and "tables d' = tables d \<or> step (tables d) (tables d')"
  shows "sound d' \<and> ext (committed d) (committed d')"
proof -
  have e: "ext (tables d) (tables d')"
    using assms(1,4) step_ext ext_refl by (auto simp: sound_def)
  have "good (tables d')" using assms(1,4) step_good by (auto simp: sound_def)
  moreover have "sorted_wrt (\<lambda>a b. ext b a) (tables d' # map snd (txn d'))"
    using assms(1,2) e ext_trans by (auto simp: sound_def)
  moreover have "undo_ok d'" using assms(1,3) by (simp add: sound_def undo_ok_same)
  ultimately have "sound d'" using assms(1,2) by (simp add: sound_def)
  moreover have "ext (committed d) (committed d')"
    using e assms(2) ext_refl by (simp add: committed_def)
  ultimately show ?thesis ..
qed

end

end
