(* ===== verification/WriteJournal.thy ===== *)
theory WriteJournal
  imports SQLite
begin

text \<open>
  The durable outbox of \<^verbatim>\<open>source/shared/RCWriteJournal.c\<close>: published bases, outgoing
  operations, conflict resolutions and attention entries, one definition per exported
  function. The \<open>CHECK\<close> constraints on \<open>kind\<close> and \<open>state\<close> are the datatypes
  \<open>op_kind\<close> and \<open>op_state\<close>; the C strings are parsed into them where the code compares
  them. The tables are an extensible record, because the contact store and the calendar
  store both keep a journal beside their own tables.
\<close>

section \<open>Tables\<close>

datatype op_kind = Create | Update | Delete

datatype op_state = Queued | Uncertain | Applied | Conflict | Acknowledged | Cancelled

record account_row =
  acc_id :: int
  acc_username :: string
  acc_sync_id :: string
  acc_generation :: int
  acc_published :: int

record base_row =
  b_account :: int
  b_key :: string
  b_href :: string
  b_etag :: "string option"
  b_body :: bytes
  b_revision :: int

record op_row =
  op_id :: int
  op_account :: int
  op_change :: string
  op_key :: string
  op_href :: string
  op_kind :: op_kind
  op_state :: op_state
  op_revision :: int
  op_base_etag :: "string option"
  op_base_body :: "bytes option"
  op_desired :: "bytes option"
  op_attempts :: nat
  op_retry_at :: int
  op_http_status :: "int option"
  op_result_etag :: "string option"
  op_result_body :: "bytes option"

record resolution_row =
  r_operation :: int
  r_successor :: int
  r_receipt :: bytes
  r_mirrored :: bool

record attention_row =
  a_operation :: int
  a_reason :: string

record journal_tables =
  schema :: "string list"
  accounts :: "account_row list"
  write_bases :: "base_row list"
  write_operations :: "op_row list"
  write_resolutions :: "resolution_row list"
  write_attention :: "attention_row list"

type_synonym 'z jtables = "'z journal_tables_scheme"
type_synonym 'z jdb = "'z journal_tables_scheme db"

text \<open>The operation as the callers read it (\<open>RCWriteOperation\<close>).\<close>

record RCWriteOperation =
  o_id :: int
  o_localRevision :: int
  o_retryAt :: int
  o_attempts :: int
  o_httpStatus :: int
  o_changeID :: string
  o_resourceKey :: string
  o_href :: string
  o_kind :: op_kind
  o_state :: op_state
  o_baseETag :: "string option"
  o_resultETag :: "string option"
  o_baseBody :: "bytes option"
  o_desiredBody :: "bytes option"
  o_resultBody :: "bytes option"

fun kind_of_string :: "string \<Rightarrow> op_kind option" where
  "kind_of_string s = (if s = ''create'' then Some Create else if s = ''update'' then Some Update
     else if s = ''delete'' then Some Delete else None)"

fun result_state_of_string :: "string \<Rightarrow> op_state option" where
  "result_state_of_string s = (if s = ''uncertain'' then Some Uncertain
     else if s = ''applied'' then Some Applied else if s = ''conflict'' then Some Conflict else None)"

definition unresolved :: "op_row \<Rightarrow> bool" where
  "unresolved r \<longleftrightarrow> op_state r \<notin> {Acknowledged, Cancelled}"

section \<open>Helpers of the C file\<close>

definition journal_fail :: "'t db \<Rightarrow> RCError" where
  "journal_fail d = RCErrorSet 1 (''Write journal database error: '' @ errmsg d)"

definition journal_exec :: "'t db \<Rightarrow> ('t \<Rightarrow> 't) \<Rightarrow> unit res \<times> 't db" where
  "journal_exec d f = (let (ok, d1) = sql_call Exec d in
     if ok then (Inr (), d1\<lparr>tables := f (tables d1)\<rparr>) else (Inl (journal_fail d1), d1))"

definition journal_prepare :: "'t db \<Rightarrow> unit res \<times> 't db" where
  "journal_prepare d = (let (ok, d1) = sql_prepare d in
     if ok then (Inr (), d1) else (Inl (journal_fail d1), d1))"

text \<open>Prepare, bind and step a query; anything but a row or the end is \<open>fail\<close>.\<close>

definition journal_query :: "('t \<Rightarrow> 'r option) \<Rightarrow> 't db \<Rightarrow> 'r option res \<times> 't db" where
  "journal_query q d = chain (journal_prepare d) (\<lambda>_ d.
     case sql_query q d of (None, d) \<Rightarrow> (Inl (journal_fail d), d) | (Some r, d) \<Rightarrow> (Inr r, d))"

text \<open>Prepare, bind and step a change; anything but \<open>SQLITE_DONE\<close> is \<open>fail\<close>.\<close>

definition journal_modify :: "('t \<Rightarrow> ('t \<times> 'r) option) \<Rightarrow> 't db \<Rightarrow> 'r res \<times> 't db" where
  "journal_modify f d = chain (journal_prepare d) (\<lambda>_ d.
     case sql_modify f d of (None, d) \<Rightarrow> (Inl (journal_fail d), d) | (Some r, d) \<Rightarrow> (Inr r, d))"

text \<open>Prepare, bind and step an update that must change exactly one row.\<close>

definition journal_update_one ::
  "string \<Rightarrow> ('t \<Rightarrow> 't \<times> nat) \<Rightarrow> 't db \<Rightarrow> unit res \<times> 't db" where
  "journal_update_one msg f d = chain (journal_prepare d) (\<lambda>_ d.
     case sql_modify (Some \<circ> f) d of
       (Some n, d) \<Rightarrow> (if n = 1 then Inr () else Inl (RCErrorSet 1 msg), d)
     | (None, d) \<Rightarrow> (Inl (RCErrorSet 1 msg), d))"

definition outsideTransaction :: "'t db \<Rightarrow> RCError option" where
  "outsideTransaction d = (if autocommit d then None
     else Some (RCErrorSet 1 ''Write journal operation requires a committed transaction''))"

text \<open>
  A strong entity tag: quoted, with no byte below \<open>0x21\<close>, no quote and no \<open>0x7f\<close>
  between the quotes.
\<close>

definition RCWriteETagIsStrong :: "string option \<Rightarrow> bool" where
  "RCWriteETagIsStrong s = (case s of None \<Rightarrow> False | Some s \<Rightarrow>
     (let n = length s in
      \<not> (n < 2 \<or> s ! 0 \<noteq> CHR 0x22 \<or> s ! (n - 1) \<noteq> CHR 0x22) \<and>
      (\<forall>i \<in> {1..<n - 1}. \<not> ((of_char (s ! i) :: nat) < 0x21 \<or> s ! i = CHR 0x22 \<or> s ! i = CHR 0x7f))))"

section \<open>Operations\<close>

definition journal_table_names :: "string list" where
  "journal_table_names = [''write_bases'', ''write_operations'', ''write_resolutions'', ''write_attention'']"

definition RCWriteJournalInitialize :: "'z jdb \<Rightarrow> unit res \<times> 'z jdb" where
  "RCWriteJournalInitialize d = journal_exec d (\<lambda>t.
     t\<lparr>schema := schema t @ filter (\<lambda>n. n \<notin> set (schema t)) journal_table_names\<rparr>)"

text \<open>\<open>REFERENCES accounts(id)\<close>, enforced by \<open>PRAGMA foreign_keys=ON\<close>.\<close>

definition has_account :: "int \<Rightarrow> 'z jtables \<Rightarrow> bool" where
  "has_account acct t \<longleftrightarrow> acct \<in> acc_id ` set (accounts t)"

definition replace_base :: "base_row \<Rightarrow> 'z jtables \<Rightarrow> 'z jtables" where
  "replace_base b t = t\<lparr>write_bases :=
     filter (\<lambda>c. \<not> (b_account c = b_account b \<and> b_key c = b_key b)) (write_bases t) @ [b]\<rparr>"

definition RCWriteJournalSetBase ::
  "int \<Rightarrow> string option \<Rightarrow> string option \<Rightarrow> string option \<Rightarrow> bytes option \<Rightarrow> nat \<Rightarrow> int \<Rightarrow>
   'z jdb \<Rightarrow> unit res \<times> 'z jdb" where
  "RCWriteJournalSetBase acct key href etag body len revision d =
     (case (key, href, body) of
        (Some k, Some h, Some b) \<Rightarrow>
          if k = [] \<or> h = [] \<or> len = 0 \<or> len > INT_MAX \<or> revision \<le> 0
          then (Inl (RCErrorSet 1 ''Invalid published write base''), d)
          else journal_modify (\<lambda>t.
            if has_account acct t
            then Some (replace_base \<lparr>b_account = acct, b_key = k, b_href = h, b_etag = etag,
                                     b_body = take len b, b_revision = revision\<rparr> t, ())
            else None) d
      | _ \<Rightarrow> (Inl (RCErrorSet 1 ''Invalid published write base''), d))"

definition find_change :: "int \<Rightarrow> string \<Rightarrow> 'z jtables \<Rightarrow> op_row option" where
  "find_change acct change t =
     find (\<lambda>r. op_account r = acct \<and> op_change r = change) (write_operations t)"

definition find_unresolved :: "int \<Rightarrow> string \<Rightarrow> string \<Rightarrow> 'z jtables \<Rightarrow> op_row option" where
  "find_unresolved acct key href t =
     find (\<lambda>r. op_account r = acct \<and> (op_key r = key \<or> op_href r = href) \<and> unresolved r)
       (write_operations t)"

definition find_base :: "int \<Rightarrow> string \<Rightarrow> 'z jtables \<Rightarrow> base_row option" where
  "find_base acct key t = find (\<lambda>b. b_account b = acct \<and> b_key b = key) (write_bases t)"

definition find_op :: "int \<Rightarrow> int \<Rightarrow> 'z jtables \<Rightarrow> op_row option" where
  "find_op acct i t = find (\<lambda>r. op_account r = acct \<and> op_id r = i) (write_operations t)"

text \<open>A fresh queued row; the columns the statement omits take their defaults.\<close>

definition queued_row ::
  "int \<Rightarrow> int \<Rightarrow> string \<Rightarrow> string \<Rightarrow> string \<Rightarrow> op_kind \<Rightarrow> int \<Rightarrow> string option \<Rightarrow> bytes option \<Rightarrow>
   bytes option \<Rightarrow> op_row" where
  "queued_row i acct change key href knd revision etag bbody desired =
     \<lparr>op_id = i, op_account = acct, op_change = change, op_key = key, op_href = href,
      op_kind = knd, op_state = Queued, op_revision = revision, op_base_etag = etag,
      op_base_body = bbody, op_desired = desired, op_attempts = 0, op_retry_at = 0,
      op_http_status = None, op_result_etag = None, op_result_body = None\<rparr>"

definition next_op_id :: "'z jtables \<Rightarrow> int" where
  "next_op_id t = next_rowid (map op_id (write_operations t))"

text \<open>\<open>INSERT INTO write_operations\<close>: refused when \<open>UNIQUE(account_id,change_id)\<close> or the
  reference to \<open>accounts\<close> would be violated.\<close>

definition insert_op :: "(int \<Rightarrow> op_row) \<Rightarrow> 'z jtables \<Rightarrow> ('z jtables \<times> int) option" where
  "insert_op mk t =
     (let i = next_op_id t; r = mk i in
      if find_change (op_account r) (op_change r) t \<noteq> None \<or> \<not> has_account (op_account r) t
      then None else Some (t\<lparr>write_operations := write_operations t @ [r]\<rparr>, i))"

definition enqueue_row ::
  "int \<Rightarrow> string \<Rightarrow> string \<Rightarrow> string \<Rightarrow> op_kind \<Rightarrow> int \<Rightarrow> bytes option \<Rightarrow> 'z jtables \<Rightarrow> int \<Rightarrow> op_row" where
  "enqueue_row acct change key href knd revision desired t i =
     queued_row i acct change key href knd revision
       (case find_base acct key t of None \<Rightarrow> None | Some b \<Rightarrow> b_etag b)
       (map_option b_body (find_base acct key t)) desired"

text \<open>The recorded operation differs from the one being replayed.\<close>

definition replay_differs ::
  "string \<Rightarrow> string \<Rightarrow> op_kind \<Rightarrow> int \<Rightarrow> bytes option \<Rightarrow> nat \<Rightarrow> op_row \<Rightarrow> bool" where
  "replay_differs key href knd revision body len r \<longleftrightarrow>
     key \<noteq> op_key r \<or> href \<noteq> op_href r \<or> knd \<noteq> op_kind r \<or> revision \<noteq> op_revision r \<or>
     len \<noteq> length (bytes_of (op_desired r)) \<or>
     (len \<noteq> 0 \<and> take len (bytes_of body) \<noteq> bytes_of (op_desired r))"

text \<open>The published base does not authorise the write.\<close>

definition base_refuses :: "op_kind \<Rightarrow> string \<Rightarrow> int \<Rightarrow> base_row option \<Rightarrow> bool" where
  "base_refuses knd href revision base \<longleftrightarrow>
     (knd = Create \<and> base \<noteq> None) \<or>
     (knd \<noteq> Create \<and> (case base of None \<Rightarrow> True
        | Some b \<Rightarrow> href \<noteq> b_href b \<or> \<not> RCWriteETagIsStrong (b_etag b) \<or> revision \<noteq> b_revision b))"

definition enqueue_body ::
  "int \<Rightarrow> string \<Rightarrow> string \<Rightarrow> string \<Rightarrow> op_kind \<Rightarrow> int \<Rightarrow> bytes option \<Rightarrow> nat \<Rightarrow> 'z jdb \<Rightarrow> int res \<times> 'z jdb" where
  "enqueue_body acct change key href knd revision body len d =
     chain (journal_query (find_change acct change) d) (\<lambda>row d.
       case row of
         Some r \<Rightarrow>
           (if replay_differs key href knd revision body len r
            then (Inl (RCErrorSet 1 ''Local change identifier was reused for a different operation''), d)
            else (Inr (op_id r), d))
       | None \<Rightarrow>
           chain (journal_query (find_unresolved acct key href) d) (\<lambda>busy d.
             if busy \<noteq> None then (Inl (RCErrorSet 1 ''Resource already has an unresolved write''), d)
             else chain (journal_query (find_base acct key) d) (\<lambda>base d.
               if base_refuses knd href revision base
               then (Inl (RCErrorSet 1 ''Write requires the exact published base and a strong ETag''), d)
               else journal_modify (\<lambda>t.
                 insert_op (enqueue_row acct change key href knd revision (blob body len) t) t) d)))"

definition RCWriteJournalEnqueue ::
  "int \<Rightarrow> string option \<Rightarrow> string option \<Rightarrow> string option \<Rightarrow> string option \<Rightarrow> int \<Rightarrow> bytes option \<Rightarrow> nat \<Rightarrow>
   'z jdb \<Rightarrow> int res \<times> 'z jdb" where
  "RCWriteJournalEnqueue acct change key href knd revision body len d =
     (case (change, key, href, Option.bind knd kind_of_string) of
        (Some c, Some k, Some h, Some kd) \<Rightarrow>
          if c = [] \<or> k = [] \<or> take 8 h \<noteq> ''https://'' \<or> len > INT_MAX
          then (Inl (RCErrorSet 1 ''Invalid outgoing operation''), d)
          else if (kd = Delete \<and> (body \<noteq> None \<or> len \<noteq> 0)) \<or> (kd \<noteq> Delete \<and> (body = None \<or> len = 0)) \<or>
                  (if kd = Create then revision \<noteq> 0 else revision \<le> 0)
          then (Inl (RCErrorSet 1 ''Outgoing operation has no valid body or base revision''), d)
          else with_savepoint ''enqueue_write'' journal_fail
                 (enqueue_body acct c k h kd revision body len) d
      | _ \<Rightarrow> (Inl (RCErrorSet 1 ''Invalid outgoing operation''), d))"

definition read_operation :: "op_row \<Rightarrow> RCWriteOperation" where
  "read_operation r =
     \<lparr>o_id = op_id r, o_localRevision = op_revision r, o_retryAt = op_retry_at r,
      o_attempts = column_int (int (op_attempts r)),
      o_httpStatus = (case op_http_status r of None \<Rightarrow> 0 | Some s \<Rightarrow> column_int s),
      o_changeID = op_change r, o_resourceKey = op_key r, o_href = op_href r,
      o_kind = op_kind r, o_state = op_state r, o_baseETag = op_base_etag r,
      o_resultETag = op_result_etag r, o_baseBody = op_base_body r,
      o_desiredBody = op_desired r, o_resultBody = op_result_body r\<rparr>"

definition RCWriteJournalGet :: "int \<Rightarrow> int \<Rightarrow> 'z jdb \<Rightarrow> RCWriteOperation res \<times> 'z jdb" where
  "RCWriteJournalGet acct i d = chain (journal_prepare d) (\<lambda>_ d.
     case sql_query (find_op acct i) d of
       (Some (Some r), d) \<Rightarrow> (Inr (read_operation r), d)
     | (_, d) \<Rightarrow> (Inl (RCErrorSet 1 ''Outgoing operation is unavailable for this account''), d))"

text \<open>A scan for the least identifier that satisfies a condition; zero means none.\<close>

definition journal_scan :: "('z jtables \<Rightarrow> op_row \<Rightarrow> bool) \<Rightarrow> 'z jdb \<Rightarrow> int res \<times> 'z jdb" where
  "journal_scan P d =
     chain (journal_query (\<lambda>t. least_id (map op_id (filter (P t) (write_operations t)))) d)
       (\<lambda>row d. (Inr (case row of None \<Rightarrow> 0 | Some i \<Rightarrow> i), d))"

definition due :: "int \<Rightarrow> int \<Rightarrow> op_row \<Rightarrow> bool" where
  "due acct now r \<longleftrightarrow> op_account r = acct \<and> op_state r \<in> {Queued, Uncertain} \<and> op_retry_at r \<le> now"

definition RCWriteJournalNext :: "int \<Rightarrow> int \<Rightarrow> 'z jdb \<Rightarrow> int res \<times> 'z jdb" where
  "RCWriteJournalNext acct now d = journal_scan (\<lambda>t. due acct now) d"

text \<open>The delay before the next attempt, in seconds: \<open>CASE WHEN attempts<10 THEN
  (5 << attempts) ELSE 3600 END\<close>.\<close>

definition backoff :: "nat \<Rightarrow> int" where
  "backoff n = (if n < 10 then push_bit n 5 else 3600)"

definition attempt_row :: "int \<Rightarrow> op_row \<Rightarrow> op_row" where
  "attempt_row now r = r\<lparr>op_state := Uncertain, op_retry_at := now + backoff (op_attempts r),
     op_attempts := op_attempts r + 1, op_http_status := None, op_result_etag := None,
     op_result_body := None\<rparr>"

definition update_ops :: "(op_row \<Rightarrow> bool) \<Rightarrow> (op_row \<Rightarrow> op_row) \<Rightarrow> 'z jtables \<Rightarrow> 'z jtables \<times> nat" where
  "update_ops P f t = (t\<lparr>write_operations := update_rows P f (write_operations t)\<rparr>,
                       count_rows P (write_operations t))"

definition RCWriteJournalBeginAttempt :: "int \<Rightarrow> int \<Rightarrow> int \<Rightarrow> 'z jdb \<Rightarrow> unit res \<times> 'z jdb" where
  "RCWriteJournalBeginAttempt acct i now d =
     (if now < 0 \<or> now > LLONG_MAX - 3600
      then (Inl (RCErrorSet 1 ''Invalid outgoing attempt time''), d)
      else case outsideTransaction d of Some e \<Rightarrow> (Inl e, d)
      | None \<Rightarrow> journal_update_one ''Outgoing operation is not due or cannot be attempted''
                  (update_ops (\<lambda>r. op_id r = i \<and> due acct now r) (attempt_row now)) d)"

definition result_row ::
  "op_state \<Rightarrow> int \<Rightarrow> string option \<Rightarrow> bytes option \<Rightarrow> op_row \<Rightarrow> op_row" where
  "result_row st status etag body r = r\<lparr>op_state := st, op_http_status := Some status,
     op_result_etag := etag, op_result_body := body\<rparr>"

text \<open>\<open>?1!='applied' OR (kind='delete' AND ?2=404) OR (kind!='delete' AND ?2=200)\<close>.\<close>

definition verified_status :: "op_state \<Rightarrow> int \<Rightarrow> op_row \<Rightarrow> bool" where
  "verified_status st status r \<longleftrightarrow> st \<noteq> Applied \<or> (op_kind r = Delete \<and> status = 404) \<or>
     (op_kind r \<noteq> Delete \<and> status = 200)"

definition RCWriteJournalRecordResult ::
  "int \<Rightarrow> int \<Rightarrow> string option \<Rightarrow> int \<Rightarrow> string option \<Rightarrow> bytes option \<Rightarrow> nat \<Rightarrow> 'z jdb \<Rightarrow> unit res \<times> 'z jdb" where
  "RCWriteJournalRecordResult acct i state status etag body len d =
     (case Option.bind state result_state_of_string of
        None \<Rightarrow> (Inl (RCErrorSet 1 ''Invalid outgoing write result''), d)
      | Some st \<Rightarrow>
          if len > INT_MAX \<or> (body = None \<and> len \<noteq> 0) \<or>
             (st = Applied \<and> status \<noteq> 404 \<and> (\<not> RCWriteETagIsStrong etag \<or> body = None \<or> len = 0))
          then (Inl (RCErrorSet 1 ''Invalid outgoing write result''), d)
          else case outsideTransaction d of Some e \<Rightarrow> (Inl e, d)
          | None \<Rightarrow> journal_update_one ''Outgoing write result cannot be recorded in this state''
              (update_ops (\<lambda>r. op_account r = acct \<and> op_id r = i \<and> op_state r = Uncertain \<and>
                            verified_status st status r)
                 (result_row st status etag (blob body len))) d)"

text \<open>A successor whose mirror checkpoint is still missing.\<close>

definition mirror_pending :: "'z jtables \<Rightarrow> int \<Rightarrow> bool" where
  "mirror_pending t i \<longleftrightarrow> (\<exists>x \<in> set (write_resolutions t). r_successor x = i \<and> \<not> r_mirrored x)"

definition terminal :: "int \<Rightarrow> int \<Rightarrow> bool \<Rightarrow> 'z jdb \<Rightarrow> unit res \<times> 'z jdb" where
  "terminal acct i ack d =
     journal_update_one ''Outgoing operation cannot be acknowledged or cancelled in this state''
       (\<lambda>t. if ack
            then update_ops (\<lambda>r. op_account r = acct \<and> op_id r = i \<and>
                     op_state r \<in> {Applied, Acknowledged} \<and> \<not> mirror_pending t (op_id r))
                   (\<lambda>r. r\<lparr>op_state := Acknowledged\<rparr>) t
            else update_ops (\<lambda>r. op_account r = acct \<and> op_id r = i \<and>
                     op_state r \<in> {Queued, Conflict, Cancelled})
                   (\<lambda>r. r\<lparr>op_state := Cancelled\<rparr>) t) d"

definition RCWriteJournalAcknowledge :: "int \<Rightarrow> int \<Rightarrow> 'z jdb \<Rightarrow> unit res \<times> 'z jdb" where
  "RCWriteJournalAcknowledge acct i d = terminal acct i True d"

definition RCWriteJournalCancel :: "int \<Rightarrow> int \<Rightarrow> 'z jdb \<Rightarrow> unit res \<times> 'z jdb" where
  "RCWriteJournalCancel acct i d = terminal acct i False d"

text \<open>\<open>INSERT INTO write_resolutions\<close>: \<open>operation_id\<close> is the primary key, \<open>successor_id\<close> is
  unique, both refer to \<open>write_operations\<close>.\<close>

definition insert_resolution :: "int \<Rightarrow> int \<Rightarrow> bytes \<Rightarrow> 'z jtables \<Rightarrow> ('z jtables \<times> unit) option" where
  "insert_resolution i succ receipt t =
     (if (\<exists>x \<in> set (write_resolutions t). r_operation x = i \<or> r_successor x = succ) \<or>
         i \<notin> op_id ` set (write_operations t) \<or> succ \<notin> op_id ` set (write_operations t)
      then None
      else Some (t\<lparr>write_resolutions := write_resolutions t @
                     [\<lparr>r_operation = i, r_successor = succ, r_receipt = receipt, r_mirrored = False\<rparr>]\<rparr>, ()))"

definition find_resolution :: "int \<Rightarrow> 'z jtables \<Rightarrow> resolution_row option" where
  "find_resolution i t = find (\<lambda>x. r_operation x = i) (write_resolutions t)"

definition no_usable_revision :: "op_kind \<Rightarrow> RCWriteOperation \<Rightarrow> bool" where
  "no_usable_revision knd old \<longleftrightarrow>
     o_state old \<noteq> Conflict \<or>
     (knd = Delete \<and> o_httpStatus old = 404 \<and>
       (\<not> RCWriteETagIsStrong (o_baseETag old) \<or> o_localRevision old \<le> 0)) \<or>
     (if o_httpStatus old = 404 then knd \<noteq> Create \<and> knd \<noteq> Delete
      else o_httpStatus old \<noteq> 200 \<or> \<not> RCWriteETagIsStrong (o_resultETag old) \<or>
           bytes_of (o_resultBody old) = [] \<or> knd = Create)"

definition successor_row ::
  "int \<Rightarrow> op_kind \<Rightarrow> RCWriteOperation \<Rightarrow> bytes option \<Rightarrow> nat \<Rightarrow> int \<Rightarrow> op_row" where
  "successor_row acct knd old body len i =
     (let gone = (o_httpStatus old = 404); deleting = (knd = Delete) in
      queued_row i acct (take 79 (''resolution:'' @ show_int (o_id old))) (o_resourceKey old)
        (o_href old) knd
        (if gone \<and> \<not> deleting then 0 else o_localRevision old)
        (if gone then if deleting then o_baseETag old else None else o_resultETag old)
        (if gone then if deleting then o_baseBody old else None else o_resultBody old)
        (if deleting then None else blob body len))"

definition resolve_body ::
  "int \<Rightarrow> int \<Rightarrow> op_kind \<Rightarrow> bytes option \<Rightarrow> nat \<Rightarrow> bytes \<Rightarrow> 'z jdb \<Rightarrow> int res \<times> 'z jdb" where
  "resolve_body acct i knd body len receipt d =
     chain (RCWriteJournalGet acct i d) (\<lambda>old d.
     chain (journal_query (find_resolution i) d) (\<lambda>row d.
       case row of
         Some x \<Rightarrow>
           (let different = (Inl (RCErrorSet 1 ''Conflict already has a different resolution'')) in
            if receipt \<noteq> r_receipt x then (different, d)
            else case RCWriteJournalGet acct (r_successor x) d of
                (Inl e, d) \<Rightarrow> (different, d)
              | (Inr nxt, d) \<Rightarrow>
                  if o_kind nxt \<noteq> knd \<or> length (bytes_of (o_desiredBody nxt)) \<noteq> len \<or>
                     (len \<noteq> 0 \<and> bytes_of (o_desiredBody nxt) \<noteq> take len (bytes_of body))
                  then (different, d) else (Inr (r_successor x), d))
       | None \<Rightarrow>
           if no_usable_revision knd old
           then (Inl (RCErrorSet 1 ''Conflict has no usable remote revision for this decision''), d)
           else chain (journal_modify (insert_op (successor_row acct knd old body len)) d) (\<lambda>succ d.
                chain (journal_modify (insert_resolution i succ receipt) d) (\<lambda>_ d.
                chain (RCWriteJournalCancel acct i d) (\<lambda>_ d.
                chain (journal_modify (\<lambda>t. Some (t\<lparr>write_attention :=
                          filter (\<lambda>a. a_operation a \<noteq> i) (write_attention t)\<rparr>, ())) d) (\<lambda>_ d.
                  (Inr succ, d)))))))"

definition RCWriteJournalResolveConflict ::
  "int \<Rightarrow> int \<Rightarrow> string option \<Rightarrow> bytes option \<Rightarrow> nat \<Rightarrow> bytes option \<Rightarrow> nat \<Rightarrow> 'z jdb \<Rightarrow> int res \<times> 'z jdb" where
  "RCWriteJournalResolveConflict acct i knd body len receipt receiptLength d =
     (case (Option.bind knd kind_of_string, receipt) of
        (Some kd, Some rc) \<Rightarrow>
          if receiptLength = 0 \<or> receiptLength > INT_MAX \<or> len > INT_MAX \<or>
             (if kd = Delete then body \<noteq> None \<or> len \<noteq> 0 else body = None \<or> len = 0)
          then (Inl (RCErrorSet 1 ''Invalid conflict resolution''), d)
          else with_savepoint ''resolve_write'' journal_fail
                 (resolve_body acct i kd body len (take receiptLength rc)) d
      | _ \<Rightarrow> (Inl (RCErrorSet 1 ''Invalid conflict resolution''), d))"

definition attention_error :: "string option \<Rightarrow> RCError option" where
  "attention_error reason = (case reason of None \<Rightarrow> None
     | Some s \<Rightarrow>
         if s = [] \<or> length s > 80 then Some (RCErrorSet 1 ''Invalid attention reason'')
         else if \<exists>c \<in> set s. ((of_char c :: nat) < 97 \<or> (of_char c :: nat) > 122) \<and> c \<noteq> CHR ''-''
         then Some (RCErrorSet 1 ''Attention requires a diagnostic reason code'') else None)"

definition set_attention :: "int \<Rightarrow> string option \<Rightarrow> 'z jtables \<Rightarrow> 'z jtables" where
  "set_attention i reason t = t\<lparr>write_attention :=
     filter (\<lambda>a. a_operation a \<noteq> i) (write_attention t) @
     (case reason of None \<Rightarrow> [] | Some s \<Rightarrow> [\<lparr>a_operation = i, a_reason = s\<rparr>])\<rparr>"

definition RCWriteJournalConflictAttention ::
  "int \<Rightarrow> int \<Rightarrow> string option \<Rightarrow> 'z jdb \<Rightarrow> unit res \<times> 'z jdb" where
  "RCWriteJournalConflictAttention acct i reason d =
     (case attention_error reason of Some e \<Rightarrow> (Inl e, d)
      | None \<Rightarrow> chain (RCWriteJournalGet acct i d) (\<lambda>old d.
          if o_state old \<noteq> Conflict
          then (Inl (RCErrorSet 1 ''Attention requires a conflicted operation''), d)
          else journal_modify (\<lambda>t. Some (set_attention i reason t, ())) d))"

definition has_attention :: "'z jtables \<Rightarrow> int \<Rightarrow> bool" where
  "has_attention t i \<longleftrightarrow> (\<exists>a \<in> set (write_attention t). a_operation a = i)"

definition RCWriteJournalNextConflict :: "int \<Rightarrow> 'z jdb \<Rightarrow> int res \<times> 'z jdb" where
  "RCWriteJournalNextConflict acct d = journal_scan (\<lambda>t r.
     op_account r = acct \<and> op_state r = Conflict \<and> \<not> has_attention t (op_id r)) d"

definition recoverable :: "'z jtables \<Rightarrow> op_row \<Rightarrow> bool" where
  "recoverable t r \<longleftrightarrow> \<not> has_attention t (op_id r) \<and>
     (op_state r = Conflict \<or>
      (op_state r = Applied \<and> (\<exists>x \<in> set (write_resolutions t). r_successor x = op_id r)))"

definition RCWriteJournalRecoveryNext :: "int \<Rightarrow> int \<Rightarrow> 'z jdb \<Rightarrow> int res \<times> 'z jdb" where
  "RCWriteJournalRecoveryNext acct after d =
     journal_scan (\<lambda>t r. op_account r = acct \<and> op_id r > after \<and> recoverable t r) d"

definition RCWriteJournalResolutionReceipt ::
  "int \<Rightarrow> int \<Rightarrow> 'z jdb \<Rightarrow> (bytes \<times> bool) res \<times> 'z jdb" where
  "RCWriteJournalResolutionReceipt acct i d = chain (journal_prepare d) (\<lambda>_ d.
     case sql_query (\<lambda>t. if find_op acct i t = None then None
                         else find (\<lambda>x. r_successor x = i) (write_resolutions t)) d of
       (Some (Some x), d) \<Rightarrow> (Inr (r_receipt x, r_mirrored x), d)
     | (_, d) \<Rightarrow> (Inl (RCErrorSet 1 ''Resolution receipt is unavailable''), d))"

definition mirror_resolutions :: "int \<Rightarrow> int \<Rightarrow> 'z jtables \<Rightarrow> 'z jtables \<times> nat" where
  "mirror_resolutions acct i t =
     (let P = (\<lambda>x. r_successor x = i \<and>
                 (\<exists>r \<in> set (write_operations t). op_account r = acct \<and> op_id r = i \<and> op_state r = Applied)) in
      (t\<lparr>write_resolutions := update_rows P (\<lambda>x. x\<lparr>r_mirrored := True\<rparr>) (write_resolutions t)\<rparr>,
       count_rows P (write_resolutions t)))"

definition RCWriteJournalResolutionMirrored :: "int \<Rightarrow> int \<Rightarrow> 'z jdb \<Rightarrow> unit res \<times> 'z jdb" where
  "RCWriteJournalResolutionMirrored acct i d =
     (if autocommit d then (Inl (RCErrorSet 1 ''Mirror checkpoint must join the mirror transaction''), d)
      else journal_update_one ''Resolution is not ready for mirror completion''
             (mirror_resolutions acct i) d)"


section \<open>Recovery export\<close>

text \<open>
  \<open>RCWriteJournalBackup\<close> works on files: \<open>files p\<close> is \<open>Some None\<close> for a file without a database
  and \<open>Some (Some t)\<close> for one that holds the tables \<open>t\<close>. What the operating system and the
  backup interface of SQLite answer is the argument \<open>env\<close>.
\<close>

datatype backup_code = BackupDone | BackupBusy | BackupLocked | BackupOther

record backup_env =
  create_error :: "string option"
  close_ok :: bool
  open_ok :: bool
  init_ok :: bool
  backup_step :: "nat \<Rightarrow> backup_code"
  finish_ok :: bool

type_synonym 't files = "string \<Rightarrow> 't option option"

text \<open>At most \<open>left\<close> more steps, waiting while the source is busy or locked.\<close>

fun backup_loop :: "(nat \<Rightarrow> backup_code) \<Rightarrow> nat \<Rightarrow> nat \<Rightarrow> backup_code \<Rightarrow> backup_code" where
  "backup_loop f 0 n r = r"
| "backup_loop f (Suc left) n r =
     (let r = f n in if r \<noteq> BackupBusy \<and> r \<noteq> BackupLocked then r else backup_loop f left (Suc n) r)"

definition RCWriteJournalBackup ::
  "backup_env \<Rightarrow> 't db option \<Rightarrow> string option \<Rightarrow> 't files \<Rightarrow> unit res \<times> 't files" where
  "RCWriteJournalBackup env source path files =
     (case (source, path) of
        (Some d, Some p) \<Rightarrow>
          if p = [] \<or> \<not> autocommit d
          then (Inl (RCErrorSet 1 ''Recovery export requires a committed database and a new destination''), files)
          else if files p \<noteq> None \<or> create_error env \<noteq> None
          then (Inl (RCErrorSet 1 (''Could not create recovery export: '' @
                  (case create_error env of None \<Rightarrow> ''File exists'' | Some e \<Rightarrow> e))), files)
          else
          (let (result, finish) =
             (if \<not> close_ok env \<or> \<not> open_ok env \<or> \<not> init_ok env then (BackupOther, False)
              else (backup_loop (backup_step env) 50 0 BackupOther, finish_ok env)) in
           if result = BackupDone \<and> finish then (Inr (), files(p \<mapsto> Some (tables d)))
           else (Inl (RCErrorSet 1 ''Could not complete consistent recovery export''), files(p := None)))
      | _ \<Rightarrow> (Inl (RCErrorSet 1 ''Recovery export requires a committed database and a new destination''), files))"

end
