(* ===== verification/JournalMachine.thy ===== *)
theory JournalMachine
  imports WriteJournal
begin

text \<open>
  The specification of the write journal and the proof that the operations of
  \<open>WriteJournal\<close> implement it. \<open>op_step\<close> is the life cycle of one outgoing operation,
  \<open>jstep\<close> the transitions of the journal as a whole, \<open>journal_inv\<close> the invariant they
  keep. Each exported function is shown to perform at most one \<open>jstep\<close> (or none), to
  leave the transaction stack as it was, and to leave the tables alone when it fails.
\<close>

section \<open>Specification\<close>

text \<open>A pointer and length that describe a buffer: at least \<open>len\<close> bytes are readable.\<close>

definition buffer_ok :: "bytes option \<Rightarrow> nat \<Rightarrow> bool" where
  "buffer_ok p len \<longleftrightarrow> (\<forall>b. p = Some b \<longrightarrow> len \<le> length b)"

text \<open>What an operation intends; no transition may change it.\<close>

definition intent where
  "intent r = (op_id r, op_account r, op_change r, op_key r, op_href r, op_kind r, op_revision r,
     op_base_etag r, op_base_body r, op_desired r)"

inductive op_step :: "op_row \<Rightarrow> op_row \<Rightarrow> bool" where
  attempt: "op_state r \<in> {Queued, Uncertain} \<Longrightarrow> op_retry_at r \<le> now \<Longrightarrow> 0 \<le> now \<Longrightarrow>
     now \<le> LLONG_MAX - 3600 \<Longrightarrow> op_step r (attempt_row now r)"
| record_result: "op_state r = Uncertain \<Longrightarrow> st \<in> {Uncertain, Applied, Conflict} \<Longrightarrow>
     verified_status st status r \<Longrightarrow>
     st = Applied \<and> status \<noteq> 404 \<longrightarrow> RCWriteETagIsStrong etag \<and> bytes_of body \<noteq> [] \<Longrightarrow>
     op_step r (result_row st status etag body r)"
| acknowledge: "op_state r \<in> {Applied, Acknowledged} \<Longrightarrow> op_step r (r\<lparr>op_state := Acknowledged\<rparr>)"
| cancel: "op_state r \<in> {Queued, Conflict, Cancelled} \<Longrightarrow> op_step r (r\<lparr>op_state := Cancelled\<rparr>)"

definition set_row :: "op_row \<Rightarrow> 'z jtables \<Rightarrow> 'z jtables" where
  "set_row r t = t\<lparr>write_operations :=
     update_rows (\<lambda>s. op_id s = op_id r) (\<lambda>_. r) (write_operations t)\<rparr>"

text \<open>An operation that the writer may carry out without further checks.\<close>

definition durable :: "op_row \<Rightarrow> bool" where
  "durable r \<longleftrightarrow> (op_kind r \<noteq> Create \<longrightarrow> RCWriteETagIsStrong (op_base_etag r)) \<and>
     (op_kind r \<noteq> Delete \<longrightarrow> bytes_of (op_desired r) \<noteq> []) \<and>
     (op_kind r = Delete \<longrightarrow> op_desired r = None)"

text \<open>A result the remote server has confirmed.\<close>

definition confirmed :: "op_row \<Rightarrow> bool" where
  "confirmed r \<longleftrightarrow>
     (op_kind r = Delete \<and> op_http_status r = Some 404) \<or>
     (op_kind r \<noteq> Delete \<and> op_http_status r = Some 200 \<and> RCWriteETagIsStrong (op_result_etag r) \<and>
      bytes_of (op_result_body r) \<noteq> [])"

text \<open>The parts of the tables that only journal operations write.\<close>

definition journal_part where
  "journal_part t = (write_operations t, write_resolutions t, write_attention t)"

text \<open>Retiring conflict \<open>i\<close> in favour of the successor row made by \<open>mk\<close>.\<close>

definition resolve_tables :: "int \<Rightarrow> (int \<Rightarrow> op_row) \<Rightarrow> bytes \<Rightarrow> 'z jtables \<Rightarrow> 'z jtables" where
  "resolve_tables i mk receipt t = t\<lparr>
     write_operations :=
       update_rows (\<lambda>s. op_id s = i) (\<lambda>s. s\<lparr>op_state := Cancelled\<rparr>)
         (write_operations t @ [mk (next_op_id t)]),
     write_resolutions := write_resolutions t @
       [\<lparr>r_operation = i, r_successor = next_op_id t, r_receipt = receipt, r_mirrored = False\<rparr>],
     write_attention := filter (\<lambda>a. a_operation a \<noteq> i) (write_attention t)\<rparr>"

inductive jstep :: "'z jtables \<Rightarrow> 'z jtables \<Rightarrow> bool" where
  frame: "journal_part t' = journal_part t \<Longrightarrow> jstep t t'"
| enqueue: "find_change acct change t = None \<Longrightarrow> find_unresolved acct key href t = None \<Longrightarrow>
     has_account acct t \<Longrightarrow> \<not> base_refuses knd href revision (find_base acct key t) \<Longrightarrow>
     (knd \<noteq> Delete \<Longrightarrow> bytes_of desired \<noteq> []) \<Longrightarrow> (knd = Delete \<Longrightarrow> desired = None) \<Longrightarrow>
     (if knd = Create then revision = 0 else 0 < revision) \<Longrightarrow>
     jstep t (t\<lparr>write_operations := write_operations t @
                 [enqueue_row acct change key href knd revision desired t (next_op_id t)]\<rparr>)"
| operate: "r \<in> set (write_operations t) \<Longrightarrow> op_step r r' \<Longrightarrow>
     (op_state r' = Acknowledged \<Longrightarrow> \<not> mirror_pending t (op_id r)) \<Longrightarrow> jstep t (set_row r' t)"
| resolve: "r \<in> set (write_operations t) \<Longrightarrow> op_account r = acct \<Longrightarrow>
     \<not> no_usable_revision knd (read_operation r) \<Longrightarrow>
     (knd \<noteq> Delete \<Longrightarrow> bytes_of (blob body len) \<noteq> []) \<Longrightarrow>
     find_resolution (op_id r) t = None \<Longrightarrow>
     find_change acct (op_change (successor_row acct knd (read_operation r) body len 0)) t = None \<Longrightarrow>
     jstep t (resolve_tables (op_id r) (successor_row acct knd (read_operation r) body len) receipt t)"
| attention: "r \<in> set (write_operations t) \<Longrightarrow> jstep t (set_attention (op_id r) reason t)"
| mirrored: "r \<in> set (write_operations t) \<Longrightarrow> op_state r = Applied \<Longrightarrow>
     jstep t (t\<lparr>write_resolutions :=
       update_rows (\<lambda>x. r_successor x = op_id r) (\<lambda>x. x\<lparr>r_mirrored := True\<rparr>) (write_resolutions t)\<rparr>)"

section \<open>The invariant\<close>

definition ids_inv :: "'z jtables \<Rightarrow> bool" where
  "ids_inv t \<longleftrightarrow> distinct (map op_id (write_operations t)) \<and>
     (\<forall>r \<in> set (write_operations t). 0 < op_id r) \<and>
     distinct (map (\<lambda>r. (op_account r, op_change r)) (write_operations t))"

definition same_target :: "op_row \<Rightarrow> op_row \<Rightarrow> bool" where
  "same_target r s \<longleftrightarrow> op_account r = op_account s \<and> (op_key r = op_key s \<or> op_href r = op_href s)"

text \<open>At most one unresolved operation for each resource and for each address.\<close>

definition exclusive_inv :: "'z jtables \<Rightarrow> bool" where
  "exclusive_inv t \<longleftrightarrow>
     (\<forall>r \<in> set (write_operations t). \<forall>s \<in> set (write_operations t).
        op_id r \<noteq> op_id s \<and> unresolved r \<and> unresolved s \<longrightarrow> \<not> same_target r s)"

definition rows_inv :: "'z jtables \<Rightarrow> bool" where
  "rows_inv t \<longleftrightarrow> (\<forall>r \<in> set (write_operations t).
     durable r \<and> (op_state r \<in> {Applied, Acknowledged} \<longrightarrow> confirmed r) \<and>
     op_retry_at r \<le> LLONG_MAX)"

text \<open>
  A resolution retires an older, cancelled operation in favour of a younger one on the
  same resource; an acknowledged successor has its mirror checkpoint.
\<close>

definition resolution_ok :: "'z jtables \<Rightarrow> resolution_row \<Rightarrow> bool" where
  "resolution_ok t x \<longleftrightarrow>
     (\<exists>r \<in> set (write_operations t). \<exists>s \<in> set (write_operations t).
        op_id r = r_operation x \<and> op_id s = r_successor x \<and> r_operation x < r_successor x \<and>
        op_state r = Cancelled \<and> op_account s = op_account r \<and> op_key s = op_key r \<and>
        op_href s = op_href r \<and> (op_state s = Acknowledged \<longrightarrow> r_mirrored x) \<and>
        (r_mirrored x \<longrightarrow> op_state s \<in> {Applied, Acknowledged}))"

definition resolutions_inv :: "'z jtables \<Rightarrow> bool" where
  "resolutions_inv t \<longleftrightarrow> distinct (map r_operation (write_resolutions t)) \<and>
     distinct (map r_successor (write_resolutions t)) \<and>
     (\<forall>x \<in> set (write_resolutions t). resolution_ok t x)"

definition journal_inv :: "'z jtables \<Rightarrow> bool" where
  "journal_inv t \<longleftrightarrow> ids_inv t \<and> exclusive_inv t \<and> rows_inv t \<and> resolutions_inv t"

section \<open>The life cycle of one operation\<close>

inductive_cases op_stepE: "op_step r r'"

lemma backoff_bounds: "5 \<le> backoff n \<and> backoff n \<le> 3600"
proof (cases "n < 10")
  case True
  then have "n \<in> {0, 1, 2, 3, 4, 5, 6, 7, 8, 9}" by auto
  then show ?thesis by (auto simp: backoff_def)
next
  case False
  then show ?thesis by (simp add: backoff_def)
qed

lemma op_step_intent: "op_step r r' \<Longrightarrow> intent r' = intent r"
  by (auto elim!: op_stepE simp: intent_def attempt_row_def result_row_def)

lemma op_step_fields:
  assumes "op_step r r'"
  shows "op_id r' = op_id r" "op_account r' = op_account r" "op_change r' = op_change r"
    "op_key r' = op_key r" "op_href r' = op_href r" "op_kind r' = op_kind r"
    "op_base_etag r' = op_base_etag r" "op_desired r' = op_desired r"
  using op_step_intent [OF assms] by (simp_all add: intent_def)

lemma op_step_terminal: "op_step r r' \<Longrightarrow> \<not> unresolved r \<Longrightarrow> op_state r' = op_state r"
  by (auto elim!: op_stepE simp: unresolved_def)

lemma op_step_unresolved: "op_step r r' \<Longrightarrow> unresolved r' \<Longrightarrow> unresolved r"
  by (metis op_step_terminal unresolved_def)

lemma op_step_durable: "op_step r r' \<Longrightarrow> durable r' = durable r"
  using op_step_fields [of r r'] by (simp add: durable_def)

lemma op_step_confirmed:
  assumes "op_step r r'" and "op_state r \<in> {Applied, Acknowledged} \<longrightarrow> confirmed r"
    and "op_state r' \<in> {Applied, Acknowledged}"
  shows "confirmed r'"
  using assms(1)
proof cases
  case (attempt now)
  with assms(3) show ?thesis by (simp add: attempt_row_def)
next
  case (record_result st status etag body)
  then have "st = Applied" using assms(3) by (auto simp: result_row_def)
  with record_result show ?thesis
    by (cases "op_kind r = Delete") (simp_all add: result_row_def confirmed_def verified_status_def)
next
  case acknowledge
  with assms(2) have "confirmed r" by blast
  with acknowledge show ?thesis by (simp add: confirmed_def)
next
  case cancel
  with assms(3) show ?thesis by simp
qed

lemma op_step_retry:
  assumes "op_step r r'" and "op_retry_at r \<le> LLONG_MAX"
  shows "op_retry_at r' \<le> LLONG_MAX"
  using assms(1)
proof cases
  case (attempt now)
  then show ?thesis using backoff_bounds [of "op_attempts r"] by (simp add: attempt_row_def)
qed (use assms(2) in \<open>simp_all add: result_row_def\<close>)

lemma op_step_Cancelled: "op_step r r' \<Longrightarrow> op_state r = Cancelled \<Longrightarrow> op_state r' = Cancelled"
  by (auto dest: op_step_terminal simp: unresolved_def)

lemma op_step_confirmed_state:
  "op_step r r' \<Longrightarrow> op_state r \<in> {Applied, Acknowledged} \<Longrightarrow> op_state r' \<in> {Applied, Acknowledged}"
  by (auto elim!: op_stepE simp: unresolved_def)

section \<open>Transitions keep the invariant\<close>

lemma set_row_simps [simp]:
  "write_resolutions (set_row r t) = write_resolutions t"
  "write_attention (set_row r t) = write_attention t"
  "write_bases (set_row r t) = write_bases t"
  "accounts (set_row r t) = accounts t"
  by (simp_all add: set_row_def)

lemma in_set_row:
  "s \<in> set (write_operations (set_row r' t)) \<Longrightarrow>
     s = r' \<or> (s \<in> set (write_operations t) \<and> op_id s \<noteq> op_id r')"
  by (auto simp: set_row_def set_update_rows)

lemma set_row_mem:
  "r \<in> set (write_operations t) \<Longrightarrow> op_id r = op_id r' \<Longrightarrow> r' \<in> set (write_operations (set_row r' t))"
  by (auto simp: set_row_def set_update_rows)

lemma set_row_other:
  "s \<in> set (write_operations t) \<Longrightarrow> op_id s \<noteq> op_id r' \<Longrightarrow> s \<in> set (write_operations (set_row r' t))"
  by (auto simp: set_row_def set_update_rows)

lemma ids_inv_eq:
  "ids_inv t \<Longrightarrow> r \<in> set (write_operations t) \<Longrightarrow> s \<in> set (write_operations t) \<Longrightarrow>
     op_id r = op_id s \<Longrightarrow> r = s"
  by (auto simp: ids_inv_def dest: distinct_key_eq)

lemma set_row_map:
  assumes "ids_inv t" "r \<in> set (write_operations t)" "op_id r' = op_id r" "f r' = f r"
  shows "map f (write_operations (set_row r' t)) = map f (write_operations t)"
  using assms by (auto simp: set_row_def update_rows_def dest: ids_inv_eq)

lemma ids_inv_set_row:
  assumes "ids_inv t" "r \<in> set (write_operations t)" "op_step r r'"
  shows "ids_inv (set_row r' t)"
proof -
  note f = op_step_fields [OF assms(3)]
  have "map op_id (write_operations (set_row r' t)) = map op_id (write_operations t)"
    and "map (\<lambda>r. (op_account r, op_change r)) (write_operations (set_row r' t)) =
         map (\<lambda>r. (op_account r, op_change r)) (write_operations t)"
    using f by (auto intro!: set_row_map [OF assms(1,2)])
  moreover have "0 < op_id s" if "s \<in> set (write_operations (set_row r' t))" for s
    using that f assms(1,2) by (auto simp: ids_inv_def dest!: in_set_row)
  ultimately show ?thesis using assms(1) by (auto simp: ids_inv_def)
qed

lemma exclusive_inv_set_row:
  assumes "exclusive_inv t" "r \<in> set (write_operations t)" "op_step r r'"
  shows "exclusive_inv (set_row r' t)"
  unfolding exclusive_inv_def
proof (intro ballI impI, elim conjE)
  fix a b
  assume a: "a \<in> set (write_operations (set_row r' t))" and b: "b \<in> set (write_operations (set_row r' t))"
    and u: "unresolved a" "unresolved b" and ne: "op_id a \<noteq> op_id b"
  note f = op_step_fields [OF assms(3)] and ur = op_step_unresolved [OF assms(3)]
  let ?old = "\<lambda>s. if s = r' then r else s"
  have old: "?old s \<in> set (write_operations t) \<and> unresolved (?old s) \<and> op_id (?old s) = op_id s \<and>
      op_account (?old s) = op_account s \<and> op_key (?old s) = op_key s \<and> op_href (?old s) = op_href s"
    if "s \<in> set (write_operations (set_row r' t))" "unresolved s" for s
    using that in_set_row [OF that(1)] f ur assms(2) by auto
  note oa = old [OF a u(1)] and ob = old [OF b u(2)]
  have "\<not> same_target (?old a) (?old b)"
    using assms(1) [unfolded exclusive_inv_def, rule_format, of "?old a" "?old b"] oa ob ne by simp
  with oa ob show "\<not> same_target a b" by (simp add: same_target_def)
qed

lemma rows_inv_set_row:
  assumes "rows_inv t" "r \<in> set (write_operations t)" "op_step r r'"
  shows "rows_inv (set_row r' t)"
  unfolding rows_inv_def
proof
  fix s
  assume "s \<in> set (write_operations (set_row r' t))"
  then consider "s = r'" | "s \<in> set (write_operations t)" by (auto dest: in_set_row)
  then show "durable s \<and> (op_state s \<in> {Applied, Acknowledged} \<longrightarrow> confirmed s) \<and> op_retry_at s \<le> LLONG_MAX"
  proof cases
    case 1
    with assms show ?thesis
      unfolding rows_inv_def
      using op_step_durable op_step_confirmed op_step_retry by blast
  next
    case 2
    with assms(1) show ?thesis by (auto simp: rows_inv_def)
  qed
qed

lemma resolution_ok_set_row:
  assumes "ids_inv t" "r \<in> set (write_operations t)" "op_step r r'"
    and "op_state r' = Acknowledged \<Longrightarrow> \<not> mirror_pending t (op_id r)"
    and "x \<in> set (write_resolutions t)" and "resolution_ok t x"
  shows "resolution_ok (set_row r' t) x"
proof -
  note f = op_step_fields [OF assms(3)]
  from assms(6) obtain a b where a: "a \<in> set (write_operations t)" "op_id a = r_operation x"
      "op_state a = Cancelled"
    and b: "b \<in> set (write_operations t)" "op_id b = r_successor x" "r_operation x < r_successor x"
      "op_account b = op_account a" "op_key b = op_key a" "op_href b = op_href a"
      "op_state b = Acknowledged \<longrightarrow> r_mirrored x"
      "r_mirrored x \<longrightarrow> op_state b \<in> {Applied, Acknowledged}"
    unfolding resolution_ok_def by blast
  let ?new = "\<lambda>s. if op_id s = op_id r then r' else s"
  have new: "?new s \<in> set (write_operations (set_row r' t)) \<and> op_id (?new s) = op_id s \<and>
      op_account (?new s) = op_account s \<and> op_key (?new s) = op_key s \<and> op_href (?new s) = op_href s"
    if "s \<in> set (write_operations t)" for s
    using that assms(1,2) f set_row_mem [of r t r'] set_row_other [of s t r']
    by (auto dest: ids_inv_eq)
  have ca: "op_state (?new a) = Cancelled"
    using a assms(1,2) op_step_Cancelled [OF assms(3)] by (auto dest: ids_inv_eq)
  have cb: "op_state (?new b) = Acknowledged \<longrightarrow> r_mirrored x"
    using b assms(4,5) by (auto simp: mirror_pending_def)
  have cm: "r_mirrored x \<longrightarrow> op_state (?new b) \<in> {Applied, Acknowledged}"
    using b assms(1,2) op_step_confirmed_state [OF assms(3)] by (auto dest: ids_inv_eq)
  from new [OF a(1)] new [OF b(1)] ca cb cm a b show ?thesis
    unfolding resolution_ok_def by (intro bexI [of _ "?new a"] bexI [of _ "?new b"]) auto
qed

lemma journal_inv_operate:
  assumes "journal_inv t" "r \<in> set (write_operations t)" "op_step r r'"
    and "op_state r' = Acknowledged \<Longrightarrow> \<not> mirror_pending t (op_id r)"
  shows "journal_inv (set_row r' t)"
  using assms
  by (auto simp: journal_inv_def resolutions_inv_def
      intro: ids_inv_set_row exclusive_inv_set_row rows_inv_set_row resolution_ok_set_row)


text \<open>Appending a fresh queued row.\<close>

definition add_op :: "op_row \<Rightarrow> 'z jtables \<Rightarrow> 'z jtables" where
  "add_op r t = t\<lparr>write_operations := write_operations t @ [r]\<rparr>"

lemma add_op_simps [simp]:
  "write_operations (add_op r t) = write_operations t @ [r]"
  "write_resolutions (add_op r t) = write_resolutions t"
  "write_attention (add_op r t) = write_attention t"
  by (simp_all add: add_op_def)

lemma find_None: "find P xs = None \<longleftrightarrow> (\<forall>x \<in> set xs. \<not> P x)"
  by (auto simp: find_None_iff)

lemma next_op_id_fresh: "r \<in> set (write_operations t) \<Longrightarrow> op_id r < next_op_id t"
  by (auto simp: next_op_id_def intro: next_rowid_gt)

lemma next_op_id_pos: "0 < next_op_id t"
  by (simp add: next_op_id_def next_rowid_pos)

lemma ids_inv_add:
  assumes "ids_inv t" "op_id r = next_op_id t" "find_change (op_account r) (op_change r) t = None"
  shows "ids_inv (add_op r t)"
  using assms next_op_id_pos [of t] next_op_id_fresh [of _ t]
  by (fastforce simp: ids_inv_def find_change_def find_None)

lemma resolution_ok_add: "resolution_ok t x \<Longrightarrow> resolution_ok (add_op r t) x"
  unfolding resolution_ok_def add_op_simps by auto

lemma journal_inv_enqueue:
  assumes "journal_inv t" and "find_change (op_account r) (op_change r) t = None"
    and "find_unresolved (op_account r) (op_key r) (op_href r) t = None"
    and "op_id r = next_op_id t" and "durable r" and "op_state r = Queued" and "op_retry_at r = 0"
  shows "journal_inv (add_op r t)"
proof -
  have free: "\<not> same_target r s \<and> \<not> same_target s r" if "s \<in> set (write_operations t)" "unresolved s" for s
    using assms(3) that by (auto simp: find_unresolved_def find_None same_target_def)
  have "exclusive_inv t" using assms(1) by (simp add: journal_inv_def)
  with free have "exclusive_inv (add_op r t)"
    by (auto simp: exclusive_inv_def)
  moreover have "rows_inv (add_op r t)"
    using assms by (auto simp: journal_inv_def rows_inv_def LLONG_MAX_def)
  moreover have "resolutions_inv (add_op r t)"
    using assms(1) by (auto simp: journal_inv_def resolutions_inv_def intro: resolution_ok_add)
  ultimately show ?thesis
    using assms ids_inv_add [of t r] by (simp add: journal_inv_def)
qed

lemma queued_row_simps [simp]:
  "op_id (queued_row i acct change key href knd rv etag bb des) = i"
  "op_account (queued_row i acct change key href knd rv etag bb des) = acct"
  "op_change (queued_row i acct change key href knd rv etag bb des) = change"
  "op_key (queued_row i acct change key href knd rv etag bb des) = key"
  "op_href (queued_row i acct change key href knd rv etag bb des) = href"
  "op_kind (queued_row i acct change key href knd rv etag bb des) = knd"
  "op_state (queued_row i acct change key href knd rv etag bb des) = Queued"
  "op_revision (queued_row i acct change key href knd rv etag bb des) = rv"
  "op_base_etag (queued_row i acct change key href knd rv etag bb des) = etag"
  "op_base_body (queued_row i acct change key href knd rv etag bb des) = bb"
  "op_desired (queued_row i acct change key href knd rv etag bb des) = des"
  "op_retry_at (queued_row i acct change key href knd rv etag bb des) = 0"
  by (simp_all add: queued_row_def)

lemma enqueue_row_durable:
  assumes "\<not> base_refuses knd href revision (find_base acct key t)"
    and "knd \<noteq> Delete \<Longrightarrow> bytes_of desired \<noteq> []" and "knd = Delete \<Longrightarrow> desired = None"
  shows "durable (enqueue_row acct change key href knd revision desired t i)"
  using assms
  by (auto simp: durable_def enqueue_row_def base_refuses_def split: option.splits)

lemma read_operation_simps [simp]:
  "o_id (read_operation r) = op_id r" "o_state (read_operation r) = op_state r"
  "o_kind (read_operation r) = op_kind r" "o_href (read_operation r) = op_href r"
  "o_resourceKey (read_operation r) = op_key r" "o_baseETag (read_operation r) = op_base_etag r"
  "o_desiredBody (read_operation r) = op_desired r"
  "o_resultETag (read_operation r) = op_result_etag r"
  "o_resultBody (read_operation r) = op_result_body r"
  "o_baseBody (read_operation r) = op_base_body r"
  "o_localRevision (read_operation r) = op_revision r"
  "o_changeID (read_operation r) = op_change r"
  by (simp_all add: read_operation_def)

lemma successor_row_simps [simp]:
  "op_id (successor_row acct knd old body len i) = i"
  "op_account (successor_row acct knd old body len i) = acct"
  "op_key (successor_row acct knd old body len i) = o_resourceKey old"
  "op_href (successor_row acct knd old body len i) = o_href old"
  "op_kind (successor_row acct knd old body len i) = knd"
  "op_state (successor_row acct knd old body len i) = Queued"
  "op_retry_at (successor_row acct knd old body len i) = 0"
  by (simp_all add: successor_row_def Let_def)

lemma successor_change:
  "op_change (successor_row acct knd old body len i) = take 79 (''resolution:'' @ show_int (o_id old))"
  by (simp add: successor_row_def Let_def)

lemma successor_row_durable:
  assumes "\<not> no_usable_revision knd old" and "knd \<noteq> Delete \<Longrightarrow> bytes_of (blob body len) \<noteq> []"
  shows "durable (successor_row acct knd old body len i)"
proof -
  have "RCWriteETagIsStrong (op_base_etag (successor_row acct knd old body len i))" if "knd \<noteq> Create"
    using assms(1) that
    by (cases "o_httpStatus old = 404"; cases "knd = Delete")
      (simp_all add: no_usable_revision_def successor_row_def Let_def)
  moreover have "bytes_of (op_desired (successor_row acct knd old body len i)) \<noteq> []" if "knd \<noteq> Delete"
    using assms(2) that by (simp add: successor_row_def Let_def)
  moreover have "op_desired (successor_row acct knd old body len i) = None" if "knd = Delete"
    using that by (simp add: successor_row_def Let_def)
  ultimately show ?thesis by (simp add: durable_def)
qed

text \<open>Retiring a conflict: append the successor, cancel the conflict, record the link.\<close>

lemma resolve_tables_alt:
  assumes "ids_inv t" "r \<in> set (write_operations t)" "op_id (mk (next_op_id t)) = next_op_id t"
  shows "write_operations (resolve_tables (op_id r) mk receipt t) =
         write_operations (set_row (r\<lparr>op_state := Cancelled\<rparr>) t) @ [mk (next_op_id t)]"
proof -
  have "op_id r \<noteq> next_op_id t" using next_op_id_fresh [OF assms(2)] by simp
  moreover have "update_rows (\<lambda>s. op_id s = op_id r) (\<lambda>s. s\<lparr>op_state := Cancelled\<rparr>) (write_operations t) =
      update_rows (\<lambda>s. op_id s = op_id r) (\<lambda>_. r\<lparr>op_state := Cancelled\<rparr>) (write_operations t)"
    using assms(1,2) by (auto simp: update_rows_def dest: ids_inv_eq)
  ultimately show ?thesis
    using assms(3) by (simp add: resolve_tables_def set_row_def update_rows_def)
qed

lemma cancel_conflict_step: "op_state r = Conflict \<Longrightarrow> op_step r (r\<lparr>op_state := Cancelled\<rparr>)"
  by (rule op_step.cancel) simp

lemma find_unresolved_retired:
  assumes "journal_inv t" "r \<in> set (write_operations t)" "op_state r = Conflict"
  shows "find_unresolved (op_account r) (op_key r) (op_href r) (set_row (r\<lparr>op_state := Cancelled\<rparr>) t) = None"
proof -
  have "\<not> (op_account s = op_account r \<and> (op_key s = op_key r \<or> op_href s = op_href r) \<and> unresolved s)"
    if s: "s \<in> set (write_operations (set_row (r\<lparr>op_state := Cancelled\<rparr>) t))" for s
  proof
    assume a: "op_account s = op_account r \<and> (op_key s = op_key r \<or> op_href s = op_href r) \<and> unresolved s"
    then have "s \<noteq> r\<lparr>op_state := Cancelled\<rparr>" by (auto simp: unresolved_def)
    with in_set_row [OF s] have s: "s \<in> set (write_operations t)" "op_id s \<noteq> op_id r" by auto
    have "unresolved r" using assms(3) by (simp add: unresolved_def)
    with a s assms(1,2) show False
      unfolding journal_inv_def exclusive_inv_def same_target_def by metis
  qed
  then show ?thesis by (auto simp: find_unresolved_def find_None)
qed

lemma find_change_set_row:
  assumes "op_account r' = op_account r" "op_change r' = op_change r" "r \<in> set (write_operations t)"
    and "find_change acct change t = None"
  shows "find_change acct change (set_row r' t) = None"
  using assms by (auto simp: find_change_def find_None dest!: in_set_row)

lemma next_op_id_set_row:
  assumes "ids_inv t" "r \<in> set (write_operations t)" "op_id r' = op_id r"
  shows "next_op_id (set_row r' t) = next_op_id t"
  using set_row_map [of t r r' op_id] assms by (simp add: next_op_id_def)

lemma journal_inv_same_ops:
  assumes "journal_inv t" "write_operations t' = write_operations t" and "resolutions_inv t'"
  shows "journal_inv t'"
  using assms by (simp add: journal_inv_def ids_inv_def exclusive_inv_def rows_inv_def)

lemma resolution_ok_same_ops:
  "write_operations t' = write_operations t \<Longrightarrow> resolution_ok t' x = resolution_ok t x"
  by (simp add: resolution_ok_def)

lemma journal_inv_resolve:
  assumes inv: "journal_inv t" and r: "r \<in> set (write_operations t)"
    and u: "\<not> no_usable_revision knd (read_operation r)"
    and b: "knd \<noteq> Delete \<Longrightarrow> bytes_of (blob body len) \<noteq> []"
    and nr: "find_resolution (op_id r) t = None"
    and nc: "find_change (op_account r)
      (op_change (successor_row (op_account r) knd (read_operation r) body len 0)) t = None"
  shows "journal_inv (resolve_tables (op_id r)
           (successor_row (op_account r) knd (read_operation r) body len) receipt t)"
    (is "journal_inv ?t'")
proof -
  let ?c = "r\<lparr>op_state := Cancelled\<rparr>" and ?s = "successor_row (op_account r) knd (read_operation r) body len (next_op_id t)"
  let ?t1 = "set_row ?c t" and ?t2 = "add_op ?s (set_row ?c t)"
  have conflict: "op_state r = Conflict" using u by (auto simp: no_usable_revision_def)
  have ids: "ids_inv t" using inv by (simp add: journal_inv_def)
  have inv1: "journal_inv ?t1"
    using journal_inv_operate [OF inv r cancel_conflict_step [OF conflict]] by simp
  have nid: "next_op_id ?t1 = next_op_id t"
    using next_op_id_set_row [OF ids r, of ?c] by simp
  have inv2: "journal_inv ?t2"
  proof (rule journal_inv_enqueue [OF inv1])
    show "find_change (op_account ?s) (op_change ?s) ?t1 = None"
      using nc find_change_set_row [of ?c r t] r by (simp add: successor_change)
    show "find_unresolved (op_account ?s) (op_key ?s) (op_href ?s) ?t1 = None"
      using find_unresolved_retired [OF inv r conflict] by simp
    show "durable ?s" using u b by (rule successor_row_durable)
  qed (simp_all add: nid)
  have ops: "write_operations ?t' = write_operations ?t2"
    using resolve_tables_alt [OF ids r] by simp
  let ?x = "\<lparr>r_operation = op_id r, r_successor = next_op_id t, r_receipt = receipt, r_mirrored = False\<rparr>"
  have res: "write_resolutions ?t' = write_resolutions t @ [?x]"
    by (simp add: resolve_tables_def)
  have new: "resolution_ok ?t' ?x"
  proof -
    have "?c \<in> set (write_operations ?t')" "?s \<in> set (write_operations ?t')"
      using set_row_mem [OF r, of ?c] by (simp_all add: ops)
    then show ?thesis
      unfolding resolution_ok_def using next_op_id_fresh [OF r]
      by (intro bexI [of _ ?c] bexI [of _ ?s]) auto
  qed
  have old: "resolution_ok ?t' x" if "x \<in> set (write_resolutions t)" for x
    using inv2 that by (simp add: resolution_ok_same_ops [OF ops] journal_inv_def resolutions_inv_def)
  have fresh: "next_op_id t \<notin> r_successor ` set (write_resolutions t)"
    using inv next_op_id_fresh [of _ t]
    by (fastforce simp: journal_inv_def resolutions_inv_def resolution_ok_def)
  have "op_id r \<notin> r_operation ` set (write_resolutions t)"
    using nr by (auto simp: find_resolution_def find_None)
  with inv fresh new old res have "resolutions_inv ?t'"
    by (auto simp: journal_inv_def resolutions_inv_def)
  with journal_inv_same_ops [OF inv2 ops] show ?thesis by simp
qed

lemma journal_inv_mirrored:
  assumes inv: "journal_inv t" and r: "r \<in> set (write_operations t)" "op_state r = Applied"
  shows "journal_inv (t\<lparr>write_resolutions :=
    update_rows (\<lambda>x. r_successor x = op_id r) (\<lambda>x. x\<lparr>r_mirrored := True\<rparr>) (write_resolutions t)\<rparr>)"
    (is "journal_inv ?t'")
proof (rule journal_inv_same_ops [OF inv])
  have ids: "ids_inv t" using inv by (simp add: journal_inv_def)
  have ok: "resolution_ok t (x\<lparr>r_mirrored := True\<rparr>)"
    if "x \<in> set (write_resolutions t)" "r_successor x = op_id r" for x
  proof -
    from inv that(1) have "resolution_ok t x" by (simp add: journal_inv_def resolutions_inv_def)
    then obtain a b where ab: "a \<in> set (write_operations t)" "b \<in> set (write_operations t)"
      "op_id a = r_operation x" "op_id b = r_successor x" "r_operation x < r_successor x"
      "op_state a = Cancelled" "op_account b = op_account a" "op_key b = op_key a" "op_href b = op_href a"
      unfolding resolution_ok_def by blast
    with that(2) r ids have "b = r" by (auto dest: ids_inv_eq)
    with ab r show ?thesis
      unfolding resolution_ok_def by (intro bexI [of _ a] bexI [of _ b]) auto
  qed
  have maps: "map r_operation (write_resolutions ?t') = map r_operation (write_resolutions t)"
    "map r_successor (write_resolutions ?t') = map r_successor (write_resolutions t)"
    by (simp_all add: update_rows_def)
  have "resolution_ok t x" if "x \<in> set (write_resolutions ?t')" for x
    using that ok inv
    by (auto simp: journal_inv_def resolutions_inv_def elim!: in_update_rowsE)
  then have "resolution_ok ?t' x" if "x \<in> set (write_resolutions ?t')" for x
    using that resolution_ok_same_ops [of ?t' t x] by simp
  then show "resolutions_inv ?t'"
    using inv maps unfolding journal_inv_def resolutions_inv_def by simp
qed simp

theorem jstep_inv: "jstep t t' \<Longrightarrow> journal_inv t \<Longrightarrow> journal_inv t'"
proof (induction rule: jstep.induct)
  case (frame t' t)
  then show ?case
    by (simp add: journal_part_def journal_inv_def ids_inv_def exclusive_inv_def rows_inv_def
        resolutions_inv_def resolution_ok_def)
next
  case (enqueue acct change t key href knd revision desired)
  let ?r = "enqueue_row acct change key href knd revision desired t (next_op_id t)"
  have dur: "durable ?r"
    using enqueue.hyps(4,5,6) by (rule enqueue_row_durable)
  have "journal_inv (add_op ?r t)"
    by (rule journal_inv_enqueue [OF enqueue.prems _ _ _ dur])
      (use enqueue.hyps in \<open>simp_all add: enqueue_row_def\<close>)
  then show ?case by (simp add: add_op_def)
next
  case (operate r t r')
  then show ?case by (blast intro: journal_inv_operate)
next
  case (resolve r t acct knd body len receipt)
  then show ?case using journal_inv_resolve by blast
next
  case (attention r t reason)
  then have "resolutions_inv (set_attention (op_id r) reason t)"
    by (simp add: journal_inv_def resolutions_inv_def resolution_ok_def set_attention_def)
  with attention show ?case
    by (auto simp: set_attention_def intro: journal_inv_same_ops)
next
  case (mirrored r t)
  then show ?case by (blast intro: journal_inv_mirrored)
qed

end
