(* ===== verification/JournalRefine.thy ===== *)
theory JournalRefine
  imports JournalMachine
begin

text \<open>
  The operations of the write journal implement its specification: every exported
  function performs at most one transition of \<open>jstep\<close>, keeps the transaction stack and
  the library, and leaves the tables alone when it reports a failure. From this follow
  the invariant for all reachable journals, the immutability of recorded intents, the
  idempotence of replayed changes and the monotonicity of terminal states.
\<close>

section \<open>Single statements\<close>

lemma journal_prepare_keeps:
  "journal_prepare d = (r, d') \<Longrightarrow> tables d' = tables d \<and> txn d' = txn d \<and> same_library d d'"
  by (auto simp: journal_prepare_def Let_def split: prod.splits if_splits dest: sql_prepare_keeps)

lemma journal_query_keeps:
  "journal_query q d = (r, d') \<Longrightarrow> tables d' = tables d \<and> txn d' = txn d \<and> same_library d d'"
  by (auto simp: journal_query_def chain_def split: prod.splits sum.splits option.splits
      dest!: journal_prepare_keeps sql_query_keeps intro: same_library_trans)

lemma journal_query_row: "journal_query q d = (Inr x, d') \<Longrightarrow> q (tables d) = x"
  by (auto simp: journal_query_def chain_def split: prod.splits sum.splits option.splits
      dest!: journal_prepare_keeps sql_query_row)

lemma journal_modify_keeps:
  "journal_modify f d = (r, d') \<Longrightarrow> txn d' = txn d \<and> same_library d d'"
  by (auto simp: journal_modify_def chain_def split: prod.splits sum.splits option.splits
      dest!: journal_prepare_keeps sql_modify_keeps intro: same_library_trans)

lemma journal_modify_Inl: "journal_modify f d = (Inl e, d') \<Longrightarrow> tables d' = tables d"
  by (auto simp: journal_modify_def chain_def split: prod.splits sum.splits option.splits
      dest!: journal_prepare_keeps sql_modify_None)

lemma journal_modify_Inr:
  "journal_modify f d = (Inr x, d') \<Longrightarrow>
     \<exists>t. f (tables d) = Some (t, x) \<and> tables d' = t \<and> txn d' = txn d \<and> same_library d d'"
  using journal_modify_keeps [of f d "Inr x" d']
  by (auto simp: journal_modify_def chain_def split: prod.splits sum.splits option.splits
      dest!: journal_prepare_keeps sql_modify_Some)

lemma journal_update_one_keeps:
  "journal_update_one msg f d = (r, d') \<Longrightarrow> txn d' = txn d \<and> same_library d d'"
  by (auto simp: journal_update_one_def chain_def split: prod.splits sum.splits option.splits if_splits
      dest!: journal_prepare_keeps sql_modify_keeps intro: same_library_trans)

lemma journal_update_one_result:
  "journal_update_one msg f d = (r, d') \<Longrightarrow>
     (r = Inr () \<and> f (tables d) = (tables d', 1)) \<or>
     (\<not> is_ok r \<and> (tables d' = tables d \<or> (\<exists>n. f (tables d) = (tables d', n) \<and> n \<noteq> 1)))"
  by (auto simp: journal_update_one_def chain_def split: prod.splits sum.splits option.splits if_splits
      dest!: journal_prepare_keeps sql_modify_Some sql_modify_None)

lemma RCWriteJournalGet_keeps:
  "RCWriteJournalGet acct i d = (r, d') \<Longrightarrow> tables d' = tables d \<and> txn d' = txn d \<and> same_library d d'"
  by (auto simp: RCWriteJournalGet_def chain_def split: prod.splits sum.splits option.splits
      dest!: journal_prepare_keeps sql_query_keeps intro: same_library_trans)

lemma find_op_Some:
  "find_op acct i t = Some r \<Longrightarrow> r \<in> set (write_operations t) \<and> op_account r = acct \<and> op_id r = i"
  by (auto simp: find_op_def dest: find_Some_in)

lemma RCWriteJournalGet_row:
  assumes "RCWriteJournalGet acct i d = (Inr x, d')"
  obtains r where "find_op acct i (tables d) = Some r" "x = read_operation r"
  using assms
  by (auto simp: RCWriteJournalGet_def chain_def split: prod.splits sum.splits option.splits
      dest!: journal_prepare_keeps sql_query_row)

lemma journal_scan_keeps:
  "journal_scan P d = (r, d') \<Longrightarrow> tables d' = tables d \<and> txn d' = txn d \<and> same_library d d'"
  by (auto simp: journal_scan_def chain_def split: prod.splits sum.splits dest: journal_query_keeps)

text \<open>
  A statement whose condition fixes the primary key changes at most one row, so an
  update that reports another count changed nothing.
\<close>

lemma update_ops_none:
  "count_rows P (write_operations t) = 0 \<Longrightarrow> fst (update_ops P f t) = t"
  by (auto simp: update_ops_def count_rows_zero update_rows_def map_idI)

lemma update_ops_one:
  assumes "ids_inv t" and "\<And>r. P r \<Longrightarrow> op_id r = i" and "\<And>r. op_id (f r) = op_id r"
    and "update_ops P f t = (t', n)"
  shows "(n = 0 \<and> t' = t) \<or>
         (n = 1 \<and> (\<exists>r \<in> set (write_operations t). P r \<and> t' = set_row (f r) t))"
proof (cases "\<exists>r \<in> set (write_operations t). P r")
  case True
  then obtain r where r: "r \<in> set (write_operations t)" "P r" by blast
  have "distinct (map op_id (write_operations t))" using assms(1) by (simp add: ids_inv_def)
  moreover have "\<And>s. P s \<Longrightarrow> op_id s = op_id r" using assms(2) r(2) by metis
  ultimately have "count_rows P (write_operations t) = 1"
    using r by (intro count_rows_key [of op_id _ r P])
  then have n: "n = 1" using assms(4) by (simp add: update_ops_def)
  have P_iff: "P s \<longleftrightarrow> op_id s = op_id r" if "s \<in> set (write_operations t)" for s
    using that r assms(1,2) ids_inv_eq by metis
  have "update_rows P f (write_operations t) =
      update_rows (\<lambda>s. op_id s = op_id (f r)) (\<lambda>_. f r) (write_operations t)"
    unfolding update_rows_def
  proof (rule map_cong [OF refl])
    fix s assume "s \<in> set (write_operations t)"
    then show "(if P s then f s else s) = (if op_id s = op_id (f r) then f r else s)"
      using P_iff r assms(1,3) ids_inv_eq by metis
  qed
  with assms(4) n r show ?thesis by (auto simp: update_ops_def set_row_def)
next
  case False
  then have "count_rows P (write_operations t) = 0" by (auto simp: count_rows_zero)
  with assms(4) update_ops_none [of P t f] show ?thesis by (auto simp: update_ops_def)
qed

lemma journal_update_ops:
  assumes "journal_update_one msg (\<lambda>t. update_ops (P t) f t) d = (r, d')" and "ids_inv (tables d)"
    and "\<And>s. P (tables d) s \<Longrightarrow> op_id s = i" and "\<And>s. op_id (f s) = op_id s"
  shows "(r = Inr () \<and> (\<exists>s \<in> set (write_operations (tables d)). P (tables d) s \<and>
            tables d' = set_row (f s) (tables d))) \<or> (\<not> is_ok r \<and> tables d' = tables d)"
  using journal_update_one_result [OF assms(1)]
    update_ops_one [OF assms(2), of "P (tables d)" i f "tables d'"] assms(3,4)
  by fastforce

section \<open>Refinement of each operation\<close>

text \<open>What every operation guarantees: at most one transition, and none on failure.\<close>

definition refines :: "'z jdb \<Rightarrow> 'a res \<Rightarrow> 'z jdb \<Rightarrow> bool" where
  "refines d r d' \<longleftrightarrow> txn d' = txn d \<and> same_library d d' \<and>
     (tables d' = tables d \<or> (is_ok r \<and> jstep (tables d) (tables d')))"

lemma refines_keep:
  "tables d' = tables d \<and> txn d' = txn d \<and> same_library d d' \<Longrightarrow> refines d r d'"
  by (simp add: refines_def)

lemma journal_part_replace_base [simp]: "journal_part (replace_base b t) = journal_part t"
  by (simp add: journal_part_def replace_base_def)

lemma SetBase_refines:
  assumes "RCWriteJournalSetBase acct key href etag body len revision d = (r, d')"
  shows "refines d r d'"
proof (cases r)
  case (Inl e)
  with assms show ?thesis
    by (auto simp: RCWriteJournalSetBase_def refines_def split: option.splits if_splits
        dest: journal_modify_keeps journal_modify_Inl)
next
  case (Inr u)
  with assms have keep: "txn d' = txn d" "same_library d d'"
    and "\<exists>b. replace_base b (tables d) = tables d'"
    by (auto simp: RCWriteJournalSetBase_def split: option.splits if_splits dest!: journal_modify_Inr)
  then have "journal_part (tables d') = journal_part (tables d)"
    by (metis journal_part_replace_base)
  with Inr keep show ?thesis by (simp add: refines_def jstep.frame)
qed

lemma BeginAttempt_cases:
  assumes "RCWriteJournalBeginAttempt acct i now d = (r, d')" and "ids_inv (tables d)"
  shows "(r = Inr () \<and> 0 \<le> now \<and> now \<le> LLONG_MAX - 3600 \<and>
           (\<exists>s \<in> set (write_operations (tables d)). op_id s = i \<and> due acct now s \<and>
              tables d' = set_row (attempt_row now s) (tables d))) \<or>
         (\<not> is_ok r \<and> tables d' = tables d)"
proof -
  have f: "\<And>s. op_id (attempt_row now s) = op_id s" by (simp add: attempt_row_def)
  show ?thesis
    using assms(1) journal_update_ops [of _ "\<lambda>_ r. op_id r = i \<and> due acct now r" "attempt_row now" d r d' i,
        OF _ assms(2) _ f]
    by (auto simp: RCWriteJournalBeginAttempt_def split: if_splits option.splits)
qed

lemma outside_error: "outsideTransaction d = (if autocommit d then None else outsideTransaction d)"
  by (simp add: outsideTransaction_def)

lemma BeginAttempt_refines:
  assumes "RCWriteJournalBeginAttempt acct i now d = (r, d')" and "ids_inv (tables d)"
  shows "refines d r d'"
proof -
  have keep: "txn d' = txn d \<and> same_library d d'"
    using assms(1)
    by (auto simp: RCWriteJournalBeginAttempt_def split: if_splits option.splits
        dest: journal_update_one_keeps)
  show ?thesis
    using BeginAttempt_cases [OF assms]
  proof (elim disjE conjE bexE)
    fix s
    assume s: "s \<in> set (write_operations (tables d))" "due acct now s" "0 \<le> now" "now \<le> LLONG_MAX - 3600"
      and t: "tables d' = set_row (attempt_row now s) (tables d)" and "r = Inr ()"
    from s have "op_step s (attempt_row now s)" by (auto simp: due_def intro: op_step.attempt)
    with s t keep \<open>r = Inr ()\<close> show ?thesis
      by (auto simp: refines_def attempt_row_def intro!: jstep.operate)
  qed (use keep in \<open>simp add: refines_def\<close>)
qed

lemma RecordResult_cases:
  assumes "RCWriteJournalRecordResult acct i state status etag body len d = (r, d')"
    and "ids_inv (tables d)"
  shows "(r = Inr () \<and> (\<exists>st s. Option.bind state result_state_of_string = Some st \<and>
            s \<in> set (write_operations (tables d)) \<and> op_account s = acct \<and> op_id s = i \<and>
            op_state s = Uncertain \<and> verified_status st status s \<and>
            (st = Applied \<and> status \<noteq> 404 \<longrightarrow> RCWriteETagIsStrong etag \<and> body \<noteq> None \<and> 0 < len) \<and>
            tables d' = set_row (result_row st status etag (blob body len) s) (tables d))) \<or>
         (\<not> is_ok r \<and> tables d' = tables d)"
proof (cases "Option.bind state result_state_of_string")
  case None
  with assms(1) show ?thesis by (auto simp: RCWriteJournalRecordResult_def)
next
  case (Some st)
  let ?bad = "len > INT_MAX \<or> (body = None \<and> len \<noteq> 0) \<or>
      (st = Applied \<and> status \<noteq> 404 \<and> (\<not> RCWriteETagIsStrong etag \<or> body = None \<or> len = 0))"
  let ?P = "\<lambda>_ r. op_account r = acct \<and> op_id r = i \<and> op_state r = Uncertain \<and> verified_status st status r"
  show ?thesis
  proof (cases "?bad \<or> outsideTransaction d \<noteq> None")
    case True
    with assms(1) Some show ?thesis
      by (auto simp: RCWriteJournalRecordResult_def split: if_splits option.splits)
  next
    case False
    then have good: "\<not> ?bad" by simp
    from False assms(1) Some
    have "journal_update_one ''Outgoing write result cannot be recorded in this state''
        (\<lambda>t. update_ops (?P t) (result_row st status etag (blob body len)) t) d = (r, d')"
      by (auto simp: RCWriteJournalRecordResult_def split: if_splits)
    from journal_update_ops [OF this assms(2), of i] good Some show ?thesis
      by (auto simp: result_row_def)
  qed
qed

lemma result_state_range:
  "Option.bind state result_state_of_string = Some st \<Longrightarrow> st \<in> {Uncertain, Applied, Conflict}"
  by (cases state) (auto split: if_splits)

lemma blob_nonempty: "buffer_ok body len \<Longrightarrow> body \<noteq> None \<Longrightarrow> 0 < len \<Longrightarrow> bytes_of (blob body len) \<noteq> []"
  by (cases body) (auto simp: buffer_ok_def blob_def)

lemma RecordResult_refines:
  assumes "RCWriteJournalRecordResult acct i state status etag body len d = (r, d')"
    and "ids_inv (tables d)" and "buffer_ok body len"
  shows "refines d r d'"
proof -
  have keep: "txn d' = txn d \<and> same_library d d'"
    using assms(1)
    by (auto simp: RCWriteJournalRecordResult_def split: if_splits option.splits
        dest: journal_update_one_keeps)
  show ?thesis
    using RecordResult_cases [OF assms(1,2)]
  proof (elim disjE conjE exE)
    fix st s
    assume st: "Option.bind state result_state_of_string = Some st"
      and s: "s \<in> set (write_operations (tables d))" "op_state s = Uncertain" "verified_status st status s"
      and ok: "st = Applied \<and> status \<noteq> 404 \<longrightarrow> RCWriteETagIsStrong etag \<and> body \<noteq> None \<and> 0 < len"
      and t: "tables d' = set_row (result_row st status etag (blob body len) s) (tables d)"
      and r: "r = Inr ()"
    have "op_step s (result_row st status etag (blob body len) s)"
      using s result_state_range [OF st] ok blob_nonempty [OF assms(3)]
      by (intro op_step.record_result) auto
    with s t r keep result_state_range [OF st] show ?thesis
      by (auto simp: refines_def result_row_def intro!: jstep.operate)
  qed (use keep in \<open>simp add: refines_def\<close>)
qed

lemma acknowledge_cases:
  assumes "terminal acct i True d = (r, d')" and "ids_inv (tables d)"
  shows "(r = Inr () \<and> (\<exists>s \<in> set (write_operations (tables d)). op_account s = acct \<and> op_id s = i \<and>
            op_state s \<in> {Applied, Acknowledged} \<and> \<not> mirror_pending (tables d) i \<and>
            tables d' = set_row (s\<lparr>op_state := Acknowledged\<rparr>) (tables d))) \<or>
         (\<not> is_ok r \<and> tables d' = tables d)"
proof -
  let ?P = "\<lambda>t s. op_account s = acct \<and> op_id s = i \<and> op_state s \<in> {Applied, Acknowledged} \<and>
      \<not> mirror_pending t (op_id s)"
  have "journal_update_one ''Outgoing operation cannot be acknowledged or cancelled in this state''
      (\<lambda>t. update_ops (?P t) (\<lambda>s. s\<lparr>op_state := Acknowledged\<rparr>) t) d = (r, d')"
    using assms(1) by (simp add: terminal_def)
  from journal_update_ops [OF this assms(2), of i] show ?thesis by auto
qed

lemma cancel_cases:
  assumes "terminal acct i False d = (r, d')" and "ids_inv (tables d)"
  shows "(r = Inr () \<and> (\<exists>s \<in> set (write_operations (tables d)). op_account s = acct \<and> op_id s = i \<and>
            op_state s \<in> {Queued, Conflict, Cancelled} \<and>
            tables d' = set_row (s\<lparr>op_state := Cancelled\<rparr>) (tables d))) \<or>
         (\<not> is_ok r \<and> tables d' = tables d)"
proof -
  let ?P = "\<lambda>t s. op_account s = acct \<and> op_id s = i \<and> op_state s \<in> {Queued, Conflict, Cancelled}"
  have "journal_update_one ''Outgoing operation cannot be acknowledged or cancelled in this state''
      (\<lambda>t. update_ops (?P t) (\<lambda>s. s\<lparr>op_state := Cancelled\<rparr>) t) d = (r, d')"
    using assms(1) by (simp add: terminal_def)
  from journal_update_ops [OF this assms(2), of i] show ?thesis by auto
qed

lemma terminal_keeps: "terminal acct i ack d = (r, d') \<Longrightarrow> txn d' = txn d \<and> same_library d d'"
  unfolding terminal_def by (rule journal_update_one_keeps)

lemma terminal_refines:
  assumes "terminal acct i ack d = (r, d')" and "ids_inv (tables d)"
  shows "refines d r d'"
proof (cases ack)
  case True
  with assms have "terminal acct i True d = (r, d')" by simp
  from acknowledge_cases [OF this assms(2)] terminal_keeps [OF assms(1)] show ?thesis
    by (auto simp: refines_def intro!: jstep.operate op_step.acknowledge)
next
  case False
  with assms have "terminal acct i False d = (r, d')" by simp
  from cancel_cases [OF this assms(2)] terminal_keeps [OF assms(1)] show ?thesis
    by (auto simp: refines_def intro!: jstep.operate op_step.cancel)
qed

section \<open>Multi-statement operations\<close>

definition kept :: "'t db \<Rightarrow> 't db \<Rightarrow> bool" where
  "kept d d' \<longleftrightarrow> txn d' = txn d \<and> same_library d d'"

lemma kept_refl [simp]: "kept d d"
  by (simp add: kept_def)

lemma kept_trans: "kept a b \<Longrightarrow> kept b c \<Longrightarrow> kept a c"
  by (auto simp: kept_def intro: same_library_trans)

lemma kept_chain:
  assumes "chain p f = (r, s')" and "\<And>q s. p = (q, s) \<Longrightarrow> kept d s"
    and "\<And>x s r s'. p = (Inr x, s) \<Longrightarrow> f x s = (r, s') \<Longrightarrow> kept s s'"
  shows "kept d s'"
  using assms by (cases p; cases "fst p") (auto simp: chain_def intro: kept_trans)

lemmas kept_statement =
  journal_query_keeps [THEN conjunct2, folded kept_def]
  journal_modify_keeps [folded kept_def]
  journal_update_one_keeps [folded kept_def]
  RCWriteJournalGet_keeps [THEN conjunct2, folded kept_def]
  terminal_keeps [folded kept_def]

lemma journal_query_Inr:
  "journal_query q d = (Inr x, d') \<Longrightarrow> q (tables d) = x \<and> tables d' = tables d \<and> kept d d'"
  using journal_query_row [of q d x d'] journal_query_keeps [of q d "Inr x" d'] by (simp add: kept_def)

text \<open>Bodies built from journal statements leave the transaction stack alone.\<close>

lemma balanced_kept: "(\<And>d r d'. body d = (r, d') \<Longrightarrow> kept d d') \<Longrightarrow> balanced body"
  by (auto simp: balanced_def kept_def)

lemma balanced_keptD: "balanced body \<Longrightarrow> body d = (r, d') \<Longrightarrow> kept d d'"
  by (auto simp: balanced_def kept_def)

lemma balanced_return: "balanced (\<lambda>d. (r, d))"
  by (simp add: balanced_def)

lemma balanced_chain:
  assumes "balanced p" and "\<And>x. balanced (f x)"
  shows "balanced (\<lambda>d. chain (p d) f)"
  by (rule balanced_kept, erule kept_chain)
    (auto intro: balanced_keptD [OF assms(1)] balanced_keptD [OF assms(2)])

lemma balanced_if: "balanced f \<Longrightarrow> balanced g \<Longrightarrow> balanced (\<lambda>d. if b then f d else g d)"
  by (cases b) simp_all

lemma balanced_option:
  "balanced f \<Longrightarrow> (\<And>y. balanced (g y)) \<Longrightarrow>
     balanced (\<lambda>d. case x of None \<Rightarrow> f d | Some y \<Rightarrow> g y d)"
  by (cases x) simp_all

lemma balanced_statement:
  "balanced (journal_query q)" "balanced (journal_modify m)" "balanced (journal_update_one msg u)"
  "balanced (RCWriteJournalGet acct i)" "balanced (terminal acct i ack)"
  by (rule balanced_kept, erule kept_statement)+

lemmas balanced_intros =
  balanced_return balanced_chain balanced_if balanced_option balanced_statement

lemma balanced_enqueue: "balanced (enqueue_body acct change key href knd revision body len)"
  unfolding enqueue_body_def by (intro balanced_intros)

lemma enqueue_body_Inr:
  assumes "enqueue_body acct change key href knd revision body len d = (Inr i, d')"
  shows "(\<exists>s. find_change acct change (tables d) = Some s \<and> \<not> replay_differs key href knd revision body len s \<and>
            i = op_id s \<and> tables d' = tables d) \<or>
         (find_change acct change (tables d) = None \<and> find_unresolved acct key href (tables d) = None \<and>
          \<not> base_refuses knd href revision (find_base acct key (tables d)) \<and>
          insert_op (enqueue_row acct change key href knd revision (blob body len) (tables d)) (tables d) =
            Some (tables d', i))"
proof -
  from assms [unfolded enqueue_body_def] obtain row d1
    where q1: "journal_query (find_change acct change) d = (Inr row, d1)"
      and k1: "(case row of Some r \<Rightarrow>
           (if replay_differs key href knd revision body len r
            then (Inl (RCErrorSet 1 ''Local change identifier was reused for a different operation''), d1)
            else (Inr (op_id r), d1))
       | None \<Rightarrow>
           chain (journal_query (find_unresolved acct key href) d1) (\<lambda>busy d.
             if busy \<noteq> None then (Inl (RCErrorSet 1 ''Resource already has an unresolved write''), d)
             else chain (journal_query (find_base acct key) d) (\<lambda>base d.
               if base_refuses knd href revision base
               then (Inl (RCErrorSet 1 ''Write requires the exact published base and a strong ETag''), d)
               else journal_modify (\<lambda>t.
                 insert_op (enqueue_row acct change key href knd revision (blob body len) t) t) d))) = (Inr i, d')"
    by (rule chain_InrE)
  from journal_query_keeps [OF q1] journal_query_row [OF q1]
  have t1: "tables d1 = tables d" and row: "find_change acct change (tables d) = row" by simp_all
  show ?thesis
  proof (cases row)
    case (Some s)
    with k1 row t1 show ?thesis by (auto split: if_splits)
  next
    case None
    with k1 show ?thesis
      using row t1
      by (auto elim!: chain_InrE split: if_splits dest!: journal_query_Inr journal_modify_Inr)
  qed
qed

text \<open>What an accepted call of \<open>RCWriteJournalEnqueue\<close> was given.\<close>

definition enqueue_args ::
  "string option \<Rightarrow> string option \<Rightarrow> string option \<Rightarrow> string option \<Rightarrow> int \<Rightarrow> bytes option \<Rightarrow> nat \<Rightarrow>
   (string \<times> string \<times> string \<times> op_kind) option" where
  "enqueue_args change key href knd revision body len =
     (case (change, key, href, Option.bind knd kind_of_string) of
        (Some c, Some k, Some h, Some kd) \<Rightarrow>
          if c = [] \<or> k = [] \<or> take 8 h \<noteq> ''https://'' \<or> len > INT_MAX \<or>
             (kd = Delete \<and> (body \<noteq> None \<or> len \<noteq> 0)) \<or> (kd \<noteq> Delete \<and> (body = None \<or> len = 0)) \<or>
             (if kd = Create then revision \<noteq> 0 else revision \<le> 0)
          then None else Some (c, k, h, kd)
      | _ \<Rightarrow> None)"

lemma Enqueue_unfold:
  "(\<exists>c k h kd. enqueue_args change key href knd revision body len = Some (c, k, h, kd) \<and>
      RCWriteJournalEnqueue acct change key href knd revision body len d =
        with_savepoint ''enqueue_write'' journal_fail (enqueue_body acct c k h kd revision body len) d) \<or>
   (enqueue_args change key href knd revision body len = None \<and>
      (\<exists>e. RCWriteJournalEnqueue acct change key href knd revision body len d = (Inl e, d)))"
  by (auto simp: RCWriteJournalEnqueue_def enqueue_args_def split: option.splits)

lemma insert_op_Some:
  assumes "insert_op mk t = Some (t', i)"
  shows "i = next_op_id t \<and> t' = t\<lparr>write_operations := write_operations t @ [mk i]\<rparr> \<and>
    find_change (op_account (mk i)) (op_change (mk i)) t = None \<and> has_account (op_account (mk i)) t"
  using assms by (auto simp: insert_op_def Let_def split: if_splits)

lemma Enqueue_cases:
  assumes "RCWriteJournalEnqueue acct change key href knd revision body len d = (r, d')"
    and "undo_ok d"
  shows "kept d d' \<and>
    ((\<not> is_ok r \<and> tables d' = tables d) \<or>
     (\<exists>c k h kd i. enqueue_args change key href knd revision body len = Some (c, k, h, kd) \<and> r = Inr i \<and>
       ((\<exists>s. find_change acct c (tables d) = Some s \<and> \<not> replay_differs k h kd revision body len s \<and>
            i = op_id s \<and> tables d' = tables d) \<or>
        (find_change acct c (tables d) = None \<and> find_unresolved acct k h (tables d) = None \<and>
          has_account acct (tables d) \<and>
          \<not> base_refuses kd h revision (find_base acct k (tables d)) \<and> i = next_op_id (tables d) \<and>
          tables d' = (tables d)\<lparr>write_operations := write_operations (tables d) @
            [enqueue_row acct c k h kd revision (blob body len) (tables d) i]\<rparr>))))"
  using Enqueue_unfold [of change key href knd revision body len acct d]
proof (elim disjE exE conjE)
  fix c k h kd
  assume a: "enqueue_args change key href knd revision body len = Some (c, k, h, kd)"
    and e: "RCWriteJournalEnqueue acct change key href knd revision body len d =
        with_savepoint ''enqueue_write'' journal_fail (enqueue_body acct c k h kd revision body len) d"
  show ?thesis
  proof (cases r)
    case (Inl err)
    with e assms(1) have "with_savepoint ''enqueue_write'' journal_fail
        (enqueue_body acct c k h kd revision body len) d = (Inl err, d')" by simp
    from with_savepoint_failure [OF balanced_enqueue assms(2) this] Inl show ?thesis
      by (simp add: kept_def)
  next
    case (Inr i)
    with e assms(1) have "with_savepoint ''enqueue_write'' journal_fail
        (enqueue_body acct c k h kd revision body len) d = (Inr i, d')" by simp
    from with_savepoint_success [OF balanced_enqueue this] obtain d1 d2
      where b: "enqueue_body acct c k h kd revision body len d1 = (Inr i, d2)"
        and t: "tables d1 = tables d" "tables d' = tables d2" "txn d' = txn d" "same_library d d'"
      by metis
    from enqueue_body_Inr [OF b] t a Inr show ?thesis
      by (auto simp: kept_def enqueue_row_def dest!: insert_op_Some)
  qed
next
  fix err
  assume "RCWriteJournalEnqueue acct change key href knd revision body len d = (Inl err, d)"
  with assms(1) show ?thesis by auto
qed

lemma enqueue_args_Some:
  assumes "enqueue_args change key href knd revision body len = Some (c, k, h, kd)"
  shows "(kd = Delete \<longrightarrow> body = None \<and> len = 0) \<and> (kd \<noteq> Delete \<longrightarrow> body \<noteq> None \<and> 0 < len) \<and>
    (if kd = Create then revision = 0 else 0 < revision)"
  using assms by (auto simp: enqueue_args_def split: option.splits if_splits)

lemma Enqueue_refines:
  assumes "RCWriteJournalEnqueue acct change key href knd revision body len d = (r, d')"
    and "undo_ok d" and "buffer_ok body len"
  shows "refines d r d'"
proof -
  note args = enqueue_args_Some [of change key href knd revision body len]
  note ne = blob_nonempty [OF assms(3)]
  from Enqueue_cases [OF assms(1,2)] show ?thesis
    unfolding refines_def kept_def
    using args ne
    by (fastforce simp: blob_def intro!: jstep.enqueue)
qed


section \<open>Resolving a conflict\<close>

lemma balanced_resolve: "balanced (resolve_body acct i knd body len receipt)"
proof -
  have replay: "balanced (\<lambda>d. case RCWriteJournalGet acct j d of (Inl e, d) \<Rightarrow> (Inl e', d)
      | (Inr nxt, d) \<Rightarrow> if P nxt then (Inl e', d) else (Inr j, d))" for j :: int and e' P
    by (rule balanced_kept)
      (auto split: prod.splits sum.splits if_splits dest: kept_statement)
  show ?thesis
    unfolding resolve_body_def RCWriteJournalCancel_def Let_def
    by (intro balanced_intros replay)
qed

lemma insert_resolution_Some:
  "insert_resolution i succ receipt t = Some (t', u) \<Longrightarrow>
     t' = t\<lparr>write_resolutions := write_resolutions t @
       [\<lparr>r_operation = i, r_successor = succ, r_receipt = receipt, r_mirrored = False\<rparr>]\<rparr>"
  by (auto simp: insert_resolution_def split: if_splits)

text \<open>The recorded resolution that a repeated decision must match.\<close>

definition resolution_replays ::
  "int \<Rightarrow> int \<Rightarrow> op_kind \<Rightarrow> bytes option \<Rightarrow> nat \<Rightarrow> bytes \<Rightarrow> 'z jtables \<Rightarrow> int \<Rightarrow> bool" where
  "resolution_replays acct i knd body len receipt t j \<longleftrightarrow>
     (\<exists>x s. find_resolution i t = Some x \<and> r_receipt x = receipt \<and> r_successor x = j \<and>
        find_op acct j t = Some s \<and> op_kind s = knd \<and> length (bytes_of (op_desired s)) = len \<and>
        (len \<noteq> 0 \<longrightarrow> bytes_of (op_desired s) = take len (bytes_of body)))"

definition resolution_fresh ::
  "int \<Rightarrow> int \<Rightarrow> op_kind \<Rightarrow> bytes option \<Rightarrow> nat \<Rightarrow> bytes \<Rightarrow> 'z jtables \<Rightarrow> 'z jtables \<Rightarrow> bool" where
  "resolution_fresh acct i knd body len receipt t t' \<longleftrightarrow>
     (\<exists>r. find_op acct i t = Some r \<and> find_resolution i t = None \<and>
        \<not> no_usable_revision knd (read_operation r) \<and>
        find_change acct (op_change (successor_row acct knd (read_operation r) body len 0)) t = None \<and>
        t' = resolve_tables i (successor_row acct knd (read_operation r) body len) receipt t)"

text \<open>The four statements of a new resolution, run one after the other.\<close>

lemma resolve_statements:
  assumes "chain (journal_modify (insert_op mk) d) (\<lambda>succ d.
             chain (journal_modify (insert_resolution i succ receipt) d) (\<lambda>_ d.
             chain (RCWriteJournalCancel acct i d) (\<lambda>_ d.
             chain (journal_modify (\<lambda>t. Some (t\<lparr>write_attention :=
                 filter (\<lambda>a. a_operation a \<noteq> i) (write_attention t)\<rparr>, ())) d) (\<lambda>_ d.
               (Inr succ, d))))) = (Inr j, d')"
    and ids: "ids_inv (tables d)"
    and r: "r \<in> set (write_operations (tables d))" "op_id r = i"
    and mk: "\<And>n. op_id (mk n) = n"
  shows "j = next_op_id (tables d) \<and> tables d' = resolve_tables i mk receipt (tables d) \<and>
    find_change (op_account (mk j)) (op_change (mk j)) (tables d) = None"
proof -
  from assms(1) obtain d1 where 1: "journal_modify (insert_op mk) d = (Inr j, d1)" and
    "chain (journal_modify (insert_resolution i j receipt) d1) (\<lambda>_ d.
       chain (RCWriteJournalCancel acct i d) (\<lambda>_ d.
       chain (journal_modify (\<lambda>t. Some (t\<lparr>write_attention :=
           filter (\<lambda>a. a_operation a \<noteq> i) (write_attention t)\<rparr>, ())) d) (\<lambda>_ d. (Inr j, d)))) = (Inr j, d')"
    by (auto elim!: chain_InrE)
  then obtain d2 d3 u where 2: "journal_modify (insert_resolution i j receipt) d1 = (Inr u, d2)"
    and 3: "terminal acct i False d2 = (Inr (), d3)"
    and 4: "journal_modify (\<lambda>t. Some (t\<lparr>write_attention :=
           filter (\<lambda>a. a_operation a \<noteq> i) (write_attention t)\<rparr>, ())) d3 = (Inr (), d')"
    by (auto elim!: chain_InrE simp: RCWriteJournalCancel_def)
  from journal_modify_Inr [OF 1] insert_op_Some
  have j: "j = next_op_id (tables d)" and t1: "tables d1 = add_op (mk j) (tables d)"
    and fc: "find_change (op_account (mk j)) (op_change (mk j)) (tables d) = None"
    by (fastforce simp: add_op_def)+
  from journal_modify_Inr [OF 2] insert_resolution_Some
  have t2: "tables d2 = (tables d1)\<lparr>write_resolutions := write_resolutions (tables d1) @
       [\<lparr>r_operation = i, r_successor = j, r_receipt = receipt, r_mirrored = False\<rparr>]\<rparr>" by fastforce
  have ids1: "ids_inv (add_op (mk j) (tables d))" using ids mk j fc by (intro ids_inv_add) auto
  then have ids2: "ids_inv (tables d2)" by (simp add: t1 t2 ids_inv_def)
  have r2: "r \<in> set (write_operations (tables d2))" using r by (simp add: t1 t2)
  from cancel_cases [OF 3 ids2] obtain s where "s \<in> set (write_operations (tables d2))" "op_id s = i"
    and t3: "tables d3 = set_row (s\<lparr>op_state := Cancelled\<rparr>) (tables d2)" by auto
  with r2 r(2) ids2 have s: "s = r" by (auto dest: ids_inv_eq)
  from journal_modify_Inr [OF 4] have t4: "tables d' = (tables d3)\<lparr>write_attention :=
       filter (\<lambda>a. a_operation a \<noteq> i) (write_attention (tables d3))\<rparr>" by simp
  have "write_operations (resolve_tables i mk receipt (tables d)) = write_operations (tables d')"
    using resolve_tables_alt [OF ids r(1), of mk receipt] mk r j next_op_id_fresh [OF r(1)]
    by (simp add: t4 t3 s t2 t1 set_row_def update_rows_def)
  then have "tables d' = resolve_tables i mk receipt (tables d)"
    by (simp add: t4 t3 t2 t1 j set_row_def add_op_def resolve_tables_def)
  with j fc show ?thesis by simp
qed


lemma Get_Inr:
  assumes "RCWriteJournalGet acct i d = (Inr x, d')"
  shows "\<exists>r. find_op acct i (tables d) = Some r \<and> x = read_operation r \<and> tables d' = tables d"
  using RCWriteJournalGet_row [OF assms] RCWriteJournalGet_keeps [OF assms] by metis

lemma resolve_body_Inr:
  assumes "resolve_body acct i knd body len receipt d = (Inr j, d')" and "ids_inv (tables d)"
  shows "(resolution_replays acct i knd body len receipt (tables d) j \<and> tables d' = tables d) \<or>
         (j = next_op_id (tables d) \<and>
          resolution_fresh acct i knd body len receipt (tables d) (tables d'))"
proof -
  let ?different = "Inl (RCErrorSet 1 ''Conflict already has a different resolution'') :: int res"
  from assms(1) obtain old d1 row d2 where
    1: "RCWriteJournalGet acct i d = (Inr old, d1)" and
    2: "journal_query (find_resolution i) d1 = (Inr row, d2)" and
    3: "(case row of
         Some x \<Rightarrow>
           if receipt \<noteq> r_receipt x then (?different, d2)
            else (case RCWriteJournalGet acct (r_successor x) d2 of
                (Inl e, d) \<Rightarrow> (?different, d)
              | (Inr nxt, d) \<Rightarrow>
                  if o_kind nxt \<noteq> knd \<or> length (bytes_of (o_desiredBody nxt)) \<noteq> len \<or>
                     (len \<noteq> 0 \<and> bytes_of (o_desiredBody nxt) \<noteq> take len (bytes_of body))
                  then (?different, d) else (Inr (r_successor x), d))
       | None \<Rightarrow>
           if no_usable_revision knd old
           then (Inl (RCErrorSet 1 ''Conflict has no usable remote revision for this decision''), d2)
           else chain (journal_modify (insert_op (successor_row acct knd old body len)) d2) (\<lambda>succ d.
                chain (journal_modify (insert_resolution i succ receipt) d) (\<lambda>_ d.
                chain (RCWriteJournalCancel acct i d) (\<lambda>_ d.
                chain (journal_modify (\<lambda>t. Some (t\<lparr>write_attention :=
                          filter (\<lambda>a. a_operation a \<noteq> i) (write_attention t)\<rparr>, ())) d) (\<lambda>_ d.
                  (Inr succ, d)))))) = (Inr j, d')"
    unfolding resolve_body_def Let_def by (auto elim!: chain_InrE)
  from Get_Inr [OF 1] obtain r where r: "find_op acct i (tables d) = Some r" "old = read_operation r"
    and t1: "tables d1 = tables d" by auto
  from journal_query_Inr [OF 2] t1 have row: "find_resolution i (tables d) = row"
    and t2: "tables d2 = tables d" by auto
  show ?thesis
  proof (cases row)
    case (Some x)
    with 3 obtain nxt where g: "RCWriteJournalGet acct (r_successor x) d2 = (Inr nxt, d')"
      and m: "receipt = r_receipt x" "j = r_successor x" "o_kind nxt = knd"
        "length (bytes_of (o_desiredBody nxt)) = len"
        "len \<noteq> 0 \<longrightarrow> bytes_of (o_desiredBody nxt) = take len (bytes_of body)"
      by (auto split: if_splits prod.splits sum.splits)
    from Get_Inr [OF g] t2 m row Some show ?thesis by (auto simp: resolution_replays_def)
  next
    case None
    with 3 have u: "\<not> no_usable_revision knd old" and
      st: "chain (journal_modify (insert_op (successor_row acct knd old body len)) d2) (\<lambda>succ d.
                chain (journal_modify (insert_resolution i succ receipt) d) (\<lambda>_ d.
                chain (RCWriteJournalCancel acct i d) (\<lambda>_ d.
                chain (journal_modify (\<lambda>t. Some (t\<lparr>write_attention :=
                          filter (\<lambda>a. a_operation a \<noteq> i) (write_attention t)\<rparr>, ())) d) (\<lambda>_ d.
                  (Inr succ, d))))) = (Inr j, d')"
      by (auto split: if_splits)
    have ids: "ids_inv (tables d2)" using assms(2) t2 by simp
    from find_op_Some [OF r(1)] have "r \<in> set (write_operations (tables d2))" "op_id r = i"
      by (simp_all add: t2)
    from resolve_statements [OF st ids this] t2 r u row None show ?thesis
      by (auto simp: resolution_fresh_def successor_change)
  qed
qed

text \<open>What an accepted call of \<open>RCWriteJournalResolveConflict\<close> was given.\<close>

definition resolve_args ::
  "string option \<Rightarrow> bytes option \<Rightarrow> nat \<Rightarrow> bytes option \<Rightarrow> nat \<Rightarrow> (op_kind \<times> bytes) option" where
  "resolve_args knd body len receipt receiptLength =
     (case (Option.bind knd kind_of_string, receipt) of
        (Some kd, Some rc) \<Rightarrow>
          if receiptLength = 0 \<or> receiptLength > INT_MAX \<or> len > INT_MAX \<or>
             (if kd = Delete then body \<noteq> None \<or> len \<noteq> 0 else body = None \<or> len = 0)
          then None else Some (kd, take receiptLength rc)
      | _ \<Rightarrow> None)"

lemma resolve_args_Some:
  "resolve_args knd body len receipt receiptLength = Some (kd, rc) \<Longrightarrow>
     (kd \<noteq> Delete \<longrightarrow> body \<noteq> None \<and> 0 < len) \<and> (kd = Delete \<longrightarrow> body = None \<and> len = 0)"
  by (auto simp: resolve_args_def split: option.splits if_splits)

lemma Resolve_unfold:
  "(\<exists>kd rc. resolve_args knd body len receipt receiptLength = Some (kd, rc) \<and>
      RCWriteJournalResolveConflict acct i knd body len receipt receiptLength d =
        with_savepoint ''resolve_write'' journal_fail (resolve_body acct i kd body len rc) d) \<or>
   (resolve_args knd body len receipt receiptLength = None \<and>
      (\<exists>e. RCWriteJournalResolveConflict acct i knd body len receipt receiptLength d = (Inl e, d)))"
  by (auto simp: RCWriteJournalResolveConflict_def resolve_args_def split: option.splits)

lemma Resolve_cases:
  assumes "RCWriteJournalResolveConflict acct i knd body len receipt receiptLength d = (r, d')"
    and "undo_ok d" and "ids_inv (tables d)"
  shows "kept d d' \<and>
    ((\<not> is_ok r \<and> tables d' = tables d) \<or>
     (\<exists>kd rc j. resolve_args knd body len receipt receiptLength = Some (kd, rc) \<and> r = Inr j \<and>
       ((resolution_replays acct i kd body len rc (tables d) j \<and> tables d' = tables d) \<or>
        (j = next_op_id (tables d) \<and> resolution_fresh acct i kd body len rc (tables d) (tables d')))))"
  using Resolve_unfold [of knd body len receipt receiptLength acct i d]
proof (elim disjE exE conjE)
  fix kd rc
  assume a: "resolve_args knd body len receipt receiptLength = Some (kd, rc)"
    and e: "RCWriteJournalResolveConflict acct i knd body len receipt receiptLength d =
        with_savepoint ''resolve_write'' journal_fail (resolve_body acct i kd body len rc) d"
  show ?thesis
  proof (cases r)
    case (Inl err)
    with e assms(1) have "with_savepoint ''resolve_write'' journal_fail
        (resolve_body acct i kd body len rc) d = (Inl err, d')" by simp
    from with_savepoint_failure [OF balanced_resolve assms(2) this] Inl show ?thesis
      by (simp add: kept_def)
  next
    case (Inr j)
    with e assms(1) have "with_savepoint ''resolve_write'' journal_fail
        (resolve_body acct i kd body len rc) d = (Inr j, d')" by simp
    from with_savepoint_success [OF balanced_resolve this] obtain d1 d2
      where b: "resolve_body acct i kd body len rc d1 = (Inr j, d2)"
        and t: "tables d1 = tables d" "tables d' = tables d2" "txn d' = txn d" "same_library d d'"
      by metis
    have "ids_inv (tables d1)" using assms(3) t by simp
    from resolve_body_Inr [OF b this] t a Inr show ?thesis by (auto simp: kept_def)
  qed
next
  fix err
  assume "RCWriteJournalResolveConflict acct i knd body len receipt receiptLength d = (Inl err, d)"
  with assms(1) show ?thesis by auto
qed

lemma resolution_fresh_step:
  assumes "resolution_fresh acct i knd body len receipt t t'"
    and "knd \<noteq> Delete \<Longrightarrow> bytes_of (blob body len) \<noteq> []"
  shows "jstep t t'"
proof -
  from assms(1) obtain r where f: "find_op acct i t = Some r" "find_resolution i t = None"
    "\<not> no_usable_revision knd (read_operation r)"
    "find_change acct (op_change (successor_row acct knd (read_operation r) body len 0)) t = None"
    and t': "t' = resolve_tables i (successor_row acct knd (read_operation r) body len) receipt t"
    by (auto simp: resolution_fresh_def)
  from find_op_Some [OF f(1)] have r: "r \<in> set (write_operations t)" "op_account r = acct" "op_id r = i"
    by auto
  from jstep.resolve [OF r(1,2) f(3) assms(2) _ f(4), of receipt] f(2) r(3) t' show ?thesis by simp
qed

lemma Resolve_refines:
  assumes "RCWriteJournalResolveConflict acct i knd body len receipt receiptLength d = (r, d')"
    and "undo_ok d" and "ids_inv (tables d)" and "buffer_ok body len"
  shows "refines d r d'"
proof -
  note args = resolve_args_Some [of knd body len receipt receiptLength]
  note ne = blob_nonempty [OF assms(4)]
  from Resolve_cases [OF assms(1-3)] show ?thesis
    unfolding refines_def kept_def using args ne
    by (fastforce intro: resolution_fresh_step)
qed

section \<open>Attention and mirror checkpoints\<close>

lemma ConflictAttention_refines:
  assumes "RCWriteJournalConflictAttention acct i reason d = (r, d')"
  shows "refines d r d'"
proof (cases r)
  case (Inl e)
  have "balanced (RCWriteJournalConflictAttention acct i reason)"
    unfolding RCWriteJournalConflictAttention_def by (intro balanced_intros)
  from balanced_keptD [OF this assms] have "kept d d'" .
  moreover have "tables d' = tables d"
    using assms Inl
    by (auto simp: RCWriteJournalConflictAttention_def chain_def
        split: option.splits prod.splits sum.splits if_splits
        dest!: RCWriteJournalGet_keeps journal_modify_Inl)
  ultimately show ?thesis by (simp add: refines_def kept_def)
next
  case (Inr u)
  with assms obtain old d1 where g: "RCWriteJournalGet acct i d = (Inr old, d1)"
    and m: "journal_modify (\<lambda>t. Some (set_attention i reason t, ())) d1 = (Inr (), d')"
    by (auto simp: RCWriteJournalConflictAttention_def elim!: chain_InrE split: option.splits if_splits)
  from Get_Inr [OF g] obtain s where s: "find_op acct i (tables d) = Some s" and t1: "tables d1 = tables d"
    by auto
  from journal_modify_Inr [OF m] t1 have "tables d' = set_attention i reason (tables d)" by simp
  moreover have "jstep (tables d) (set_attention i reason (tables d))"
    using find_op_Some [OF s] jstep.attention by blast
  moreover have "kept d d'"
    using RCWriteJournalGet_keeps [OF g] journal_modify_keeps [OF m]
    by (auto simp: kept_def intro: same_library_trans)
  ultimately show ?thesis using Inr by (simp add: refines_def kept_def)
qed

lemma mirror_resolutions_one:
  assumes "journal_inv t" and "mirror_resolutions acct i t = (t', n)"
  shows "(n = 0 \<and> t' = t) \<or>
    (n = 1 \<and> (\<exists>r \<in> set (write_operations t). op_account r = acct \<and> op_id r = i \<and> op_state r = Applied \<and>
       t' = t\<lparr>write_resolutions :=
         update_rows (\<lambda>x. r_successor x = op_id r) (\<lambda>x. x\<lparr>r_mirrored := True\<rparr>) (write_resolutions t)\<rparr>))"
proof (cases "\<exists>r \<in> set (write_operations t). op_account r = acct \<and> op_id r = i \<and> op_state r = Applied")
  case True
  then obtain r where r: "r \<in> set (write_operations t)" "op_account r = acct" "op_id r = i" "op_state r = Applied"
    by blast
  from True have P: "(\<lambda>x. r_successor x = i \<and> (\<exists>r \<in> set (write_operations t). op_account r = acct \<and>
      op_id r = i \<and> op_state r = Applied)) = (\<lambda>x. r_successor x = i)" by simp
  have d: "distinct (map r_successor (write_resolutions t))"
    using assms(1) by (simp add: journal_inv_def resolutions_inv_def)
  show ?thesis
  proof (cases "\<exists>x \<in> set (write_resolutions t). r_successor x = i")
    case True
    then obtain x where "x \<in> set (write_resolutions t)" "r_successor x = i" by blast
    with d have "count_rows (\<lambda>x. r_successor x = i) (write_resolutions t) = 1"
      by (intro count_rows_key [of r_successor _ x]) auto
    with assms(2) r show ?thesis by (auto simp: mirror_resolutions_def P Let_def)
  next
    case False
    then have "count_rows (\<lambda>x. r_successor x = i) (write_resolutions t) = 0"
      and "update_rows (\<lambda>x. r_successor x = i) (\<lambda>x. x\<lparr>r_mirrored := True\<rparr>) (write_resolutions t) =
        write_resolutions t"
      by (auto simp: count_rows_zero update_rows_def map_idI)
    with assms(2) show ?thesis by (auto simp: mirror_resolutions_def P Let_def)
  qed
next
  case False
  then have P: "(\<lambda>x. r_successor x = i \<and> (\<exists>r \<in> set (write_operations t). op_account r = acct \<and>
      op_id r = i \<and> op_state r = Applied)) = (\<lambda>x. False)" by auto
  from assms(2) show ?thesis
    unfolding mirror_resolutions_def Let_def P by (auto simp: count_rows_def update_rows_def)
qed

lemma ResolutionMirrored_refines:
  assumes "RCWriteJournalResolutionMirrored acct i d = (r, d')" and "journal_inv (tables d)"
  shows "refines d r d'"
proof (cases "autocommit d")
  case True
  with assms(1) show ?thesis by (auto simp: RCWriteJournalResolutionMirrored_def refines_def)
next
  case False
  with assms(1) have u: "journal_update_one ''Resolution is not ready for mirror completion''
      (mirror_resolutions acct i) d = (r, d')" by (simp add: RCWriteJournalResolutionMirrored_def)
  have "tables d' = tables d \<or> (r = Inr () \<and> jstep (tables d) (tables d'))"
    using journal_update_one_result [OF u] mirror_resolutions_one [OF assms(2), of acct i "tables d'"]
      jstep.mirrored [of _ "tables d"] by fastforce
  with journal_update_one_keeps [OF u] show ?thesis by (auto simp: refines_def)
qed

lemma Initialize_refines:
  assumes "RCWriteJournalInitialize d = (r, d')"
  shows "refines d r d'"
  using assms
  by (auto simp: RCWriteJournalInitialize_def journal_exec_def Let_def refines_def same_library_def
      journal_part_def split: prod.splits if_splits dest!: sql_call_keeps intro!: jstep.frame)

section \<open>Reads\<close>

lemma journal_scan_result:
  assumes "journal_scan P d = (Inr i, d')"
  shows "(i = 0 \<and> (\<forall>r \<in> set (write_operations (tables d)). \<not> P (tables d) r)) \<or>
    (\<exists>r \<in> set (write_operations (tables d)). op_id r = i \<and> P (tables d) r \<and>
       (\<forall>s \<in> set (write_operations (tables d)). P (tables d) s \<longrightarrow> i \<le> op_id s))"
proof -
  from assms obtain row where
    q: "least_id (map op_id (filter (P (tables d)) (write_operations (tables d)))) = row"
    and i: "i = (case row of None \<Rightarrow> 0 | Some i \<Rightarrow> i)"
    by (auto simp: journal_scan_def elim!: chain_InrE dest!: journal_query_Inr)
  show ?thesis
  proof (cases row)
    case None
    with q i show ?thesis by (auto simp: filter_empty_conv)
  next
    case (Some j)
    from least_id_Some [OF q [unfolded Some]] i Some show ?thesis by auto
  qed
qed

end
