(* ===== verification/JournalReach.thy ===== *)
theory JournalReach
  imports JournalRefine
begin

text \<open>
  Runs of the write journal: calls of its exported functions in any order, interleaved
  with transaction statements and with changes of other tables, under any pattern of
  failing library calls. The theorems of this theory are the journal's contract: the
  invariant of every reachable journal, the durability of committed intents, the
  exactly-once behaviour of repeated calls, and the progress of due operations.
\<close>

section \<open>Runs\<close>

text \<open>One call of an exported function and whether it reported success.\<close>

inductive journal_call :: "'z jdb \<Rightarrow> bool \<Rightarrow> 'z jdb \<Rightarrow> bool" where
  initialize: "RCWriteJournalInitialize d = (r, d') \<Longrightarrow> journal_call d (is_ok r) d'"
| set_base: "RCWriteJournalSetBase acct key href etag body len revision d = (r, d') \<Longrightarrow>
     journal_call d (is_ok r) d'"
| enqueue: "RCWriteJournalEnqueue acct change key href knd revision body len d = (r, d') \<Longrightarrow>
     buffer_ok body len \<Longrightarrow> journal_call d (is_ok r) d'"
| get: "RCWriteJournalGet acct i d = (r, d') \<Longrightarrow> journal_call d (is_ok r) d'"
| scan: "journal_scan P d = (r, d') \<Longrightarrow> journal_call d (is_ok r) d'"
| begin_attempt: "RCWriteJournalBeginAttempt acct i now d = (r, d') \<Longrightarrow> journal_call d (is_ok r) d'"
| record_result: "RCWriteJournalRecordResult acct i state status etag body len d = (r, d') \<Longrightarrow>
     buffer_ok body len \<Longrightarrow> journal_call d (is_ok r) d'"
| acknowledge: "RCWriteJournalAcknowledge acct i d = (r, d') \<Longrightarrow> journal_call d (is_ok r) d'"
| cancel: "RCWriteJournalCancel acct i d = (r, d') \<Longrightarrow> journal_call d (is_ok r) d'"
| resolve: "RCWriteJournalResolveConflict acct i knd body len receipt receiptLength d = (r, d') \<Longrightarrow>
     buffer_ok body len \<Longrightarrow> journal_call d (is_ok r) d'"
| attention: "RCWriteJournalConflictAttention acct i reason d = (r, d') \<Longrightarrow> journal_call d (is_ok r) d'"
| mirrored: "RCWriteJournalResolutionMirrored acct i d = (r, d') \<Longrightarrow> journal_call d (is_ok r) d'"

text \<open>A step of the whole program, as the journal sees it.\<close>

inductive program_step :: "'z jdb \<Rightarrow> 'z jdb \<Rightarrow> bool" where
  call: "journal_call d ok d' \<Longrightarrow> program_step d d'"
| transaction: "control d d' \<Longrightarrow> program_step d d'"
| elsewhere: "journal_part (tables d') = journal_part (tables d) \<Longrightarrow> txn d' = txn d \<Longrightarrow>
     same_library d d' \<Longrightarrow> program_step d d'"

text \<open>A connection on which the journal has just been created.\<close>

definition fresh_journal :: "'z jdb \<Rightarrow> bool" where
  "fresh_journal d \<longleftrightarrow> undo_ok d \<and> txn d = [] \<and> write_operations (tables d) = [] \<and>
     write_resolutions (tables d) = [] \<and> write_attention (tables d) = []"

text \<open>
  Later tables keep every recorded operation with its intent, every terminal state, and
  every resolution with its receipt and its mirror checkpoint.
\<close>

definition keeps_ops :: "'z jtables \<Rightarrow> 'z jtables \<Rightarrow> bool" where
  "keeps_ops t t' \<longleftrightarrow> (\<forall>r \<in> set (write_operations t). \<exists>r' \<in> set (write_operations t').
     intent r' = intent r \<and> (unresolved r \<or> op_state r' = op_state r))"

definition keeps_resolutions :: "'z jtables \<Rightarrow> 'z jtables \<Rightarrow> bool" where
  "keeps_resolutions t t' \<longleftrightarrow> (\<forall>x \<in> set (write_resolutions t). \<exists>x' \<in> set (write_resolutions t').
     r_operation x' = r_operation x \<and> r_successor x' = r_successor x \<and> r_receipt x' = r_receipt x \<and>
     (\<not> r_mirrored x \<or> r_mirrored x'))"

definition extends :: "'z jtables \<Rightarrow> 'z jtables \<Rightarrow> bool" where
  "extends t t' \<longleftrightarrow> keeps_ops t t' \<and> keeps_resolutions t t'"

lemma extends_refl: "extends t t"
  by (auto simp: extends_def keeps_ops_def keeps_resolutions_def)

lemma keeps_ops_trans: "keeps_ops a b \<Longrightarrow> keeps_ops b c \<Longrightarrow> keeps_ops a c"
  unfolding keeps_ops_def by (metis unresolved_def)

lemma keeps_resolutions_trans: "keeps_resolutions a b \<Longrightarrow> keeps_resolutions b c \<Longrightarrow> keeps_resolutions a c"
  unfolding keeps_resolutions_def by metis

lemma extends_trans: "extends a b \<Longrightarrow> extends b c \<Longrightarrow> extends a c"
  using keeps_ops_trans keeps_resolutions_trans unfolding extends_def by blast

lemma keeps_opsI:
  "(\<And>r. r \<in> set (write_operations t) \<Longrightarrow> r \<in> set (write_operations t')) \<Longrightarrow> keeps_ops t t'"
  unfolding keeps_ops_def by blast

lemma keeps_resolutionsI:
  "(\<And>x. x \<in> set (write_resolutions t) \<Longrightarrow> x \<in> set (write_resolutions t')) \<Longrightarrow> keeps_resolutions t t'"
  unfolding keeps_resolutions_def by blast

lemma keeps_ops_set_row:
  assumes "ids_inv t" "r \<in> set (write_operations t)" "op_step r r'"
  shows "keeps_ops t (set_row r' t)"
  unfolding keeps_ops_def
proof
  fix s assume s: "s \<in> set (write_operations t)"
  note st = op_step_intent [OF assms(3)] op_step_terminal [OF assms(3)] op_step_fields(1) [OF assms(3)]
  show "\<exists>s' \<in> set (write_operations (set_row r' t)). intent s' = intent s \<and> (unresolved s \<or> op_state s' = op_state s)"
  proof (cases "op_id s = op_id r")
    case True
    with s assms(1,2) have "s = r" by (auto dest: ids_inv_eq)
    with st set_row_mem [OF assms(2), of r'] show ?thesis by auto
  next
    case False
    with st s have "s \<in> set (write_operations (set_row r' t))" by (intro set_row_other) auto
    then show ?thesis by blast
  qed
qed

lemma jstep_extends:
  assumes "jstep t t'" and "journal_inv t"
  shows "extends t t'"
  using assms(1)
proof cases
  case frame
  then show ?thesis
    by (auto simp: journal_part_def extends_def intro: keeps_opsI keeps_resolutionsI)
next
  case (enqueue acct change key href knd revision desired)
  then show ?thesis by (auto simp: extends_def intro: keeps_opsI keeps_resolutionsI)
next
  case (operate r r')
  with assms(2) show ?thesis
    by (auto simp: extends_def journal_inv_def intro: keeps_resolutionsI keeps_ops_set_row)
next
  case (resolve r acct knd body len receipt)
  let ?mk = "successor_row acct knd (read_operation r) body len" and ?c = "r\<lparr>op_state := Cancelled\<rparr>"
  have ids: "ids_inv t" using assms(2) by (simp add: journal_inv_def)
  have "op_state r = Conflict" using resolve by (auto simp: no_usable_revision_def)
  then have "keeps_ops t (set_row ?c t)"
    using ids resolve by (intro keeps_ops_set_row [of _ r]) (auto intro: cancel_conflict_step)
  moreover have "keeps_ops (set_row ?c t) t'"
    using resolve_tables_alt [OF ids, of r ?mk receipt] resolve by (intro keeps_opsI) auto
  moreover have "keeps_resolutions t t'"
    using resolve by (intro keeps_resolutionsI) (simp add: resolve_tables_def)
  ultimately show ?thesis unfolding extends_def using keeps_ops_trans by blast
next
  case (attention r reason)
  then show ?thesis
    by (auto simp: extends_def set_attention_def intro: keeps_opsI keeps_resolutionsI)
next
  case (mirrored r)
  have "keeps_resolutions t t'"
    unfolding keeps_resolutions_def
  proof
    fix x assume x: "x \<in> set (write_resolutions t)"
    let ?x = "if r_successor x = op_id r then x\<lparr>r_mirrored := True\<rparr> else x"
    have "?x \<in> set (write_resolutions t')"
      using mirrored x by (auto simp: set_update_rows)
    then show "\<exists>x' \<in> set (write_resolutions t'). r_operation x' = r_operation x \<and>
        r_successor x' = r_successor x \<and> r_receipt x' = r_receipt x \<and> (\<not> r_mirrored x \<or> r_mirrored x')"
      by (rule bexI [rotated]) simp
  qed
  with mirrored show ?thesis by (auto simp: extends_def intro!: keeps_opsI)
qed

interpretation jt: tracked_tables journal_inv jstep extends
  by unfold_locales (auto intro: jstep_inv jstep_extends extends_refl extends_trans)

lemma refines_result:
  "refines d r d' \<Longrightarrow> txn d' = txn d \<and> same_library d d' \<and>
     (tables d' = tables d \<or> is_ok r \<and> jstep (tables d) (tables d'))"
  by (simp add: refines_def)

lemma journal_call_refines:
  assumes "journal_call d ok d'" and "undo_ok d" and "journal_inv (tables d)"
  shows "txn d' = txn d \<and> same_library d d' \<and> (tables d' = tables d \<or> ok \<and> jstep (tables d) (tables d'))"
proof -
  have ids: "ids_inv (tables d)" using assms(3) by (simp add: journal_inv_def)
  from assms(1) show ?thesis
  proof cases
    case (get acct i r)
    then show ?thesis using RCWriteJournalGet_keeps by blast
  next
    case (scan P r)
    then show ?thesis using journal_scan_keeps by blast
  qed (use ids assms(2,3) in \<open>auto simp: RCWriteJournalAcknowledge_def RCWriteJournalCancel_def
      intro!: refines_result intro: Initialize_refines SetBase_refines Enqueue_refines
      BeginAttempt_refines RecordResult_refines terminal_refines Resolve_refines
      ConflictAttention_refines ResolutionMirrored_refines\<close>)
qed

lemma program_step_sound:
  assumes "program_step d d'" and "jt.sound d"
  shows "jt.sound d' \<and> extends (committed d) (committed d')"
  using assms(1)
proof cases
  case (call ok)
  from journal_call_refines [OF call] assms(2) jt.step_sound [OF assms(2), of d'] show ?thesis
    by (auto simp: jt.sound_def)
next
  case transaction
  with assms(2) show ?thesis by (intro jt.control_sound)
next
  case elsewhere
  with assms(2) show ?thesis by (intro jt.step_sound) (auto intro: jstep.frame)
qed

lemma run_sound:
  assumes "program_step\<^sup>*\<^sup>* d d'" and "jt.sound d"
  shows "jt.sound d' \<and> extends (committed d) (committed d')"
  using assms
proof (induction rule: rtranclp_induct)
  case base
  then show ?case by (simp add: extends_refl)
next
  case (step y z)
  then show ?case using program_step_sound extends_trans by blast
qed

lemma fresh_journal_sound: "fresh_journal d \<Longrightarrow> jt.sound d"
  by (auto simp: fresh_journal_def jt.sound_def journal_inv_def ids_inv_def exclusive_inv_def
      rows_inv_def resolutions_inv_def)

lemma sound_tables_extend: "jt.sound d \<Longrightarrow> extends (committed d) (tables d)"
  unfolding jt.sound_def committed_def by (blast intro: jt.last_ext)


section \<open>Runs on a library whose calls all succeed\<close>

definition reliable :: "'t db \<Rightarrow> bool" where
  "reliable d \<longleftrightarrow> (\<forall>op n. outcome d op n)"

text \<open>\<open>d'\<close> is \<open>d\<close> with other tables and more calls counted.\<close>

definition on_tables :: "'t \<Rightarrow> 't db \<Rightarrow> 't db \<Rightarrow> bool" where
  "on_tables t d d' \<longleftrightarrow> tables d' = t \<and> txn d' = txn d \<and> same_library d d'"

lemma on_tablesD: "on_tables t d d' \<Longrightarrow> tables d' = t \<and> txn d' = txn d \<and> reliable d' = reliable d"
  by (auto simp: on_tables_def reliable_def same_library_def)

lemma on_tables_trans: "on_tables t d d' \<Longrightarrow> on_tables u d' e \<Longrightarrow> on_tables u d e"
  by (auto simp: on_tables_def intro: same_library_trans)

lemma reliable_query:
  "reliable d \<Longrightarrow> \<exists>d'. journal_query q d = (Inr (q (tables d)), d') \<and> on_tables (tables d) d d'"
  by (simp add: journal_query_def journal_prepare_def sql_prepare_def sql_query_def sql_call_def
      reliable_def on_tables_def same_library_def)

lemma reliable_get:
  "reliable d \<Longrightarrow> find_op acct i (tables d) = Some r \<Longrightarrow>
     \<exists>d'. RCWriteJournalGet acct i d = (Inr (read_operation r), d') \<and> on_tables (tables d) d d'"
  by (simp add: RCWriteJournalGet_def journal_prepare_def sql_prepare_def sql_query_def sql_call_def
      reliable_def on_tables_def same_library_def)

lemma reliable_update_one:
  "reliable d \<Longrightarrow> f (tables d) = (t, 1) \<Longrightarrow>
     \<exists>d'. journal_update_one msg f d = (Inr (), d') \<and> on_tables t d d'"
  by (simp add: journal_update_one_def journal_prepare_def sql_prepare_def sql_modify_def sql_call_def
      reliable_def on_tables_def same_library_def)

lemma reliable_savepoint:
  assumes "reliable d"
    and "\<And>d1. reliable d1 \<Longrightarrow> tables d1 = tables d \<Longrightarrow> \<exists>d2. body d1 = (Inr x, d2) \<and> on_tables t d1 d2"
  shows "\<exists>d'. with_savepoint n err body d = (Inr x, d') \<and> on_tables t d d'"
proof -
  let ?d1 = "d\<lparr>calls := Suc (calls d), txn := (Some n, tables d) # txn d\<rparr>"
  have "sql_savepoint n d = (True, ?d1)"
    using assms(1) by (simp add: sql_savepoint_def sql_call_def reliable_def)
  moreover from assms(2) [of ?d1] assms(1) obtain d2 where
    b: "body ?d1 = (Inr x, d2)" and d2: "on_tables t ?d1 d2" by (auto simp: reliable_def)
  moreover have "sql_release n d2 = (True, d2\<lparr>calls := Suc (calls d2), txn := txn d\<rparr>)"
    using assms(1) d2
    by (simp add: sql_release_def sql_call_def reliable_def on_tables_def same_library_def)
  ultimately show ?thesis
    using d2 by (auto simp: with_savepoint_def on_tables_def same_library_def)
qed

section \<open>Repeated calls\<close>

lemma intent_fields:
  "intent r = intent s \<longleftrightarrow> op_id r = op_id s \<and> op_account r = op_account s \<and> op_change r = op_change s \<and>
     op_key r = op_key s \<and> op_href r = op_href s \<and> op_kind r = op_kind s \<and>
     op_revision r = op_revision s \<and> op_base_etag r = op_base_etag s \<and>
     op_base_body r = op_base_body s \<and> op_desired r = op_desired s"
  by (auto simp: intent_def)

lemma find_change_unique:
  assumes "ids_inv t" "r \<in> set (write_operations t)"
  shows "find_change (op_account r) (op_change r) t = Some r"
  unfolding find_change_def
  by (rule find_unique [of "\<lambda>r. (op_account r, op_change r)"]) (use assms in \<open>auto simp: ids_inv_def\<close>)

lemma find_op_unique:
  assumes "ids_inv t" "r \<in> set (write_operations t)"
  shows "find_op (op_account r) (op_id r) t = Some r"
  unfolding find_op_def
  by (rule find_unique [of op_id]) (use assms in \<open>auto simp: ids_inv_def\<close>)

text \<open>The record that a call of \<open>RCWriteJournalEnqueue\<close> leaves, new or repeated.\<close>

definition enqueued ::
  "int \<Rightarrow> string \<Rightarrow> string \<Rightarrow> string \<Rightarrow> op_kind \<Rightarrow> int \<Rightarrow> bytes option \<Rightarrow> nat \<Rightarrow> int \<Rightarrow> 'z jtables \<Rightarrow> bool" where
  "enqueued acct c k h kd revision body len i t \<longleftrightarrow> (\<exists>r \<in> set (write_operations t).
     op_id r = i \<and> op_account r = acct \<and> op_change r = c \<and> \<not> replay_differs k h kd revision body len r)"

lemma find_change_Some:
  "find_change acct c t = Some r \<Longrightarrow> r \<in> set (write_operations t) \<and> op_account r = acct \<and> op_change r = c"
  by (auto simp: find_change_def dest: find_Some_in)

lemma blob_length:
  "buffer_ok body len \<Longrightarrow> (body = None \<Longrightarrow> len = 0) \<Longrightarrow>
     length (bytes_of (blob body len)) = len \<and> take len (bytes_of body) = bytes_of (blob body len)"
  by (cases body) (auto simp: blob_def buffer_ok_def)

lemma Enqueue_records:
  assumes "RCWriteJournalEnqueue acct change key href knd revision body len d = (Inr i, d')"
    and "undo_ok d" and "buffer_ok body len"
  shows "\<exists>c k h kd. enqueue_args change key href knd revision body len = Some (c, k, h, kd) \<and>
    enqueued acct c k h kd revision body len i (tables d')"
proof -
  from Enqueue_cases [OF assms(1,2)] obtain c k h kd where
    a: "enqueue_args change key href knd revision body len = Some (c, k, h, kd)" and
    cs: "(\<exists>s. find_change acct c (tables d) = Some s \<and> \<not> replay_differs k h kd revision body len s \<and>
            i = op_id s \<and> tables d' = tables d) \<or>
         (i = next_op_id (tables d) \<and>
          tables d' = (tables d)\<lparr>write_operations := write_operations (tables d) @
            [enqueue_row acct c k h kd revision (blob body len) (tables d) i]\<rparr>)"
    by auto
  note b = blob_length [OF assms(3)] enqueue_args_Some [OF a]
  from cs have "enqueued acct c k h kd revision body len i (tables d')"
  proof (elim disjE exE conjE)
    fix s
    assume "find_change acct c (tables d) = Some s" "\<not> replay_differs k h kd revision body len s"
      "i = op_id s" "tables d' = tables d"
    then show ?thesis by (auto simp: enqueued_def dest: find_change_Some)
  next
    assume t: "tables d' = (tables d)\<lparr>write_operations := write_operations (tables d) @
            [enqueue_row acct c k h kd revision (blob body len) (tables d) i]\<rparr>"
    have "\<not> replay_differs k h kd revision body len
        (enqueue_row acct c k h kd revision (blob body len) (tables d) i)"
      using b by (cases body) (auto simp: replay_differs_def enqueue_row_def)
    with t show ?thesis by (auto simp: enqueued_def enqueue_row_def)
  qed
  with a show ?thesis by blast
qed

lemma enqueued_extends:
  "enqueued acct c k h kd revision body len i t \<Longrightarrow> extends t t' \<Longrightarrow>
     enqueued acct c k h kd revision body len i t'"
  unfolding enqueued_def extends_def keeps_ops_def replay_differs_def
  by (fastforce simp: intent_fields)

lemma Enqueue_again:
  assumes "enqueue_args change key href knd revision body len = Some (c, k, h, kd)"
    and "enqueued acct c k h kd revision body len i (tables d)" and "ids_inv (tables d)" and "reliable d"
  shows "\<exists>d'. RCWriteJournalEnqueue acct change key href knd revision body len d = (Inr i, d') \<and>
    on_tables (tables d) d d'"
proof -
  from assms(2) obtain r where r: "r \<in> set (write_operations (tables d))" "op_id r = i"
    "op_account r = acct" "op_change r = c" "\<not> replay_differs k h kd revision body len r"
    by (auto simp: enqueued_def)
  with find_change_unique [OF assms(3) r(1)] have f: "find_change acct c (tables d) = Some r" by simp
  have "\<exists>d2. enqueue_body acct c k h kd revision body len d1 = (Inr i, d2) \<and> on_tables (tables d) d1 d2"
    if d1: "reliable d1" "tables d1 = tables d" for d1
    using reliable_query [OF d1(1), of "find_change acct c"] f r d1
    by (auto simp: enqueue_body_def)
  from reliable_savepoint [OF assms(4) this]
  obtain d' where "with_savepoint ''enqueue_write'' journal_fail
      (enqueue_body acct c k h kd revision body len) d = (Inr i, d') \<and> on_tables (tables d) d d'" by blast
  moreover from Enqueue_unfold [of change key href knd revision body len acct d] assms(1)
  have "RCWriteJournalEnqueue acct change key href knd revision body len d =
     with_savepoint ''enqueue_write'' journal_fail (enqueue_body acct c k h kd revision body len) d" by simp
  ultimately show ?thesis by simp
qed


text \<open>The same for conflict resolutions.\<close>

lemma find_resolution_unique:
  assumes "resolutions_inv t" "x \<in> set (write_resolutions t)"
  shows "find_resolution (r_operation x) t = Some x"
  unfolding find_resolution_def
  by (rule find_unique [of r_operation]) (use assms in \<open>auto simp: resolutions_inv_def\<close>)

definition resolved ::
  "int \<Rightarrow> int \<Rightarrow> op_kind \<Rightarrow> bytes option \<Rightarrow> nat \<Rightarrow> bytes \<Rightarrow> int \<Rightarrow> 'z jtables \<Rightarrow> bool" where
  "resolved acct i kd body len rc j t \<longleftrightarrow>
     (\<exists>r \<in> set (write_operations t). op_id r = i \<and> op_account r = acct) \<and>
     (\<exists>x \<in> set (write_resolutions t). r_operation x = i \<and> r_successor x = j \<and> r_receipt x = rc) \<and>
     (\<exists>s \<in> set (write_operations t). op_id s = j \<and> op_account s = acct \<and> op_kind s = kd \<and>
        length (bytes_of (op_desired s)) = len \<and>
        (len = 0 \<or> bytes_of (op_desired s) = take len (bytes_of body)))"

lemma resolved_extends:
  "resolved acct i kd body len rc j t \<Longrightarrow> extends t t' \<Longrightarrow> resolved acct i kd body len rc j t'"
  unfolding resolved_def extends_def keeps_ops_def keeps_resolutions_def
  by (elim conjE bexE, intro conjI) (metis intent_fields)+

lemma resolve_body_finds:
  assumes "resolve_body acct i knd body len receipt d = (Inr j, d')"
  shows "\<exists>r \<in> set (write_operations (tables d)). op_id r = i \<and> op_account r = acct"
  using assms by (auto simp: resolve_body_def elim!: chain_InrE dest!: Get_Inr find_op_Some)

lemma replays_resolved:
  "resolution_replays acct i kd body len rc t j \<Longrightarrow>
     \<exists>r \<in> set (write_operations t). op_id r = i \<and> op_account r = acct \<Longrightarrow>
     resolved acct i kd body len rc j t"
  by (auto simp: resolution_replays_def resolved_def find_resolution_def
      dest!: find_Some_in find_op_Some)

lemma fresh_resolved:
  assumes "resolution_fresh acct i kd body len rc t t'" and "j = next_op_id t" and "buffer_ok body len"
    and "(kd \<noteq> Delete \<longrightarrow> body \<noteq> None \<and> 0 < len) \<and> (kd = Delete \<longrightarrow> body = None \<and> len = 0)"
    and "ids_inv t"
  shows "resolved acct i kd body len rc j t'"
proof -
  from assms(1) obtain r where f: "find_op acct i t = Some r"
    and t': "t' = resolve_tables i (successor_row acct kd (read_operation r) body len) rc t"
    by (auto simp: resolution_fresh_def)
  let ?mk = "successor_row acct kd (read_operation r) body len"
  from find_op_Some [OF f] have r: "r \<in> set (write_operations t)" "op_account r = acct" "op_id r = i" by auto
  have ops: "write_operations t' = write_operations (set_row (r\<lparr>op_state := Cancelled\<rparr>) t) @ [?mk j]"
    using resolve_tables_alt [OF assms(5) r(1), of ?mk rc] assms(2) by (simp add: t' r)
  have "r\<lparr>op_state := Cancelled\<rparr> \<in> set (write_operations t')"
    using set_row_mem [OF r(1), of "r\<lparr>op_state := Cancelled\<rparr>"] by (simp add: ops)
  moreover have "?mk j \<in> set (write_operations t')" by (simp add: ops)
  moreover have "bytes_of (op_desired (?mk j)) = take len (bytes_of body) \<and>
      length (take len (bytes_of body)) = len"
    using assms(3,4) blob_length [OF assms(3)]
    by (cases body) (auto simp: successor_row_def Let_def)
  moreover have "\<exists>x \<in> set (write_resolutions t'). r_operation x = i \<and> r_successor x = j \<and> r_receipt x = rc"
    using assms(2) by (simp add: t' resolve_tables_def)
  ultimately show ?thesis
    unfolding resolved_def using r
    by (intro conjI bexI [of _ "r\<lparr>op_state := Cancelled\<rparr>"] bexI [of _ "?mk j"]) auto
qed

lemma Resolve_records:
  assumes "RCWriteJournalResolveConflict acct i knd body len receipt receiptLength d = (Inr j, d')"
    and "undo_ok d" and "ids_inv (tables d)" and "buffer_ok body len"
  shows "\<exists>kd rc. resolve_args knd body len receipt receiptLength = Some (kd, rc) \<and>
    resolved acct i kd body len rc j (tables d')"
proof -
  from Resolve_unfold [of knd body len receipt receiptLength acct i d] assms(1) obtain kd rc where
    a: "resolve_args knd body len receipt receiptLength = Some (kd, rc)" and
    w: "with_savepoint ''resolve_write'' journal_fail (resolve_body acct i kd body len rc) d = (Inr j, d')"
    by auto
  from with_savepoint_success [OF balanced_resolve w] obtain d1 d2
    where b: "resolve_body acct i kd body len rc d1 = (Inr j, d2)"
      and t: "tables d1 = tables d" "tables d' = tables d2" by metis
  have ids: "ids_inv (tables d1)" using assms(3) t by simp
  note fnd = resolve_body_finds [OF b, unfolded t(1)]
  from resolve_body_Inr [OF b ids]
  have "resolved acct i kd body len rc j (tables d')"
    unfolding t
  proof (elim disjE conjE)
    assume "resolution_replays acct i kd body len rc (tables d) j" "tables d2 = tables d"
    then show "resolved acct i kd body len rc j (tables d2)"
      using replays_resolved [OF _ fnd] by metis
  next
    assume "resolution_fresh acct i kd body len rc (tables d) (tables d2)" "j = next_op_id (tables d)"
    then show "resolved acct i kd body len rc j (tables d2)"
      using assms(3,4) resolve_args_Some [OF a] by (intro fresh_resolved)
  qed
  with a show ?thesis by blast
qed

lemma Resolve_again:
  assumes "resolve_args knd body len receipt receiptLength = Some (kd, rc)"
    and "resolved acct i kd body len rc j (tables d)" and "journal_inv (tables d)" and "reliable d"
  shows "\<exists>d'. RCWriteJournalResolveConflict acct i knd body len receipt receiptLength d = (Inr j, d') \<and>
    on_tables (tables d) d d'"
proof -
  have inv: "ids_inv (tables d)" "resolutions_inv (tables d)" using assms(3) by (simp_all add: journal_inv_def)
  from assms(2) obtain r x s where
    r: "r \<in> set (write_operations (tables d))" "op_id r = i" "op_account r = acct" and
    x: "x \<in> set (write_resolutions (tables d))" "r_operation x = i" "r_successor x = j" "r_receipt x = rc" and
    s: "s \<in> set (write_operations (tables d))" "op_id s = j" "op_account s = acct" "op_kind s = kd"
      "length (bytes_of (op_desired s)) = len" "len = 0 \<or> bytes_of (op_desired s) = take len (bytes_of body)"
    unfolding resolved_def by blast
  from find_op_unique [OF inv(1) r(1)] r have fr: "find_op acct i (tables d) = Some r" by simp
  from find_op_unique [OF inv(1) s(1)] s have fs: "find_op acct j (tables d) = Some s" by simp
  from find_resolution_unique [OF inv(2) x(1)] x have fx: "find_resolution i (tables d) = Some x" by simp
  have "\<exists>d2. resolve_body acct i kd body len rc d1 = (Inr j, d2) \<and> on_tables (tables d) d1 d2"
    if d1: "reliable d1" "tables d1 = tables d" for d1
  proof -
    from reliable_get [OF d1(1)] fr d1(2) obtain e1 where
      1: "RCWriteJournalGet acct i d1 = (Inr (read_operation r), e1)" "on_tables (tables d) d1 e1" by metis
    have t1: "tables e1 = tables d" "reliable e1" using on_tablesD [OF 1(2)] d1 by auto
    from reliable_query [OF t1(2), of "find_resolution i"] fx t1(1) obtain e2 where
      2: "journal_query (find_resolution i) e1 = (Inr (Some x), e2)" "on_tables (tables d) e1 e2" by auto
    have t2: "tables e2 = tables d" "reliable e2" using on_tablesD [OF 2(2)] t1 by auto
    from reliable_get [OF t2(2)] fs t2(1) obtain e3 where
      3: "RCWriteJournalGet acct j e2 = (Inr (read_operation s), e3)" "on_tables (tables d) e2 e3" by metis
    from 1 2 3 x s have "resolve_body acct i kd body len rc d1 = (Inr j, e3)"
      by (auto simp: resolve_body_def)
    with 1(2) 2(2) 3(2) show ?thesis by (blast intro: on_tables_trans)
  qed
  from reliable_savepoint [OF assms(4) this]
  obtain d' where "with_savepoint ''resolve_write'' journal_fail
      (resolve_body acct i kd body len rc) d = (Inr j, d') \<and> on_tables (tables d) d d'" by blast
  moreover from Resolve_unfold [of knd body len receipt receiptLength acct i d] assms(1)
  have "RCWriteJournalResolveConflict acct i knd body len receipt receiptLength d =
     with_savepoint ''resolve_write'' journal_fail (resolve_body acct i kd body len rc) d" by simp
  ultimately show ?thesis by simp
qed

section \<open>Progress of due operations\<close>

lemma update_ops_hit:
  assumes "ids_inv t" "r \<in> set (write_operations t)" "P r" "\<And>s. P s \<Longrightarrow> op_id s = op_id r"
    and "\<And>s. op_id (f s) = op_id s"
  shows "update_ops P f t = (set_row (f r) t, 1)"
proof -
  obtain t' n where u: "update_ops P f t = (t', n)" by (cases "update_ops P f t")
  from assms(2,3) have "0 < count_rows P (write_operations t)" by (auto simp: count_rows_pos)
  with u have "n \<noteq> 0" by (auto simp: update_ops_def)
  with update_ops_one [OF assms(1,4,5) u] obtain s where
    "s \<in> set (write_operations t)" "P s" "n = 1" "t' = set_row (f s) t" by auto
  with u assms(1,2,4) show ?thesis by (auto dest: ids_inv_eq)
qed

lemma BeginAttempt_due:
  assumes "r \<in> set (write_operations (tables d))" "due acct now r" "0 \<le> now" "now \<le> LLONG_MAX - 3600"
    and "ids_inv (tables d)" "reliable d" "txn d = []"
  shows "\<exists>d'. RCWriteJournalBeginAttempt acct (op_id r) now d = (Inr (), d') \<and>
    on_tables (set_row (attempt_row now r) (tables d)) d d'"
proof -
  have "update_ops (\<lambda>s. op_id s = op_id r \<and> due acct now s) (attempt_row now) (tables d) =
      (set_row (attempt_row now r) (tables d), 1)"
    using assms(1,2,5) by (intro update_ops_hit) (auto simp: attempt_row_def)
  from reliable_update_one [of d "update_ops (\<lambda>s. op_id s = op_id r \<and> due acct now s) (attempt_row now)",
      OF assms(6) this] assms(3,4,7) show ?thesis
    by (auto simp: RCWriteJournalBeginAttempt_def outsideTransaction_def autocommit_def)
qed

end
