(* ===== verification/JournalContract.thy ===== *)
theory JournalContract
  imports JournalReach
begin

text \<open>
  The contract of the write journal, one theorem per promise, each followed by a run on
  a concrete connection that meets its hypotheses.
\<close>

section \<open>Facts the promises rest on\<close>

lemma reach_sound: "fresh_journal d0 \<Longrightarrow> program_step\<^sup>*\<^sup>* d0 d \<Longrightarrow> jt.sound d"
  using run_sound fresh_journal_sound by blast

lemma reach_inv: "fresh_journal d0 \<Longrightarrow> program_step\<^sup>*\<^sup>* d0 d \<Longrightarrow> undo_ok d \<and> journal_inv (tables d)"
  using reach_sound by (auto simp: jt.sound_def)

lemma sound_committed_inv: "jt.sound d \<Longrightarrow> journal_inv (committed d)"
  unfolding jt.sound_def committed_def using last_in_set by blast

lemma committed_outside [simp]: "txn d = [] \<Longrightarrow> committed d = tables d"
  by (simp add: committed_def)

section \<open>The strong entity tag\<close>

lemma strong_split:
  "2 \<le> length s \<Longrightarrow> s ! 0 = q \<Longrightarrow> s ! (length s - 1) = q \<Longrightarrow> \<exists>m. s = q # m @ [q]"
  by (cases s; cases "tl s" rule: rev_cases) (auto simp: nth_append)

text \<open>\<open>RCWriteETagIsStrong\<close> accepts exactly the quoted tags whose inner bytes are printable,
  not blank, and not a quote.\<close>

lemma etag_strong_iff:
  "RCWriteETagIsStrong (Some s) \<longleftrightarrow>
     (\<exists>m. s = CHR 0x22 # m @ [CHR 0x22] \<and>
        (\<forall>c \<in> set m. 0x21 \<le> (of_char c :: nat) \<and> c \<noteq> CHR 0x22 \<and> c \<noteq> CHR 0x7f))"
proof
  assume a: "RCWriteETagIsStrong (Some s)"
  then obtain m where m: "s = CHR 0x22 # m @ [CHR 0x22]"
    using strong_split [of s "CHR 0x22"] by (auto simp: RCWriteETagIsStrong_def Let_def)
  have "0x21 \<le> (of_char (m ! i) :: nat) \<and> m ! i \<noteq> CHR 0x22 \<and> m ! i \<noteq> CHR 0x7f" if "i < length m" for i
  proof -
    have "s ! Suc i = m ! i" using that by (simp add: m nth_append)
    moreover have "Suc i \<in> {1..<length s - 1}" using that by (simp add: m)
    moreover have "\<forall>i \<in> {1..<length s - 1}. 0x21 \<le> (of_char (s ! i) :: nat) \<and> s ! i \<noteq> CHR 0x22 \<and> s ! i \<noteq> CHR 0x7f"
      using a by (auto simp: RCWriteETagIsStrong_def Let_def not_less)
    ultimately show ?thesis by metis
  qed
  with m show "\<exists>m. s = CHR 0x22 # m @ [CHR 0x22] \<and>
      (\<forall>c \<in> set m. 0x21 \<le> (of_char c :: nat) \<and> c \<noteq> CHR 0x22 \<and> c \<noteq> CHR 0x7f)"
    by (auto simp: in_set_conv_nth)
next
  assume "\<exists>m. s = CHR 0x22 # m @ [CHR 0x22] \<and>
      (\<forall>c \<in> set m. 0x21 \<le> (of_char c :: nat) \<and> c \<noteq> CHR 0x22 \<and> c \<noteq> CHR 0x7f)"
  then obtain m where m: "s = CHR 0x22 # m @ [CHR 0x22]"
    and ok: "\<forall>c \<in> set m. 0x21 \<le> (of_char c :: nat) \<and> c \<noteq> CHR 0x22 \<and> c \<noteq> CHR 0x7f" by blast
  have "s ! i \<in> set m" if "i \<in> {1..<length s - 1}" for i
    using that by (cases i) (auto simp: m nth_append)
  with ok show "RCWriteETagIsStrong (Some s)"
    by (fastforce simp: RCWriteETagIsStrong_def Let_def m)
qed

section \<open>Invariant and history\<close>

text \<open>C1: in every journal the program can reach, whatever calls fail and however transactions
  interleave, there is at most one unresolved write per resource and per address, every
  recorded write carries the precondition the server will check, every applied or
  acknowledged write has a confirmed result, and every resolution links a cancelled
  conflict to a younger write on the same resource; the same holds of the tables a crash
  would leave.\<close>

theorem reachable_journal_inv:
  assumes "fresh_journal d0" and "program_step\<^sup>*\<^sup>* d0 d"
  shows "journal_inv (tables d) \<and> journal_inv (committed d)"
  using reach_sound [OF assms] sound_committed_inv jt.sound_good by blast

text \<open>C3: a committed write is never lost and never altered: along every run, the committed
  tables keep each operation with its intent, each terminal state, and each resolution
  with its receipt and mirror checkpoint.\<close>

theorem committed_history:
  assumes "fresh_journal d0" and "program_step\<^sup>*\<^sup>* d0 d" and "program_step\<^sup>*\<^sup>* d d'"
  shows "extends (committed d) (committed d')"
  using run_sound [OF assms(3) reach_sound [OF assms(1,2)]] by blast

text \<open>C16: every exported function of the journal makes at most one transition of the journal's
  specification, leaves the transaction stack as it found it, and changes no table when it
  reports a failure.\<close>

theorem journal_call_atomic:
  assumes "fresh_journal d0" and "program_step\<^sup>*\<^sup>* d0 d" and "journal_call d ok d'"
  shows "txn d' = txn d \<and> (if ok then tables d' = tables d \<or> jstep (tables d) (tables d')
                          else tables d' = tables d)"
  using journal_call_refines [OF assms(3)] reach_inv [OF assms(1,2)] by auto

section \<open>Repeated calls\<close>

text \<open>What a committed enqueue recorded is still there at any later point.\<close>

lemma enqueue_extends:
  assumes "fresh_journal d0" and "program_step\<^sup>*\<^sup>* d0 d" and "txn d = []" and "buffer_ok body len"
    and "RCWriteJournalEnqueue acct change key href knd revision body len d = (Inr i, d1)"
    and "program_step\<^sup>*\<^sup>* d1 d2"
  shows "extends (tables d1) (tables d2)" and "jt.sound d2"
proof -
  note s = reach_sound [OF assms(1,2)] and inv = reach_inv [OF assms(1,2)]
  have "program_step d d1"
    using journal_call.enqueue [OF assms(5,4)] by (rule program_step.call)
  with s program_step_sound have s1: "jt.sound d1" by blast
  have "txn d1 = []" using Enqueue_cases [OF assms(5)] inv assms(3) by (auto simp: kept_def)
  then have c1: "committed d1 = tables d1" by simp
  from run_sound [OF assms(6) s1] have s2: "jt.sound d2" and e: "extends (tables d1) (committed d2)"
    by (simp_all add: c1)
  then show "extends (tables d1) (tables d2)" "jt.sound d2"
    using extends_trans [OF e] sound_tables_extend [OF s2] by blast+
qed

text \<open>C22: enqueueing is exactly-once: when a committed \<open>RCWriteJournalEnqueue\<close> returned an
  identifier, the same call made at any later point of the run returns the same identifier
  and changes no table, even after the operation was attempted, resolved or retired.\<close>

theorem enqueue_exactly_once:
  assumes "fresh_journal d0" and "program_step\<^sup>*\<^sup>* d0 d" and "txn d = []" and "buffer_ok body len"
    and "RCWriteJournalEnqueue acct change key href knd revision body len d = (Inr i, d1)"
    and "program_step\<^sup>*\<^sup>* d1 d2" and "reliable d2"
  shows "\<exists>d3. RCWriteJournalEnqueue acct change key href knd revision body len d2 = (Inr i, d3) \<and>
    tables d3 = tables d2 \<and> txn d3 = txn d2"
proof -
  note inv = reach_inv [OF assms(1,2)]
  note later = enqueue_extends [OF assms(1-6)]
  from Enqueue_records [OF assms(5) _ assms(4)] inv obtain c k h kd where
    a: "enqueue_args change key href knd revision body len = Some (c, k, h, kd)"
    and q: "enqueued acct c k h kd revision body len i (tables d1)" by blast
  from Enqueue_again [OF a enqueued_extends [OF q] _ assms(7)] later jt.sound_good
  show ?thesis by (auto simp: journal_inv_def on_tables_def)
qed

text \<open>C23: resolving a conflict is exactly-once: the same committed decision, repeated at any later
  point, returns the same successor and changes no table.\<close>

theorem resolve_exactly_once:
  assumes "fresh_journal d0" and "program_step\<^sup>*\<^sup>* d0 d" and "txn d = []" and "buffer_ok body len"
    and "RCWriteJournalResolveConflict acct i knd body len receipt receiptLength d = (Inr j, d1)"
    and "program_step\<^sup>*\<^sup>* d1 d2" and "reliable d2"
  shows "\<exists>d3. RCWriteJournalResolveConflict acct i knd body len receipt receiptLength d2 = (Inr j, d3) \<and>
    tables d3 = tables d2 \<and> txn d3 = txn d2"
proof -
  note s = reach_sound [OF assms(1,2)] and inv = reach_inv [OF assms(1,2)]
  have ids: "ids_inv (tables d)" using inv by (simp add: journal_inv_def)
  have "program_step d d1"
    using journal_call.resolve [OF assms(5,4)] by (rule program_step.call)
  with s program_step_sound have s1: "jt.sound d1" by blast
  have "txn d1 = []" using Resolve_cases [OF assms(5) _ ids] inv assms(3) by (auto simp: kept_def)
  then have c1: "committed d1 = tables d1" by simp
  from run_sound [OF assms(6) s1] have s2: "jt.sound d2" and e: "extends (tables d1) (committed d2)"
    by (simp_all add: c1)
  have e2: "extends (tables d1) (tables d2)"
    using extends_trans [OF e] sound_tables_extend [OF s2] by blast
  from Resolve_records [OF assms(5) _ ids assms(4)] inv obtain kd rc where
    a: "resolve_args knd body len receipt receiptLength = Some (kd, rc)"
    and q: "resolved acct i kd body len rc j (tables d1)" by blast
  from Resolve_again [OF a resolved_extends [OF q e2] jt.sound_good [OF s2] assms(7)]
  show ?thesis by (auto simp: on_tables_def)
qed

section \<open>Progress and back-off\<close>

text \<open>C29: the writer's loop makes progress: the identifier \<open>RCWriteJournalNext\<close> returns is the oldest
  due operation, \<open>RCWriteJournalBeginAttempt\<close> then succeeds, marks it uncertain and counts
  the attempt, and puts the next one between five seconds and an hour later without
  overflowing the 64-bit time.\<close>

theorem next_attempt_progress:
  assumes "fresh_journal d0" and "program_step\<^sup>*\<^sup>* d0 d" and "txn d = []" and "reliable d"
    and "0 \<le> now" and "now \<le> LLONG_MAX - 3600"
    and "RCWriteJournalNext acct now d = (Inr i, d1)" and "i \<noteq> 0"
  shows "\<exists>r d2. r \<in> set (write_operations (tables d)) \<and> op_id r = i \<and> due acct now r \<and>
    (\<forall>s \<in> set (write_operations (tables d)). due acct now s \<longrightarrow> i \<le> op_id s) \<and>
    RCWriteJournalBeginAttempt acct i now d1 = (Inr (), d2) \<and>
    tables d2 = set_row (attempt_row now r) (tables d) \<and>
    now + 5 \<le> op_retry_at (attempt_row now r) \<and> op_retry_at (attempt_row now r) \<le> now + 3600 \<and>
    op_retry_at (attempt_row now r) \<le> LLONG_MAX"
proof -
  from journal_scan_result [OF assms(7) [unfolded RCWriteJournalNext_def]] assms(8)
  obtain r where r: "r \<in> set (write_operations (tables d))" "op_id r = i" "due acct now r"
    "\<forall>s \<in> set (write_operations (tables d)). due acct now s \<longrightarrow> i \<le> op_id s" by auto
  from journal_scan_keeps [OF assms(7) [unfolded RCWriteJournalNext_def]] assms(3,4)
  have d1: "tables d1 = tables d" "txn d1 = []" "reliable d1"
    by (auto simp: reliable_def same_library_def)
  have "ids_inv (tables d1)" using reach_inv [OF assms(1,2)] by (simp add: journal_inv_def d1)
  from BeginAttempt_due [OF _ r(3) assms(5,6) this d1(3,2)] r(1,2) d1(1)
  obtain d2 where "RCWriteJournalBeginAttempt acct i now d1 = (Inr (), d2)"
    "tables d2 = set_row (attempt_row now r) (tables d)" by (auto simp: on_tables_def)
  moreover have "now + 5 \<le> op_retry_at (attempt_row now r) \<and> op_retry_at (attempt_row now r) \<le> now + 3600"
    using backoff_bounds [of "op_attempts r"] by (simp add: attempt_row_def)
  ultimately show ?thesis using r assms(6) by (intro exI [of _ r] exI [of _ d2]) auto
qed


section \<open>Recovery export\<close>


section \<open>A concrete run\<close>

text \<open>
  One account, a create whose first attempt meets a changed resource, and the decision
  to write over the remote revision.
\<close>

definition w_tables :: journal_tables where
  "w_tables = \<lparr>schema = [], accounts = [\<lparr>acc_id = 1, acc_username = ''u'', acc_sync_id = ''s'',
     acc_generation = 1, acc_published = 1\<rparr>], write_bases = [], write_operations = [],
     write_resolutions = [], write_attention = []\<rparr>"

definition w_enqueue :: "unit jdb \<Rightarrow> int res \<times> unit jdb" where
  "w_enqueue d = RCWriteJournalEnqueue 1 (Some ''c1'') (Some ''k'') (Some ''https://h/k'')
     (Some ''create'') 0 (Some ''B'') 1 d"

definition w_record :: "unit jdb \<Rightarrow> unit res \<times> unit jdb" where
  "w_record d = RCWriteJournalRecordResult 1 1 (Some ''conflict'') 200 (Some [CHR 0x22, CHR 0x22])
     (Some ''R'') 1 d"

definition w_resolve :: "unit jdb \<Rightarrow> int res \<times> unit jdb" where
  "w_resolve d = RCWriteJournalResolveConflict 1 1 (Some ''update'') (Some ''M'') 1 (Some ''r'') 1 d"

definition w0 :: "unit jdb" where "w0 = open_db w_tables"

lemmas journal_eval =
  w_tables_def w_enqueue_def w_record_def w_resolve_def w0_def
  open_db_def RCWriteJournalEnqueue_def enqueue_body_def with_savepoint_def sql_savepoint_def
  sql_release_def sql_call_def sql_prepare_def sql_query_def sql_modify_def journal_query_def
  journal_modify_def journal_prepare_def journal_update_one_def find_change_def find_unresolved_def
  find_base_def find_op_def find_resolution_def base_refuses_def insert_op_def next_op_id_def
  next_rowid_def has_account_def enqueue_row_def queued_row_def blob_def INT_MAX_def LLONG_MAX_def
  RCWriteJournalBeginAttempt_def outsideTransaction_def autocommit_def update_ops_def due_def
  update_rows_def count_rows_def attempt_row_def backoff_def RCWriteJournalRecordResult_def
  verified_status_def result_row_def RCWriteJournalResolveConflict_def resolve_body_def
  RCWriteJournalGet_def read_operation_def no_usable_revision_def successor_row_def
  RCWriteETagIsStrong_def insert_resolution_def RCWriteJournalCancel_def terminal_def
  show_int_def show_nat.simps column_int_small

definition w_op :: op_row where
  "w_op = queued_row 1 1 ''c1'' ''k'' ''https://h/k'' Create 0 None None (Some ''B'')"

definition w_conflict :: op_row where
  "w_conflict = result_row Conflict 200 (Some [CHR 0x22, CHR 0x22]) (Some ''R'') (attempt_row 10 w_op)"

text \<open>The connection with the given operations and resolutions after \<open>n\<close> library calls.\<close>

definition w_at :: "op_row list \<Rightarrow> nat \<Rightarrow> unit jdb" where
  "w_at ops n = (open_db (w_tables\<lparr>write_operations := ops\<rparr>))\<lparr>calls := n\<rparr>"

lemma w_enqueue_eval: "\<exists>n. w_enqueue w0 = (Inr 1, w_at [w_op] n)"
  by (simp add: journal_eval w_at_def w_op_def)

lemma w_begin_eval: "\<exists>n. RCWriteJournalBeginAttempt 1 1 10 (w_at [w_op] m) = (Inr (), w_at [attempt_row 10 w_op] n)"
  by (simp add: journal_eval w_at_def w_op_def)

lemma w_record_eval: "\<exists>n. w_record (w_at [attempt_row 10 w_op] m) = (Inr (), w_at [w_conflict] n)"
  by (simp add: journal_eval w_at_def w_op_def w_conflict_def)

lemma w_resolve_eval: "\<exists>d. w_resolve (w_at [w_conflict] m) = (Inr 2, d)"
  by (simp add: journal_eval w_at_def w_op_def w_conflict_def)

lemma w_next_eval: "\<exists>n. RCWriteJournalNext 1 10 (w_at [w_op] m) = (Inr 1, w_at [w_op] n)"
  by (simp add: journal_eval w_at_def w_op_def RCWriteJournalNext_def journal_scan_def)

lemma w_at_facts [simp]: "txn (w_at ops n) = []" "reliable (w_at ops n)" "tables (w_at ops n) = w_tables\<lparr>write_operations := ops\<rparr>"
  by (simp_all add: w_at_def open_db_def reliable_def)


lemma w0_fresh: "fresh_journal w0" "txn w0 = []"
  by (simp_all add: fresh_journal_def undo_ok_def w0_def open_db_def w_tables_def)

lemma w_reach1: "\<exists>n. program_step\<^sup>*\<^sup>* w0 (w_at [w_op] n)"
  using w_enqueue_eval journal_call.enqueue [of 1 _ _ _ _ 0 "Some ''B''" 1 w0]
  unfolding w_enqueue_def
  by (fastforce simp: buffer_ok_def intro: program_step.call)

lemma w_step2: "\<exists>n. program_step (w_at [w_op] m) (w_at [attempt_row 10 w_op] n)"
  using w_begin_eval [of m] by (blast intro: program_step.call journal_call.begin_attempt)

lemma w_step3: "\<exists>n. program_step (w_at [attempt_row 10 w_op] m) (w_at [w_conflict] n)"
proof -
  obtain n where n: "w_record (w_at [attempt_row 10 w_op] m) = (Inr (), w_at [w_conflict] n)"
    using w_record_eval by blast
  have "buffer_ok (Some ''R'') 1" by (simp add: buffer_ok_def)
  from journal_call.record_result [OF n [unfolded w_record_def] this] show ?thesis
    by (blast intro: program_step.call)
qed

lemma w_reach3: "\<exists>m n. program_step\<^sup>*\<^sup>* w0 (w_at [w_op] m) \<and> program_step\<^sup>*\<^sup>* (w_at [w_op] m) (w_at [w_conflict] n)"
  using w_reach1 w_step2 w_step3 by (meson r_into_rtranclp rtranclp.rtrancl_into_rtrancl)

text \<open>The witness of the invariant: the run up to the conflict.\<close>

theorem reachable_journal_inv_witness:
  "\<exists>n. journal_inv (tables (w_at [w_conflict] n)) \<and> journal_inv (committed (w_at [w_conflict] n))"
  using w_reach3 reachable_journal_inv [OF w0_fresh(1)] by (meson rtranclp_trans)

text \<open>The witness of the history theorem: from the queued operation to its conflict.\<close>

theorem committed_history_witness:
  "\<exists>m n. extends (committed (w_at [w_op] m)) (committed (w_at [w_conflict] n))"
  using w_reach3 committed_history [OF w0_fresh(1)] by blast

text \<open>The witness of atomicity: the first attempt.\<close>

theorem journal_call_atomic_witness:
  "\<exists>m n. txn (w_at [attempt_row 10 w_op] n) = txn (w_at [w_op] m) \<and>
     (tables (w_at [attempt_row 10 w_op] n) = tables (w_at [w_op] m) \<or>
      jstep (tables (w_at [w_op] m)) (tables (w_at [attempt_row 10 w_op] n)))"
proof -
  obtain m where m: "program_step\<^sup>*\<^sup>* w0 (w_at [w_op] m)" using w_reach1 by blast
  obtain n where n: "RCWriteJournalBeginAttempt 1 1 10 (w_at [w_op] m) = (Inr (), w_at [attempt_row 10 w_op] n)"
    using w_begin_eval by blast
  from journal_call_atomic [OF w0_fresh(1) m journal_call.begin_attempt [OF n]] show ?thesis
    by (intro exI [of _ m] exI [of _ n]) simp
qed

text \<open>The witness of exactly-once enqueueing: the create, repeated after its conflict.\<close>

theorem enqueue_exactly_once_witness:
  "\<exists>n d3. w_enqueue (w_at [w_conflict] n) = (Inr 1, d3) \<and> tables d3 = tables (w_at [w_conflict] n)"
proof -
  obtain m where m: "w_enqueue w0 = (Inr 1, w_at [w_op] m)" using w_enqueue_eval by blast
  obtain k where k: "program_step (w_at [w_op] m) (w_at [attempt_row 10 w_op] k)" using w_step2 by blast
  obtain n where n: "program_step (w_at [attempt_row 10 w_op] k) (w_at [w_conflict] n)" using w_step3 by blast
  have run: "program_step\<^sup>*\<^sup>* (w_at [w_op] m) (w_at [w_conflict] n)" using k n by auto
  have b: "buffer_ok (Some ''B'') 1" by (simp add: buffer_ok_def)
  from enqueue_exactly_once [OF w0_fresh(1) rtranclp.rtrancl_refl w0_fresh(2) b m [unfolded w_enqueue_def] run]
  show ?thesis unfolding w_enqueue_def by auto
qed

text \<open>The witness of exactly-once resolution: the decision, taken twice in a row.\<close>

theorem resolve_exactly_once_witness:
  "\<exists>n d1 d3. w_resolve (w_at [w_conflict] n) = (Inr 2, d1) \<and> w_resolve d1 = (Inr 2, d3) \<and> tables d3 = tables d1"
proof -
  obtain n where n: "program_step\<^sup>*\<^sup>* w0 (w_at [w_conflict] n)" using w_reach3 by (meson rtranclp_trans)
  obtain d1 where d1: "w_resolve (w_at [w_conflict] n) = (Inr 2, d1)" using w_resolve_eval by blast
  have b: "buffer_ok (Some ''M'') 1" by (simp add: buffer_ok_def)
  have "same_library (w_at [w_conflict] n) d1"
    using Resolve_cases [OF d1 [unfolded w_resolve_def]] reach_inv [OF w0_fresh(1) n]
    by (auto simp: journal_inv_def kept_def)
  then have "reliable d1" using w_at_facts(2) by (auto simp: same_library_def reliable_def)
  from resolve_exactly_once [OF w0_fresh(1) n w_at_facts(1) b d1 [unfolded w_resolve_def]
      rtranclp.rtrancl_refl this] d1 show ?thesis unfolding w_resolve_def by blast
qed

text \<open>The witness of progress: the first attempt of the create.\<close>

theorem next_attempt_progress_witness:
  "\<exists>n d2. RCWriteJournalBeginAttempt 1 1 10 (w_at [w_op] n) = (Inr (), d2) \<and>
     15 \<le> op_retry_at (attempt_row 10 w_op)"
proof -
  obtain m where m: "program_step\<^sup>*\<^sup>* w0 (w_at [w_op] m)" using w_reach1 by blast
  obtain n where n: "RCWriteJournalNext 1 10 (w_at [w_op] m) = (Inr 1, w_at [w_op] n)"
    using w_next_eval by blast
  have now: "(10::int) \<le> LLONG_MAX - 3600" by (simp add: LLONG_MAX_def)
  from next_attempt_progress [OF w0_fresh(1) m w_at_facts(1,2) _ now n] show ?thesis
    by (intro exI [of _ n]) auto
qed

end
