(* ===== verification/HTTPClient.thy ===== *)
theory HTTPClient
  imports WriteJournal "HOL-Library.Type_Length"
begin

text \<open>
  The HTTP client of \<^verbatim>\<open>source/shared/RCHTTPClient.c\<close>: response callbacks, destination
  checks, the request loop with its redirects, and the three entry points. libcurl is the
  argument \<open>curl\<close>: URL parsing and resolution, the code of each option and of the transfer,
  and the callbacks it makes while the transfer runs, over a world \<open>'w\<close> that stands for the
  network and the process-wide stop flag. \<open>size_t\<close> is a word of any width \<open>'l\<close> (the records leave its type open), because the
  program is built for 32-bit and 64-bit targets.
\<close>

section \<open>Data\<close>

record 's RCHTTPClient =
  c_username :: string
  c_password :: string
  c_certificatePath :: string
  c_allowedHostSuffix :: "string option"
  c_userAgent :: string
  c_maximumResponseBytes :: "'s"

record 's RCHTTPClientConfig =
  g_username :: "string option"
  g_password :: "string option"
  g_certificatePath :: "string option"
  g_allowedHostSuffix :: "string option"
  g_userAgent :: "string option"
  g_maximumResponseBytes :: "'s"

record RCHTTPResponse =
  rs_statusCode :: int
  rs_effectiveURL :: "string option"
  rs_location :: "string option"
  rs_etag :: "string option"
  rs_contentType :: "string option"
  rs_body :: "bytes option"

definition bodyLength :: "RCHTTPResponse \<Rightarrow> nat" where
  "bodyLength r = length (bytes_of (rs_body r))"

text \<open>The write context: the response being filled, the limit, and whether it was hit.\<close>

record 's RCWriteContext =
  x_response :: RCHTTPResponse
  x_maximumBytes :: "'s"
  x_exceededLimit :: bool

text \<open>The options of one transfer, in the order the code sets them.\<close>

datatype curl_option =
    OptURL string | OptCustomRequest string | OptUsername string | OptPassword string
  | OptHTTPAuthBasic | OptCAInfo string | OptSSLVerifyPeer bool | OptSSLVerifyHost nat
  | OptProtocolsHTTPS | OptRedirProtocolsHTTPS | OptFollowLocation bool | OptNoSignal bool
  | OptNoProgress bool | OptXferInfoFunction | OptConnectTimeout nat | OptTimeout nat
  | OptUserAgent string | OptHTTPHeader "string list" | OptWriteFunction | OptWriteData
  | OptHeaderFunction | OptHeaderData | OptPostFields "bytes option" | OptPostFieldSize nat

text \<open>The callbacks libcurl makes: \<open>size\<close>, \<open>count\<close> and the bytes they describe.\<close>

datatype 's curl_event =
    HeaderData "'s" "'s" bytes
  | BodyData "'s" "'s" bytes

record 's transfer =
  t_events :: "'s curl_event list"
  t_code :: int
  t_status :: int
  t_effectiveURL :: "string option"

record ('s, 'w) curl =
  url_parse :: "string \<Rightarrow> (string \<times> string) option"
  url_resolve :: "string \<Rightarrow> string \<Rightarrow> string option"
  easy_init :: "'w \<Rightarrow> bool"
  setopt :: "curl_option \<Rightarrow> int"
  perform :: "curl_option list \<Rightarrow> 'w \<Rightarrow> 's transfer \<times> 'w"
  strerror :: "int \<Rightarrow> string"
  stop :: "'w \<Rightarrow> bool"

definition RC_HTTP_REDIRECT_LIMIT :: nat where
  "RC_HTTP_REDIRECT_LIMIT = 5"

definition RC_HTTP_DEFAULT_RESPONSE_LIMIT :: nat where
  "RC_HTTP_DEFAULT_RESPONSE_LIMIT = 32 * 1024 * 1024"

definition CURLE_WRITE_ERROR :: int where "CURLE_WRITE_ERROR = 23"
definition CURLE_ABORTED_BY_CALLBACK :: int where "CURLE_ABORTED_BY_CALLBACK = 42"

section \<open>Callbacks\<close>

text \<open>A buffer read back as a C string ends at its first zero byte.\<close>

definition cstr :: "bytes \<Rightarrow> string" where
  "cstr b = takeWhile (\<lambda>c. c \<noteq> CHR 0x00) b"

definition RCCopyHeaderValue :: "bytes \<Rightarrow> bytes" where
  "RCCopyHeaderValue v =
     rev (dropWhile (\<lambda>c. c \<in> {CHR 0x0d, CHR 0x0a, CHR 0x20, CHR 0x09})
       (rev (dropWhile (\<lambda>c. c \<in> {CHR 0x20, CHR 0x09}) v)))"

definition RCHTTPResponseInit :: RCHTTPResponse where
  "RCHTTPResponseInit = \<lparr>rs_statusCode = 0, rs_effectiveURL = None, rs_location = None,
     rs_etag = None, rs_contentType = None, rs_body = None\<rparr>"

definition RCHTTPResponseClear :: "RCHTTPResponse \<Rightarrow> RCHTTPResponse" where
  "RCHTTPResponseClear r = RCHTTPResponseInit"

text \<open>The byte count it returns and the context; less than \<open>size * count\<close> aborts the transfer.\<close>

definition RCReceiveBody ::
  "bytes \<Rightarrow> 'l::len word \<Rightarrow> 'l word \<Rightarrow> 'l word RCWriteContext \<Rightarrow> 'l word \<times> 'l word RCWriteContext" where
  "RCReceiveBody bytes sz count x =
     (let byteCount = sz * count; r = x_response x in
      if sz \<noteq> 0 \<and> byteCount div sz \<noteq> count then (0, x\<lparr>x_exceededLimit := True\<rparr>)
      else if byteCount > x_maximumBytes x - of_nat (bodyLength r)
      then (0, x\<lparr>x_exceededLimit := True\<rparr>)
      else (byteCount, x\<lparr>x_response := r\<lparr>rs_body :=
              Some (bytes_of (rs_body r) @ take (unat byteCount) bytes)\<rparr>\<rparr>))"

definition RCReceiveHeader ::
  "bytes \<Rightarrow> 'l::len word \<Rightarrow> 'l word \<Rightarrow> RCHTTPResponse \<Rightarrow> 'l word \<times> RCHTTPResponse" where
  "RCReceiveHeader bytes sz count response =
     (let byteCount = sz * count; line = take (unat byteCount) bytes;
          name = takeWhile (\<lambda>c. c \<noteq> CHR '':'') line; nameLength = length name in
      if nameLength = length line then (byteCount, response)
      else let value = cstr (RCCopyHeaderValue (drop (Suc nameLength) line)) in
        (byteCount,
         if nameLength = 8 \<and> same_nocase_n 8 line ''Location'' then response\<lparr>rs_location := Some value\<rparr>
         else if nameLength = 4 \<and> same_nocase_n 4 line ''ETag'' then response\<lparr>rs_etag := Some value\<rparr>
         else if nameLength = 12 \<and> same_nocase_n 12 line ''Content-Type''
         then response\<lparr>rs_contentType := Some value\<rparr>
         else response))"

text \<open>
  What libcurl does with the callbacks: a callback that takes fewer bytes than it was
  offered ends the transfer with \<open>CURLE_WRITE_ERROR\<close>.
\<close>

fun deliver :: "('l::len word) curl_event list \<Rightarrow> 'l word RCWriteContext \<Rightarrow> bool \<times> 'l word RCWriteContext" where
  "deliver [] x = (True, x)"
| "deliver (HeaderData sz count bytes # es) x =
     (let (n, r) = RCReceiveHeader bytes sz count (x_response x); x' = x\<lparr>x_response := r\<rparr> in
      if unat n = length bytes then deliver es x' else (False, x'))"
| "deliver (BodyData sz count bytes # es) x =
     (let (n, x') = RCReceiveBody bytes sz count x in
      if unat n = length bytes then deliver es x' else (False, x'))"

section \<open>Destinations\<close>

definition RCHostHasSuffix :: "string \<Rightarrow> string option \<Rightarrow> bool" where
  "RCHostHasSuffix host suffix = (case suffix of None \<Rightarrow> True
     | Some s \<Rightarrow>
         if s = [] then True
         else if length host < length s then False
         else same_nocase (drop (length host - length s) host) s)"

definition RCValidateDestination :: "('l::len word, 'w) curl \<Rightarrow> string \<Rightarrow> string option \<Rightarrow> RCError option" where
  "RCValidateDestination cu url hostSuffix =
     (case url_parse cu url of
        None \<Rightarrow> Some (RCErrorSet 1 ''Invalid HTTPS URL'')
      | Some (scheme, host) \<Rightarrow>
          if \<not> same_nocase scheme ''https'' then Some (RCErrorSet 1 ''Refusing non-HTTPS DAV destination'')
          else if \<not> RCHostHasSuffix host hostSuffix
          then Some (RCErrorSet 1 ''Refusing DAV credentials for unexpected host'') else None)"

definition RCURLResolve :: "('l::len word, 'w) curl \<Rightarrow> string \<Rightarrow> string \<Rightarrow> string res" where
  "RCURLResolve cu baseURL href = (case url_resolve cu baseURL href of
     None \<Rightarrow> Inl (RCErrorSet 1 ''Could not resolve DAV href'') | Some u \<Rightarrow> Inr (cstr u))"

definition RCHTTPClientCreate ::
  "string \<Rightarrow> ('l::len word) RCHTTPClientConfig option \<Rightarrow> 'l word RCHTTPClient res" where
  "RCHTTPClientCreate version config =
     (case config of None \<Rightarrow> Inl (RCErrorSet 1 ''HTTP client configuration is incomplete'')
      | Some g \<Rightarrow>
        (case (g_username g, g_password g, g_certificatePath g) of
           (Some u, Some p, Some c) \<Rightarrow>
             Inr \<lparr>c_username = u, c_password = p, c_certificatePath = c,
                  c_allowedHostSuffix = g_allowedHostSuffix g,
                  c_userAgent = (case g_userAgent g of Some a \<Rightarrow> a
                    | None \<Rightarrow> ''jeffreybergier/Retro-Cloud-Sync/'' @ version),
                  c_maximumResponseBytes = (if g_maximumResponseBytes g \<noteq> 0
                    then g_maximumResponseBytes g else of_nat RC_HTTP_DEFAULT_RESPONSE_LIMIT)\<rparr>
         | _ \<Rightarrow> Inl (RCErrorSet 1 ''HTTP client configuration is incomplete'')))"

section \<open>The request loop\<close>

definition request_headers ::
  "string option \<Rightarrow> string option \<Rightarrow> string option \<Rightarrow> string option \<Rightarrow> bool \<Rightarrow> string list" where
  "request_headers depth destination contentType ifMatch ifNoneMatch =
     (case depth of None \<Rightarrow> [] | Some v \<Rightarrow> [take 31 (''Depth: '' @ v)]) @
     (case destination of None \<Rightarrow> [] | Some v \<Rightarrow> [''Destination: '' @ v, ''Overwrite: F'']) @
     (case contentType of None \<Rightarrow> [] | Some v \<Rightarrow> [take 159 (''Content-Type: '' @ take 140 v)]) @
     (case ifMatch of Some v \<Rightarrow> [''If-Match: '' @ v]
      | None \<Rightarrow> if ifNoneMatch then [''If-None-Match: *''] else []) @
     [''Accept: application/xml, text/vcard, text/calendar, */*'']"

definition request_options ::
  "('l::len word) RCHTTPClient \<Rightarrow> string \<Rightarrow> string \<Rightarrow> string list \<Rightarrow> bytes option \<Rightarrow> nat \<Rightarrow> curl_option list" where
  "request_options client url method headers body len =
     [OptURL url, OptCustomRequest method, OptUsername (c_username client),
      OptPassword (c_password client), OptHTTPAuthBasic, OptCAInfo (c_certificatePath client),
      OptSSLVerifyPeer True, OptSSLVerifyHost 2, OptProtocolsHTTPS, OptRedirProtocolsHTTPS,
      OptFollowLocation False, OptNoSignal True, OptNoProgress False, OptXferInfoFunction,
      OptConnectTimeout 20, OptTimeout 120, OptUserAgent (c_userAgent client),
      OptHTTPHeader headers, OptWriteFunction, OptWriteData, OptHeaderFunction, OptHeaderData] @
     (if body \<noteq> None \<or> len \<noteq> 0 then [OptPostFields (blob body len), OptPostFieldSize len] else [])"

text \<open>\<open>RC_SET_OPTION\<close>: the first code that is not \<open>CURLE_OK\<close> stops the set-up.\<close>

fun setup_code :: "(curl_option \<Rightarrow> int) \<Rightarrow> curl_option list \<Rightarrow> int" where
  "setup_code f [] = 0"
| "setup_code f (opt # rest) = (if f opt \<noteq> 0 then f opt else setup_code f rest)"

text \<open>
  One transfer: the code, whether the sz limit was exceeded, the response, and the world
  after it. A stop request that is already set suppresses the transfer.
\<close>

definition run_transfer ::
  "('l::len word, 'w) curl \<Rightarrow> 'l word RCHTTPClient \<Rightarrow> string \<Rightarrow> curl_option list \<Rightarrow> 'w \<Rightarrow>
   (int \<times> bool \<times> RCHTTPResponse) \<times> 'w" where
  "run_transfer cu client url opts w =
     (let x = \<lparr>x_response = RCHTTPResponseInit, x_maximumBytes = c_maximumResponseBytes client,
               x_exceededLimit = False\<rparr> in
      if stop cu w
      then ((CURLE_ABORTED_BY_CALLBACK, False, RCHTTPResponseInit\<lparr>rs_effectiveURL := Some url\<rparr>), w)
      else let (tr, w') = perform cu opts w; (ok, x') = deliver (t_events tr) x in
        ((if ok then t_code tr else CURLE_WRITE_ERROR, x_exceededLimit x',
          (x_response x')\<lparr>rs_statusCode := t_status tr,
             rs_effectiveURL := Some (case t_effectiveURL tr of Some u \<Rightarrow> cstr u | None \<Rightarrow> url)\<rparr>), w'))"

definition is_redirect :: "int \<Rightarrow> bool" where
  "is_redirect s \<longleftrightarrow> s = 301 \<or> s = 302 \<or> s = 307 \<or> s = 308"

text \<open>One pass of the loop: the final result, or the response that asks to be followed.\<close>

definition request_once ::
  "('l::len word, 'w) curl \<Rightarrow> 'l word RCHTTPClient \<Rightarrow> string \<Rightarrow> string list \<Rightarrow> bytes option \<Rightarrow> nat \<Rightarrow> bool \<Rightarrow>
   string \<Rightarrow> 'w \<Rightarrow> (RCHTTPResponse res + RCHTTPResponse) \<times> 'w" where
  "request_once cu client method headers body len conditional url w =
     (case RCValidateDestination cu url (c_allowedHostSuffix client) of
        Some e \<Rightarrow> (Inl (Inl e), w)
      | None \<Rightarrow>
        if \<not> easy_init cu w then (Inl (Inl (RCErrorSet 1 ''Could not create libcurl handle'')), w)
        else
        (let opts = request_options client url method headers body len;
             code = setup_code (setopt cu) opts in
         if code \<noteq> 0
         then (Inl (Inl (RCErrorSet code (''Could not configure DAV request: '' @ strerror cu code))), w)
         else
         (let ((code, exceeded, response), w') = run_transfer cu client url opts w in
          case RCCheckCancellation (stop cu w') of
            Some e \<Rightarrow> (Inl (Inl e), w')
          | None \<Rightarrow>
            if code \<noteq> 0
            then (Inl (Inl (RCErrorSet code (if exceeded then ''HTTP response exceeded size limit''
                        else ''DAV request failed: '' @ strerror cu code))), w')
            else if \<not> conditional \<and> is_redirect (rs_statusCode response) then (Inr response, w')
            else (Inl (Inr response), w'))))"

text \<open>\<open>left\<close> is the number of redirects still allowed.\<close>

fun request_loop ::
  "('l::len word, 'w) curl \<Rightarrow> 'l word RCHTTPClient \<Rightarrow> string \<Rightarrow> string list \<Rightarrow> bytes option \<Rightarrow> nat \<Rightarrow> bool \<Rightarrow>
   nat \<Rightarrow> string \<Rightarrow> 'w \<Rightarrow> RCHTTPResponse res \<times> 'w" where
  "request_loop cu client method headers body len conditional left url w =
     (case request_once cu client method headers body len conditional url w of
        (Inl r, w') \<Rightarrow> (r, w')
      | (Inr response, w') \<Rightarrow>
          (case (rs_location response, left) of
             (Some loc, Suc left') \<Rightarrow>
               (case RCURLResolve cu (case rs_effectiveURL response of Some u \<Rightarrow> u | None \<Rightarrow> []) loc of
                  Inl e \<Rightarrow> (Inl e, w')
                | Inr redirectURL \<Rightarrow>
                    request_loop cu client method headers body len conditional left' redirectURL w')
           | _ \<Rightarrow> (Inl (RCErrorSet 1 ''Invalid or excessive DAV redirects''), w')))"

declare request_loop.simps [simp del]

definition RCRequest ::
  "('l::len word, 'w) curl \<Rightarrow> 'l word RCHTTPClient \<Rightarrow> string \<Rightarrow> string \<Rightarrow> string option \<Rightarrow> string option \<Rightarrow> bytes option \<Rightarrow> nat \<Rightarrow>
   string option \<Rightarrow> bool \<Rightarrow> string option \<Rightarrow> 'w \<Rightarrow> RCHTTPResponse res \<times> 'w" where
  "RCRequest cu client method url depth contentType body len ifMatch ifNoneMatch destination w =
     request_loop cu client method (request_headers depth destination contentType ifMatch ifNoneMatch)
       body len (ifMatch \<noteq> None \<or> ifNoneMatch) RC_HTTP_REDIRECT_LIMIT url w"

section \<open>Entry points\<close>

definition RCHTTPClientRequest ::
  "('l::len word, 'w) curl \<Rightarrow> 'l word RCHTTPClient \<Rightarrow> string \<Rightarrow> string \<Rightarrow> string option \<Rightarrow> string option \<Rightarrow> bytes option \<Rightarrow> nat \<Rightarrow>
   'w \<Rightarrow> RCHTTPResponse res \<times> 'w" where
  "RCHTTPClientRequest cu client method url depth contentType body len w =
     (if same_nocase method ''PUT'' \<or> same_nocase method ''DELETE'' \<or> same_nocase method ''MOVE'' \<or>
         same_nocase method ''MKCALENDAR''
      then (Inl (RCErrorSet 1 ''DAV mutations require a conditional request''), w)
      else RCRequest cu client method url depth contentType body len None False None w)"

definition LONG_MAX :: "'l::len itself \<Rightarrow> nat" where
  "LONG_MAX _ = 2 ^ (LENGTH('l) - 1) - 1"

definition conditional_refused ::
  "nat \<Rightarrow> string option \<Rightarrow> bytes option \<Rightarrow> nat \<Rightarrow> string option \<Rightarrow> bool \<Rightarrow> bool" where
  "conditional_refused longMax method body len ifMatch ifNoneMatch =
     (case method of None \<Rightarrow> True | Some m \<Rightarrow>
        len > longMax \<or> (m \<noteq> ''PUT'' \<and> m \<noteq> ''DELETE'' \<and> m \<noteq> ''MKCALENDAR'') \<or>
        (if ifMatch \<noteq> None then \<not> RCWriteETagIsStrong ifMatch \<or> ifNoneMatch else \<not> ifNoneMatch) \<or>
        (m = ''MKCALENDAR'' \<and> (ifMatch \<noteq> None \<or> \<not> ifNoneMatch)) \<or>
        (m = ''DELETE'' \<and> (ifMatch = None \<or> body \<noteq> None \<or> len \<noteq> 0)) \<or>
        ((m = ''PUT'' \<or> m = ''MKCALENDAR'') \<and> (body = None \<or> len = 0)))"

definition RCHTTPClientConditionalRequest ::
  "('l::len word, 'w) curl \<Rightarrow> 'l word RCHTTPClient \<Rightarrow> string option \<Rightarrow> string \<Rightarrow> string option \<Rightarrow> bytes option \<Rightarrow> nat \<Rightarrow>
   string option \<Rightarrow> bool \<Rightarrow> 'w \<Rightarrow> RCHTTPResponse res \<times> 'w" where
  "RCHTTPClientConditionalRequest cu client method url contentType body len ifMatch ifNoneMatch w =
     (if conditional_refused (LONG_MAX TYPE('l)) method body len ifMatch ifNoneMatch
      then (Inl (RCErrorSet 1 ''Invalid conditional DAV mutation''), w)
      else RCRequest cu client (the method) url None contentType body len ifMatch ifNoneMatch None w)"

definition RCHTTPClientMove ::
  "('l::len word, 'w) curl \<Rightarrow> 'l word RCHTTPClient \<Rightarrow> string option \<Rightarrow> string option \<Rightarrow> string option \<Rightarrow>
   'w \<Rightarrow> RCHTTPResponse res \<times> 'w" where
  "RCHTTPClientMove cu client source destination etag w =
     (case (source, destination) of
        (Some s, Some d) \<Rightarrow>
          if \<not> RCWriteETagIsStrong etag \<or> CHR 0x0d \<in> set d \<or> CHR 0x0a \<in> set d \<or>
             RCValidateDestination cu d (c_allowedHostSuffix client) \<noteq> None
          then (Inl (RCErrorSet 1 ''Invalid conditional MOVE''), w)
          else RCRequest cu client ''MOVE'' s None None None 0 etag False (Some d) w
      | _ \<Rightarrow> (Inl (RCErrorSet 1 ''Invalid conditional MOVE''), w))"

end
