(* ===== verification/HTTPSafety.thy ===== *)
theory HTTPSafety
  imports HTTPClient
begin

text \<open>
  What the HTTP client guarantees of every transfer it starts: how many there are, where
  they go, which options and preconditions they carry, and how large a response can get.
  Transfers are observed by a client library that also keeps the list of transfers it was
  asked for (\<open>logged\<close>); it computes the same results as the library it wraps.
\<close>

section \<open>Response size\<close>

lemma unat_bound: "unat (a :: 'l::len word) < 2 ^ LENGTH('l)"
  by (rule unsigned_less)

lemma word_mult_overflow:
  fixes a b :: "'l::len word"
  assumes "a \<noteq> 0"
  shows "(a * b) div a \<noteq> b \<longleftrightarrow> 2 ^ LENGTH('l) \<le> unat a * unat b"
proof -
  have a: "0 < unat a" using assms by (simp add: unat_gt_0)
  have u: "unat ((a * b) div a) = (unat a * unat b mod 2 ^ LENGTH('l)) div unat a"
    by (simp add: unat_div unat_word_ariths)
  show ?thesis
  proof (cases "2 ^ LENGTH('l) \<le> unat a * unat b")
    case True
    have "unat a * unat b mod 2 ^ LENGTH('l) < unat a * unat b"
      by (rule order_less_le_trans [OF mod_less_divisor True]) simp
    then have "(unat a * unat b mod 2 ^ LENGTH('l)) div unat a < unat b"
      using a by (simp add: less_mult_imp_div_less mult.commute)
    with u True show ?thesis by (metis less_irrefl)
  next
    case False
    with u a have "unat ((a * b) div a) = unat b" by simp
    with False show ?thesis by (simp add: word_unat_eq_iff)
  qed
qed

lemma unat_mult_exact:
  fixes a b :: "'l::len word"
  shows "unat a * unat b < 2 ^ LENGTH('l) \<Longrightarrow> unat (a * b) = unat a * unat b"
  by (simp add: unat_word_ariths)

definition within :: "('l::len word) RCWriteContext \<Rightarrow> bool" where
  "within x \<longleftrightarrow> bodyLength (x_response x) \<le> unat (x_maximumBytes x)"

lemma unat_remaining:
  fixes m :: "'l::len word"
  assumes "n \<le> unat m"
  shows "unat (m - of_nat n) = unat m - n"
proof -
  have "n < 2 ^ LENGTH('l)" using assms unat_bound [of m] by linarith
  then have "unat (of_nat n :: 'l word) = n" by (simp add: unat_of_nat)
  with assms show ?thesis by (simp add: unat_sub word_le_nat_alt)
qed

lemma RCReceiveBody_exact:
  fixes sz count :: "'l::len word"
  assumes "within x"
  shows "RCReceiveBody bytes sz count x =
    (if bodyLength (x_response x) + unat sz * unat count \<le> unat (x_maximumBytes x)
     then (sz * count, x\<lparr>x_response := (x_response x)\<lparr>rs_body :=
            Some (bytes_of (rs_body (x_response x)) @ take (unat sz * unat count) bytes)\<rparr>\<rparr>)
     else (0, x\<lparr>x_exceededLimit := True\<rparr>))"
proof -
  let ?b = "bodyLength (x_response x)" and ?m = "x_maximumBytes x"
  have b: "?b \<le> unat ?m" using assms by (simp add: within_def)
  note rem = unat_remaining [OF b]
  show ?thesis
  proof (cases "2 ^ LENGTH('l) \<le> unat sz * unat count")
    case True
    then have "sz \<noteq> 0" by (cases "sz = 0") auto
    moreover have "\<not> ?b + unat sz * unat count \<le> unat ?m"
      using True unat_bound [of ?m] by linarith
    ultimately show ?thesis
      using word_mult_overflow [of sz count] True by (simp add: RCReceiveBody_def Let_def)
  next
    case False
    then have e: "unat (sz * count) = unat sz * unat count" by (simp add: unat_mult_exact)
    have "\<not> (sz \<noteq> 0 \<and> sz * count div sz \<noteq> count)" using False word_mult_overflow by blast
    moreover have "sz * count > ?m - of_nat ?b \<longleftrightarrow> \<not> ?b + unat sz * unat count \<le> unat ?m"
      using rem e b by (auto simp: word_less_nat_alt)
    ultimately show ?thesis by (auto simp: RCReceiveBody_def Let_def e)
  qed
qed

lemma RCReceiveBody_within:
  assumes "within x" and "RCReceiveBody bytes sz count x = (n, x')"
  shows "within x' \<and> x_maximumBytes x' = x_maximumBytes x"
  using assms(2) assms(1) RCReceiveBody_exact [OF assms(1), of bytes sz count]
  by (auto simp: within_def bodyLength_def split: if_splits)

lemma RCReceiveHeader_body: "rs_body (snd (RCReceiveHeader bytes sz count r)) = rs_body r"
  by (simp add: RCReceiveHeader_def Let_def)

lemma deliver_within:
  "within x \<Longrightarrow> deliver es x = (ok, x') \<Longrightarrow> within x' \<and> x_maximumBytes x' = x_maximumBytes x"
proof (induction es x arbitrary: ok x' rule: deliver.induct)
  case (1 x)
  then show ?case by simp
next
  case (2 sz count bytes es x)
  obtain n r where r: "RCReceiveHeader bytes sz count (x_response x) = (n, r)" by fastforce
  then have "rs_body r = rs_body (x_response x)" using RCReceiveHeader_body by (metis snd_conv)
  then have w: "within (x\<lparr>x_response := r\<rparr>)" using 2(2) by (simp add: within_def bodyLength_def)
  show ?case
    using 2(1) [OF r [symmetric] refl refl _ w] 2(3) r w by (auto simp: Let_def split: if_splits)
next
  case (3 sz count bytes es x)
  obtain n y where r: "RCReceiveBody bytes sz count x = (n, y)" by fastforce
  note w = RCReceiveBody_within [OF 3(2) r]
  show ?case
    using 3(1) [OF r [symmetric] refl] 3(3) r w by (auto simp: Let_def split: if_splits)
qed

lemma run_transfer_within:
  assumes "run_transfer cu client url opts w = ((code, exceeded, r), w')"
  shows "bodyLength r \<le> unat (c_maximumResponseBytes client)"
proof -
  let ?x = "\<lparr>x_response = RCHTTPResponseInit, x_maximumBytes = c_maximumResponseBytes client,
      x_exceededLimit = False\<rparr>"
  obtain tr u where p: "perform cu opts w = (tr, u)" by fastforce
  obtain ok x' where d: "deliver (t_events tr) ?x = (ok, x')" by fastforce
  have "within ?x" by (simp add: within_def bodyLength_def RCHTTPResponseInit_def)
  from deliver_within [OF this d] assms p d show ?thesis
    by (auto simp: run_transfer_def Let_def within_def bodyLength_def RCHTTPResponseInit_def
        split: if_splits)
qed

section \<open>Observed transfers\<close>

definition logged :: "('s, 'w) curl \<Rightarrow> ('s, 'w \<times> curl_option list list) curl" where
  "logged cu = \<lparr>url_parse = url_parse cu, url_resolve = url_resolve cu,
     easy_init = (\<lambda>(w, log). easy_init cu w), setopt = setopt cu,
     perform = (\<lambda>opts (w, log). (fst (perform cu opts w), (snd (perform cu opts w), log @ [opts]))),
     strerror = strerror cu, stop = (\<lambda>(w, log). stop cu w)\<rparr>"

lemma logged_simps [simp]:
  "url_parse (logged cu) = url_parse cu" "url_resolve (logged cu) = url_resolve cu"
  "easy_init (logged cu) (w, log) = easy_init cu w" "setopt (logged cu) = setopt cu"
  "perform (logged cu) opts (w, log) =
     (fst (perform cu opts w), (snd (perform cu opts w), log @ [opts]))"
  "strerror (logged cu) = strerror cu" "stop (logged cu) (w, log) = stop cu w"
  by (simp_all add: logged_def)

lemma logged_validate [simp]: "RCValidateDestination (logged cu) = RCValidateDestination cu"
  by (intro ext) (simp add: RCValidateDestination_def)

lemma logged_resolve [simp]: "RCURLResolve (logged cu) = RCURLResolve cu"
  by (intro ext) (simp add: RCURLResolve_def)

text \<open>One transfer, run with and without the list.\<close>

lemma run_transfer_logged:
  "run_transfer (logged cu) client url opts (w, log) =
     (fst (run_transfer cu client url opts w),
      (snd (run_transfer cu client url opts w), if stop cu w then log else log @ [opts]))"
  by (simp add: run_transfer_def Let_def split: prod.splits)


text \<open>A transfer the client may start: to a checked destination, with the fixed options.\<close>

definition authorised ::
  "('l::len word, 'w) curl \<Rightarrow> 'l word RCHTTPClient \<Rightarrow> string \<Rightarrow> string list \<Rightarrow> bytes option \<Rightarrow> nat \<Rightarrow>
   curl_option list \<Rightarrow> bool" where
  "authorised cu client method headers body len opts \<longleftrightarrow>
     (\<exists>u. RCValidateDestination cu u (c_allowedHostSuffix client) = None \<and>
          opts = request_options client u method headers body len)"

lemma request_once_logged:
  assumes "request_once (logged cu) client method headers body len conditional url (w, log) = (x, w', log')"
  shows "request_once cu client method headers body len conditional url w = (x, w') \<and>
    (log' = log \<or> log' = log @ [request_options client url method headers body len] \<and>
       authorised cu client method headers body len (request_options client url method headers body len)) \<and>
    (\<forall>r. x = Inl (Inr r) \<or> x = Inr r \<longrightarrow> bodyLength r \<le> unat (c_maximumResponseBytes client)) \<and>
    (conditional \<longrightarrow> (\<forall>r. x \<noteq> Inr r)) \<and> (\<forall>r. x = Inl (Inr r) \<longrightarrow> log' \<noteq> log)"
proof -
  let ?opts = "request_options client url method headers body len"
  obtain c e a u where t: "run_transfer cu client url ?opts w = ((c, e, a), u)"
    by (metis surj_pair)
  moreover have "stop cu w \<Longrightarrow> c \<noteq> 0"
    using t by (auto simp: run_transfer_def CURLE_ABORTED_BY_CALLBACK_def)
  ultimately show ?thesis
    using assms run_transfer_within [OF t]
    by (auto simp: request_once_def run_transfer_logged Let_def authorised_def RCCheckCancellation_def
        split: option.splits if_splits)
qed

text \<open>The outcome of a request loop: its transfers, and the same result without the list.\<close>

definition loop_outcome where
  "loop_outcome cu client method headers body len bound plain r w' log log' \<longleftrightarrow>
     (\<exists>new. log' = log @ new \<and> length new \<le> bound \<and>
        (\<forall>opts \<in> set new. authorised cu client method headers body len opts)) \<and>
     plain = (r, w') \<and> (\<forall>x. r = Inr x \<longrightarrow> bodyLength x \<le> unat (c_maximumResponseBytes client))"

lemma loop_outcome_step:
  assumes "loop_outcome cu client method headers body len n plain r w' log1 log'"
    and "log1 = log \<or> log1 = log @ [opts] \<and> authorised cu client method headers body len opts"
  shows "loop_outcome cu client method headers body len (Suc n) plain r w' log log'"
  using assms unfolding loop_outcome_def by (elim conjE exE disjE) auto

lemma request_loop_outcome:
  assumes "request_loop (logged cu) client method headers body len conditional left url (w, log) = (r, w', log')"
  shows "loop_outcome cu client method headers body len (if conditional then 1 else Suc left)
      (request_loop cu client method headers body len conditional left url w) r w' log log'"
  using assms
proof (induction left arbitrary: url w log)
  case (0 url w log)
  obtain x u log1 where o: "request_once (logged cu) client method headers body len conditional url (w, log) = (x, u, log1)"
    by (metis surj_pair)
  from 0 o request_once_logged [OF o] show ?case
    by (cases x) (auto simp: request_loop.simps [where left = 0] loop_outcome_def split: option.splits)
next
  case (Suc left url w log)
  obtain x u log1 where o: "request_once (logged cu) client method headers body len conditional url (w, log) = (x, u, log1)"
    by (metis surj_pair)
  note once = request_once_logged [OF o] and plain = request_once_logged [OF o, THEN conjunct1]
  show ?case
  proof (cases x)
    case (Inl a)
    with Suc.prems o once show ?thesis
      by (auto simp: request_loop.simps [where left = "Suc left"] loop_outcome_def)
  next
    case (Inr resp)
    with once have nc: "\<not> conditional" by auto
    have stop: ?thesis if "r = Inl e" "w' = u" "log' = log1"
      "request_loop cu client method headers body len conditional (Suc left) url w = (Inl e, u)" for e
      using that once by (auto simp: loop_outcome_def)
    show ?thesis
    proof (cases "rs_location resp")
      case None
      with Suc.prems o once Inr show ?thesis
        by (intro stop) (auto simp: request_loop.simps [where left = "Suc left"])
    next
      case (Some loc)
      let ?base = "case rs_effectiveURL resp of Some u \<Rightarrow> u | None \<Rightarrow> []"
      show ?thesis
      proof (cases "RCURLResolve cu ?base loc")
        case (Inl e)
        with Some Suc.prems o once Inr \<open>x = Inr resp\<close> show ?thesis
          by (intro stop) (auto simp: request_loop.simps [where left = "Suc left"])
      next
        case (Inr nxt)
        with Some Suc.prems o plain \<open>x = Inr resp\<close>
        have "request_loop (logged cu) client method headers body len conditional left nxt (u, log1) = (r, w', log')"
          and p: "request_loop cu client method headers body len conditional (Suc left) url w =
            request_loop cu client method headers body len conditional left nxt u"
          by (simp_all add: request_loop.simps [where left = "Suc left"])
        from loop_outcome_step [OF Suc.IH [OF this(1)]] once
        have "loop_outcome cu client method headers body len (Suc (if conditional then 1 else Suc left))
            (request_loop cu client method headers body len conditional left nxt u) r w' log log'" by blast
        with nc show ?thesis unfolding p by simp
      qed
    qed
  qed
qed


lemma request_loop_conditional:
  assumes "request_loop (logged cu) client method headers body len True left url (w, log) = (r, w', log')"
  shows "(log' = log \<or> log' = log @ [request_options client url method headers body len] \<and>
    authorised cu client method headers body len (request_options client url method headers body len)) \<and>
    (is_ok r \<longrightarrow> log' \<noteq> log)"
proof -
  obtain x u log1 where o: "request_once (logged cu) client method headers body len True url (w, log) = (x, u, log1)"
    by (metis surj_pair)
  note once = request_once_logged [OF o]
  then obtain y where y: "x = Inl y" by (cases x) auto
  with o assms have "log' = log1" "r = y" by (subst (asm) request_loop.simps; simp)+
  with once y show ?thesis by (cases y) auto
qed

lemma RCRequest_outcome:
  assumes "RCRequest (logged cu) client method url depth contentType body len ifMatch ifNoneMatch destination (w, log) = (r, w', log')"
  shows "loop_outcome cu client method (request_headers depth destination contentType ifMatch ifNoneMatch)
    body len (if ifMatch \<noteq> None \<or> ifNoneMatch then 1 else 6)
    (RCRequest cu client method url depth contentType body len ifMatch ifNoneMatch destination w) r w' log log'"
proof -
  have "Suc RC_HTTP_REDIRECT_LIMIT = 6" by (simp add: RC_HTTP_REDIRECT_LIMIT_def)
  with request_loop_outcome [OF assms [unfolded RCRequest_def]] show ?thesis
    unfolding RCRequest_def by metis
qed

section \<open>Entry points\<close>

text \<open>A call of one of the exported request functions.\<close>

inductive http_call ::
  "('l::len word, 'w) curl \<Rightarrow> 'l word RCHTTPClient \<Rightarrow> 'w \<Rightarrow> RCHTTPResponse res \<Rightarrow> 'w \<Rightarrow> bool"
  for cu client where
  plain: "RCHTTPClientRequest cu client method url depth contentType body len w = (r, w') \<Longrightarrow>
     http_call cu client w r w'"
| conditional: "RCHTTPClientConditionalRequest cu client m url contentType body len ifMatch ifNoneMatch w = (r, w') \<Longrightarrow>
     http_call cu client w r w'"
| move: "RCHTTPClientMove cu client source destination etag w = (r, w') \<Longrightarrow> http_call cu client w r w'"

definition opt_urls :: "curl_option list \<Rightarrow> string list" where
  "opt_urls opts = concat (map (\<lambda>x. case x of OptURL u \<Rightarrow> [u] | _ \<Rightarrow> []) opts)"

definition opt_methods :: "curl_option list \<Rightarrow> string list" where
  "opt_methods opts = concat (map (\<lambda>x. case x of OptCustomRequest m \<Rightarrow> [m] | _ \<Rightarrow> []) opts)"

definition opt_headers :: "curl_option list \<Rightarrow> string list" where
  "opt_headers opts = concat (map (\<lambda>x. case x of OptHTTPHeader h \<Rightarrow> h | _ \<Rightarrow> []) opts)"

text \<open>The credentials go to an allowed host over verified HTTPS, and no further.\<close>

definition confined :: "('s, 'w) curl \<Rightarrow> 's RCHTTPClient \<Rightarrow> curl_option list \<Rightarrow> bool" where
  "confined cu client opts \<longleftrightarrow>
     (\<exists>u scheme host. opt_urls opts = [u] \<and> url_parse cu u = Some (scheme, host) \<and>
        same_nocase scheme ''https'' \<and> RCHostHasSuffix host (c_allowedHostSuffix client)) \<and>
     OptSSLVerifyPeer True \<in> set opts \<and> OptSSLVerifyHost 2 \<in> set opts \<and>
     OptProtocolsHTTPS \<in> set opts \<and> OptFollowLocation False \<in> set opts"

definition mutates :: "curl_option list \<Rightarrow> bool" where
  "mutates opts \<longleftrightarrow> (\<exists>m \<in> set (opt_methods opts). \<exists>k \<in> {''PUT'', ''DELETE'', ''MOVE'', ''MKCALENDAR''}. same_nocase m k)"

text \<open>The precondition header a mutation carries.\<close>

definition guarded :: "curl_option list \<Rightarrow> bool" where
  "guarded opts \<longleftrightarrow> ''If-None-Match: *'' \<in> set (opt_headers opts) \<or>
     (\<exists>tag. RCWriteETagIsStrong (Some tag) \<and> ''If-Match: '' @ tag \<in> set (opt_headers opts))"

lemma opt_lists [simp]:
  "opt_urls (request_options client u method headers body len) = [u]"
  "opt_methods (request_options client u method headers body len) = [method]"
  "opt_headers (request_options client u method headers body len) = headers"
  by (auto simp: request_options_def opt_urls_def opt_methods_def opt_headers_def)

lemma authorised_confined:
  "authorised cu client method headers body len opts \<Longrightarrow> confined cu client opts"
proof -
  assume "authorised cu client method headers body len opts"
  then obtain u where v: "RCValidateDestination cu u (c_allowedHostSuffix client) = None"
    and o: "opts = request_options client u method headers body len" by (auto simp: authorised_def)
  from v obtain scheme host where "url_parse cu u = Some (scheme, host)" "same_nocase scheme ''https''"
    "RCHostHasSuffix host (c_allowedHostSuffix client)"
    unfolding RCValidateDestination_def by (cases "url_parse cu u") (auto split: if_splits)
  moreover have "{OptSSLVerifyPeer True, OptSSLVerifyHost 2, OptProtocolsHTTPS, OptFollowLocation False} \<subseteq> set opts"
    by (simp add: o request_options_def)
  ultimately show ?thesis by (simp add: confined_def o)
qed

lemma authorised_method:
  "authorised cu client method headers body len opts \<Longrightarrow> opt_methods opts = [method] \<and> opt_headers opts = headers"
  by (auto simp: authorised_def)

lemma request_headers_guarded:
  "ifMatch \<noteq> None \<longrightarrow> RCWriteETagIsStrong ifMatch \<Longrightarrow> ifMatch \<noteq> None \<or> ifNoneMatch \<Longrightarrow>
     opt_headers opts = request_headers depth destination contentType ifMatch ifNoneMatch \<Longrightarrow> guarded opts"
  by (auto simp: guarded_def request_headers_def split: option.splits)

text \<open>What all entry points share: a call is refused, or it runs \<open>RCRequest\<close> with a method that
  does not change the server or with a precondition.\<close>

definition mutation :: "string \<Rightarrow> bool" where
  "mutation m \<longleftrightarrow> same_nocase m ''PUT'' \<or> same_nocase m ''DELETE'' \<or> same_nocase m ''MOVE'' \<or>
     same_nocase m ''MKCALENDAR''"

definition runs_request where
  "runs_request cu client w r w' \<longleftrightarrow>
     (\<exists>method url depth contentType body len ifMatch ifNoneMatch destination.
        RCRequest cu client method url depth contentType body len ifMatch ifNoneMatch destination w = (r, w') \<and>
        (ifMatch \<noteq> None \<longrightarrow> RCWriteETagIsStrong ifMatch) \<and>
        (mutation method \<longrightarrow> ifMatch \<noteq> None \<or> ifNoneMatch))"

lemma runs_requestI:
  "RCRequest cu client method url depth contentType body len ifMatch ifNoneMatch destination w = (r, w') \<Longrightarrow>
     (ifMatch \<noteq> None \<longrightarrow> RCWriteETagIsStrong ifMatch) \<Longrightarrow>
     (mutation method \<longrightarrow> ifMatch \<noteq> None \<or> ifNoneMatch) \<Longrightarrow> runs_request cu client w r w'"
  unfolding runs_request_def by blast

lemma Request_runs:
  assumes "RCHTTPClientRequest cu client method url depth contentType body len w = (r, w')"
  shows "(\<exists>e. r = Inl e \<and> w' = w) \<or> runs_request cu client w r w'"
proof (cases "mutation method")
  case True
  with assms show ?thesis by (auto simp: RCHTTPClientRequest_def mutation_def)
next
  case False
  then have "RCRequest cu client method url depth contentType body len None False None w = (r, w')"
    using assms by (simp add: RCHTTPClientRequest_def mutation_def)
  then have "runs_request cu client w r w'" by (rule runs_requestI) (use False in simp_all)
  then show ?thesis ..
qed

lemma Conditional_runs:
  fixes cu :: "('l::len word, 'w) curl"
  assumes "RCHTTPClientConditionalRequest cu client m url contentType body len ifMatch ifNoneMatch w = (r, w')"
  shows "(\<exists>e. r = Inl e \<and> w' = w) \<or> runs_request cu client w r w'"
proof (cases "conditional_refused (LONG_MAX TYPE('l)) m body len ifMatch ifNoneMatch")
  case True
  with assms show ?thesis by (auto simp: RCHTTPClientConditionalRequest_def)
next
  case False
  then have "RCRequest cu client (the m) url None contentType body len ifMatch ifNoneMatch None w = (r, w')"
    using assms by (simp add: RCHTTPClientConditionalRequest_def)
  then have "runs_request cu client w r w'"
    by (rule runs_requestI) (use False in \<open>auto simp: conditional_refused_def split: option.splits if_splits\<close>)
  then show ?thesis ..
qed

lemma Move_runs:
  assumes "RCHTTPClientMove cu client source destination etag w = (r, w')"
  shows "(\<exists>e. r = Inl e \<and> w' = w) \<or> runs_request cu client w r w'"
proof (cases "(\<exists>e. r = Inl e \<and> w' = w)")
  case False
  with assms obtain s d where strong: "RCWriteETagIsStrong etag"
    and q: "RCRequest cu client ''MOVE'' s None None None 0 etag False (Some d) w = (r, w')"
    by (cases source; cases destination) (auto simp: RCHTTPClientMove_def split: if_splits)
  from strong have "etag \<noteq> None" by (cases etag) (simp_all add: RCWriteETagIsStrong_def)
  with strong have "runs_request cu client w r w'" by (intro runs_requestI [OF q]) simp_all
  then show ?thesis ..
qed simp

lemma http_call_runs:
  "http_call cu client w r w' \<Longrightarrow> (\<exists>e. r = Inl e \<and> w' = w) \<or> runs_request cu client w r w'"
  by (erule http_call.cases) (blast dest: Request_runs Conditional_runs Move_runs)+

lemma loop_outcome_new:
  "loop_outcome cu client method headers body len n plain r w' log log' \<Longrightarrow>
     \<exists>new. log' = log @ new \<and> length new \<le> n \<and>
       (\<forall>opts \<in> set new. confined cu client opts \<and> opt_methods opts = [method] \<and> opt_headers opts = headers)"
  unfolding loop_outcome_def
  by (elim conjE exE) (auto intro!: exI dest: authorised_confined authorised_method)

lemma transfers_guarded:
  assumes "http_call (logged cu) client (w, log) r (w', log')"
  shows "\<exists>new. log' = log @ new \<and> length new \<le> 6 \<and> (\<forall>opts \<in> set new. confined cu client opts) \<and>
    (\<forall>opts \<in> set new. mutates opts \<longrightarrow> guarded opts \<and> new = [opts])"
  using http_call_runs [OF assms]
proof
  assume "runs_request (logged cu) client (w, log) r (w', log')"
  then obtain mth url depth contentType body len ifMatch ifNoneMatch destination
    where q: "RCRequest (logged cu) client mth url depth contentType body len ifMatch ifNoneMatch
        destination (w, log) = (r, w', log')"
      and strong: "ifMatch \<noteq> None \<longrightarrow> RCWriteETagIsStrong ifMatch"
      and cond: "mutation mth \<longrightarrow> ifMatch \<noteq> None \<or> ifNoneMatch"
    unfolding runs_request_def by blast
  from loop_outcome_new [OF RCRequest_outcome [OF q]] obtain new
    where n: "log' = log @ new" "length new \<le> (if ifMatch \<noteq> None \<or> ifNoneMatch then 1 else 6)"
      "\<forall>opts \<in> set new. confined cu client opts \<and> opt_methods opts = [mth] \<and>
      opt_headers opts = request_headers depth destination contentType ifMatch ifNoneMatch" by blast
  have "guarded opts \<and> new = [opts]" if opts: "opts \<in> set new" "mutates opts" for opts
  proof -
    from opts n(3) have "mutation mth" by (auto simp: mutates_def mutation_def)
    with cond have c: "ifMatch \<noteq> None \<or> ifNoneMatch" by blast
    with n(2) opts(1) have "new = [opts]" by (cases new) auto
    moreover have "guarded opts" using request_headers_guarded [OF strong c] n(3) opts(1) by blast
    ultimately show ?thesis by simp
  qed
  moreover have "length new \<le> 6" using n(2) by (auto split: if_splits)
  ultimately show ?thesis using n by blast
qed auto

text \<open>C13: whatever function of the client is called and whatever the server answers, at most six
  transfers are started, each of them to one allowed host over HTTPS with the peer
  verified; a transfer that changes the server carries a strong \<open>If-Match\<close> or an
  \<open>If-None-Match\<close>, and it is then the only transfer of the call (no redirect is followed).\<close>

theorem http_transfers_guarded:
  assumes "http_call (logged cu) client (w, log) r (w', log')"
  shows "\<exists>new. log' = log @ new \<and> length new \<le> 6 \<and> (\<forall>opts \<in> set new. confined cu client opts) \<and>
    (\<forall>opts \<in> set new. mutates opts \<longrightarrow> guarded opts \<and> new = [opts])"
  using assms by (rule transfers_guarded)

text \<open>A response the client returns is never larger than its configured limit, although the
  amount a callback offers is computed in wrapping \<open>size_t\<close> arithmetic.\<close>

lemma http_response_bounded:
  fixes cu :: "('l::len word, 'w) curl"
  assumes "http_call cu client w (Inr response) w'"
  shows "bodyLength response \<le> unat (c_maximumResponseBytes client)"
proof -
  have "\<forall>x. fst (RCRequest cu client mth url depth contentType body len ifMatch ifNoneMatch destination w) = Inr x \<longrightarrow>
      bodyLength x \<le> unat (c_maximumResponseBytes client)"
    for mth url depth contentType body len ifMatch ifNoneMatch destination
  proof -
    obtain r v log where "RCRequest (logged cu) client mth url depth contentType body len ifMatch ifNoneMatch destination (w, []) = (r, v, log)"
      by (metis surj_pair)
    from RCRequest_outcome [OF this] show ?thesis by (simp add: loop_outcome_def)
  qed
  with http_call_runs [OF assms] show ?thesis
    unfolding runs_request_def by (metis fst_conv sum.distinct(1))
qed

text \<open>C28: a body callback accepts exactly the data that fits: it appends \<open>size * count\<close> bytes when
  the true (unwrapped) product still fits the limit, and otherwise takes nothing and
  marks the response as too large.\<close>

theorem receive_body_exact:
  fixes sz count :: "'l::len word"
  assumes "bodyLength (x_response x) \<le> unat (x_maximumBytes x)"
  shows "RCReceiveBody bytes sz count x =
    (if bodyLength (x_response x) + unat sz * unat count \<le> unat (x_maximumBytes x)
     then (sz * count, x\<lparr>x_response := (x_response x)\<lparr>rs_body :=
            Some (bytes_of (rs_body (x_response x)) @ take (unat sz * unat count) bytes)\<rparr>\<rparr>)
     else (0, x\<lparr>x_exceededLimit := True\<rparr>))"
  by (rule RCReceiveBody_exact) (use assms in \<open>simp add: within_def\<close>)


section \<open>A concrete server\<close>

text \<open>A server that answers every request with status 503 and a short body, and a client for it.\<close>

definition busy_server :: "(32 word, unit) curl" where
  "busy_server = \<lparr>url_parse = (\<lambda>u. Some (''https'', ''h'')), url_resolve = (\<lambda>a b. Some b),
     easy_init = (\<lambda>_. True), setopt = (\<lambda>_. 0),
     perform = (\<lambda>opts w. (\<lparr>t_events = [BodyData 1 4 ''busy''], t_code = 0, t_status = 503,
       t_effectiveURL = None\<rparr>, w)),
     strerror = (\<lambda>_. []), stop = (\<lambda>_. False)\<rparr>"

definition demo_client :: "32 word RCHTTPClient" where
  "demo_client = \<lparr>c_username = ''u'', c_password = ''p'', c_certificatePath = ''c'',
     c_allowedHostSuffix = Some ''h'', c_userAgent = ''a'', c_maximumResponseBytes = 100\<rparr>"

definition busy_response :: RCHTTPResponse where
  "busy_response = RCHTTPResponseInit\<lparr>rs_statusCode := 503, rs_effectiveURL := Some ''https://h/k'',
     rs_body := Some ''busy''\<rparr>"

definition busy_transfer :: "curl_option list" where
  "busy_transfer = request_options demo_client ''https://h/k'' ''GET'' (request_headers None None None None False) None 0"

lemmas http_eval =
  busy_server_def demo_client_def busy_response_def busy_transfer_def RCHTTPClientRequest_def
  RCRequest_def request_once_def RCValidateDestination_def RCHostHasSuffix_def same_nocase_def
  to_lower_def RCCheckCancellation_def run_transfer_def is_redirect_def RC_HTTP_REDIRECT_LIMIT_def
  request_options_def request_headers_def logged_def RCHTTPResponseInit_def bodyLength_def
  RCReceiveBody_def request_loop.simps

lemma busy_get:
  "RCHTTPClientRequest (logged busy_server) demo_client ''GET'' ''https://h/k'' None None None 0 ((), log) =
     (Inr busy_response, (), log @ [busy_transfer])"
  by (simp add: http_eval)

lemma busy_put:
  "RCHTTPClientConditionalRequest (logged busy_server) demo_client (Some ''PUT'') ''https://h/k'' None
     (Some ''B'') 1 None True ((), log) =
   (Inr busy_response, (), log @ [request_options demo_client ''https://h/k'' ''PUT''
     (request_headers None None None None True) (Some ''B'') 1])"
  by (simp add: http_eval RCHTTPClientConditionalRequest_def conditional_refused_def LONG_MAX_def)

text \<open>The witness of guarded transfers: a create, refused by the busy server.\<close>

theorem http_transfers_guarded_witness:
  "guarded (request_options demo_client ''https://h/k'' ''PUT'' (request_headers None None None None True) (Some ''B'') 1)"
proof -
  let ?o = "request_options demo_client ''https://h/k'' ''PUT'' (request_headers None None None None True) (Some ''B'') 1"
  have "mutates ?o" by (simp add: mutates_def)
  with http_transfers_guarded [OF http_call.conditional [OF busy_put [of "[]"]]] show ?thesis by auto
qed

text \<open>The witness of the exact callback: an offer whose 32-bit product wraps to zero is refused.\<close>

theorem receive_body_exact_witness:
  "RCReceiveBody ''x'' (2 ^ 16 :: 32 word) (2 ^ 16)
     \<lparr>x_response = RCHTTPResponseInit, x_maximumBytes = 100, x_exceededLimit = False\<rparr> =
   (0, \<lparr>x_response = RCHTTPResponseInit, x_maximumBytes = 100, x_exceededLimit = True\<rparr>)"
  by (subst receive_body_exact) (simp_all add: RCHTTPResponseInit_def bodyLength_def)

end
