(* ===== verification/DAVWriter.thy ===== *)
theory DAVWriter
  imports HTTPSafety JournalReach
begin

text \<open>
  The writer of \<^verbatim>\<open>source/shared/RCDAVWriter.c\<close>: one attempt of a queued operation, from the
  durable start of the attempt over the verification requests to the recorded result. The
  state is the pair of the database connection and the world of the HTTP client; the
  responses \<open>remote\<close> and \<open>write\<close> of the code are the values its calls return.
\<close>

section \<open>Definitions\<close>

definition on_db :: "('d \<Rightarrow> 'a res \<times> 'd) \<Rightarrow> 'd \<times> 'w \<Rightarrow> 'a res \<times> 'd \<times> 'w" where
  "on_db f s = (let (r, d) = f (fst s) in (r, d, snd s))"

definition on_net :: "('w \<Rightarrow> 'a res \<times> 'w) \<Rightarrow> 'd \<times> 'w \<Rightarrow> 'a res \<times> 'd \<times> 'w" where
  "on_net f s = (let (r, w) = f (snd s) in (r, fst s, w))"

definition desired :: "RCWriteOperation \<Rightarrow> RCHTTPResponse \<Rightarrow> bool" where
  "desired op r \<longleftrightarrow> rs_statusCode r = 200 \<and> RCWriteETagIsStrong (rs_etag r) \<and> rs_body r \<noteq> None \<and>
     bodyLength r = length (bytes_of (o_desiredBody op)) \<and> o_desiredBody op \<noteq> None \<and>
     bytes_of (rs_body r) = bytes_of (o_desiredBody op)"

text \<open>Only bodies of the resource itself are kept; the cast of the status keeps 32 bits.\<close>

definition record_response ::
  "int \<Rightarrow> int \<Rightarrow> string \<Rightarrow> RCHTTPResponse \<Rightarrow> 'z jdb \<Rightarrow> unit res \<times> 'z jdb" where
  "record_response acct i state r d =
     RCWriteJournalRecordResult acct i (Some state) (column_int (rs_statusCode r)) (rs_etag r)
       (if rs_statusCode r = 200 then rs_body r else None)
       (if rs_statusCode r = 200 then bodyLength r else 0) d"

definition writer_get ::
  "('l::len word, 'w) curl \<Rightarrow> 'l word RCHTTPClient \<Rightarrow> string \<Rightarrow> 'w \<Rightarrow> RCHTTPResponse res \<times> 'w" where
  "writer_get cu client href w = chain (RCHTTPClientRequest cu client ''GET'' href None None None 0 w) (\<lambda>r w.
     if rs_effectiveURL r \<noteq> Some href
     then (Inl (RCErrorSet 1 ''Outgoing resource changed its canonical URL''), w) else (Inr r, w))"

definition invalid_precondition :: "RCWriteOperation \<Rightarrow> bool" where
  "invalid_precondition op \<longleftrightarrow>
     (o_kind op \<noteq> Create \<and> \<not> RCWriteETagIsStrong (o_baseETag op)) \<or>
     (o_kind op \<noteq> Delete \<and> (o_desiredBody op = None \<or> bytes_of (o_desiredBody op) = []))"

definition reached :: "int \<Rightarrow> string" where
  "reached s = (if s = 200 \<or> s = 404 then ''conflict'' else ''uncertain'')"

text \<open>After the conditional request: the response decides, or the resource is read again.\<close>

definition after_write ::
  "('l::len word, 'w) curl \<Rightarrow> 'l word RCHTTPClient \<Rightarrow> int \<Rightarrow> int \<Rightarrow> RCWriteOperation \<Rightarrow> RCHTTPResponse \<Rightarrow>
   'z jdb \<times> 'w \<Rightarrow> unit res \<times> 'z jdb \<times> 'w" where
  "after_write cu client acct i op write s =
     (if rs_statusCode write = 412
      then chain (on_net (writer_get cu client (o_href op)) s) (\<lambda>remote s.
             on_db (record_response acct i (reached (rs_statusCode remote)) remote) s)
      else if rs_statusCode write < 200 \<or> rs_statusCode write \<ge> 300
      then on_db (record_response acct i ''uncertain'' write) s
      else chain (on_net (writer_get cu client (o_href op)) s) (\<lambda>remote s.
        if (o_kind op = Delete \<and> rs_statusCode remote = 404) \<or>
           (o_kind op \<noteq> Delete \<and>
             (desired op remote \<or>
              (rs_statusCode remote = 200 \<and> bodyLength remote \<noteq> 0 \<and> RCWriteETagIsStrong (rs_etag write) \<and>
               RCWriteETagIsStrong (rs_etag remote) \<and> rs_etag write = rs_etag remote)))
        then on_db (record_response acct i ''applied'' remote) s
        else on_db (record_response acct i (reached (rs_statusCode remote)) remote) s))"

text \<open>After the first read: already done, not decidable, in conflict, or to be written.\<close>

definition after_read ::
  "('l::len word, 'w) curl \<Rightarrow> 'l word RCHTTPClient \<Rightarrow> int \<Rightarrow> int \<Rightarrow> string option \<Rightarrow> RCWriteOperation \<Rightarrow> RCHTTPResponse \<Rightarrow>
   'z jdb \<times> 'w \<Rightarrow> unit res \<times> 'z jdb \<times> 'w" where
  "after_read cu client acct i type op remote s =
     (let deleting = (o_kind op = Delete); creating = (o_kind op = Create) in
      if (deleting \<and> rs_statusCode remote = 404) \<or> (\<not> deleting \<and> desired op remote)
      then on_db (record_response acct i ''applied'' remote) s
      else if rs_statusCode remote \<noteq> 200 \<and> rs_statusCode remote \<noteq> 404
      then on_db (record_response acct i ''uncertain'' remote) s
      else if (creating \<and> rs_statusCode remote \<noteq> 404) \<or>
              (\<not> creating \<and> (rs_statusCode remote \<noteq> 200 \<or> rs_etag remote = None \<or> o_baseETag op \<noteq> rs_etag remote))
      then on_db (record_response acct i ''conflict'' remote) s
      else chain (on_net (RCHTTPClientConditionalRequest cu client (Some (if deleting then ''DELETE'' else ''PUT''))
                     (o_href op) type (o_desiredBody op) (length (bytes_of (o_desiredBody op)))
                     (if creating then None else o_baseETag op) creating) s)
             (\<lambda>write s. after_write cu client acct i op write s))"

definition RCDAVWriterAttempt ::
  "('l::len word, 'w) curl \<Rightarrow> 'l word RCHTTPClient \<Rightarrow> int \<Rightarrow> int \<Rightarrow> string option \<Rightarrow> int \<Rightarrow>
   'z jdb \<times> 'w \<Rightarrow> unit res \<times> 'z jdb \<times> 'w" where
  "RCDAVWriterAttempt cu client acct i type now s =
     (case RCCheckCancellation (stop cu (snd s)) of
        Some e \<Rightarrow> (Inl e, s)
      | None \<Rightarrow>
        chain (on_db (RCWriteJournalGet acct i) s) (\<lambda>op s.
        if invalid_precondition op
        then (Inl (RCErrorSet 1 ''Outgoing operation has an invalid durable precondition''), s)
        else chain (on_db (RCWriteJournalBeginAttempt acct i now) s) (\<lambda>_ s.
        chain (on_net (writer_get cu client (o_href op)) s) (\<lambda>remote s.
        after_read cu client acct i type op remote s))))"

lemma on_net_fst: "on_net f s = (r, s') \<Longrightarrow> fst s' = fst s"
  by (auto simp: on_net_def split: prod.splits)

end
