(* ===== verification/WriterSafety.thy ===== *)
theory WriterSafety
  imports DAVWriter
begin

text \<open>
  What one attempt of the writer does to the server and to the journal: the transfers it
  starts, the journal calls it makes, and the result it records.
\<close>

section \<open>Transfers and journal calls of an attempt\<close>

text \<open>The mutation an operation stands for: its address, its body, and its own precondition.\<close>

definition writes_op :: "RCWriteOperation \<Rightarrow> curl_option list \<Rightarrow> bool" where
  "writes_op op opts \<longleftrightarrow> opt_urls opts = [o_href op] \<and>
     opt_methods opts = [if o_kind op = Delete then ''DELETE'' else ''PUT''] \<and>
     (if o_kind op = Create then ''If-None-Match: *'' \<in> set (opt_headers opts)
      else \<exists>tag. o_baseETag op = Some tag \<and> RCWriteETagIsStrong (Some tag) \<and>
             ''If-Match: '' @ tag \<in> set (opt_headers opts)) \<and>
     (o_kind op \<noteq> Delete \<longrightarrow> OptPostFields (o_desiredBody op) \<in> set opts)"

text \<open>
  From state \<open>s\<close> to \<open>s'\<close>: the journal was called, only confined transfers were started, at
  most \<open>k\<close> of them change the server, and those carry out \<open>op\<close>.
\<close>

definition wstep where
  "wstep cu client op k s s' \<longleftrightarrow> program_step\<^sup>*\<^sup>* (fst s) (fst s') \<and>
     (\<exists>new. snd (snd s') = snd (snd s) @ new \<and> length (filter mutates new) \<le> k \<and>
        (\<forall>opts \<in> set new. confined cu client opts \<and> (mutates opts \<longrightarrow> writes_op op opts)))"

lemma wstep_refl: "wstep cu client op k s s"
  by (simp add: wstep_def)

lemma wstep_trans:
  assumes "wstep cu client op j s s'" and "wstep cu client op k s' s''" and "j + k \<le> n"
  shows "wstep cu client op n s s''"
proof -
  from assms(1,2) obtain a b where
    "snd (snd s') = snd (snd s) @ a" "length (filter mutates a) \<le> j"
    "\<forall>opts \<in> set a. confined cu client opts \<and> (mutates opts \<longrightarrow> writes_op op opts)"
    "snd (snd s'') = snd (snd s') @ b" "length (filter mutates b) \<le> k"
    "\<forall>opts \<in> set b. confined cu client opts \<and> (mutates opts \<longrightarrow> writes_op op opts)"
    unfolding wstep_def by blast
  with assms(3) have "snd (snd s'') = snd (snd s) @ (a @ b) \<and> length (filter mutates (a @ b)) \<le> n \<and>
    (\<forall>opts \<in> set (a @ b). confined cu client opts \<and> (mutates opts \<longrightarrow> writes_op op opts))" by auto
  with assms(1,2) show ?thesis unfolding wstep_def by (meson rtranclp_trans)
qed

lemma wstep_db:
  assumes "on_db f s = (r, s')" and "\<And>d r d'. f d = (r, d') \<Longrightarrow> journal_call d (is_ok r) d'"
  shows "wstep cu client op k s s'"
proof -
  obtain x d' where f: "f (fst s) = (x, d')" by fastforce
  with assms(1) have "s' = (d', snd s)" by (simp add: on_db_def)
  with program_step.call [OF assms(2) [OF f]] show ?thesis by (auto simp: wstep_def)
qed

lemma record_response_call: "record_response acct i state r d = (x, d') \<Longrightarrow> journal_call d (is_ok x) d'"
  unfolding record_response_def
  by (erule journal_call.record_result) (auto simp: buffer_ok_def bodyLength_def)

lemma GET_not_mutation: "\<not> mutation ''GET''"
  by (simp add: mutation_def same_nocase_def to_lower_def Let_def)

lemma wstep_get:
  assumes "on_net (writer_get (logged cu) client href) s = (r, s')"
  shows "wstep cu client op k s s'"
proof -
  obtain d w log where s: "s = (d, w, log)" by (metis surj_pair)
  obtain x w1 log1 where q: "RCHTTPClientRequest (logged cu) client ''GET'' href None None None 0 (w, log) = (x, w1, log1)"
    by (metis surj_pair)
  then have "RCRequest (logged cu) client ''GET'' href None None None 0 None False None (w, log) = (x, w1, log1)"
    using GET_not_mutation by (simp add: RCHTTPClientRequest_def mutation_def)
  from loop_outcome_new [OF RCRequest_outcome [OF this]] obtain new where
    n: "log1 = log @ new" "\<forall>opts \<in> set new. confined cu client opts \<and> opt_methods opts = [''GET'']" by blast
  then have m: "\<forall>opts \<in> set new. \<not> mutates opts"
    using GET_not_mutation by (auto simp: mutates_def mutation_def)
  have "s' = (d, w1, log1)"
    using assms q s by (auto simp: on_net_def writer_get_def chain_def split: sum.splits if_splits)
  with s n m show ?thesis by (auto simp: wstep_def filter_empty_conv)
qed

lemma wstep_conditional:
  fixes cu :: "('l::len word, 'w) curl" and d :: "'z jdb"
  assumes "on_net (RCHTTPClientConditionalRequest (logged cu) client
      (Some (if o_kind op = Delete then ''DELETE'' else ''PUT'')) (o_href op) type (o_desiredBody op)
      (length (bytes_of (o_desiredBody op))) (if o_kind op = Create then None else o_baseETag op) (o_kind op = Create))
      s = (r, s')"
  shows "wstep cu client op 1 s s'"
proof -
  obtain d w log where s: "s = (d, w, log)" by (metis surj_pair)
  let ?m = "if o_kind op = Delete then ''DELETE'' else ''PUT''"
  let ?len = "length (bytes_of (o_desiredBody op))" and ?im = "if o_kind op = Create then None else o_baseETag op"
  obtain x w1 log1 where q: "RCHTTPClientConditionalRequest (logged cu) client (Some ?m) (o_href op) type
      (o_desiredBody op) ?len ?im (o_kind op = Create) (w, log) = (x, w1, log1)" by (metis surj_pair)
  have s': "s' = (d, w1, log1)" using assms q s by (simp add: on_net_def)
  show ?thesis
  proof (cases "conditional_refused (LONG_MAX TYPE('l)) (Some ?m) (o_desiredBody op) ?len ?im (o_kind op = Create)")
    case True
    with q s s' show ?thesis by (simp add: RCHTTPClientConditionalRequest_def wstep_def)
  next
    case False
    let ?h = "request_headers None None type ?im (o_kind op = Create)"
    let ?opts = "request_options client (o_href op) ?m ?h (o_desiredBody op) ?len"
    have c: "(?im \<noteq> None \<or> o_kind op = Create) = True" and
      strong: "o_kind op \<noteq> Create \<Longrightarrow> \<exists>tag. o_baseETag op = Some tag \<and> RCWriteETagIsStrong (Some tag)" and
      body: "o_kind op \<noteq> Delete \<Longrightarrow> o_desiredBody op \<noteq> None"
      using False by (auto simp: conditional_refused_def split: if_splits)
    from q False have "RCRequest (logged cu) client ?m (o_href op) None type (o_desiredBody op) ?len ?im
        (o_kind op = Create) None (w, log) = (x, w1, log1)" by (simp add: RCHTTPClientConditionalRequest_def)
    from request_loop_conditional [OF this [unfolded RCRequest_def c], THEN conjunct1]
    have l: "log1 = log \<or> log1 = log @ [?opts] \<and> confined cu client ?opts"
      using authorised_confined by blast
    have "OptPostFields (o_desiredBody op) \<in> set ?opts" if "o_kind op \<noteq> Delete"
      using body [OF that] by (auto simp: request_options_def blob_def)
    then have "writes_op op ?opts"
      using strong by (auto simp: writes_op_def request_headers_def)
    with l s s' show ?thesis by (auto simp: wstep_def)
  qed
qed

text \<open>Phases of an attempt, composed.\<close>

definition wdoes where
  "wdoes cu client op k f \<longleftrightarrow> (\<forall>s r s'. f s = (r, s') \<longrightarrow> wstep cu client op k s s')"

lemma wdoesD: "wdoes cu client op k f \<Longrightarrow> f s = (r, s') \<Longrightarrow> wstep cu client op k s s'"
  unfolding wdoes_def by blast

lemma wdoes_if:
  "wdoes cu client op k f \<Longrightarrow> wdoes cu client op k g \<Longrightarrow> wdoes cu client op k (\<lambda>s. if b then f s else g s)"
  by (cases b) simp_all

lemma wstep_mono: "wstep cu client op j s s' \<Longrightarrow> j \<le> k \<Longrightarrow> wstep cu client op k s s'"
  unfolding wstep_def by (metis le_trans)

lemma wdoes_chain:
  assumes "wdoes cu client op j p" and "\<And>x. wdoes cu client op k (f x)" and "j + k \<le> n"
  shows "wdoes cu client op n (\<lambda>s. chain (p s) f)"
  unfolding wdoes_def
proof (intro allI impI)
  fix s r s'
  assume "chain (p s) f = (r, s')"
  then show "wstep cu client op n s s'"
  proof (cases rule: chain_cases)
    case (stopped e)
    from wdoesD [OF assms(1) stopped(1)] assms(3) show ?thesis by (auto intro: wstep_mono)
  next
    case (goes_on x s1)
    from wstep_trans [OF wdoesD [OF assms(1) goes_on(1)] wdoesD [OF assms(2) goes_on(2)] assms(3)]
    show ?thesis .
  qed
qed

lemma wdoes_return: "wdoes cu client op k (\<lambda>s. (r, s))"
  by (simp add: wdoes_def wstep_refl)

lemma wdoes_record: "wdoes cu client op k (on_db (record_response acct i state r))"
  unfolding wdoes_def using wstep_db record_response_call by blast

lemma wdoes_begin: "wdoes cu client op k (on_db (RCWriteJournalBeginAttempt acct i now))"
  unfolding wdoes_def using wstep_db journal_call.begin_attempt by blast

lemma wdoes_get: "wdoes cu client op k (on_net (writer_get (logged cu) client href))"
  unfolding wdoes_def using wstep_get by blast

lemma wdoes_conditional:
  "wdoes cu client op 1 (on_net (RCHTTPClientConditionalRequest (logged cu) client
      (Some (if o_kind op = Delete then ''DELETE'' else ''PUT'')) (o_href op) type (o_desiredBody op)
      (length (bytes_of (o_desiredBody op))) (if o_kind op = Create then None else o_baseETag op) (o_kind op = Create)))"
  unfolding wdoes_def using wstep_conditional by blast

lemma wdoes_after_write: "wdoes cu client op 0 (after_write (logged cu) client acct i op write)"
  unfolding after_write_def
  by (intro wdoes_if wdoes_chain [where j = 0 and k = 0] wdoes_get wdoes_record) simp_all

lemma wdoes_after_read: "wdoes cu client op 1 (after_read (logged cu) client acct i type op remote)"
  unfolding after_read_def Let_def
  by (intro wdoes_if wdoes_chain [where j = 1 and k = 0] wdoes_conditional wdoes_after_write wdoes_record) simp

text \<open>The whole attempt, for the operation that was read.\<close>

lemma Attempt_wstep:
  assumes "RCDAVWriterAttempt (logged cu) client acct i type now s = (r, s')"
  shows "(\<exists>op d1. wstep cu client op 1 s s' \<and> RCWriteJournalGet acct i (fst s) = (Inr op, d1)) \<or>
         (snd s' = snd s \<and> program_step\<^sup>*\<^sup>* (fst s) (fst s'))"
proof (cases "RCCheckCancellation (stop (logged cu) (snd s))")
  case (Some e)
  with assms show ?thesis by (auto simp: RCDAVWriterAttempt_def)
next
  case None
  obtain x d1 where g: "RCWriteJournalGet acct i (fst s) = (x, d1)" by fastforce
  have gs: "program_step\<^sup>*\<^sup>* (fst s) d1" using journal_call.get [OF g] program_step.call by blast
  show ?thesis
  proof (cases x)
    case (Inl e)
    with assms None g gs show ?thesis by (auto simp: RCDAVWriterAttempt_def on_db_def)
  next
    case (Inr op)
    let ?rest = "\<lambda>s. if invalid_precondition op
        then (Inl (RCErrorSet 1 ''Outgoing operation has an invalid durable precondition''), s)
        else chain (on_db (RCWriteJournalBeginAttempt acct i now) s) (\<lambda>_ s.
        chain (on_net (writer_get (logged cu) client (o_href op)) s) (\<lambda>remote s.
        after_read (logged cu) client acct i type op remote s))"
    have "wdoes cu client op 1 ?rest"
      by (intro wdoes_if wdoes_return wdoes_chain [where j = 0 and k = 1] wdoes_begin wdoes_get
          wdoes_after_read) simp_all
    moreover have "?rest (d1, snd s) = (r, s')"
      using assms None g Inr by (simp add: RCDAVWriterAttempt_def on_db_def)
    ultimately have late: "wstep cu client op 1 (d1, snd s) s'" by (rule wdoesD)
    have early: "wstep cu client op 0 s (d1, snd s)" using gs by (simp add: wstep_def)
    from wstep_trans [OF early late, of 1] have "wstep cu client op 1 s s'" by simp
    with g Inr show ?thesis by blast
  qed
qed


section \<open>What an attempt records\<close>

text \<open>The row of the attempt at the end: as the attempt began, or with one recorded result.\<close>

definition ends_as :: "op_row \<Rightarrow> (op_state \<Rightarrow> int \<Rightarrow> bytes option \<Rightarrow> bool) \<Rightarrow> 'z jtables \<Rightarrow> bool" where
  "ends_as row P t \<longleftrightarrow> row \<in> set (write_operations t) \<or>
     (\<exists>st status etag b. st \<in> {Uncertain, Applied, Conflict} \<and> P st status b \<and>
        result_row st status etag b row \<in> set (write_operations t))"

lemma ends_as_mono: "ends_as row P t \<Longrightarrow> (\<And>st status b. P st status b \<Longrightarrow> Q st status b) \<Longrightarrow> ends_as row Q t"
  unfolding ends_as_def by blast

lemma record_ends:
  assumes "record_response acct i state resp d = (x, d')" and "ids_inv (tables d)"
    and "row \<in> set (write_operations (tables d))" and "op_id row = i"
    and "\<And>st. result_state_of_string state = Some st \<Longrightarrow>
      P st (column_int (rs_statusCode resp)) (if rs_statusCode resp = 200 then rs_body resp else None)"
  shows "ends_as row P (tables d')"
proof -
  let ?b = "if rs_statusCode resp = 200 then rs_body resp else None"
  have b: "blob (if rs_statusCode resp = 200 then rs_body resp else None)
      (if rs_statusCode resp = 200 then bodyLength resp else 0) = ?b"
    by (cases "rs_body resp") (auto simp: blob_def bodyLength_def)
  from RecordResult_cases [OF assms(1) [unfolded record_response_def] assms(2)]
  consider "tables d' = tables d" | st s where "result_state_of_string state = Some st"
      "s \<in> set (write_operations (tables d))" "op_id s = i"
      "tables d' = set_row (result_row st (column_int (rs_statusCode resp)) (rs_etag resp) ?b s) (tables d)"
    unfolding b by (auto simp: bind_eq_Some_conv)
  then show ?thesis
  proof cases
    case 1
    with assms(3) show ?thesis by (simp add: ends_as_def)
  next
    case 2
    with assms(2,3,4) have "s = row" by (auto dest: ids_inv_eq)
    with 2 assms(3) have "result_row st (column_int (rs_statusCode resp)) (rs_etag resp) ?b row
        \<in> set (write_operations (tables d'))"
      by (auto intro!: set_row_mem [of row] simp: result_row_def)
    moreover have "st \<in> {Uncertain, Applied, Conflict}" using 2(1) by (auto split: if_splits)
    ultimately show ?thesis unfolding ends_as_def using assms(5) [OF 2(1)] by blast
  qed
qed

lemma column_int_status: "s = 200 \<or> s = 404 \<Longrightarrow> column_int s = s"
  by (auto intro: column_int_small)

text \<open>Phases that leave the row in one of the allowed ends.\<close>

definition ends_in where
  "ends_in acct i row P f \<longleftrightarrow> (\<forall>s r s'. ids_inv (tables (fst s)) \<longrightarrow>
     row \<in> set (write_operations (tables (fst s))) \<longrightarrow> f s = (r, s') \<longrightarrow> ends_as row P (tables (fst s')))"

lemma ends_in_record:
  assumes "op_id row = i" and "\<And>st. result_state_of_string state = Some st \<Longrightarrow>
      P st (column_int (rs_statusCode resp)) (if rs_statusCode resp = 200 then rs_body resp else None)"
  shows "ends_in acct i row P (on_db (record_response acct i state resp))"
  unfolding ends_in_def
proof (intro allI impI)
  fix s r s'
  assume a: "ids_inv (tables (fst s))" "row \<in> set (write_operations (tables (fst s)))"
    and "on_db (record_response acct i state resp) s = (r, s')"
  from this(3) have "record_response acct i state resp (fst s) = (r, fst s')"
    by (auto simp: on_db_def split: prod.splits)
  then show "ends_as row P (tables (fst s'))" using a assms by (rule record_ends)
qed

lemma ends_inD:
  "ends_in acct i row P f \<Longrightarrow> ids_inv (tables (fst s)) \<Longrightarrow> row \<in> set (write_operations (tables (fst s))) \<Longrightarrow>
     f s = (r, s') \<Longrightarrow> ends_as row P (tables (fst s'))"
  unfolding ends_in_def by blast

lemma ends_in_if:
  "(b \<Longrightarrow> ends_in acct i row P f) \<Longrightarrow> (\<not> b \<Longrightarrow> ends_in acct i row P g) \<Longrightarrow>
     ends_in acct i row P (\<lambda>s. if b then f s else g s)"
  by (cases b) simp_all

lemma ends_in_net:
  assumes "\<And>x. ends_in acct i row P (f x)"
  shows "ends_in acct i row P (\<lambda>s. chain (on_net p s) f)"
  unfolding ends_in_def
proof (intro allI impI)
  fix s r s'
  assume a: "ids_inv (tables (fst s))" "row \<in> set (write_operations (tables (fst s)))"
    and "chain (on_net p s) f = (r, s')"
  from this(3) show "ends_as row P (tables (fst s'))"
  proof (cases rule: chain_cases)
    case (stopped e)
    from on_net_fst [OF stopped(1)] a show ?thesis by (simp add: ends_as_def)
  next
    case (goes_on x s1)
    from on_net_fst [OF goes_on(1)] a goes_on(2) assms [of x] show ?thesis unfolding ends_in_def by metis
  qed
qed

lemma ends_in_after_write:
  "op_id row = i \<Longrightarrow> ends_in acct i row (\<lambda>_ _ _. True) (after_write cu client acct i op write)"
  unfolding after_write_def by (intro ends_in_if ends_in_net ends_in_record) simp_all

text \<open>Without a write of its own, an attempt calls the operation applied only on evidence.\<close>

definition evidence :: "RCWriteOperation \<Rightarrow> op_state \<Rightarrow> int \<Rightarrow> bytes option \<Rightarrow> bool" where
  "evidence op st status b \<longleftrightarrow> st = Applied \<longrightarrow>
     (o_kind op = Delete \<and> status = 404) \<or> (status = 200 \<and> bytes_of b = bytes_of (o_desiredBody op))"

lemma writes_op_mutates: "writes_op op opts \<Longrightarrow> mutates opts"
  by (auto simp: writes_op_def mutates_def)

lemma conditional_logs:
  fixes cu :: "('l::len word, 'w) curl"
  assumes "RCHTTPClientConditionalRequest (logged cu) client (Some m) url type body len im inm (w, log) = (Inr x, w', log')"
  shows "\<exists>opts. log' = log @ [opts] \<and> mutates opts"
proof -
  have nr: "\<not> conditional_refused (LONG_MAX TYPE('l)) (Some m) body len im inm"
    using assms by (auto simp: RCHTTPClientConditionalRequest_def split: if_splits)
  then have c: "(im \<noteq> None \<or> inm) = True" and m: "m \<in> {''PUT'', ''DELETE'', ''MKCALENDAR''}"
    by (auto simp: conditional_refused_def split: if_splits)
  from nr assms have "RCRequest (logged cu) client m url None type body len im inm None (w, log) = (Inr x, w', log')"
    by (simp add: RCHTTPClientConditionalRequest_def)
  from request_loop_conditional [OF this [unfolded RCRequest_def c]] show ?thesis
    using m by (auto simp: mutates_def)
qed

lemma after_read_ends:
  assumes "after_read (logged cu) client acct i type op remote s = (r, s')"
    and "ids_inv (tables (fst s))" and "row \<in> set (write_operations (tables (fst s)))" and "op_id row = i"
  shows "ends_as row (\<lambda>st status b. evidence op st status b \<or>
    (\<exists>opts. opts \<in> set (drop (length (snd (snd s))) (snd (snd s'))) \<and> mutates opts)) (tables (fst s'))"
proof -
  have recorded: ?thesis if "on_db (record_response acct i state remote) s = (r, s')"
    "\<And>st. result_state_of_string state = Some st \<Longrightarrow>
      evidence op st (column_int (rs_statusCode remote)) (if rs_statusCode remote = 200 then rs_body remote else None)" for state
    using ends_in_record [of row i state "evidence op" remote acct, OF assms(4) that(2)] that(1) assms(2,3)
    unfolding ends_in_def by (blast intro: ends_as_mono)
  let ?applied = "(o_kind op = Delete \<and> rs_statusCode remote = 404) \<or> (o_kind op \<noteq> Delete \<and> desired op remote)"
  show ?thesis
  proof (cases ?applied)
    case True
    then have "on_db (record_response acct i ''applied'' remote) s = (r, s')"
      using assms(1) by (simp add: after_read_def)
    then show ?thesis
      by (rule recorded) (use True in \<open>auto simp: evidence_def desired_def column_int_status\<close>)
  next
    case False
    let ?q = "on_net (RCHTTPClientConditionalRequest (logged cu) client
        (Some (if o_kind op = Delete then ''DELETE'' else ''PUT'')) (o_href op) type (o_desiredBody op)
        (length (bytes_of (o_desiredBody op))) (if o_kind op = Create then None else o_baseETag op)
        (o_kind op = Create)) s"
    let ?busy = "rs_statusCode remote \<noteq> 200 \<and> rs_statusCode remote \<noteq> 404"
    let ?conf = "(o_kind op = Create \<and> rs_statusCode remote \<noteq> 404) \<or> (o_kind op \<noteq> Create \<and>
        (rs_statusCode remote \<noteq> 200 \<or> rs_etag remote = None \<or> o_baseETag op \<noteq> rs_etag remote))"
    have e: "(if ?busy then on_db (record_response acct i ''uncertain'' remote) s
        else if ?conf then on_db (record_response acct i ''conflict'' remote) s
        else chain ?q (after_write (logged cu) client acct i op)) = (r, s')"
      using assms(1) unfolding after_read_def Let_def if_not_P [OF False] .
    show ?thesis
    proof (cases "?busy \<or> ?conf")
      case True
      then have "on_db (record_response acct i (if ?busy then ''uncertain'' else ''conflict'') remote) s = (r, s')"
        using e by (cases ?busy) auto
      then show ?thesis by (rule recorded) (auto simp: evidence_def split: if_splits)
    next
      case False
      then have nb: "\<not> ?busy" and nc: "\<not> ?conf" by blast+
      have "chain ?q (after_write (logged cu) client acct i op) = (r, s')"
        using e unfolding if_not_P [OF nb] if_not_P [OF nc] .
      then show ?thesis
      proof (cases rule: chain_cases)
        case (stopped err)
        from on_net_fst [OF stopped(1)] assms(3) show ?thesis by (simp add: ends_as_def)
      next
        case (goes_on x s1)
        obtain d w log where s: "s = (d, w, log)" by (metis surj_pair)
        from goes_on(1) obtain w1 log1 where s1: "s1 = (d, w1, log1)" and q:
          "RCHTTPClientConditionalRequest (logged cu) client
            (Some (if o_kind op = Delete then ''DELETE'' else ''PUT'')) (o_href op) type (o_desiredBody op)
            (length (bytes_of (o_desiredBody op))) (if o_kind op = Create then None else o_baseETag op)
            (o_kind op = Create) (w, log) = (Inr x, w1, log1)"
          unfolding on_net_def s by (auto split: prod.splits)
        from conditional_logs [OF q] obtain opts where l: "log1 = log @ [opts]" "mutates opts" by blast
        from wdoesD [OF wdoes_after_write goes_on(2)] s1 l obtain new where
          "snd (snd s') = log @ opts # new" by (auto simp: wstep_def)
        with l s have "opts \<in> set (drop (length (snd (snd s))) (snd (snd s')))" by simp
        moreover have "ends_as row (\<lambda>_ _ _. True) (tables (fst s'))"
          using ends_inD [OF ends_in_after_write [OF assms(4)] _ _ goes_on(2)] assms(2,3) s s1 by simp
        ultimately show ?thesis using l(2) by (blast intro: ends_as_mono)
      qed
    qed
  qed
qed


text \<open>Once a transfer has been started, the attempt is on record.\<close>

definition attempt_recorded where
  "attempt_recorded acct i now d d' new \<longleftrightarrow>
     (\<exists>row \<in> set (write_operations (tables d)). op_id row = i \<and> due acct now row \<and> txn d = [] \<and>
        ends_as (attempt_row now row) (\<lambda>st status b. evidence (read_operation row) st status b \<or>
          (\<exists>opts \<in> set new. mutates opts)) (tables d'))"

lemma BeginAttempt_autocommit: "RCWriteJournalBeginAttempt acct i now d = (Inr u, d') \<Longrightarrow> txn d = []"
  by (auto simp: RCWriteJournalBeginAttempt_def outsideTransaction_def autocommit_def split: if_splits)

lemma Attempt_records:
  assumes "RCDAVWriterAttempt (logged cu) client acct i type now (d, w, log) = (r, d', w', log')"
    and "journal_inv (tables d)"
  shows "log' = log \<or> attempt_recorded acct i now d d' (drop (length log) log')"
proof (cases "log' = log")
  case False
  then obtain op d1 where g: "RCWriteJournalGet acct i d = (Inr op, d1)"
    and rest: "chain (on_db (RCWriteJournalBeginAttempt acct i now) (d1, w, log)) (\<lambda>_ s.
        chain (on_net (writer_get (logged cu) client (o_href op)) s) (\<lambda>remote s.
        after_read (logged cu) client acct i type op remote s)) = (r, d', w', log')"
    using assms(1)
    by (auto simp: RCDAVWriterAttempt_def on_db_def chain_def split: option.splits prod.splits sum.splits if_splits)
  from Get_Inr [OF g] RCWriteJournalGet_keeps [OF g] obtain row0 where
    row0: "find_op acct i (tables d) = Some row0" "op = read_operation row0"
    and t1: "tables d1 = tables d" "txn d1 = txn d" by auto
  from rest False obtain u d2 where b: "RCWriteJournalBeginAttempt acct i now d1 = (Inr u, d2)"
    and net: "chain (on_net (writer_get (logged cu) client (o_href op)) (d2, w, log)) (\<lambda>remote s.
        after_read (logged cu) client acct i type op remote s) = (r, d', w', log')"
    by (auto simp: on_db_def chain_def split: prod.splits sum.splits)
  have ids1: "ids_inv (tables d1)" using assms(2) t1 by (simp add: journal_inv_def)
  from BeginAttempt_cases [OF b ids1] t1 obtain row where
    row: "row \<in> set (write_operations (tables d))" "op_id row = i" "due acct now row"
    and t2: "tables d2 = set_row (attempt_row now row) (tables d)" by auto
  have same: "row0 = row"
    using find_op_Some [OF row0(1)] row ids1 t1 by (auto dest: ids_inv_eq)
  have "journal_inv (tables d2)"
    using BeginAttempt_refines [OF b ids1] assms(2) t1 jstep_inv by (auto simp: refines_def)
  then have ids2: "ids_inv (tables d2)" by (simp add: journal_inv_def)
  have in2: "attempt_row now row \<in> set (write_operations (tables d2))"
    unfolding t2 using row(1) by (rule set_row_mem) (simp add: attempt_row_def)
  let ?P = "\<lambda>st status b. evidence op st status b \<or> (\<exists>opts \<in> set (drop (length log) log'). mutates opts)"
  have "ends_as (attempt_row now row) ?P (tables d')"
    using net
  proof (cases rule: chain_cases)
    case (stopped e)
    with in2 on_net_fst [OF stopped(1)] show ?thesis by (simp add: ends_as_def)
  next
    case (goes_on remote s3)
    from on_net_fst [OF goes_on(1)] have d3: "fst s3 = d2" by simp
    have len: "length log \<le> length (snd (snd s3))"
      using wstep_get [OF goes_on(1), of op 0] by (auto simp: wstep_def)
    have "op_id (attempt_row now row) = i" using row(2) by (simp add: attempt_row_def)
    from after_read_ends [OF goes_on(2) _ _ this] ids2 in2 d3
    have "ends_as (attempt_row now row) (\<lambda>st status b. evidence op st status b \<or>
        (\<exists>opts. opts \<in> set (drop (length (snd (snd s3))) log') \<and> mutates opts)) (tables d')" by simp
    moreover have "set (drop (length (snd (snd s3))) log') \<subseteq> set (drop (length log) log')"
      using len by (rule set_drop_subset_set_drop)
    ultimately show ?thesis by (rule_tac ends_as_mono) (assumption, metis subsetD)
  qed
  moreover have "op = read_operation row" "txn d = []"
    using row0(2) same BeginAttempt_autocommit [OF b] t1(2) by simp_all
  ultimately have "attempt_recorded acct i now d d' (drop (length log) log')"
    unfolding attempt_recorded_def using row by (intro bexI [of _ row] conjI) simp_all
  then show ?thesis ..
qed simp

end
