(* ===== verification/WriterContract.thy ===== *)
theory WriterContract
  imports WriterSafety JournalContract
begin

text \<open>
  The contract of the writer on the journals the program can reach: what the server sees
  of an attempt, what is on record before it sees anything, and that recorded operations
  always carry usable preconditions.
\<close>

lemma reachable_row:
  assumes "fresh_journal d0" and "program_step\<^sup>*\<^sup>* d0 d" and "RCWriteJournalGet acct i d = (Inr op, d1)"
  shows "\<exists>row \<in> set (write_operations (tables d)). op_id row = i \<and> op_account row = acct \<and>
    op = read_operation row \<and> durable row"
proof -
  from Get_Inr [OF assms(3)] obtain row where f: "find_op acct i (tables d) = Some row" "op = read_operation row"
    by blast
  from reach_inv [OF assms(1,2)] find_op_Some [OF f(1)] f(2) show ?thesis
    by (auto simp: journal_inv_def rows_inv_def)
qed

text \<open>C2: an attempt of the writer sends credentials only to allowed hosts, changes the server with at
  most one transfer, and that transfer is the recorded operation itself: its address, its
  body, and its own precondition, the base ETag for updates and deletes and the absence of
  the resource for creates. All journal changes of the attempt are calls of the journal.\<close>

theorem writer_transfers_safe:
  assumes "fresh_journal d0" and "program_step\<^sup>*\<^sup>* d0 d"
    and "RCDAVWriterAttempt (logged cu) client acct i type now (d, w, log) = (r, d', w', log')"
  shows "program_step\<^sup>*\<^sup>* d d' \<and> (\<exists>new. log' = log @ new \<and> length (filter mutates new) \<le> 1 \<and>
    (\<forall>opts \<in> set new. confined cu client opts \<and>
      (mutates opts \<longrightarrow> (\<exists>row \<in> set (write_operations (tables d)). op_id row = i \<and> op_account row = acct \<and>
         writes_op (read_operation row) opts))))"
  using Attempt_wstep [OF assms(3)]
proof (elim disjE exE conjE)
  fix op d1
  assume w: "wstep cu client op 1 (d, w, log) (d', w', log')"
    and g: "RCWriteJournalGet acct i (fst (d, w, log)) = (Inr op, d1)"
  from reachable_row [OF assms(1,2) g [unfolded fst_conv]] obtain row where
    "row \<in> set (write_operations (tables d))" "op_id row = i" "op_account row = acct"
    "op = read_operation row" by blast
  with w show ?thesis unfolding wstep_def fst_conv snd_conv by blast
qed simp

text \<open>C21: the attempt is on record before the server sees it: when any transfer was started, the
  operation was due and outside a transaction, and it ends uncertain with the attempt
  counted or with one recorded result; it is recorded as applied without a write of this
  attempt only when the server already showed the desired bytes, or the absence a delete
  asks for.\<close>

theorem writer_write_ahead:
  assumes "fresh_journal d0" and "program_step\<^sup>*\<^sup>* d0 d"
    and "RCDAVWriterAttempt (logged cu) client acct i type now (d, w, log) = (r, d', w', log')"
    and "log' \<noteq> log"
  shows "attempt_recorded acct i now d d' (drop (length log) log')"
  using Attempt_records [OF assms(3)] reach_inv [OF assms(1,2)] assms(4) by blast


section \<open>A concrete attempt\<close>

lemma w_get_eval: "\<exists>n. RCWriteJournalGet 1 1 (w_at [w_op] m) = (Inr (read_operation w_op), w_at [w_op] n)"
  by (simp add: journal_eval w_at_def w_op_def)

lemma w_uncertain_eval:
  "\<exists>n. record_response 1 1 ''uncertain'' busy_response (w_at [attempt_row 10 w_op] m) =
     (Inr (), w_at [result_row Uncertain 503 None None (attempt_row 10 w_op)] n)"
  by (simp add: journal_eval w_at_def w_op_def record_response_def busy_response_def RCHTTPResponseInit_def bodyLength_def)

text \<open>The create of the journal's run, attempted against the busy server.\<close>

lemma w_attempt_eval:
  "\<exists>n. RCDAVWriterAttempt (logged busy_server) demo_client 1 1 None 10 (w_at [w_op] m, (), []) =
     (Inr (), w_at [result_row Uncertain 503 None None (attempt_row 10 w_op)] n, (), [busy_transfer])"
proof -
  obtain n1 where 1: "RCWriteJournalGet 1 1 (w_at [w_op] m) = (Inr (read_operation w_op), w_at [w_op] n1)"
    using w_get_eval by blast
  obtain n2 where 2: "RCWriteJournalBeginAttempt 1 1 10 (w_at [w_op] n1) = (Inr (), w_at [attempt_row 10 w_op] n2)"
    using w_begin_eval by blast
  obtain n3 where 3: "record_response 1 1 ''uncertain'' busy_response (w_at [attempt_row 10 w_op] n2) =
     (Inr (), w_at [result_row Uncertain 503 None None (attempt_row 10 w_op)] n3)"
    using w_uncertain_eval by blast
  have op: "op_kind w_op = Create" "op_href w_op = ''https://h/k''" "op_desired w_op = Some ''B''"
    by (simp_all add: w_op_def)
  have "\<not> desired (read_operation w_op) busy_response"
    by (simp add: desired_def busy_response_def RCHTTPResponseInit_def)
  moreover have "rs_statusCode busy_response = 503" "rs_effectiveURL busy_response = Some ''https://h/k''"
    by (simp_all add: busy_response_def)
  moreover have "\<not> stop (logged busy_server) ((), [])" by (simp add: busy_server_def)
  ultimately show ?thesis
    using 1 2 3 op busy_get [of "[]"]
    by (intro exI [of _ n3]) (simp add: RCDAVWriterAttempt_def on_db_def on_net_def writer_get_def after_read_def
        invalid_precondition_def RCCheckCancellation_def)
qed

text \<open>The witness of the safe transfers: one confined read, no write.\<close>

theorem writer_transfers_safe_witness:
  "\<exists>m n. RCDAVWriterAttempt (logged busy_server) demo_client 1 1 None 10 (w_at [w_op] m, (), []) =
       (Inr (), w_at [result_row Uncertain 503 None None (attempt_row 10 w_op)] n, (), [busy_transfer]) \<and>
     program_step\<^sup>*\<^sup>* (w_at [w_op] m) (w_at [result_row Uncertain 503 None None (attempt_row 10 w_op)] n) \<and>
     confined busy_server demo_client busy_transfer"
proof -
  obtain m where m: "program_step\<^sup>*\<^sup>* w0 (w_at [w_op] m)" using w_reach1 by blast
  obtain n where n: "RCDAVWriterAttempt (logged busy_server) demo_client 1 1 None 10 (w_at [w_op] m, (), []) =
       (Inr (), w_at [result_row Uncertain 503 None None (attempt_row 10 w_op)] n, (), [busy_transfer])"
    using w_attempt_eval by blast
  from writer_transfers_safe [OF w0_fresh(1) m n] n show ?thesis
    by (intro exI [of _ m] exI [of _ n]) auto
qed

text \<open>The witness of write-ahead recording.\<close>

theorem writer_write_ahead_witness:
  "\<exists>m n. attempt_recorded 1 1 10 (w_at [w_op] m)
     (w_at [result_row Uncertain 503 None None (attempt_row 10 w_op)] n) [busy_transfer]"
proof -
  obtain m where m: "program_step\<^sup>*\<^sup>* w0 (w_at [w_op] m)" using w_reach1 by blast
  obtain n where n: "RCDAVWriterAttempt (logged busy_server) demo_client 1 1 None 10 (w_at [w_op] m, (), []) =
       (Inr (), w_at [result_row Uncertain 503 None None (attempt_row 10 w_op)] n, (), [busy_transfer])"
    using w_attempt_eval by blast
  from writer_write_ahead [OF w0_fresh(1) m n] show ?thesis by auto
qed


end
