(* ===== verification/ConflictRecovery.thy ===== *)
theory ConflictRecovery
  imports JournalContract DAVWriter
begin

text \<open>
  The conflict coordinator of \<^verbatim>\<open>source/shared/RCConflictRecovery.c\<close>. Its callbacks are
  arguments: \<open>resolve\<close> and \<open>acceptLocal\<close> act on the caller's world \<open>'w\<close>, \<open>saveMirror\<close> acts
  inside the journal's transaction on the connection and the world. A missing callback is
  \<open>None\<close>. The disposition is the integer the resolver returns.
\<close>

section \<open>Definitions\<close>

record RCConflictDecision =
  dc_kind :: "string option"
  dc_body :: "bytes option"
  dc_length :: nat
  dc_receipt :: "bytes option"
  dc_receiptLength :: nat
  dc_attentionReason :: "string option"

definition RCConflictDeferred :: int where "RCConflictDeferred = 0"
definition RCConflictResolved :: int where "RCConflictResolved = 1"
definition RCConflictNeedsAttention :: int where "RCConflictNeedsAttention = 2"

record ('z, 'w) RCConflictCallbacks =
  cb_resolve :: "(RCWriteOperation \<Rightarrow> 'w \<Rightarrow> (int \<times> RCConflictDecision \<times> RCError) \<times> 'w) option"
  cb_saveMirror :: "(RCWriteOperation \<Rightarrow> 'z jdb \<times> 'w \<Rightarrow> unit res \<times> 'z jdb \<times> 'w) option"
  cb_acceptLocal :: "(RCWriteOperation \<Rightarrow> bytes \<Rightarrow> 'w \<Rightarrow> unit res \<times> 'w) option"

text \<open>A handled conflict without a successor reports the identifier zero.\<close>

definition attend :: "int \<Rightarrow> int \<Rightarrow> string \<Rightarrow> 'z jdb \<times> 'w \<Rightarrow> int res \<times> 'z jdb \<times> 'w" where
  "attend acct i reason s =
     chain (on_db (RCWriteJournalConflictAttention acct i (Some reason)) s) (\<lambda>_ s. (Inr 0, s))"

text \<open>What the resolver's disposition leads to.\<close>

definition apply_decision ::
  "int \<Rightarrow> int \<Rightarrow> int \<Rightarrow> RCConflictDecision \<Rightarrow> RCError \<Rightarrow> 'z jdb \<times> 'w \<Rightarrow> int res \<times> 'z jdb \<times> 'w" where
  "apply_decision acct i disposition decision e s =
     (if disposition = RCConflictDeferred then (Inr 0, s)
      else if disposition = RCConflictNeedsAttention
      then attend acct i (case dc_attentionReason decision of Some r \<Rightarrow> r | None \<Rightarrow> ''unsupported-mapping'') s
      else if disposition \<noteq> RCConflictResolved then (Inl e, s)
      else if dc_kind decision \<noteq> Some ''update'' then attend acct i ''edit-delete'' s
      else on_db (RCWriteJournalResolveConflict acct i (dc_kind decision) (dc_body decision)
             (dc_length decision) (dc_receipt decision) (dc_receiptLength decision)) s)"

definition recover_with ::
  "(RCWriteOperation \<Rightarrow> 'w \<Rightarrow> (int \<times> RCConflictDecision \<times> RCError) \<times> 'w) \<Rightarrow> int \<Rightarrow> int \<Rightarrow>
   'z jdb \<times> 'w \<Rightarrow> int res \<times> 'z jdb \<times> 'w" where
  "recover_with resolve acct i s =
     chain (on_db (RCWriteJournalGet acct i) s) (\<lambda>op s.
        if o_state op \<noteq> Conflict
        then (Inl (RCErrorSet 1 ''Operation is not awaiting conflict resolution''), s)
        else if o_kind op \<noteq> Update \<or> o_httpStatus op \<noteq> 200
        then attend acct i (if o_kind op = Create then ''create-collision'' else ''edit-delete'') s
        else if \<not> RCWriteETagIsStrong (o_resultETag op) \<or> o_resultBody op = None \<or> bytes_of (o_resultBody op) = []
        then attend acct i ''unusable-remote-revision'' s
        else chain (on_net (\<lambda>w. let (d, w') = resolve op w in (Inr d, w')) s) (\<lambda>(disposition, decision, e) s.
          apply_decision acct i disposition decision e s))"

definition RCConflictRecover ::
  "('z, 'w) RCConflictCallbacks option \<Rightarrow> int \<Rightarrow> int \<Rightarrow> 'z jdb \<times> 'w \<Rightarrow> int res \<times> 'z jdb \<times> 'w" where
  "RCConflictRecover callbacks acct i s =
     (case (if autocommit (fst s) then Option.bind callbacks cb_resolve else None) of
        None \<Rightarrow> (Inl (RCErrorSet 1 ''Conflict recovery requires a resolver outside a transaction''), s)
      | Some resolve \<Rightarrow> recover_with resolve acct i s)"

text \<open>\<open>BEGIN IMMEDIATE\<close>, the mirror and its checkpoint, \<open>COMMIT\<close>; anything else rolls back.\<close>

definition completion_error :: "'t db \<Rightarrow> RCError" where
  "completion_error d = RCErrorSet 1 (''Conflict completion database error: '' @ errmsg d)"

definition mirror_transaction ::
  "(RCWriteOperation \<Rightarrow> 'z jdb \<times> 'w \<Rightarrow> unit res \<times> 'z jdb \<times> 'w) \<Rightarrow> int \<Rightarrow> int \<Rightarrow> RCWriteOperation \<Rightarrow>
   'z jdb \<times> 'w \<Rightarrow> unit res \<times> 'z jdb \<times> 'w" where
  "mirror_transaction saveMirror acct i op s =
     (let (begun, d) = sql_begin (fst s) in
      if \<not> begun then (Inl (completion_error d), d, snd s)
      else case chain (saveMirror op (d, snd s)) (\<lambda>_. on_db (RCWriteJournalResolutionMirrored acct i)) of
          (Inl e, s) \<Rightarrow> (Inl e, snd (sql_rollback (fst s)), snd s)
        | (Inr _, s) \<Rightarrow>
            (let (done, d) = sql_commit (fst s) in
             if done then (Inr (), d, snd s)
             else let d = snd (sql_rollback d) in (Inl (completion_error d), d, snd s)))"

definition complete_with ::
  "(RCWriteOperation \<Rightarrow> 'z jdb \<times> 'w \<Rightarrow> unit res \<times> 'z jdb \<times> 'w) \<Rightarrow> (RCWriteOperation \<Rightarrow> bytes \<Rightarrow> 'w \<Rightarrow> unit res \<times> 'w) \<Rightarrow>
   int \<Rightarrow> int \<Rightarrow> 'z jdb \<times> 'w \<Rightarrow> unit res \<times> 'z jdb \<times> 'w" where
  "complete_with saveMirror acceptLocal acct i s =
     chain (on_db (RCWriteJournalGet acct i) s) (\<lambda>op s.
     chain (on_db (RCWriteJournalResolutionReceipt acct i) s) (\<lambda>(receipt, mirrored) s.
       if o_state op = Acknowledged then (Inr (), s)
       else if o_state op \<noteq> Applied
       then (Inl (RCErrorSet 1 ''Resolution has no verified remote success''), s)
       else chain (if \<not> mirrored then mirror_transaction saveMirror acct i op s else (Inr (), s)) (\<lambda>_ s.
            chain (on_net (acceptLocal op receipt) s) (\<lambda>_ s.
            on_db (RCWriteJournalAcknowledge acct i) s))))"

definition RCConflictComplete ::
  "('z, 'w) RCConflictCallbacks option \<Rightarrow> int \<Rightarrow> int \<Rightarrow> 'z jdb \<times> 'w \<Rightarrow> unit res \<times> 'z jdb \<times> 'w" where
  "RCConflictComplete callbacks acct i s =
     (case (if autocommit (fst s) then Option.bind callbacks cb_saveMirror else None,
            Option.bind callbacks cb_acceptLocal) of
        (Some saveMirror, Some acceptLocal) \<Rightarrow> complete_with saveMirror acceptLocal acct i s
      | _ \<Rightarrow> (Inl (RCErrorSet 1 ''Conflict completion requires callbacks outside a transaction''), s))"

end
