(* ===== verification/RecoveryContract.thy ===== *)
theory RecoveryContract
  imports ConflictRecovery
begin

text \<open>
  The contract of the conflict coordinator: its effect on the journal is a run of journal
  calls, a resolved conflict is retired in favour of a write pinned to the observed remote
  revision, and a completed resolution is acknowledged only with its mirror checkpoint.
\<close>

section \<open>Effects on the journal\<close>

definition jdoes :: "('z jdb \<times> 'w \<Rightarrow> 'a res \<times> 'z jdb \<times> 'w) \<Rightarrow> bool" where
  "jdoes f \<longleftrightarrow> (\<forall>s r s'. f s = (r, s') \<longrightarrow> program_step\<^sup>*\<^sup>* (fst s) (fst s'))"

lemma jdoesD: "jdoes f \<Longrightarrow> f s = (r, s') \<Longrightarrow> program_step\<^sup>*\<^sup>* (fst s) (fst s')"
  unfolding jdoes_def by blast

lemma jdoes_return: "jdoes (\<lambda>s. (r, s))"
  by (simp add: jdoes_def)

lemma jdoes_if: "jdoes f \<Longrightarrow> jdoes g \<Longrightarrow> jdoes (\<lambda>s. if b then f s else g s)"
  by (cases b) simp_all

lemma jdoes_chain:
  assumes "jdoes p" and "\<And>x. jdoes (f x)"
  shows "jdoes (\<lambda>s. chain (p s) f)"
  unfolding jdoes_def
proof (intro allI impI)
  fix s r s'
  assume "chain (p s) f = (r, s')"
  then show "program_step\<^sup>*\<^sup>* (fst s) (fst s')"
  proof (cases rule: chain_cases)
    case (stopped e)
    with assms(1) show ?thesis by (blast dest: jdoesD)
  next
    case (goes_on x s1)
    from jdoesD [OF assms(1) goes_on(1)] jdoesD [OF assms(2) goes_on(2)] show ?thesis by simp
  qed
qed

lemma jdoes_db:
  assumes "\<And>d r d'. f d = (r, d') \<Longrightarrow> program_step d d'"
  shows "jdoes (on_db f)"
  unfolding jdoes_def on_db_def by (auto split: prod.splits dest: assms)



lemma jdoes_attend: "jdoes (attend acct i reason)"
  unfolding attend_def
  by (intro jdoes_chain jdoes_return jdoes_db) (blast intro: program_step.call journal_call.attention)




text \<open>What the coordinator relies on in its callbacks: buffers as long as they claim, and a mirror
  that writes its own tables only, inside the transaction it was given.\<close>

definition decision_ok :: "(RCWriteOperation \<Rightarrow> 'w \<Rightarrow> (int \<times> RCConflictDecision \<times> RCError) \<times> 'w) \<Rightarrow> bool" where
  "decision_ok resolve \<longleftrightarrow> (\<forall>op w n dec e w'. resolve op w = ((n, dec, e), w') \<longrightarrow> buffer_ok (dc_body dec) (dc_length dec))"

definition mirror_ok :: "(RCWriteOperation \<Rightarrow> 'z jdb \<times> 'w \<Rightarrow> unit res \<times> 'z jdb \<times> 'w) \<Rightarrow> bool" where
  "mirror_ok save \<longleftrightarrow> (\<forall>op d w r d' w'. save op (d, w) = (r, d', w') \<longrightarrow>
     journal_part (tables d') = journal_part (tables d) \<and> txn d' = txn d \<and> same_library d d')"

definition callbacks_ok :: "('z, 'w) RCConflictCallbacks option \<Rightarrow> bool" where
  "callbacks_ok callbacks \<longleftrightarrow> (\<forall>cb. callbacks = Some cb \<longrightarrow>
     (\<forall>f. cb_resolve cb = Some f \<longrightarrow> decision_ok f) \<and> (\<forall>f. cb_saveMirror cb = Some f \<longrightarrow> mirror_ok f))"



lemma jdoes_decision:
  assumes "buffer_ok (dc_body decision) (dc_length decision)"
  shows "jdoes (apply_decision acct i disposition decision e)"
  unfolding apply_decision_def
  by (intro jdoes_if jdoes_return jdoes_attend jdoes_db)
    (blast intro: program_step.call journal_call.resolve assms)


lemma Recover_with:
  assumes "RCConflictRecover callbacks acct i s = (Inr j, s')" and "callbacks_ok callbacks"
  obtains resolve where "decision_ok resolve" "recover_with resolve acct i s = (Inr j, s')"
  using assms
  by (auto simp: RCConflictRecover_def callbacks_ok_def bind_eq_Some_conv split: option.splits if_splits)

section \<open>Completion\<close>





section \<open>Resolution\<close>

lemma Resolve_success:
  assumes "RCWriteJournalResolveConflict acct i knd body len receipt receiptLength d = (Inr j, d')"
    and "undo_ok d" and "ids_inv (tables d)"
  obtains kd rc where "resolve_args knd body len receipt receiptLength = Some (kd, rc)"
    "resolution_replays acct i kd body len rc (tables d) j \<or>
      (j = next_op_id (tables d) \<and> resolution_fresh acct i kd body len rc (tables d) (tables d'))"
  using Resolve_cases [OF assms] by auto

lemma attend_zero: "attend acct i reason s = (Inr j, s') \<Longrightarrow> j = 0"
  by (auto simp: attend_def elim!: chain_InrE)

lemma recover_successor:
  assumes "recover_with resolve acct i s = (Inr j, s')" and "j \<noteq> 0" and "decision_ok resolve"
  shows "\<exists>op d1 (dec :: RCConflictDecision). RCWriteJournalGet acct i (fst s) = (Inr op, d1) \<and> o_state op = Conflict \<and>
    o_kind op = Update \<and> o_httpStatus op = 200 \<and> buffer_ok (dc_body dec) (dc_length dec) \<and>
    RCWriteJournalResolveConflict acct i (Some ''update'') (dc_body dec) (dc_length dec)
      (dc_receipt dec) (dc_receiptLength dec) d1 = (Inr j, fst s')"
proof -
  from assms(1) obtain op s1 where g: "on_db (RCWriteJournalGet acct i) s = (Inr op, s1)"
    and rest: "(if o_state op \<noteq> Conflict
        then (Inl (RCErrorSet 1 ''Operation is not awaiting conflict resolution''), s1)
        else if o_kind op \<noteq> Update \<or> o_httpStatus op \<noteq> 200
        then attend acct i (if o_kind op = Create then ''create-collision'' else ''edit-delete'') s1
        else if \<not> RCWriteETagIsStrong (o_resultETag op) \<or> o_resultBody op = None \<or> bytes_of (o_resultBody op) = []
        then attend acct i ''unusable-remote-revision'' s1
        else chain (on_net (\<lambda>w. let (d, w') = resolve op w in (Inr d, w')) s1) (\<lambda>(disposition, decision, e) s.
          apply_decision acct i disposition decision e s)) = (Inr j, s')"
    unfolding recover_with_def by (rule chain_InrE)
  from g have g': "RCWriteJournalGet acct i (fst s) = (Inr op, fst s1)" by (auto simp: on_db_def split: prod.splits)
  have op: "o_state op = Conflict" "o_kind op = Update" "o_httpStatus op = 200"
    and c: "chain (on_net (\<lambda>w. let (d, w') = resolve op w in (Inr d, w')) s1) (\<lambda>(disposition, decision, e) s.
          apply_decision acct i disposition decision e s) = (Inr j, s')"
    using rest assms(2) attend_zero [of acct i _ s1 j s'] by (auto split: if_splits)
  from c obtain n dec e s2 where q: "on_net (\<lambda>w. let (d, w') = resolve op w in (Inr d, w')) s1 = (Inr (n, dec, e), s2)"
    and a: "apply_decision acct i n dec e s2 = (Inr j, s')" by (auto elim!: chain_InrE)
  from q obtain w1 where "resolve op (snd s1) = ((n, dec, e), w1)"
    by (auto simp: on_net_def Let_def split: prod.splits)
  with assms(3) have b: "buffer_ok (dc_body dec) (dc_length dec)" unfolding decision_ok_def by blast
  from a assms(2) have "on_db (RCWriteJournalResolveConflict acct i (Some ''update'') (dc_body dec)
      (dc_length dec) (dc_receipt dec) (dc_receiptLength dec)) s2 = (Inr j, s')"
    using attend_zero [of acct i _ s2 j s'] by (auto simp: apply_decision_def split: if_splits)
  with on_net_fst [OF q] have "RCWriteJournalResolveConflict acct i (Some ''update'') (dc_body dec)
      (dc_length dec) (dc_receipt dec) (dc_receiptLength dec) (fst s1) = (Inr j, fst s')"
    by (auto simp: on_db_def split: prod.splits)
  with g' op b show ?thesis by (intro exI [of _ op] exI [of _ "fst s1"] exI [of _ dec] conjI)
qed

text \<open>A conflict that still awaits its decision has no recorded resolution.\<close>

lemma conflict_not_resolved:
  assumes "journal_inv t" and "old \<in> set (write_operations t)" and "op_state old = Conflict" and "op_id old = i"
  shows "find_resolution i t = None"
proof (rule ccontr)
  assume "find_resolution i t \<noteq> None"
  then obtain x where x: "x \<in> set (write_resolutions t)" "r_operation x = i"
    by (auto simp: find_resolution_def dest: find_Some_in)
  then have "resolution_ok t x" using assms(1) by (simp add: journal_inv_def resolutions_inv_def)
  then obtain a where a: "a \<in> set (write_operations t)" "op_id a = i" "op_state a = Cancelled"
    using x(2) unfolding resolution_ok_def by blast
  have "ids_inv t" using assms(1) by (simp add: journal_inv_def)
  then have "a = old" by (rule ids_inv_eq [OF _ a(1) assms(2)]) (simp add: a assms(4))
  with a(3) assms(3) show False by simp
qed

text \<open>C18: a conflict that \<open>RCConflictRecover\<close> resolves was an update the server answered with a newer
  revision; it is retired, and its successor is a queued update of the same resource
  whose base is exactly the observed remote revision, so it cannot overwrite a third one.\<close>

theorem recover_pins_remote:
  assumes "fresh_journal d0" and "program_step\<^sup>*\<^sup>* d0 d" and "callbacks_ok callbacks"
    and "RCConflictRecover callbacks acct i (d, w) = (Inr j, d', w')" and "j \<noteq> 0"
  shows "\<exists>old \<in> set (write_operations (tables d)). \<exists>new \<in> set (write_operations (tables d')).
    op_id old = i \<and> op_account old = acct \<and> op_state old = Conflict \<and> op_kind old = Update \<and>
    old\<lparr>op_state := Cancelled\<rparr> \<in> set (write_operations (tables d')) \<and>
    op_id new = j \<and> op_state new = Queued \<and> op_kind new = Update \<and> op_account new = acct \<and>
    op_key new = op_key old \<and> op_href new = op_href old \<and>
    op_base_etag new = op_result_etag old \<and> op_base_body new = op_result_body old"
proof -
  have inv: "undo_ok d" "journal_inv (tables d)" using reach_inv [OF assms(1,2)] by auto
  obtain resolve where "decision_ok resolve" "recover_with resolve acct i (d, w) = (Inr j, d', w')"
    using Recover_with [OF assms(4,3)] by blast
  from recover_successor [OF this(2) assms(5) this(1)] obtain op d1 and dec :: RCConflictDecision where
    g: "RCWriteJournalGet acct i d = (Inr op, d1)" and op: "o_state op = Conflict" "o_kind op = Update" "o_httpStatus op = 200"
    and rs: "RCWriteJournalResolveConflict acct i (Some ''update'') (dc_body dec) (dc_length dec)
      (dc_receipt dec) (dc_receiptLength dec) d1 = (Inr j, d')" by auto
  from Get_Inr [OF g] obtain old where f: "find_op acct i (tables d) = Some old" "op = read_operation old"
    and t1: "tables d1 = tables d" by blast
  from find_op_Some [OF f(1)] have old: "old \<in> set (write_operations (tables d))" "op_id old = i" "op_account old = acct"
    by auto
  have ids: "ids_inv (tables d)" using inv by (simp add: journal_inv_def)
  have u1: "undo_ok d1" using RCWriteJournalGet_keeps [OF g] inv undo_ok_same by blast
  have "op_state old = Conflict" using op(1) f(2) by simp
  from conflict_not_resolved [OF inv(2) old(1) this old(2)] have no_replay: "find_resolution i (tables d) = None" .
  have args: "resolve_args (Some ''update'') body len rc rl = Some (kd, x) \<Longrightarrow> kd = Update" for body len rc rl kd x
    by (auto simp: resolve_args_def split: option.splits if_splits)
  have "ids_inv (tables d1)" using ids t1 by simp
  from Resolve_success [OF rs u1 this, unfolded t1] obtain kd rc where
    kd: "resolve_args (Some ''update'') (dc_body dec) (dc_length dec) (dc_receipt dec) (dc_receiptLength dec) = Some (kd, rc)"
    and cs: "resolution_replays acct i kd (dc_body dec) (dc_length dec) rc (tables d) j \<or>
      (j = next_op_id (tables d) \<and>
       resolution_fresh acct i kd (dc_body dec) (dc_length dec) rc (tables d) (tables d'))" .
  from args [OF kd] cs no_replay have jn: "j = next_op_id (tables d)"
    and fr: "resolution_fresh acct i Update (dc_body dec) (dc_length dec) rc (tables d) (tables d')"
    by (simp_all add: resolution_replays_def)
  from fr f(1) have t': "tables d' = resolve_tables i
      (successor_row acct Update op (dc_body dec) (dc_length dec)) rc (tables d)"
    by (auto simp: resolution_fresh_def f(2))
  let ?new = "successor_row acct Update op (dc_body dec) (dc_length dec) j"
  have ops: "write_operations (tables d') =
      write_operations (set_row (old\<lparr>op_state := Cancelled\<rparr>) (tables d)) @ [?new]"
    using resolve_tables_alt [OF ids old(1)] old(2) by (simp add: t' jn)
  have "old\<lparr>op_state := Cancelled\<rparr> \<in> set (write_operations (tables d'))"
    using set_row_mem [OF old(1), of "old\<lparr>op_state := Cancelled\<rparr>"] by (simp add: ops)
  moreover have "?new \<in> set (write_operations (tables d'))" by (simp add: ops)
  moreover have "op_base_etag ?new = op_result_etag old \<and> op_base_body ?new = op_result_body old"
    using op(3) f(2) by (simp add: successor_row_def Let_def)
  ultimately show ?thesis
    using old op(1,2) f(2) by (intro bexI [of _ old] bexI [of _ ?new]) simp_all
qed


section \<open>A concrete recovery\<close>

text \<open>
  An update whose resource was changed by someone else: the resolver merges, the successor
  is applied, and the resolution is completed.
\<close>

definition v_at :: "op_row list \<Rightarrow> resolution_row list \<Rightarrow> nat \<Rightarrow> unit jdb" where
  "v_at ops res n = (open_db (w_tables\<lparr>write_bases := [\<lparr>b_account = 1, b_key = ''k'', b_href = ''https://h/k'',
     b_etag = Some [CHR 0x22, CHR 0x22], b_body = ''A'', b_revision = 1\<rparr>],
     write_operations := ops, write_resolutions := res\<rparr>))\<lparr>calls := n\<rparr>"

definition v_op :: op_row where
  "v_op = queued_row 1 1 ''c1'' ''k'' ''https://h/k'' Update 1 (Some [CHR 0x22, CHR 0x22]) (Some ''A'') (Some ''B'')"

definition v_conflict :: op_row where
  "v_conflict = result_row Conflict 200 (Some [CHR 0x22, CHR ''2'', CHR 0x22]) (Some ''R'') (attempt_row 10 v_op)"

definition v_successor :: op_row where
  "v_successor = successor_row 1 Update (read_operation v_conflict) (Some ''M'') 1 2"

definition v_applied :: op_row where
  "v_applied = result_row Applied 200 (Some [CHR 0x22, CHR ''3'', CHR 0x22]) (Some ''M'') (attempt_row 20 v_successor)"

definition v_resolution :: resolution_row where
  "v_resolution = \<lparr>r_operation = 1, r_successor = 2, r_receipt = ''r'', r_mirrored = False\<rparr>"

definition v_callbacks :: "(unit, unit) RCConflictCallbacks" where
  "v_callbacks = \<lparr>cb_resolve = Some (\<lambda>op w. ((1, \<lparr>dc_kind = Some ''update'', dc_body = Some ''M'', dc_length = 1,
       dc_receipt = Some ''r'', dc_receiptLength = 1, dc_attentionReason = None\<rparr>, RCErrorClear), w)),
     cb_saveMirror = Some (\<lambda>op s. (Inr (), s)), cb_acceptLocal = Some (\<lambda>op rc w. (Inr (), w))\<rparr>"

lemmas recovery_eval = journal_eval v_at_def v_op_def v_conflict_def v_successor_def v_applied_def v_resolution_def

lemma v_base_eval: "\<exists>n. RCWriteJournalSetBase 1 (Some ''k'') (Some ''https://h/k'') (Some [CHR 0x22, CHR 0x22])
    (Some ''A'') 1 1 w0 = (Inr (), v_at [] [] n)"
  by (simp add: recovery_eval RCWriteJournalSetBase_def replace_base_def)

lemma v_enqueue_eval: "\<exists>n. RCWriteJournalEnqueue 1 (Some ''c1'') (Some ''k'') (Some ''https://h/k'')
     (Some ''update'') 1 (Some ''B'') 1 (v_at [] [] m) = (Inr 1, v_at [v_op] [] n)"
  by (simp add: recovery_eval)

lemma v_begin_eval: "\<exists>n. RCWriteJournalBeginAttempt 1 1 10 (v_at [v_op] [] m) = (Inr (), v_at [attempt_row 10 v_op] [] n)"
  by (simp add: recovery_eval)

lemma v_conflict_eval: "\<exists>n. RCWriteJournalRecordResult 1 1 (Some ''conflict'') 200 (Some [CHR 0x22, CHR ''2'', CHR 0x22])
     (Some ''R'') 1 (v_at [attempt_row 10 v_op] [] m) = (Inr (), v_at [v_conflict] [] n)"
  by (simp add: recovery_eval)

lemma v_resolve_eval: "\<exists>n. RCWriteJournalResolveConflict 1 1 (Some ''update'') (Some ''M'') 1 (Some ''r'') 1
     (v_at [v_conflict] [] m) = (Inr 2, v_at [v_conflict\<lparr>op_state := Cancelled\<rparr>, v_successor] [v_resolution] n)"
  by (simp add: recovery_eval)


lemma v_reach: "\<exists>n. program_step\<^sup>*\<^sup>* w0 (v_at [v_conflict] [] n)"
proof -
  obtain n1 where "RCWriteJournalSetBase 1 (Some ''k'') (Some ''https://h/k'') (Some [CHR 0x22, CHR 0x22])
    (Some ''A'') 1 1 w0 = (Inr (), v_at [] [] n1)" using v_base_eval by blast
  from program_step.call [OF journal_call.set_base [OF this]] have s1: "program_step\<^sup>*\<^sup>* w0 (v_at [] [] n1)" by blast
  obtain n2 where "RCWriteJournalEnqueue 1 (Some ''c1'') (Some ''k'') (Some ''https://h/k'')
     (Some ''update'') 1 (Some ''B'') 1 (v_at [] [] n1) = (Inr 1, v_at [v_op] [] n2)" using v_enqueue_eval by blast
  from program_step.call [OF journal_call.enqueue [OF this]] have s2: "program_step (v_at [] [] n1) (v_at [v_op] [] n2)"
    by (simp add: buffer_ok_def)
  obtain n3 where "RCWriteJournalBeginAttempt 1 1 10 (v_at [v_op] [] n2) = (Inr (), v_at [attempt_row 10 v_op] [] n3)"
    using v_begin_eval by blast
  from program_step.call [OF journal_call.begin_attempt [OF this]]
  have s3: "program_step (v_at [v_op] [] n2) (v_at [attempt_row 10 v_op] [] n3)" .
  obtain n4 where "RCWriteJournalRecordResult 1 1 (Some ''conflict'') 200 (Some [CHR 0x22, CHR ''2'', CHR 0x22])
     (Some ''R'') 1 (v_at [attempt_row 10 v_op] [] n3) = (Inr (), v_at [v_conflict] [] n4)" using v_conflict_eval by blast
  from program_step.call [OF journal_call.record_result [OF this]]
  have s4: "program_step (v_at [attempt_row 10 v_op] [] n3) (v_at [v_conflict] [] n4)" by (simp add: buffer_ok_def)
  from s1 s2 s3 s4 show ?thesis by (meson rtranclp.rtrancl_into_rtrancl)
qed

lemma v_callbacks_ok: "callbacks_ok (Some v_callbacks)"
  by (simp add: callbacks_ok_def v_callbacks_def decision_ok_def mirror_ok_def buffer_ok_def)

abbreviation "v_rows \<equiv> [v_conflict\<lparr>op_state := Cancelled\<rparr>, v_successor]"

lemma v_get_eval: "\<exists>n. RCWriteJournalGet 1 1 (v_at [v_conflict] [] m) = (Inr (read_operation v_conflict), v_at [v_conflict] [] n)"
  by (simp add: recovery_eval)

lemma v_recover_eval: "\<exists>n. RCConflictRecover (Some v_callbacks) 1 1 (v_at [v_conflict] [] m, ()) =
    (Inr 2, v_at v_rows [v_resolution] n, ())"
proof -
  obtain n1 where 1: "RCWriteJournalGet 1 1 (v_at [v_conflict] [] m) = (Inr (read_operation v_conflict), v_at [v_conflict] [] n1)"
    using v_get_eval by blast
  obtain n2 where 2: "RCWriteJournalResolveConflict 1 1 (Some ''update'') (Some ''M'') 1 (Some ''r'') 1
     (v_at [v_conflict] [] n1) = (Inr 2, v_at v_rows [v_resolution] n2)" using v_resolve_eval by blast
  have c: "op_state v_conflict = Conflict" "op_kind v_conflict = Update" "o_httpStatus (read_operation v_conflict) = 200"
    "RCWriteETagIsStrong (op_result_etag v_conflict)" "op_result_body v_conflict = Some ''R''"
    by (simp_all add: recovery_eval)
  have "autocommit (v_at [v_conflict] [] m)" by (simp add: v_at_def open_db_def autocommit_def)
  with 1 2 c show ?thesis
    by (intro exI [of _ n2]) (simp add: RCConflictRecover_def recover_with_def v_callbacks_def on_db_def on_net_def
        apply_decision_def RCConflictDeferred_def RCConflictNeedsAttention_def RCConflictResolved_def)
qed

text \<open>The witness of pinned successors.\<close>

theorem recover_pins_remote_witness:
  "\<exists>n d'. RCConflictRecover (Some v_callbacks) 1 1 (v_at [v_conflict] [] n, ()) = (Inr 2, d', ()) \<and>
     (\<exists>new \<in> set (write_operations (tables d')). op_id new = 2 \<and>
        op_base_etag new = Some [CHR 0x22, CHR ''2'', CHR 0x22])"
proof -
  obtain n where n: "program_step\<^sup>*\<^sup>* w0 (v_at [v_conflict] [] n)" using v_reach by blast
  obtain m where m: "RCConflictRecover (Some v_callbacks) 1 1 (v_at [v_conflict] [] n, ()) =
    (Inr 2, v_at v_rows [v_resolution] m, ())" using v_recover_eval by blast
  have ops: "write_operations (tables (v_at [v_conflict] [] n)) = [v_conflict]"
    by (simp add: v_at_def open_db_def)
  have et: "op_result_etag v_conflict = Some [CHR 0x22, CHR ''2'', CHR 0x22]"
    by (simp add: v_conflict_def result_row_def)
  from recover_pins_remote [OF w0_fresh(1) n v_callbacks_ok m] m show ?thesis
    unfolding ops by (intro exI [of _ n] exI [of _ "v_at v_rows [v_resolution] m"]) (auto simp: et)
qed


abbreviation "v_done \<equiv> [v_conflict\<lparr>op_state := Cancelled\<rparr>, v_applied]"






end
