(* ===== verification/VCard.thy ===== *)
theory VCard
  imports Prelude
begin

text \<open>
  The vCard adapter of \<^verbatim>\<open>source/shared/RCVCard.c\<close>: unfolding, value decoding, structured
  values, and the mapping of a parsed card to the stored document. The content-line parser
  libvc is an argument: it takes the unfolded text and gives the components of the first
  card, in order, and the text that follows it.
\<close>

section \<open>Data\<close>

record RCVCardParameter =
  pm_name :: string
  pm_value :: string
  pm_position :: nat

record RCVCardValuePart =
  vp_value :: string
  vp_component :: nat
  vp_position :: nat

record RCVCardProperty =
  pr_group :: "string option"
  pr_name :: string
  pr_decodedValue :: string
  pr_originalValue :: string
  pr_valueType :: "string option"
  pr_position :: nat
  pr_parameters :: "RCVCardParameter list"
  pr_parts :: "RCVCardValuePart list"

record RCVCardDocument =
  dv_version :: "string option"
  dv_uid :: "string option"
  dv_formattedName :: "string option"
  dv_givenName :: "string option"
  dv_familyName :: "string option"
  dv_organization :: "string option"
  dv_title :: "string option"
  dv_birthday :: "string option"
  dv_properties :: "RCVCardProperty list"

text \<open>A component of libvc's list, as its accessors report it.\<close>

record vc_component =
  vc_group :: "string option"
  vc_name :: "string option"
  vc_value :: "string option"
  vc_params :: "(string option \<times> string option) list"

type_synonym vc_parser = "string \<Rightarrow> (vc_component list \<times> string) option"

section \<open>Values\<close>

text \<open>A backslash takes the next character literally, or as a line break for \<open>n\<close> and \<open>N\<close>.\<close>

fun RCDecodeValue :: "string \<Rightarrow> string" where
  "RCDecodeValue [] = []"
| "RCDecodeValue [c] = [c]"
| "RCDecodeValue (c # e # cs) =
     (if c = CHR 0x5c
      then (if e = CHR ''n'' \<or> e = CHR ''N'' then CHR 0x0a else e) # RCDecodeValue cs
      else c # RCDecodeValue (e # cs))"

definition eol :: "char \<Rightarrow> bool" where
  "eol c \<longleftrightarrow> c = CHR 0x0d \<or> c = CHR 0x0a"

definition blank :: "char \<Rightarrow> bool" where
  "blank c \<longleftrightarrow> c = CHR 0x20 \<or> c = CHR 0x09"

definition skip :: "char \<Rightarrow> bytes \<Rightarrow> bytes" where
  "skip c bs = (case bs of [] \<Rightarrow> [] | b # r \<Rightarrow> if b = c then r else bs)"

text \<open>What follows the line end at the front of the buffer: an optional CR and an optional LF.\<close>

definition after_eol :: "bytes \<Rightarrow> bytes" where
  "after_eol bs = skip (CHR 0x0a) (skip (CHR 0x0d) bs)"

lemma length_skip: "length (skip c bs) \<le> length bs"
  by (cases bs) (auto simp: skip_def)

lemma length_after_eol: "length (after_eol bs) \<le> length bs"
  unfolding after_eol_def by (meson length_skip le_trans)

lemma after_eol_shorter: "bs \<noteq> [] \<Longrightarrow> eol (hd bs) \<Longrightarrow> length (after_eol bs) < length bs"
  by (cases bs) (auto simp: after_eol_def skip_def eol_def split: list.splits)

lemma rest_shorter:
  assumes "bs \<noteq> []"
  shows "length (after_eol (dropWhile (\<lambda>c. \<not> eol c) bs)) < length bs"
proof (cases "dropWhile (\<lambda>c. \<not> eol c) bs = []")
  case True
  from assms show ?thesis unfolding True by (simp add: after_eol_def skip_def)
next
  case False
  from hd_dropWhile [OF False] after_eol_shorter [OF False] length_dropWhile_le [of "\<lambda>c. \<not> eol c" bs]
  show ?thesis by simp
qed

function RCUnfold :: "bytes \<Rightarrow> string" where
  "RCUnfold bs = (if bs = [] then []
     else let line = takeWhile (\<lambda>c. \<not> eol c) bs; rest = after_eol (dropWhile (\<lambda>c. \<not> eol c) bs) in
       if rest \<noteq> [] \<and> blank (hd rest) then line @ RCUnfold (tl rest)
       else line @ CHR 0x0a # RCUnfold rest)"
  by auto
termination
  by (relation "measure length") (auto intro: rest_shorter diff_less_mono2 less_imp_diff_less)

declare RCUnfold.simps [simp del]


text \<open>The pieces between unescaped semicolons; \<open>acc\<close> is the piece being read, reversed.\<close>

fun parts_loop :: "string \<Rightarrow> string \<Rightarrow> bool \<Rightarrow> string list" where
  "parts_loop [] acc escaped = [rev acc]"
| "parts_loop (c # cs) acc escaped =
     (if c = CHR '';'' \<and> \<not> escaped then rev acc # parts_loop cs [] False
      else parts_loop cs (c # acc) (if escaped then False else c = CHR 0x5c))"

definition structured :: "string \<Rightarrow> bool" where
  "structured name \<longleftrightarrow> same_nocase name ''N'' \<or> same_nocase name ''ADR'' \<or> same_nocase name ''ORG''"

definition RCParseParts :: "string \<Rightarrow> string \<Rightarrow> RCVCardValuePart list" where
  "RCParseParts name originalValue =
     (if \<not> structured name then []
      else map (\<lambda>(i, p). \<lparr>vp_value = RCDecodeValue p, vp_component = i, vp_position = 0\<rparr>)
             (enumerate 0 (parts_loop originalValue [] False)))"

section \<open>Mapping\<close>

definition RCSetProjection :: "string option \<Rightarrow> string \<Rightarrow> string option" where
  "RCSetProjection field value = (case field of None \<Rightarrow> Some value | Some v \<Rightarrow> Some v)"

text \<open>The parameters with their positions and the first \<open>VALUE\<close>; a null name or value is an error.\<close>

fun map_parameters ::
  "(string option \<times> string option) list \<Rightarrow> nat \<Rightarrow> string option \<Rightarrow> (RCVCardParameter list \<times> string option) option" where
  "map_parameters [] n valueType = Some ([], valueType)"
| "map_parameters ((Some name, Some v) # ps) n valueType =
     map_option (\<lambda>(qs, vt). (\<lparr>pm_name = name, pm_value = v, pm_position = n\<rparr> # qs, vt))
       (map_parameters ps (Suc n)
          (if same_nocase name ''VALUE'' \<and> valueType = None then Some v else valueType))"
| "map_parameters (_ # ps) n valueType = None"

definition project :: "RCVCardProperty \<Rightarrow> RCVCardDocument \<Rightarrow> RCVCardDocument" where
  "project p d =
     (let name = pr_name p; v = pr_decodedValue p; parts = pr_parts p in
      if same_nocase name ''VERSION'' then d\<lparr>dv_version := RCSetProjection (dv_version d) v\<rparr>
      else if same_nocase name ''UID'' then d\<lparr>dv_uid := RCSetProjection (dv_uid d) v\<rparr>
      else if same_nocase name ''FN'' then d\<lparr>dv_formattedName := RCSetProjection (dv_formattedName d) v\<rparr>
      else if same_nocase name ''N'' then
        (let d = (if length parts > 0
                  then d\<lparr>dv_familyName := RCSetProjection (dv_familyName d) (vp_value (parts ! 0))\<rparr> else d) in
         if length parts > 1
         then d\<lparr>dv_givenName := RCSetProjection (dv_givenName d) (vp_value (parts ! 1))\<rparr> else d)
      else if same_nocase name ''ORG'' then
        d\<lparr>dv_organization := RCSetProjection (dv_organization d)
            (if length parts > 0 then vp_value (parts ! 0) else v)\<rparr>
      else if same_nocase name ''TITLE'' then d\<lparr>dv_title := RCSetProjection (dv_title d) v\<rparr>
      else if same_nocase name ''BDAY'' then d\<lparr>dv_birthday := RCSetProjection (dv_birthday d) v\<rparr>
      else d)"

definition RCMapProperty :: "vc_component \<Rightarrow> nat \<Rightarrow> RCVCardDocument \<Rightarrow> RCVCardDocument res" where
  "RCMapProperty component position d =
     (let value = (case vc_value component of None \<Rightarrow> [] | Some v \<Rightarrow> v) in
      case vc_name component of
        None \<Rightarrow> Inl (RCErrorSet 1 ''Out of memory mapping libvc property'')
      | Some name \<Rightarrow>
        (case map_parameters (vc_params component) 0 None of
           None \<Rightarrow> Inl (RCErrorSet 1 ''Unable to map libvc parameter'')
         | Some (ps, vt) \<Rightarrow>
             (let p = \<lparr>pr_group = vc_group component, pr_name = name, pr_decodedValue = RCDecodeValue value,
                       pr_originalValue = value, pr_valueType = vt, pr_position = position,
                       pr_parameters = ps, pr_parts = RCParseParts name value\<rparr> in
              Inr (project p (d\<lparr>dv_properties := dv_properties d @ [p]\<rparr>)))))"

definition RCVCardDocumentInit :: RCVCardDocument where
  "RCVCardDocumentInit = \<lparr>dv_version = None, dv_uid = None, dv_formattedName = None, dv_givenName = None,
     dv_familyName = None, dv_organization = None, dv_title = None, dv_birthday = None, dv_properties = []\<rparr>"

fun map_components :: "vc_component list \<Rightarrow> nat \<Rightarrow> RCVCardDocument \<Rightarrow> RCVCardDocument res" where
  "map_components [] n d = Inr d"
| "map_components (c # cs) n d = (case RCMapProperty c n d of Inl e \<Rightarrow> Inl e | Inr d' \<Rightarrow> map_components cs (Suc n) d')"

definition incomplete_card :: RCError where
  "incomplete_card = RCErrorSet 1 ''Response is not a complete vCard''"

text \<open>On failure the document is cleared and the error is set; both are the left value.\<close>

definition RCVCardParse :: "vc_parser \<Rightarrow> bytes option \<Rightarrow> nat \<Rightarrow> RCVCardDocument res" where
  "RCVCardParse parse bytes len =
     (case bytes of None \<Rightarrow> Inl incomplete_card
      | Some bs \<Rightarrow>
        if len = 0 \<or> len > INT_MAX - 2 \<or> CHR 0x00 \<in> set (take len bs) then Inl incomplete_card
        else case parse (RCUnfold (take len bs)) of
            None \<Rightarrow> Inl incomplete_card
          | Some (components, trailing) \<Rightarrow>
              if \<exists>c \<in> set trailing. \<not> eol c \<and> \<not> blank c then Inl incomplete_card
              else map_components components 0 RCVCardDocumentInit)"

end
