(* ===== verification/PhotoCodec.thy ===== *)
theory PhotoCodec
  imports VCard
begin

text \<open>
  The photo codec of \<^verbatim>\<open>source/shared/RCPhotoCodec.c\<close>: strict Base64 in both directions, the
  media type of a picture from its signature, and the picture of a parsed card. A
  \<open>size_t\<close> is a word of any width; C integers hold digits, so the shifts are on \<open>int\<close>.
\<close>

unbundle bit_operations_syntax

section \<open>The decoder\<close>

definition Digit :: "char \<Rightarrow> int" where
  "Digit ch = (let c = (of_char ch :: int) in
     if 65 \<le> c \<and> c \<le> 90 then c - 65
     else if 97 \<le> c \<and> c \<le> 122 then c - 97 + 26
     else if 48 \<le> c \<and> c \<le> 57 then c - 48 + 52
     else if ch = CHR ''+'' then 62 else if ch = CHR ''/'' then 63 else -1)"

definition whitespace :: "char \<Rightarrow> bool" where
  "whitespace c \<longleftrightarrow> c = CHR 0x20 \<or> c = CHR 0x09 \<or> c = CHR 0x0d \<or> c = CHR 0x0a"

definition code_value :: "char \<Rightarrow> int" where
  "code_value p = (if p = CHR ''='' then -2 else Digit p)"

text \<open>An \<open>unsigned char\<close> keeps the low eight bits of what is stored into it.\<close>

definition uchar :: "int \<Rightarrow> char" where
  "uchar i = char_of i"

text \<open>One complete quartet: nothing for an invalid one, else the bytes it stands for.\<close>

definition quartet_bytes :: "int \<Rightarrow> int \<Rightarrow> int \<Rightarrow> int \<Rightarrow> bytes option" where
  "quartet_bytes a b c d =
     (if a < 0 \<or> b < 0 \<or> (c = -2 \<and> (d \<noteq> -2 \<or> b AND 15 \<noteq> 0)) \<or> (c \<ge> 0 \<and> d = -2 \<and> c AND 3 \<noteq> 0) then None
      else Some (uchar (push_bit 2 a OR drop_bit 4 b) #
        (if c \<ge> 0 then [uchar (push_bit 4 b OR drop_bit 2 c)] else []) @
        (if d \<ge> 0 then [uchar (push_bit 6 c OR d)] else [])))"

fun decode_loop :: "string \<Rightarrow> int list \<Rightarrow> bool \<Rightarrow> bytes \<Rightarrow> bytes option" where
  "decode_loop [] quartet finished data = (if quartet \<noteq> [] \<or> data = [] then None else Some data)"
| "decode_loop (p # ps) quartet finished data =
     (if whitespace p then decode_loop ps quartet finished data
      else if finished then None
      else let value = code_value p in
        if value = -1 then None
        else let q = quartet @ [value] in
          if length q = 4
          then (case quartet_bytes (q ! 0) (q ! 1) (q ! 2) (q ! 3) of None \<Rightarrow> None
                | Some out \<Rightarrow> decode_loop ps [] (q ! 2 = -2 \<or> q ! 3 = -2) (data @ out))
          else decode_loop ps q finished data)"

definition RCPhotoDecodeBytes :: "string option \<Rightarrow> bytes option" where
  "RCPhotoDecodeBytes text =
     (case text of None \<Rightarrow> None | Some t \<Rightarrow> if t = [] then None else decode_loop t [] False [])"

section \<open>The encoder\<close>

definition alphabet :: string where
  "alphabet = ''ABCDEFGHIJKLMNOPQRSTUVWXYZabcdefghijklmnopqrstuvwxyz0123456789+/''"

definition letter :: "int \<Rightarrow> char" where
  "letter i = alphabet ! nat i"

text \<open>The four alphabet indices of the bytes \<open>a\<close>, \<open>b\<close> and \<open>c\<close>; a missing byte counts as zero.\<close>

definition sextet1 :: "int \<Rightarrow> int" where
  "sextet1 a = drop_bit 2 a"

definition sextet2 :: "int \<Rightarrow> int \<Rightarrow> int" where
  "sextet2 a b = push_bit 4 (a AND 3) OR drop_bit 4 b"

definition sextet3 :: "int \<Rightarrow> int \<Rightarrow> int" where
  "sextet3 b c = push_bit 2 (b AND 15) OR drop_bit 6 c"

definition sextet4 :: "int \<Rightarrow> int" where
  "sextet4 c = c AND 63"

fun encode_loop :: "bytes \<Rightarrow> string" where
  "encode_loop [] = []"
| "encode_loop [x] = [letter (sextet1 (of_char x)), letter (sextet2 (of_char x) 0), CHR ''='', CHR ''='']"
| "encode_loop [x, y] =
     [letter (sextet1 (of_char x)), letter (sextet2 (of_char x) (of_char y)), letter (sextet3 (of_char y) 0), CHR ''='']"
| "encode_loop (x # y # z # zs) =
     [letter (sextet1 (of_char x)), letter (sextet2 (of_char x) (of_char y)), letter (sextet3 (of_char y) (of_char z)),
      letter (sextet4 (of_char z))] @ encode_loop zs"

text \<open>The largest accepted length and the size of the output allocation, in \<open>size_t\<close> arithmetic.\<close>

definition encode_limit :: "'l::len word" where
  "encode_limit = (- 1) div 4 * 3 - 3"

definition encode_size :: "'l::len word \<Rightarrow> 'l word" where
  "encode_size len = (len + 2) div 3 * 4 + 1"

definition RCPhotoEncodeBytes :: "bytes option \<Rightarrow> 'l::len word \<Rightarrow> string option" where
  "RCPhotoEncodeBytes bytes len =
     (case bytes of None \<Rightarrow> None
      | Some bs \<Rightarrow> if len = 0 \<or> len > encode_limit then None else Some (encode_loop (take (unat len) bs)))"

section \<open>Pictures\<close>

definition begins :: "bytes \<Rightarrow> int list \<Rightarrow> bool" where
  "begins p sig \<longleftrightarrow> length p \<ge> length sig \<and> map of_char (take (length sig) p) = sig"

definition RCPhotoMediaType :: "bytes option \<Rightarrow> string option" where
  "RCPhotoMediaType p =
     (case p of None \<Rightarrow> None
      | Some bs \<Rightarrow>
        if begins bs [255, 216, 255] then Some ''JPEG''
        else if begins bs [0x89, 0x50, 0x4e, 0x47, 13, 10, 26, 10] then Some ''PNG''
        else if begins bs [0x47, 0x49, 0x46, 0x38, 0x37, 0x61] \<or> begins bs [0x47, 0x49, 0x46, 0x38, 0x39, 0x61]
        then Some ''GIF''
        else if begins bs [0x49, 0x49, 0x2a, 0] \<or> begins bs [0x4d, 0x4d, 0, 0x2a] then Some ''TIFF''
        else None)"

text \<open>The parameters of the picture: \<open>None\<close> when one of them rules decoding out, else whether
  a binary encoding was named.\<close>

fun photo_parameters :: "RCVCardParameter list \<Rightarrow> bool \<Rightarrow> bool option" where
  "photo_parameters [] binary = Some binary"
| "photo_parameters (p # ps) binary =
     (if same_nocase (pm_name p) ''ENCODING'' \<and>
         \<not> same_nocase (pm_value p) ''b'' \<and> \<not> same_nocase (pm_value p) ''BASE64'' then None
      else if same_nocase (pm_name p) ''VALUE'' \<and> \<not> same_nocase (pm_value p) ''binary'' then None
      else photo_parameters ps (binary \<or> same_nocase (pm_name p) ''ENCODING''))"

definition RCPhotoFromVCard :: "RCVCardDocument \<Rightarrow> bytes option" where
  "RCPhotoFromVCard document =
     (case filter (\<lambda>p. same_nocase (pr_name p) ''PHOTO'') (dv_properties document) of
        [photo] \<Rightarrow> (case photo_parameters (pr_parameters photo) False of
            Some True \<Rightarrow> RCPhotoDecodeBytes (Some (pr_originalValue photo))
          | _ \<Rightarrow> None)
      | _ \<Rightarrow> None)"

section \<open>Digits and bits\<close>

lemma octet_range: "0 \<le> (of_char c :: int)" "(of_char c :: int) < 256"
  using of_char_mod_256 [of c, where 'a = int] pos_mod_bound [of 256 "of_char c :: int"]
    pos_mod_sign [of 256 "of_char c :: int"] by simp_all

lemma letter_ranges:
  "\<forall>k \<in> set [0..<26]. letter (int k) = char_of (65 + int k)"
  "\<forall>k \<in> set [0..<26]. letter (int k + 26) = char_of (97 + int k)"
  "\<forall>k \<in> set [0..<10]. letter (int k + 52) = char_of (48 + int k)"
  "letter 62 = CHR ''+''" "letter 63 = CHR ''/''"
  by code_simp+

lemma letter_at:
  assumes "\<forall>k \<in> set [0..<n]. letter (int k + base) = char_of (first + int k)"
    and "first \<le> (of_char c :: int)" "of_char c < first + int n"
  shows "letter (of_char c - first + base) = c"
proof -
  from assms(2,3) have "nat (of_char c - first) \<in> set [0..<n]" by auto
  with assms(1) have "letter (int (nat (of_char c - first)) + base) = char_of (first + int (nat (of_char c - first)))" by blast
  with assms(2) show ?thesis by simp
qed

lemma letter_Digit:
  assumes "Digit c \<noteq> -1"
  shows "0 \<le> Digit c" "Digit c < 64" "letter (Digit c) = c"
proof -
  show "0 \<le> Digit c" "Digit c < 64" using assms by (auto simp: Digit_def Let_def split: if_splits)
  show "letter (Digit c) = c"
    using assms letter_at [of 26 0 65 c] letter_at [of 26 26 97 c] letter_at [of 10 52 48 c] letter_ranges
    by (auto simp: Digit_def Let_def simp del: set_upt split: if_splits)
qed

lemma Digits: "map (\<lambda>k. Digit (letter (int k))) [0..<64] = map int [0..<64]"
  by code_simp

lemma alphabet_plain: "filter (\<lambda>c. whitespace c \<or> c = CHR ''='') alphabet = []" "length alphabet = 64"
  by code_simp+

lemma Digit_letter:
  assumes "0 \<le> a" "a < 64"
  shows "Digit (letter a) = a" "\<not> whitespace (letter a)" "letter a \<noteq> CHR ''=''"
proof -
  from assms have k: "nat a < 64" "int (nat a) = a" by auto
  with arg_cong [OF Digits, of "\<lambda>l. l ! nat a"] show "Digit (letter a) = a" by (simp del: upt_rec_numeral)
  have "letter a \<in> set alphabet" unfolding letter_def using k(1) alphabet_plain(2) nth_mem by metis
  with alphabet_plain(1) show "\<not> whitespace (letter a)" "letter a \<noteq> CHR ''=''" by (auto simp: filter_empty_conv)
qed

lemma small_bits: "0 \<le> (a :: int) \<Longrightarrow> a < 2 ^ n \<Longrightarrow> bit a i \<Longrightarrow> i < n"
  by (metis bit_take_bit_iff take_bit_int_eq_self)

lemma of_char_uchar: "(of_char (uchar i) :: int) = take_bit 8 i"
  by (simp add: uchar_def take_bit_eq_mod)


section \<open>Quartets\<close>

text \<open>The four digits of three bytes, and the three bytes of four digits.\<close>

lemma masks: "(3 :: int) = mask 2" "(15 :: int) = mask 4" "(63 :: int) = mask 6"
  by (simp_all add: mask_eq_exp_minus_1)

lemma digit_bits: "(\<And>n. bit (x :: int) n \<Longrightarrow> n < 6) \<Longrightarrow> 0 \<le> x \<and> x < 64"
proof -
  assume b: "\<And>n. bit x n \<Longrightarrow> n < 6"
  have "x = take_bit 6 x" using b by (intro bit_eqI) (auto simp: bit_simps)
  then show ?thesis using take_bit_nonnegative [of 6 x] take_bit_int_less_exp [of 6 x] by simp
qed

lemma octet_bits: "0 \<le> (a :: int) \<Longrightarrow> a < 256 \<Longrightarrow> bit a n \<Longrightarrow> n < 8"
  using small_bits [of a 8 n] by simp

lemma six_bits: "0 \<le> (a :: int) \<Longrightarrow> a < 64 \<Longrightarrow> bit a n \<Longrightarrow> n < 6"
  using small_bits [of a 6 n] by simp

lemmas sextet_defs = sextet1_def sextet2_def sextet3_def sextet4_def

lemma digits_range:
  fixes a b c :: int
  assumes "0 \<le> a" "a < 256" "0 \<le> b" "b < 256" "0 \<le> c" "c < 256"
  shows "0 \<le> sextet1 a \<and> sextet1 a < 64" "0 \<le> sextet2 a b \<and> sextet2 a b < 64"
    "0 \<le> sextet3 b c \<and> sextet3 b c < 64" "0 \<le> sextet4 c \<and> sextet4 c < 64"
  unfolding sextet_defs
  by (rule digit_bits, use assms octet_bits [of a] octet_bits [of b] octet_bits [of c] in
      \<open>fastforce simp: masks bit_simps dest: octet_bits\<close>)+

lemma off: "Suc (Suc (n - 2)) = (if n < 2 then 2 else n)" "4 + (n - 4) = (if n < 4 then 4 else n)"
  by arith+

lemma bytes_of_digits:
  fixes a b c :: int
  assumes "0 \<le> a" "a < 256" "0 \<le> b" "b < 256" "0 \<le> c" "c < 256"
  shows "take_bit 8 (push_bit 2 (sextet1 a) OR drop_bit 4 (sextet2 a b)) = a"
    "take_bit 8 (push_bit 4 (sextet2 a b) OR drop_bit 2 (sextet3 b c)) = b"
    "take_bit 8 (push_bit 6 (sextet3 b c) OR sextet4 c) = c"
  unfolding sextet_defs
  by (intro bit_eqI, auto simp: masks bit_simps not_le off
      dest: octet_bits [OF assms(1,2)] octet_bits [OF assms(3,4)] octet_bits [OF assms(5,6)])+

lemma digits_of_bytes:
  fixes a b c d :: int
  assumes "0 \<le> a" "a < 64" "0 \<le> b" "b < 64" "0 \<le> c" "c < 64" "0 \<le> d" "d < 64"
  defines "x \<equiv> take_bit 8 (push_bit 2 a OR drop_bit 4 b)" and "y \<equiv> take_bit 8 (push_bit 4 b OR drop_bit 2 c)"
    and "z \<equiv> take_bit 8 (push_bit 6 c OR d)"
  shows "sextet1 x = a" "sextet2 x y = b" "sextet3 y z = c" "sextet4 z = d"
proof -
  note bits = six_bits [OF assms(1,2)] six_bits [OF assms(3,4)] six_bits [OF assms(5,6)] six_bits [OF assms(7,8)]
  show "sextet1 x = a" unfolding x_def sextet_defs by (intro bit_eqI) (auto simp: masks bit_simps dest: bits)
  show "sextet2 x y = b" unfolding x_def y_def sextet_defs
    by (intro bit_eqI) (auto simp: masks bit_simps not_le dest: bits)
  show "sextet3 y z = c" unfolding y_def z_def sextet_defs
    by (intro bit_eqI) (auto simp: masks bit_simps not_le off dest: bits)
  show "sextet4 z = d" unfolding z_def sextet_defs by (intro bit_eqI) (auto simp: masks bit_simps dest: bits)
qed

section \<open>Decoding and encoding texts\<close>

lemma code_value_cases:
  assumes "code_value p \<noteq> -1"
  shows "0 \<le> code_value p \<and> code_value p < 64 \<and> letter (code_value p) = p \<or> code_value p = -2 \<and> p = CHR ''=''"
  using assms letter_Digit [of p] by (auto simp: code_value_def split: if_splits)

lemma code_value_digit: "0 \<le> code_value p \<Longrightarrow> code_value p < 64 \<and> letter (code_value p) = p"
  using code_value_cases [of p] by auto

lemma code_value_letter: "0 \<le> a \<and> a < 64 \<Longrightarrow> code_value (letter a) = a"
  by (simp add: code_value_def Digit_letter)

lemma decode_loop_plain:
  "decode_loop t quartet finished data = decode_loop (filter (\<lambda>c. \<not> whitespace c) t) quartet finished data"
  by (induction t quartet finished data rule: decode_loop.induct) (auto simp: Let_def split: option.splits)

lemma decode_loop_digit:
  "\<not> whitespace p \<Longrightarrow> length quartet < 3 \<Longrightarrow> decode_loop (p # ps) quartet False data =
    (if code_value p = -1 then None else decode_loop ps (quartet @ [code_value p]) False data)"
  by (simp add: Let_def)

lemma decode_loop_last:
  "\<not> whitespace p \<Longrightarrow> decode_loop (p # ps) [a, b, c] False data =
    (if code_value p = -1 then None
     else case quartet_bytes a b c (code_value p) of None \<Rightarrow> None
       | Some out \<Rightarrow> decode_loop ps [] (c = -2 \<or> code_value p = -2) (data @ out))"
  by (simp add: Let_def split: option.split)

lemma decode_loop_four:
  assumes "\<not> whitespace p0" "\<not> whitespace p1" "\<not> whitespace p2" "\<not> whitespace p3"
  shows "decode_loop (p0 # p1 # p2 # p3 # ps) [] False data =
    (if -1 \<in> {code_value p0, code_value p1, code_value p2, code_value p3} then None
     else case quartet_bytes (code_value p0) (code_value p1) (code_value p2) (code_value p3) of None \<Rightarrow> None
       | Some out \<Rightarrow> decode_loop ps [] (code_value p2 = -2 \<or> code_value p3 = -2) (data @ out))"
  using assms by (simp add: decode_loop_digit decode_loop_last del: decode_loop.simps)

lemma equals_not_whitespace [simp]: "\<not> whitespace (CHR ''='')"
  by (simp add: whitespace_def)

lemma code_value_equals [simp]: "code_value (CHR ''='') = -2"
  by (simp add: code_value_def)

text \<open>A short quartet fails at the end of the text.\<close>

lemma decode_loop_short: "length t \<in> {1, 2, 3} \<Longrightarrow> \<forall>c \<in> set t. \<not> whitespace c \<Longrightarrow> decode_loop t [] False data = None"
  by (auto simp: length_Suc_conv numeral_2_eq_2 numeral_3_eq_3 Let_def)

lemma decode_loop_finished:
  "\<forall>c \<in> set t. \<not> whitespace c \<Longrightarrow> decode_loop t [] True data = (if t = [] \<and> data \<noteq> [] then Some data else None)"
  by (cases t) auto

lemma uchar_octet: "take_bit 8 i = (of_char x :: int) \<Longrightarrow> uchar i = x"
  by (metis of_char_uchar char_of_char)

lemma quartet_bytes_encoded:
  assumes "quartet_bytes (code_value p0) (code_value p1) (code_value p2) (code_value p3) = Some out"
    and "-1 \<notin> {code_value p0, code_value p1, code_value p2, code_value p3}"
  shows "encode_loop out = [p0, p1, p2, p3] \<and>
    (code_value p2 \<noteq> -2 \<and> code_value p3 \<noteq> -2 \<longrightarrow> (\<forall>bs. encode_loop (out @ bs) = p0 # p1 # p2 # p3 # encode_loop bs))"
proof -
  define a b c d where "a = code_value p0" and "b = code_value p1" and "c = code_value p2" and "d = code_value p3"
  note defs = a_def b_def c_def d_def
  note q = assms(1) [folded defs, unfolded quartet_bytes_def]
  from q have "a \<ge> 0" "b \<ge> 0" by (auto split: if_splits)
  then have ab: "0 \<le> a" "a < 64" "letter a = p0" "0 \<le> b" "b < 64" "letter b = p1"
    using assms(2) by (auto simp: defs dest: code_value_digit)
  have c: "0 \<le> c \<and> c < 64 \<and> letter c = p2 \<or> c = -2 \<and> p2 = CHR ''=''" 
    unfolding defs by (rule code_value_cases) (use assms(2) in auto)
  have d: "0 \<le> d \<and> d < 64 \<and> letter d = p3 \<or> d = -2 \<and> p3 = CHR ''=''" 
    unfolding defs by (rule code_value_cases) (use assms(2) in auto)
  from c d show ?thesis
  proof (elim disjE conjE)
    assume cd: "0 \<le> c" "c < 64" "letter c = p2" "0 \<le> d" "d < 64" "letter d = p3"
    with q ab have "out = [uchar (push_bit 2 a OR drop_bit 4 b), uchar (push_bit 4 b OR drop_bit 2 c), uchar (push_bit 6 c OR d)]"
      by (auto split: if_splits)
    with ab cd digits_of_bytes [OF ab(1,2,4,5) cd(1,2,4,5)] show ?thesis
      by (simp add: of_char_uchar)
  next
    assume cd: "0 \<le> c" "c < 64" "letter c = p2" "d = -2" "p3 = CHR ''=''"
    from q ab cd have "out = [uchar (push_bit 2 a OR drop_bit 4 b), uchar (push_bit 4 b OR drop_bit 2 c)]" "c AND 3 = 0"
      by (auto split: if_splits)
    moreover have "take_bit 8 (push_bit 6 c) = 0" using calculation(2) by (simp add: masks take_bit_eq_mask [symmetric] take_bit_push_bit)
    ultimately show ?thesis
      using ab cd digits_of_bytes [OF ab(1,2,4,5) cd(1,2), of 0] by (simp add: of_char_uchar defs)
  next
    assume "c = -2" "0 \<le> d"
    with q show ?thesis by (auto split: if_splits)
  next
    assume cd: "c = -2" "p2 = CHR ''=''" "d = -2" "p3 = CHR ''=''"
    from q ab cd have "out = [uchar (push_bit 2 a OR drop_bit 4 b)]" "b AND 15 = 0"
      by (auto split: if_splits)
    moreover have "take_bit 8 (push_bit 4 b) = 0" using calculation(2) by (simp add: masks take_bit_eq_mask [symmetric] take_bit_push_bit)
    ultimately show ?thesis
      using ab cd digits_of_bytes [OF ab(1,2,4,5), of 0 0] by (simp add: of_char_uchar defs)
  qed
qed

lemma decode_loop_encoded:
  "\<forall>c \<in> set t. \<not> whitespace c \<Longrightarrow> decode_loop t [] False data = Some r \<Longrightarrow>
     \<exists>bs. r = data @ bs \<and> encode_loop bs = t \<and> r \<noteq> []"
proof (induction "length t" arbitrary: t data rule: less_induct)
  case less
  show ?case
  proof (cases "length t < 4")
    case True
    with less.prems decode_loop_short [of t data] have "t = []" by (auto simp: less_Suc_eq numeral_eq_Suc)
    with less.prems show ?thesis by (auto split: if_splits)
  next
    case False
    then obtain p0 p1 p2 p3 ps where t: "t = p0 # p1 # p2 # p3 # ps"
      by (metis not_less Suc_le_length_iff numeral_eq_Suc pred_numeral_simps(3) eval_nat_numeral(2) semiring_norm(26,27,28))
    with less.prems have w: "\<forall>c \<in> set ps. \<not> whitespace c" by simp
    from less.prems(2) less.prems(1) obtain out where ok: "-1 \<notin> {code_value p0, code_value p1, code_value p2, code_value p3}"
      and out: "quartet_bytes (code_value p0) (code_value p1) (code_value p2) (code_value p3) = Some out"
      and rest: "decode_loop ps [] (code_value p2 = -2 \<or> code_value p3 = -2) (data @ out) = Some r"
      by (simp add: t decode_loop_four del: decode_loop.simps split: if_splits option.splits)
    note enc = quartet_bytes_encoded [OF out ok]
    show ?thesis
    proof (cases "code_value p2 = -2 \<or> code_value p3 = -2")
      case True
      with rest decode_loop_finished [OF w] have "ps = []" "r = data @ out" "r \<noteq> []" by (auto split: if_splits)
      with enc t show ?thesis by blast
    next
      case False
      with rest have "decode_loop ps [] False (data @ out) = Some r" by simp
      from less.hyps [OF _ w this] t obtain bs where "r = (data @ out) @ bs" "encode_loop bs = ps" "r \<noteq> []" by auto
      with enc t False show ?thesis by (intro exI [of _ "out @ bs"]) simp
    qed
  qed
qed

lemma zero_octet: "0 \<le> (0 :: int)" "(0 :: int) < 256"
  by simp_all

lemmas octet_digits = digits_range [OF octet_range octet_range octet_range]
  digits_range(2,3) [OF octet_range octet_range zero_octet] digits_range(2,3) [OF octet_range zero_octet zero_octet]

lemmas octet_bytes = bytes_of_digits [OF octet_range octet_range octet_range, THEN uchar_octet]
  bytes_of_digits(1,2) [OF octet_range octet_range zero_octet, THEN uchar_octet]
  bytes_of_digits(1) [OF octet_range zero_octet zero_octet, THEN uchar_octet]

lemma encoded_plain: "\<forall>c \<in> set (encode_loop bs). \<not> whitespace c"
  by (induction bs rule: encode_loop.induct) (simp_all add: Digit_letter octet_digits)

lemma padded_digits: "sextet2 a 0 AND 15 = 0" "sextet3 b 0 AND 3 = 0"
  unfolding sextet_defs by (intro bit_eqI, auto simp: masks bit_simps)+

lemma digit_sign: "0 \<le> (a :: int) \<and> a < 64 \<Longrightarrow> \<not> a < 0 \<and> a \<noteq> -1 \<and> -1 \<noteq> a \<and> a \<noteq> -2"
  by auto

lemmas octet_signs = octet_digits [THEN digit_sign]

lemma decode_loop_of_encoded:
  "decode_loop (encode_loop bs) [] False data = (if data @ bs = [] then None else Some (data @ bs))"
  by (induction bs arbitrary: data rule: encode_loop.induct)
    (simp_all add: decode_loop_four Digit_letter code_value_letter quartet_bytes_def octet_bytes octet_digits octet_signs
      padded_digits decode_loop_finished del: decode_loop.simps(2))


lemma length_encode_loop: "length (encode_loop bs) = (length bs + 2) div 3 * 4"
proof (induction bs rule: encode_loop.induct)
  case (4 x y z zs)
  have "(length zs + 5) div 3 = Suc ((length zs + 2) div 3)" by simp
  with 4 show ?case by (simp add: add.commute)
qed simp_all

lemma quartet_bytes_length: "quartet_bytes a b c d = Some out \<Longrightarrow> length out \<le> 3"
  by (auto simp: quartet_bytes_def split: if_splits)

lemma decode_loop_length:
  "length quartet \<le> 3 \<Longrightarrow> decode_loop t quartet finished data = Some r \<Longrightarrow>
     length r \<le> length data + length quartet + length t"
proof (induction t quartet finished data rule: decode_loop.induct)
  case (2 p ps quartet finished data)
  then show ?case
    by (force simp: Let_def dest!: quartet_bytes_length split: if_splits option.splits)
qed (simp split: if_splits)


section \<open>What the codec guarantees\<close>

text \<open>On every platform of at least sixteen-bit sizes the limit keeps the arithmetic from wrapping.\<close>

lemma word_small_numerals:
  assumes "16 \<le> LENGTH('l::len)"
  shows "unat (4 :: 'l word) = 4" "unat (3 :: 'l word) = 3" "unat (2 :: 'l word) = 2" "65536 \<le> (2 :: nat) ^ LENGTH('l)"
proof -
  show big: "65536 \<le> (2 :: nat) ^ LENGTH('l)" using power_increasing [OF assms, of "2 :: nat"] by simp
  have "unat (numeral n :: 'l word) = numeral n" if "numeral n < (65536 :: nat)" for n
  proof -
    from that big have "numeral n < (2 :: nat) ^ LENGTH('l)" by (rule less_le_trans)
    then have "take_bit LENGTH('l) (numeral n :: nat) = numeral n" by (rule take_bit_nat_eq_self)
    then show ?thesis by simp
  qed
  from this [of "num.Bit0 (num.Bit0 num.One)"] this [of "num.Bit1 num.One"] this [of "num.Bit0 num.One"]
  show "unat (4 :: 'l word) = 4" "unat (3 :: 'l word) = 3" "unat (2 :: 'l word) = 2" by simp_all
qed

lemma encode_limit_unat:
  assumes "16 \<le> LENGTH('l::len)"
  shows "unat (encode_limit :: 'l word) = (2 ^ LENGTH('l) - 1) div 4 * 3 - 3"
proof -
  define M where "M = (2 :: nat) ^ LENGTH('l)"
  note small = word_small_numerals [OF assms] and big = word_small_numerals(4) [OF assms, folded M_def]
  have m1: "unat (- 1 :: 'l word) = M - 1" by (simp add: M_def unsigned_minus_1_eq_mask mask_eq_exp_minus_1)
  have q: "unat ((- 1) div 4 :: 'l word) = (M - 1) div 4" by (simp only: unat_div_distrib m1 small)
  have "unat ((- 1) div 4 * 3 :: 'l word) = (M - 1) div 4 * 3"
    
    unfolding unat_word_ariths(2) q small M_def [symmetric] using big by (intro mod_less) arith
  then show ?thesis 
    unfolding encode_limit_def M_def [symmetric]
    by (subst unat_sub) (simp_all only: word_le_nat_alt small, use big in arith)
qed

lemma encode_size_unat:
  assumes "16 \<le> LENGTH('l::len)" and "(len :: 'l word) \<le> encode_limit"
  shows "unat (encode_size len) = (unat len + 2) div 3 * 4 + 1"
proof -
  define M where "M = (2 :: nat) ^ LENGTH('l)"
  note small = word_small_numerals [OF assms(1)] and big = word_small_numerals(4) [OF assms(1), folded M_def]
  from assms have lim: "unat len \<le> (M - 1) div 4 * 3 - 3"
    by (simp add: encode_limit_unat M_def word_le_nat_alt)
  have "unat len + 2 < M" using lim big by arith
  then have "unat ((len + 2) div 3) = (unat len + 2) div 3"
    by (simp only: unat_div_distrib unat_word_ariths small M_def [symmetric] mod_less)
  moreover have "(unat len + 2) div 3 * 4 + 1 < M" using lim big by arith
  ultimately show ?thesis
    unfolding encode_size_def unat_word_ariths small M_def [symmetric] by simp
qed

lemma decode_bytes_iff:
  "RCPhotoDecodeBytes (Some t) = Some bs \<longleftrightarrow> bs \<noteq> [] \<and> encode_loop bs = filter (\<lambda>c. \<not> whitespace c) t"
proof -
  let ?u = "filter (\<lambda>c. \<not> whitespace c) t"
  have "RCPhotoDecodeBytes (Some t) = decode_loop ?u [] False []"
    using decode_loop_plain [of t "[]" False "[]"] by (simp add: RCPhotoDecodeBytes_def)
  moreover have "decode_loop ?u [] False [] = Some bs \<Longrightarrow> bs \<noteq> [] \<and> encode_loop bs = ?u"
    using decode_loop_encoded [of ?u "[]" bs] by auto
  ultimately show ?thesis using decode_loop_of_encoded [of bs "[]"] by auto
qed

text \<open>C24: the picture decoder accepts exactly the canonical Base64 texts, up to white space: a text
  decodes to some bytes exactly when encoding those bytes gives the text without its white
  space. So decoding inverts encoding, and two texts of the same picture differ in white
  space only.\<close>

theorem photo_codec_exact:
  assumes "16 \<le> LENGTH('l::len)" and "(len :: 'l word) \<le> encode_limit" and "unat len = length bs"
  shows "RCPhotoDecodeBytes (Some t) = Some bs \<longleftrightarrow>
    RCPhotoEncodeBytes (Some bs) len = Some (filter (\<lambda>c. \<not> whitespace c) t)"
proof -
  have "len = 0 \<longleftrightarrow> bs = []" using assms(3) by (metis length_0_conv unat_eq_zero)
  with assms(2,3) show ?thesis by (auto simp: decode_bytes_iff RCPhotoEncodeBytes_def)
qed

text \<open>The witness of the codec: the bytes of \<open>Ma\<close>, and their text with a line break in it.\<close>

theorem photo_codec_exact_witness:
  "RCPhotoDecodeBytes (Some (''TWE'' @ CHR 0x0a # ''='')) = Some ''Ma''"
proof -
  have l: "(2 :: 32 word) \<le> encode_limit" by (simp add: encode_limit_def)
  have e: "encode_loop ''Ma'' = ''TWE=''" by code_simp
  have "filter (\<lambda>c. \<not> whitespace c) (''TWE'' @ CHR 0x0a # ''='') = ''TWE=''" by code_simp
  with l e show ?thesis
    using photo_codec_exact [of "2 :: 32 word" "''Ma''" "''TWE'' @ CHR 0x0a # ''=''"] by (simp add: RCPhotoEncodeBytes_def)
qed

text \<open>Neither direction writes outside its allocation: the encoded text and its terminator fill the
  computed allocation exactly, with no wrap-around in its size, and the decoded bytes are
  never more than the characters of the text and never none.\<close>

lemma photo_buffers_fit:
  assumes "16 \<le> LENGTH('l::len)" and "RCPhotoEncodeBytes (Some bs) (len :: 'l word) = Some t" and "unat len \<le> length bs"
    and "RCPhotoDecodeBytes (Some u) = Some r"
  shows "length t + 1 = unat (encode_size len) \<and> r \<noteq> [] \<and> length r \<le> length u"
proof -
  from assms(2) have "len \<le> encode_limit" "t = encode_loop (take (unat len) bs)"
    by (auto simp: RCPhotoEncodeBytes_def split: if_splits)
  moreover from assms(4) have "decode_loop u [] False [] = Some r" by (auto simp: RCPhotoDecodeBytes_def split: if_splits)
  ultimately show ?thesis
    using assms decode_loop_length [of "[]" u False "[]" r] decode_bytes_iff [of u r]
    by (simp add: encode_size_unat length_encode_loop)
qed

end
