(* ===== verification/ICalendar.thy ===== *)
theory ICalendar
  imports VCard
begin

text \<open>
  The iCalendar adapter of \<^verbatim>\<open>source/shared/RCICalendar.c\<close>: the framing check that runs before
  libical, which repairs incomplete input, the removal of empty optional properties from
  the parsing copy, and the wrappers around libical's accessors. The libical calls are the
  fields of the argument \<open>ical\<close>.
\<close>

section \<open>Framing (RCFraming)\<close>

text \<open>The open components, innermost first, and the number of root components begun.\<close>

type_synonym framing = "string list \<times> nat"

definition strip_cr :: "bytes \<Rightarrow> bytes" where
  "strip_cr line = (if line \<noteq> [] \<and> last line = CHR 0x0d then butlast line else line)"

definition begin_line :: "bytes \<Rightarrow> bool" where
  "begin_line line \<longleftrightarrow> length line > 6 \<and> same_nocase_n 6 line ''BEGIN:''"

definition end_line :: "bytes \<Rightarrow> bool" where
  "end_line line \<longleftrightarrow> length line > 4 \<and> same_nocase_n 4 line ''END:''"

definition framing_line :: "framing \<Rightarrow> bytes \<Rightarrow> framing option" where
  "framing_line st line =
     (let stack = fst st; roots = snd st; n = length line in
      if n = 0 then Some st
      else if blank (line ! 0) then (if stack = [] then None else Some st)
      else if begin_line line then
        (if length stack = 32 \<or> n - 6 \<ge> 64 then None
         else if stack = [] \<and> (roots \<noteq> 0 \<or> n \<noteq> 15 \<or> \<not> same_nocase_n 9 (drop 6 line) ''VCALENDAR'') then None
         else Some (drop 6 line # stack, if stack = [] then roots + 1 else roots))
      else if end_line line then
        (if stack = [] \<or> length (hd stack) \<noteq> n - 4 \<or> \<not> same_nocase_n (n - 4) (hd stack) (drop 4 line) then None
         else Some (tl stack, roots))
      else if stack = [] then None else Some st)"

function framing_loop :: "framing \<Rightarrow> bytes \<Rightarrow> framing option" where
  "framing_loop st bs = (if bs = [] then Some st
     else let raw = takeWhile (\<lambda>c. c \<noteq> CHR 0x0a) bs; rest = drop 1 (dropWhile (\<lambda>c. c \<noteq> CHR 0x0a) bs) in
       case framing_line st (strip_cr raw) of None \<Rightarrow> None | Some st' \<Rightarrow> framing_loop st' rest)"
  by auto
termination
  by (relation "measure (\<lambda>(st, bs). length bs)")
    (auto intro: le_less_trans [OF diff_le_mono [OF length_dropWhile_le]] simp: diff_less)

declare framing_loop.simps [simp del]

definition RCFraming :: "bytes \<Rightarrow> bool" where
  "RCFraming bs \<longleftrightarrow> framing_loop ([], 0) bs = Some ([], 1)"

section \<open>Empty optional properties\<close>

definition optional_empty :: "string \<Rightarrow> bool" where
  "optional_empty line \<longleftrightarrow> same_nocase line ''URL:'' \<or> same_nocase line ''URL;VALUE=URI:'' \<or>
     same_nocase line ''CATEGORIES:''"

text \<open>A line, its terminator and what follows; the copy is compacted in place, so the result is
  what the write cursor has passed.\<close>

function RCOmitEmptyOptionalProperties :: "string \<Rightarrow> string" where
  "RCOmitEmptyOptionalProperties s = (if s = [] then []
     else let line = takeWhile (\<lambda>c. \<not> eol c) s; read = after_eol (dropWhile (\<lambda>c. \<not> eol c) s) in
       if optional_empty line \<and> \<not> (read \<noteq> [] \<and> blank (hd read)) then RCOmitEmptyOptionalProperties read
       else take (length s - length read) s @ RCOmitEmptyOptionalProperties read)"
  by auto
termination
  by (relation "measure length") (auto intro: rest_shorter)

declare RCOmitEmptyOptionalProperties.simps [simp del]

section \<open>Parsing and libical's accessors\<close>

record icaltimetype =
  t_year :: int
  t_month :: int
  t_day :: int
  t_hour :: int
  t_minute :: int
  t_second :: int
  t_is_date :: bool

text \<open>Components \<open>'c\<close>, properties \<open>'p\<close> and values \<open>'v\<close> are libical's. The first property of a
  kind, here \<open>RECURRENCE-ID\<close> or any kind \<open>'k\<close>, is found by \<open>first_property\<close>.\<close>

record ('c, 'p, 'v, 'k) libical =
  icalparser_parse_string :: "string \<Rightarrow> 'c option"
  is_vcalendar :: "'c \<Rightarrow> bool"
  count_errors :: "'c \<Rightarrow> nat"
  first_property :: "'c \<Rightarrow> 'k \<Rightarrow> 'p option"
  RECURRENCEID_PROPERTY :: 'k
  property_value :: "'p \<Rightarrow> 'v option"
  is_text_value :: "'v \<Rightarrow> bool"
  value_get_text :: "'v \<Rightarrow> string option"
  value_as_string :: "'p \<Rightarrow> string option"
  value_kind_string :: "'v option \<Rightarrow> string"
  tzid_parameter :: "'p \<Rightarrow> string option"
  is_null_time :: "icaltimetype \<Rightarrow> bool"
  is_utc :: "icaltimetype \<Rightarrow> bool"

definition RCICalendarParse :: "('c, 'p, 'v, 'k, 'z) libical_scheme \<Rightarrow> bytes option \<Rightarrow> nat \<Rightarrow> 'c res" where
  "RCICalendarParse ical bytes len =
     (case bytes of None \<Rightarrow> Inl (RCErrorSet 1 ''Invalid or incomplete iCalendar component framing'')
      | Some buf \<Rightarrow>
        let bs = take len buf in
        if len = 0 \<or> len > 32 * 1024 * 1024 \<or> CHR 0x00 \<in> set bs \<or> \<not> RCFraming bs
        then Inl (RCErrorSet 1 ''Invalid or incomplete iCalendar component framing'')
        else case icalparser_parse_string ical (RCOmitEmptyOptionalProperties bs) of
            None \<Rightarrow> Inl (RCErrorSet 1 ''iCalendar contains invalid properties or values'')
          | Some root \<Rightarrow>
              if \<not> is_vcalendar ical root \<or> count_errors ical root \<noteq> 0
              then Inl (RCErrorSet 1 ''iCalendar contains invalid properties or values'')
              else Inr root)"

definition RCICalendarValue :: "('c, 'p, 'v, 'k, 'z) libical_scheme \<Rightarrow> 'c \<Rightarrow> 'k \<Rightarrow> string option" where
  "RCICalendarValue ical component kind =
     (case first_property ical component kind of None \<Rightarrow> None
      | Some p \<Rightarrow> (case property_value ical p of None \<Rightarrow> None
          | Some v \<Rightarrow> if is_text_value ical v then value_get_text ical v else value_as_string ical p))"

definition RCICalendarTZID :: "('c, 'p, 'v, 'k, 'z) libical_scheme \<Rightarrow> 'p option \<Rightarrow> string option" where
  "RCICalendarTZID ical p = (case p of None \<Rightarrow> None | Some q \<Rightarrow> tzid_parameter ical q)"

text \<open>The buffer of the key has room for a kind name of at most 29 characters.\<close>

definition RCICalendarRecurrenceKey :: "('c, 'p, 'v, 'k, 'z) libical_scheme \<Rightarrow> 'c \<Rightarrow> string option" where
  "RCICalendarRecurrenceKey ical component =
     (let p = first_property ical component (RECURRENCEID_PROPERTY ical);
          value = (case p of None \<Rightarrow> Some [] | Some q \<Rightarrow> value_as_string ical q);
          tz = (case RCICalendarTZID ical p of None \<Rightarrow> [] | Some z \<Rightarrow> z) in
      case value of None \<Rightarrow> None
      | Some v \<Rightarrow> Some (case p of None \<Rightarrow> []
          | Some q \<Rightarrow> take (length v + length tz + 31)
              (value_kind_string ical (property_value ical q) @ '':'' @ tz @ '':'' @ v)))"

text \<open>\<open>%0<w>d\<close>, the sign counted in the width.\<close>

definition pad_int :: "nat \<Rightarrow> int \<Rightarrow> string" where
  "pad_int w i = (let digits = show_nat (nat \<bar>i\<bar>); sign = (if i < 0 then ''-'' else []) in
     sign @ replicate (w - length sign - length digits) (CHR ''0'') @ digits)"

definition time_text :: "('c, 'p, 'v, 'k, 'z) libical_scheme \<Rightarrow> icaltimetype \<Rightarrow> string" where
  "time_text ical t =
     (if is_null_time ical t then []
      else pad_int 4 (t_year t) @ ''-'' @ pad_int 2 (t_month t) @ ''-'' @ pad_int 2 (t_day t) @
        (if t_is_date t then []
         else ''T'' @ pad_int 2 (t_hour t) @ '':'' @ pad_int 2 (t_minute t) @ '':'' @ pad_int 2 (t_second t) @
           (if is_utc ical t then ''Z'' else [])))"

text \<open>The string in the output buffer of the given size; a buffer of size zero is untouched.\<close>

definition RCICalendarFormatTime :: "('c, 'p, 'v, 'k, 'z) libical_scheme \<Rightarrow> icaltimetype \<Rightarrow> nat \<Rightarrow> string option" where
  "RCICalendarFormatTime ical t capacity = (if capacity = 0 then None else Some (take (capacity - 1) (time_text ical t)))"

definition RCICalendarTimeKind :: "('c, 'p, 'v, 'k, 'z) libical_scheme \<Rightarrow> icaltimetype \<Rightarrow> string option \<Rightarrow> string" where
  "RCICalendarTimeKind ical t tz =
     (if is_null_time ical t then ''missing''
      else if t_is_date t then ''date'' else if is_utc ical t then ''utc''
      else if tz \<noteq> None then ''zoned'' else ''floating'')"

end
