(* ===== verification/ICalendarContract.thy ===== *)
theory ICalendarContract
  imports ICalendar
begin

text \<open>
  What the framing check promises: it accepts exactly the texts of one properly nested
  calendar, and no accepted text is left when an accepted text is cut short anywhere but
  in the line ends after it.
\<close>

section \<open>The grammar\<close>

text \<open>The lines the check works on.\<close>

function text_lines :: "bytes \<Rightarrow> bytes list" where
  "text_lines bs = (if bs = [] then []
     else strip_cr (takeWhile (\<lambda>c. c \<noteq> CHR 0x0a) bs) # text_lines (drop 1 (dropWhile (\<lambda>c. c \<noteq> CHR 0x0a) bs)))"
  by auto
termination
  by (relation "measure length") (auto intro: le_less_trans [OF diff_le_mono [OF length_dropWhile_le]] simp: diff_less)

declare text_lines.simps [simp del]

definition content_line :: "bytes \<Rightarrow> bool" where
  "content_line l \<longleftrightarrow> l = [] \<or> blank (l ! 0) \<or> \<not> begin_line l \<and> \<not> end_line l"

text \<open>A line that opens a component of a given name, and one that closes it.\<close>

definition opens :: "bytes \<Rightarrow> string \<Rightarrow> bool" where
  "opens l n \<longleftrightarrow> begin_line l \<and> n = drop 6 l \<and> length n < 64"

definition closes :: "bytes \<Rightarrow> string \<Rightarrow> bool" where
  "closes l n \<longleftrightarrow> end_line l \<and> same_nocase n (drop 4 l)"

text \<open>The inside of a component that is itself at the given depth: content lines and nested
  components, at most 32 components deep.\<close>

inductive nested :: "nat \<Rightarrow> bytes list \<Rightarrow> bool" where
  empty: "nested d []"
| content: "content_line l \<Longrightarrow> nested d ls \<Longrightarrow> nested d (l # ls)"
| component: "opens b n \<Longrightarrow> closes e n \<Longrightarrow> d < 32 \<Longrightarrow> nested (Suc d) inner \<Longrightarrow> nested d ls \<Longrightarrow>
    nested d (b # inner @ e # ls)"

text \<open>One calendar, with nothing but empty lines around it.\<close>

definition calendar :: "bytes list \<Rightarrow> bool" where
  "calendar ls \<longleftrightarrow> (\<exists>pre b n inner e post. ls = pre @ b # inner @ e # post \<and>
     (\<forall>l \<in> set (pre @ post). l = []) \<and> opens b n \<and> same_nocase n ''VCALENDAR'' \<and> nested 1 inner \<and> closes e n)"

section \<open>The stack machine\<close>

fun run_lines :: "framing \<Rightarrow> bytes list \<Rightarrow> framing option" where
  "run_lines st [] = Some st"
| "run_lines st (l # ls) = (case framing_line st l of None \<Rightarrow> None | Some st' \<Rightarrow> run_lines st' ls)"

lemma framing_loop_lines: "framing_loop st bs = run_lines st (text_lines bs)"
proof (induction st bs rule: framing_loop.induct)
  case (1 st bs)
  then show ?case
    by (subst framing_loop.simps, subst text_lines.simps) (simp add: Let_def split: option.split)
qed

lemma run_lines_append:
  "run_lines st (ls @ ms) = (case run_lines st ls of None \<Rightarrow> None | Some st' \<Rightarrow> run_lines st' ms)"
  by (induction ls arbitrary: st) (auto split: option.split)

lemma lower_facts: "to_lower (CHR 0x20) = CHR 0x20" "to_lower (CHR 0x09) = CHR 0x09" "to_lower (CHR ''B'') = CHR ''b''"
  "to_lower (CHR ''E'') = CHR ''e''"
  by code_simp+

lemma begin_line_hd: "begin_line l \<Longrightarrow> l \<noteq> [] \<and> to_lower (l ! 0) = CHR ''b''"
  by (cases l) (auto simp: begin_line_def same_nocase_n_def lower_facts numeral_eq_Suc)

lemma end_line_hd: "end_line l \<Longrightarrow> l \<noteq> [] \<and> to_lower (l ! 0) = CHR ''e''"
  by (cases l) (auto simp: end_line_def same_nocase_n_def lower_facts numeral_eq_Suc)

lemma begin_not_end: "begin_line l \<Longrightarrow> \<not> end_line l"
  using begin_line_hd [of l] end_line_hd [of l] by auto

lemma begin_line_nonempty: "begin_line l \<Longrightarrow> l \<noteq> [] \<and> \<not> blank (l ! 0)" "end_line l \<Longrightarrow> l \<noteq> [] \<and> \<not> blank (l ! 0)"
  using begin_line_hd [of l] end_line_hd [of l] by (auto simp: blank_def lower_facts)

lemma framing_content: "content_line l \<Longrightarrow> stack \<noteq> [] \<Longrightarrow> framing_line (stack, r) l = Some (stack, r)"
  using begin_line_nonempty [of l] by (auto simp: framing_line_def content_line_def Let_def)

lemma framing_begin:
  "begin_line l \<Longrightarrow> stack \<noteq> [] \<Longrightarrow> framing_line (stack, r) l =
     (if opens l (drop 6 l) \<and> length stack \<noteq> 32 then Some (drop 6 l # stack, r) else None)"
  using begin_line_nonempty [of l] by (auto simp: framing_line_def opens_def Let_def)

lemma same_nocase_n_length: "length a = k \<Longrightarrow> length b = k \<Longrightarrow> same_nocase_n k a b = same_nocase a b"
  by (simp add: same_nocase_n_def same_nocase_def)

lemma framing_end:
  "end_line l \<Longrightarrow> framing_line (n # stack, r) l = (if closes l n then Some (stack, r) else None)"
  using begin_line_nonempty(2) [of l] begin_not_end [of l] same_nocase_n_length [of n "length l - 4" "drop 4 l"]
    same_nocase_length [of n "drop 4 l"]
  by (auto simp: framing_line_def closes_def Let_def)

lemma framing_outside: "framing_line ([], Suc r) l = (if l = [] then Some ([], Suc r) else None)"
  by (auto simp: framing_line_def Let_def)

lemma framing_start:
  "framing_line ([], 0) l =
     (if l = [] then Some ([], 0)
      else if opens l (drop 6 l) \<and> same_nocase (drop 6 l) ''VCALENDAR'' then Some ([drop 6 l], 1) else None)"
proof (cases "begin_line l")
  case True
  then have "length (drop 6 l) = length l - 6" "6 < length l" by (auto simp: begin_line_def)
  with same_nocase_n_length [of "drop 6 l" 9 "''VCALENDAR''"] same_nocase_length [of "drop 6 l" "''VCALENDAR''"] True
    begin_line_nonempty(1) [of l]
  show ?thesis by (auto simp: framing_line_def opens_def Let_def)
next
  case False
  then show ?thesis by (auto simp: framing_line_def opens_def Let_def)
qed

section \<open>The machine accepts the grammar\<close>

text \<open>What is left to read when the components of the stack are open.\<close>

fun closing :: "string list \<Rightarrow> bytes list \<Rightarrow> bool" where
  "closing [] ls \<longleftrightarrow> (\<forall>l \<in> set ls. l = [])"
| "closing (n # stack) ls \<longleftrightarrow>
     (\<exists>inner e rest. ls = inner @ e # rest \<and> nested (Suc (length stack)) inner \<and> closes e n \<and> closing stack rest)"

lemma run_nested: "nested d ls \<Longrightarrow> length stack = d \<Longrightarrow> stack \<noteq> [] \<Longrightarrow> run_lines (stack, r) ls = Some (stack, r)"
proof (induction arbitrary: stack rule: nested.induct)
  case (component b n e d inner ls)
  then have "framing_line (stack, r) b = Some (n # stack, r)"
    by (auto simp: framing_begin opens_def)
  moreover have "framing_line (n # stack, r) e = Some (stack, r)"
    using component.hyps(2) by (simp add: framing_end closes_def)
  ultimately show ?case
    using component.IH(1) [of "n # stack"] component.IH(2) [of stack] component.prems by (simp add: run_lines_append)
qed (simp_all add: framing_content)

lemma run_closing_sound: "closing stack ls \<Longrightarrow> run_lines (stack, 1) ls = Some ([], 1)"
proof (induction stack arbitrary: ls)
  case Nil
  then show ?case by (induction ls) (auto simp: framing_outside [where r = 0, simplified])
next
  case (Cons n stack)
  from Cons.prems obtain inner e rest where ls: "ls = inner @ e # rest" "nested (Suc (length stack)) inner" "closes e n"
    "closing stack rest" by auto
  from ls(3) have "framing_line (n # stack, 1) e = Some (stack, 1)" by (simp add: framing_end closes_def)
  with ls Cons.IH [OF ls(4)] run_nested [OF ls(2), of "n # stack"] show ?case by (simp add: run_lines_append)
qed

lemma run_closing_complete:
  "length stack \<le> 32 \<Longrightarrow> run_lines (stack, 1) ls = Some ([], 1) \<Longrightarrow> closing stack ls"
proof (induction ls arbitrary: stack)
  case Nil
  then show ?case by simp
next
  case (Cons l ls)
  show ?case
  proof (cases stack)
    case Nil
    with Cons.prems Cons.IH [of "[]"] show ?thesis
      by (simp add: framing_outside [where r = 0, simplified] split: if_splits)
  next
    case (Cons n below)
    note stack = this
    consider "content_line l" | "begin_line l" | "end_line l" by (auto simp: content_line_def)
    then show ?thesis
    proof cases
      case 1
      with Cons.prems Cons.IH [of stack] stack have "closing stack ls" by (simp add: framing_content)
      then obtain inner e rest where "ls = inner @ e # rest" "nested (Suc (length below)) inner" "closes e n" "closing below rest"
        using stack by auto
      with 1 show ?thesis unfolding stack closing.simps
        by (intro exI [of _ "l # inner"] exI [of _ e] exI [of _ rest]) (simp add: nested.content)
    next
      case 2
      with Cons.prems stack have o: "opens l (drop 6 l)" "length stack \<noteq> 32" and "run_lines (drop 6 l # stack, 1) ls = Some ([], 1)"
        by (auto simp: framing_begin split: if_splits)
      with Cons.IH [of "drop 6 l # stack"] Cons.prems(1) have "closing (drop 6 l # stack) ls" by simp
      then obtain inner1 e1 inner2 e2 rest where ls: "ls = inner1 @ e1 # inner2 @ e2 # rest" "nested (Suc (length stack)) inner1"
        "closes e1 (drop 6 l)" "nested (length stack) inner2" "closes e2 n" "closing below rest"
        unfolding stack by auto
      have "length stack < 32" using Cons.prems(1) o(2) by simp
      from nested.component [OF o(1) ls(3) this ls(2) ls(4)] ls show ?thesis unfolding stack closing.simps
        by (intro exI [of _ "l # inner1 @ e1 # inner2"] exI [of _ e2] exI [of _ rest]) simp
    next
      case 3
      with Cons.prems stack have "closes l n" "run_lines (below, 1) ls = Some ([], 1)"
        by (auto simp: framing_end split: if_splits)
      with Cons.IH [of below] Cons.prems(1) stack show ?thesis unfolding stack closing.simps
        by (intro exI [of _ "[]"] exI [of _ l] exI [of _ ls]) (simp add: nested.empty)
    qed
  qed
qed

lemma run_calendar: "run_lines ([], 0) ls = Some ([], 1) \<longleftrightarrow> calendar ls"
proof
  show "run_lines ([], 0) ls = Some ([], 1) \<Longrightarrow> calendar ls"
  proof (induction ls)
    case (Cons l ls)
    show ?case
    proof (cases "l = []")
      case True
      with Cons have "calendar ls" by (simp add: framing_start)
      then obtain pre b n inner e post where "ls = pre @ b # inner @ e # post" "\<forall>l \<in> set (pre @ post). l = []" "opens b n"
        "same_nocase n ''VCALENDAR''" "nested 1 inner" "closes e n" unfolding calendar_def by blast
      with True show ?thesis unfolding calendar_def
        by (intro exI [of _ "[] # pre"] exI [of _ b] exI [of _ n] exI [of _ inner] exI [of _ e] exI [of _ post]) simp
    next
      case False
      with Cons.prems have o: "opens l (drop 6 l)" "same_nocase (drop 6 l) ''VCALENDAR''" and r: "run_lines ([drop 6 l], 1) ls = Some ([], 1)"
        by (auto simp: framing_start split: if_splits)
      from run_closing_complete [OF _ r] obtain inner e post where "ls = inner @ e # post" "nested 1 inner" "closes e (drop 6 l)"
        "\<forall>l \<in> set post. l = []" by auto
      with o show ?thesis unfolding calendar_def
        by (intro exI [of _ "[]"] exI [of _ l] exI [of _ "drop 6 l"] exI [of _ inner] exI [of _ e] exI [of _ post]) simp
    qed
  qed simp
next
  assume "calendar ls"
  then obtain pre b n inner e post where ls: "ls = pre @ b # inner @ e # post" and blank: "\<forall>l \<in> set pre. l = []" "\<forall>l \<in> set post. l = []"
    and o: "opens b n" "same_nocase n ''VCALENDAR''" and i: "nested 1 inner" "closes e n" unfolding calendar_def by auto
  from blank(1) have "run_lines ([], 0) pre = Some ([], 0)" by (induction pre) (auto simp: framing_start)
  moreover have "run_lines ([], 0) (b # inner @ e # post) = run_lines ([n], 1) (inner @ e # post)"
    using o begin_line_nonempty(1) [of b] by (auto simp: framing_start opens_def)
  moreover have "closing [n] (inner @ e # post)" using i blank(2) by auto
  ultimately show "run_lines ([], 0) ls = Some ([], 1)"
    using run_closing_sound [of "[n]" "inner @ e # post"] unfolding ls run_lines_append by (simp del: run_lines.simps closing.simps)
qed

section \<open>Truncated texts\<close>

lemma framing_loop_nil [simp]: "framing_loop st [] = Some st"
  by (subst framing_loop.simps) simp

lemma framing_loop_line:
  "\<forall>c \<in> set x. c \<noteq> CHR 0x0a \<Longrightarrow> framing_loop st (x @ CHR 0x0a # y) =
     (case framing_line st (strip_cr x) of None \<Rightarrow> None | Some st' \<Rightarrow> framing_loop st' y)"
  by (subst framing_loop.simps) (simp add: Let_def takeWhile_append dropWhile_append)

lemma framing_loop_last:
  "\<forall>c \<in> set x. c \<noteq> CHR 0x0a \<Longrightarrow> x \<noteq> [] \<Longrightarrow> framing_loop st x = framing_line st (strip_cr x)"
  by (subst framing_loop.simps)
    (auto simp: Let_def takeWhile_eq_all_conv [THEN iffD2] dropWhile_eq_Nil_conv [THEN iffD2] split: option.split)

lemma strip_cr_empty: "strip_cr x = [] \<Longrightarrow> \<forall>c \<in> set x. eol c"
  by (cases x rule: rev_cases) (auto simp: strip_cr_def eol_def split: if_splits)

lemma strip_cr_append: "y \<noteq> [] \<Longrightarrow> strip_cr (x @ y) = x @ strip_cr y"
  by (simp add: strip_cr_def butlast_append)

text \<open>A text is a last line, or a line, its end and a further text.\<close>

lemma line_cases:
  obtains (last) "\<forall>c \<in> set a. c \<noteq> CHR 0x0a" | (more) x y where "a = x @ CHR 0x0a # y" "\<forall>c \<in> set x. c \<noteq> CHR 0x0a"
  by (metis split_list_first)

lemma framing_after_root: "framing_loop ([], 1) b = Some st \<Longrightarrow> \<forall>c \<in> set b. eol c"
proof (induction "length b" arbitrary: b rule: less_induct)
  case less
  show ?case
  proof (cases b rule: line_cases)
    case last
    show ?thesis
    proof (cases "b = []")
      case False
      with last less.prems have "strip_cr b = []"
        by (auto simp: framing_loop_last framing_outside [where r = 0, simplified] split: if_splits)
      then show ?thesis by (rule strip_cr_empty)
    qed simp
  next
    case (more x y)
    with less.prems have "strip_cr x = []" "framing_loop ([], 1) y = Some st"
      by (auto simp: framing_loop_line framing_outside [where r = 0, simplified] split: if_splits)
    with less.hyps [of y] more strip_cr_empty [of x] show ?thesis by (auto simp: eol_def)
  qed
qed

lemma framing_line_closes_root:
  assumes "framing_line st l = Some ([], 1)" and "l \<noteq> []"
  obtains n where "st = ([n], 1)" "closes l n"
proof -
  obtain stack r where st: "st = (stack, r)" by force
  show thesis
  proof (cases stack)
    case Nil
    with assms st show thesis by (auto simp: framing_line_def Let_def split: if_splits)
  next
    case (Cons n below)
    consider "content_line l" | "begin_line l" | "end_line l" by (auto simp: content_line_def)
    then show thesis
    proof cases
      case 3
      with assms(1) st Cons that [of n] show thesis by (auto simp: framing_end split: if_splits)
    qed (use assms st Cons in \<open>auto simp: framing_content framing_begin split: if_splits\<close>)
  qed
qed

lemma end_line_prefix: "end_line x \<Longrightarrow> end_line (x @ y)"
  by (auto simp: end_line_def same_nocase_n_def)

text \<open>The line that closed the calendar cannot be a proper part of another line.\<close>

lemma extended_last_line:
  assumes closed: "framing_line st (strip_cr a) = Some ([], 1)" and full: "framing_line st (strip_cr (a @ b)) = Some st'"
    and ne: "strip_cr a \<noteq> []" and b: "b \<noteq> []"
  shows "strip_cr b = [] \<and> st' = ([], 1)"
proof -
  from framing_line_closes_root [OF closed ne] obtain n where n: "st = ([n], 1)" "closes (strip_cr a) n" .
  have "\<exists>t. a = strip_cr a @ t" by (metis strip_cr_def append_butlast_last_id append_Nil2)
  with n(2) have e: "end_line a" using end_line_prefix [of "strip_cr a"] by (metis closes_def)
  with full n(1) have c: "closes (a @ strip_cr b) n" "st' = ([], 1)"
    unfolding strip_cr_append [OF b] by (auto simp: framing_end end_line_prefix split: if_splits)
  from n(2) c(1) have "length (strip_cr a) - 4 = length (a @ strip_cr b) - 4" "4 < length (strip_cr a)"
    by (auto simp: closes_def end_line_def dest!: same_nocase_length)
  then have "length (strip_cr a) = length a + length (strip_cr b)" by simp
  moreover have "length (strip_cr a) \<le> length a" by (simp add: strip_cr_def)
  ultimately show ?thesis using c(2) by simp
qed

lemma framing_truncated:
  "framing_loop st a = Some ([], 1) \<Longrightarrow> framing_loop st (a @ b) = Some ([], 1) \<Longrightarrow> \<forall>c \<in> set b. eol c"
proof (induction "length a" arbitrary: a st rule: less_induct)
  case less
  show ?case
  proof (cases a rule: line_cases)
    case (more x y)
    with less.prems obtain st' where "framing_loop st' y = Some ([], 1)" "framing_loop st' (y @ b) = Some ([], 1)"
      by (auto simp: framing_loop_line split: option.splits)
    with less.hyps [of y st'] more show ?thesis by simp
  next
    case last
    show ?thesis
    proof (cases "a = [] \<or> strip_cr a = []")
      case True
      moreover have "framing_line st [] = Some st" by (simp add: framing_line_def)
      ultimately have "st = ([], 1)" using less.prems(1) last framing_loop_last [of a st] by (cases "a = []") simp_all
      with less.prems(2) framing_after_root [of "a @ b"] show ?thesis by simp
    next
      case False
      then have closed: "framing_line st (strip_cr a) = Some ([], 1)" using less.prems(1) last by (simp add: framing_loop_last)
      show ?thesis
      proof (cases b rule: line_cases)
        case last': last
        show ?thesis
        proof (cases "b = []")
          case b: False
          have "\<forall>c \<in> set (a @ b). c \<noteq> CHR 0x0a" unfolding set_append ball_Un using last last' by (rule conjI)
          from framing_loop_last [OF this] b less.prems(2) have "framing_line st (strip_cr (a @ b)) = Some ([], 1)"
            by (metis append_is_Nil_conv)
          with extended_last_line [OF closed this _ b] False strip_cr_empty [of b] show ?thesis by blast
        qed simp
      next
        case (more x y)
        have "\<forall>c \<in> set (a @ x). c \<noteq> CHR 0x0a" unfolding set_append ball_Un using last more(2) by (rule conjI)
        from framing_loop_line [OF this, of st y] less.prems(2) more(1)
        obtain st' where st': "framing_line st (strip_cr (a @ x)) = Some st'" "framing_loop st' y = Some ([], 1)"
          by (cases "framing_line st (strip_cr (a @ x))") simp_all
        have "(\<forall>c \<in> set x. eol c) \<and> st' = ([], 1)"
        proof (cases "x = []")
          case True
          with closed st'(1) show ?thesis by simp
        next
          case x: False
          with extended_last_line [OF closed st'(1) _ x] False strip_cr_empty [of x] show ?thesis by blast
        qed
        with framing_after_root [of y] st'(2) more show ?thesis by (auto simp: eol_def)
      qed
    qed
  qed
qed

section \<open>The contract\<close>

text \<open>C19: the framing check, a stack machine over the lines of the text, accepts exactly the texts that the
  grammar describes: one calendar of properly nested components with matching names, at
  most 32 deep and with names shorter than 64 bytes, and only empty lines around it.\<close>

theorem framing_iff_calendar: "RCFraming bs \<longleftrightarrow> calendar (text_lines bs)"
  unfolding RCFraming_def framing_loop_lines by (rule run_calendar)

text \<open>C20: a calendar that arrived incomplete is refused: when a text is accepted and so is a prefix of it,
  the part that is missing consists of line ends only. A recurrence set cannot lose
  exceptions to truncation.\<close>

theorem truncated_calendar_refused:
  assumes "RCFraming (a @ b)" and "\<not> (\<forall>c \<in> set b. eol c)"
  shows "\<not> RCFraming a \<and> RCICalendarParse ical (Some a) (length a) =
    Inl (RCErrorSet 1 ''Invalid or incomplete iCalendar component framing'')"
proof -
  from assms have "\<not> RCFraming a" unfolding RCFraming_def using framing_truncated by blast
  then show ?thesis by (simp add: RCICalendarParse_def Let_def)
qed

text \<open>The witness: a calendar whose last line lost its last letter.\<close>

definition demo_calendar :: string where
  "demo_calendar = ''BEGIN:VCALENDAR'' @ [CHR 0x0d, CHR 0x0a] @ ''X:1'' @ [CHR 0x0a] @ ''END:vcalenda''"

theorem truncated_calendar_refused_witness:
  "RCFraming (demo_calendar @ ''r'') \<and> \<not> RCFraming demo_calendar"
proof -
  have "RCFraming (demo_calendar @ ''r'')" by code_simp
  moreover have "\<not> (\<forall>c \<in> set ''r''. eol c)" by (simp add: eol_def)
  ultimately show ?thesis using truncated_calendar_refused by blast
qed

end
