(* ===== verification/ResourcePatch.thy ===== *)
theory ResourcePatch
  imports ICalendar WriteJournal
begin

text \<open>
  Byte-preserving edits of \<^verbatim>\<open>source/shared/RCResourcePatch.c\<close>: the selected properties of a
  published resource are replaced, removed or appended, and every other byte of it is
  kept. A position in the resource is a number of bytes; the text still to be scanned is
  the suffix that starts there.
\<close>

unbundle bit_operations_syntax

datatype RCResourceFormat = RCResourceVCard | RCResourceCalendar

record RCResourceEdit =
  e_component :: nat
  e_property :: "string option"
  e_group :: "string option"
  e_occurrence :: int
  e_value :: "string option"
  e_parameters :: "string option"
  e_replacementGroup :: "string option"
  e_replacementProperty :: "string option"

record Patch =
  p_start :: nat
  p_end :: nat
  p_replacement :: bytes
  p_found :: bool
  p_seen :: int

text \<open>The ways to fail: the edit at fault, if one is, and the reason; or a buffer that cannot grow.\<close>

datatype patch_failure = Invalid "nat option" string | Memory

section \<open>Buffers and lines\<close>

definition add :: "bytes \<Rightarrow> bytes \<Rightarrow> bytes option" where
  "add b p = (if length p > INT_MAX \<or> length b > INT_MAX - length p then None else Some (b @ p))"

fun add_all :: "bytes \<Rightarrow> bytes list \<Rightarrow> bytes option" where
  "add_all b [] = Some b"
| "add_all b (p # ps) = Option.bind (add b p) (\<lambda>b'. add_all b' ps)"

definition valid :: "vc_parser \<Rightarrow> ('c, 'p, 'v, 'k) libical \<Rightarrow> RCResourceFormat \<Rightarrow> bytes \<Rightarrow> unit res" where
  "valid vc ical format bs =
     (case format of
        RCResourceVCard \<Rightarrow> map_sum id (\<lambda>_. ()) (RCVCardParse vc (Some bs) (length bs))
      | RCResourceCalendar \<Rightarrow> map_sum id (\<lambda>_. ()) (RCICalendarParse ical (Some bs) (length bs)))"

definition alnum :: "char \<Rightarrow> bool" where
  "alnum ch \<longleftrightarrow> (let c = (of_char ch :: nat) in (65 \<le> c \<and> c \<le> 90) \<or> (97 \<le> c \<and> c \<le> 122) \<or> (48 \<le> c \<and> c \<le> 57))"

definition token :: "string option \<Rightarrow> bool" where
  "token s = (case s of None \<Rightarrow> False | Some t \<Rightarrow> t \<noteq> [] \<and> (\<forall>c \<in> set t. alnum c \<or> c = CHR ''-''))"

text \<open>The writable properties of a component, as the C code lists them between bars.\<close>

definition writable :: "string \<Rightarrow> string list" where
  "writable component =
     (if component = ''VCARD'' then
        [''N'', ''FN'', ''NICKNAME'', ''ORG'', ''TITLE'', ''BDAY'', ''NOTE'', ''PHOTO'', ''TEL'', ''EMAIL'', ''ADR'', ''URL'',
         ''X-ABLABEL'', ''X-ABADR'', ''X-ABSHOWAS'', ''X-PHONETIC-FIRST-NAME'', ''X-PHONETIC-MIDDLE-NAME'',
         ''X-PHONETIC-LAST-NAME'', ''X-PHONETIC-ORG'', ''X-ABDATE'', ''X-ABRELATEDNAMES'', ''IMPP'', ''X-AIM'', ''X-JABBER'',
         ''X-MSN'', ''X-YAHOO'', ''X-ICQ'']
      else if component = ''VEVENT'' then
        [''SUMMARY'', ''DESCRIPTION'', ''LOCATION'', ''URL'', ''DTSTART'', ''DTEND'', ''DURATION'', ''STATUS'', ''CLASS'',
         ''PRIORITY'', ''RRULE'', ''EXDATE'', ''ORGANIZER'', ''ATTENDEE'']
      else if component = ''VALARM'' then
        [''DESCRIPTION'', ''SUMMARY'', ''TRIGGER'', ''REPEAT'', ''DURATION'', ''ACTION'', ''ATTACH'']
      else [])"

definition allowed :: "string \<Rightarrow> string \<Rightarrow> bool" where
  "allowed component name \<longleftrightarrow> length name \<le> 77 \<and> map to_upper name \<in> set (writable component)"

text \<open>The text before and after the value separator, the first colon outside quotes.\<close>

fun colon :: "string \<Rightarrow> bool \<Rightarrow> (string \<times> string) option" where
  "colon [] quoted = None"
| "colon (c # line) quoted =
     (let quoted' = (if c = CHR 0x22 then \<not> quoted else quoted) in
      if c = CHR '':'' \<and> \<not> quoted' then Some ([], line)
      else map_option (\<lambda>(a, b). (c # a, b)) (colon line quoted'))"

definition continuation :: "char \<Rightarrow> bool" where
  "continuation c \<longleftrightarrow> (of_char c :: nat) AND 0xc0 = 0x80"

text \<open>The last position of at most \<open>n\<close> that does not split a UTF-8 sequence, or zero.\<close>

primrec back_up :: "bytes \<Rightarrow> nat \<Rightarrow> nat" where
  "back_up line 0 = 0"
| "back_up line (Suc n) = (if continuation (line ! Suc n) then back_up line n else Suc n)"

lemma back_up_le: "back_up line n \<le> n"
  by (induction n) auto

definition piece :: "bool \<Rightarrow> bytes \<Rightarrow> nat" where
  "piece first line =
     (let limit = (if first then 75 else 74) in if length line > limit then back_up line limit else length line)"

function fold_loop :: "bool \<Rightarrow> bytes \<Rightarrow> bytes \<Rightarrow> bytes option" where
  "fold_loop first line out =
     (if line = [] then Some out
      else let n = piece first line in
        if n = 0 then None
        else Option.bind (add_all out ((if first then [] else ['' '']) @ [take n line, [CHR 0x0d, CHR 0x0a]]))
               (fold_loop False (drop n line)))"
  by auto
termination
  by (relation "measure (\<lambda>(first, line, out). length line)") auto

declare fold_loop.simps [simp del]

definition folded :: "bytes \<Rightarrow> bytes \<Rightarrow> string \<Rightarrow> bytes option" where
  "folded out prefix value = Option.bind (add_all [] [prefix, value]) (\<lambda>line. fold_loop True line out)"

section \<open>Edits\<close>

definition property_of :: "RCResourceEdit \<Rightarrow> string" where
  "property_of edit = (case e_property edit of None \<Rightarrow> [] | Some p \<Rightarrow> p)"

definition parameter_char :: "char \<Rightarrow> bool" where
  "parameter_char c \<longleftrightarrow> alnum c \<or> c \<in> set ''=,;-_./''"

definition edit_refused :: "RCResourceFormat \<Rightarrow> RCResourceEdit \<Rightarrow> string option" where
  "edit_refused format edit =
     (if \<not> token (e_property edit) \<or> (e_group edit \<noteq> None \<and> \<not> token (e_group edit)) \<or>
         (e_replacementProperty edit \<noteq> None \<and> \<not> token (e_replacementProperty edit)) \<or>
         (e_replacementGroup edit \<noteq> None \<and> (format \<noteq> RCResourceVCard \<or> \<not> token (e_replacementGroup edit))) \<or>
         e_occurrence edit < -1 \<or>
         (e_occurrence edit = -1 \<and> (e_replacementGroup edit \<noteq> None \<or> e_replacementProperty edit \<noteq> None)) \<or>
         (e_occurrence edit = -1 \<and> e_value edit = None) \<or>
         (case e_value edit of None \<Rightarrow> False | Some v \<Rightarrow> \<exists>c \<in> set v. eol c)
      then Some ''invalid property, occurrence, or unescaped newline''
      else case e_parameters edit of None \<Rightarrow> None
        | Some p \<Rightarrow>
            if (p \<noteq> [] \<and> CHR ''='' \<notin> set p) \<or> (\<exists>c \<in> set p. \<not> parameter_char c)
            then Some ''invalid property parameters'' else None)"

fun check_edits :: "RCResourceFormat \<Rightarrow> nat \<Rightarrow> RCResourceEdit list \<Rightarrow> patch_failure option" where
  "check_edits format i [] = None"
| "check_edits format i (e # es) =
     (case edit_refused format e of Some reason \<Rightarrow> Some (Invalid (Some i) reason)
      | None \<Rightarrow> check_edits format (Suc i) es)"

section \<open>Scanning\<close>

text \<open>One logical line and what follows it.\<close>

function logical_line :: "bytes \<Rightarrow> bytes \<times> bytes" where
  "logical_line bs =
     (let text = takeWhile (\<lambda>c. \<not> eol c) bs; rest = after_eol (dropWhile (\<lambda>c. \<not> eol c) bs) in
      if rest = [] \<or> \<not> blank (hd rest) then (text, rest)
      else let (more_text, rest') = logical_line (tl rest) in (text @ more_text, rest'))"
  by auto
termination
proof (relation "measure length")
  fix bs rest :: bytes
  assume r: "rest = after_eol (dropWhile (\<lambda>c. \<not> eol c) bs)" and n: "\<not> (rest = [] \<or> \<not> blank (hd rest))"
  then have "bs \<noteq> []" by (auto simp: after_eol_def skip_def)
  with rest_shorter [of bs] r show "(tl rest, bs) \<in> measure length" by auto
qed simp

declare logical_line.simps [simp del]

record scan =
  sc_stack :: "(nat \<times> string) list"
  sc_components :: nat
  sc_closed :: bool
  sc_patches :: "Patch list"

definition not_writable :: string where
  "not_writable = ''property is not writable in this component''"

text \<open>The prefix of a written line: group, name, parameters and separator.\<close>

definition write_line :: "string option \<Rightarrow> string \<Rightarrow> bytes \<Rightarrow> string \<Rightarrow> bytes \<Rightarrow> bytes option" where
  "write_line grp name parameters value out =
     Option.bind (add_all [] ((case grp of None \<Rightarrow> [] | Some g \<Rightarrow> [g, ''.'']) @
         name # (if parameters = [] then [] else [parameters]) @ ['':'']))
       (\<lambda>prefix. folded out prefix value)"

text \<open>At the end of a component: the edits that append to it.\<close>

definition append_edit :: "nat \<Rightarrow> nat \<Rightarrow> string \<Rightarrow> nat \<Rightarrow> RCResourceEdit \<Rightarrow> Patch \<Rightarrow> patch_failure + Patch" where
  "append_edit start cid kind i edit p =
     (if e_component edit \<noteq> cid \<or> e_occurrence edit \<noteq> -1 then Inr p
      else if \<not> allowed kind (property_of edit) then Inl (Invalid (Some i) not_writable)
      else case write_line (e_group edit) (property_of edit)
                  (case e_parameters edit of None \<Rightarrow> [] | Some q \<Rightarrow> if q = [] then [] else CHR '';'' # q)
                  (case e_value edit of None \<Rightarrow> [] | Some v \<Rightarrow> v) (p_replacement p) of
          None \<Rightarrow> Inl Memory
        | Some r \<Rightarrow> Inr (p\<lparr>p_start := start, p_end := start, p_replacement := r, p_found := True\<rparr>))"

text \<open>The group and name of a property line, whose text before the separator is \<open>front\<close>.\<close>

definition line_name :: "bytes \<Rightarrow> bytes" where
  "line_name front = takeWhile (\<lambda>c. c \<noteq> CHR '';'') front"

definition line_parameters :: "bytes \<Rightarrow> bytes" where
  "line_parameters front = dropWhile (\<lambda>c. c \<noteq> CHR '';'') front"

definition line_group :: "bytes \<Rightarrow> bytes" where
  "line_group nm = (if CHR ''.'' \<in> set nm then takeWhile (\<lambda>c. c \<noteq> CHR ''.'') nm else [])"

definition line_property :: "bytes \<Rightarrow> bytes" where
  "line_property nm = (if CHR ''.'' \<in> set nm then tl (dropWhile (\<lambda>c. c \<noteq> CHR ''.'') nm) else nm)"

definition selects :: "nat \<Rightarrow> bytes \<Rightarrow> bytes \<Rightarrow> RCResourceEdit \<Rightarrow> bool" where
  "selects cid grp name edit \<longleftrightarrow>
     e_component edit = cid \<and> e_occurrence edit \<noteq> -1 \<and> same_nocase (property_of edit) name \<and>
     (case e_group edit of None \<Rightarrow> grp = [] | Some g \<Rightarrow> length g = length grp \<and> (grp \<noteq> [] \<longrightarrow> same_nocase g grp))"

definition or_else :: "'a option \<Rightarrow> 'a option \<Rightarrow> 'a option" where
  "or_else a b = (case a of None \<Rightarrow> b | Some x \<Rightarrow> Some x)"

definition replacement_line :: "RCResourceEdit \<Rightarrow> bytes \<Rightarrow> bytes \<Rightarrow> bytes option" where
  "replacement_line edit front out =
     (case e_value edit of None \<Rightarrow> Some out
      | Some v \<Rightarrow>
          if e_parameters edit \<noteq> None \<or> e_replacementGroup edit \<noteq> None \<or> e_replacementProperty edit \<noteq> None
          then write_line (or_else (e_replacementGroup edit) (e_group edit))
                 (case e_replacementProperty edit of None \<Rightarrow> property_of edit | Some q \<Rightarrow> q)
                 (case e_parameters edit of None \<Rightarrow> line_parameters front
                  | Some q \<Rightarrow> if q = [] then [] else CHR '';'' # q)
                 v out
          else folded out (front @ '':'') v)"

definition property_edit ::
  "nat \<Rightarrow> nat \<Rightarrow> nat \<Rightarrow> string \<Rightarrow> bytes \<Rightarrow> nat \<Rightarrow> RCResourceEdit \<Rightarrow> Patch \<Rightarrow> patch_failure + Patch" where
  "property_edit start pos cid kind front i edit p =
     (let nm = line_name front in
      if \<not> selects cid (line_group nm) (line_property nm) edit then Inr p
      else let p = p\<lparr>p_seen := p_seen p + 1\<rparr> in
        if p_seen p - 1 \<noteq> e_occurrence edit then Inr p
        else if \<not> allowed kind (property_of edit) \<or>
                (case e_replacementProperty edit of None \<Rightarrow> False | Some q \<Rightarrow> \<not> allowed kind q)
        then Inl (Invalid (Some i) not_writable)
        else case replacement_line edit front (p_replacement p) of
            None \<Rightarrow> Inl Memory
          | Some r \<Rightarrow> Inr (p\<lparr>p_start := start, p_end := pos, p_found := True, p_replacement := r\<rparr>))"

fun each_edit ::
  "(nat \<Rightarrow> RCResourceEdit \<Rightarrow> Patch \<Rightarrow> patch_failure + Patch) \<Rightarrow> nat \<Rightarrow> RCResourceEdit list \<Rightarrow> Patch list \<Rightarrow>
   patch_failure + Patch list" where
  "each_edit f i (e # es) (p # ps) =
     (case f i e p of Inl x \<Rightarrow> Inl x
      | Inr q \<Rightarrow> (case each_edit f (Suc i) es ps of Inl x \<Rightarrow> Inl x | Inr qs \<Rightarrow> Inr (q # qs)))"
| "each_edit f i es ps = Inr ps"

definition bad_structure :: "patch_failure" where
  "bad_structure = Invalid None ''invalid component structure''"

definition scan_line ::
  "RCResourceFormat \<Rightarrow> RCResourceEdit list \<Rightarrow> nat \<Rightarrow> nat \<Rightarrow> bytes \<Rightarrow> scan \<Rightarrow> patch_failure + scan" where
  "scan_line format edits start pos line st =
     (if line = [] then Inr st
      else case colon line False of None \<Rightarrow> Inl bad_structure
        | Some (front, value) \<Rightarrow>
            if same_nocase_n 6 line ''BEGIN:'' then
              (if sc_closed st \<or> length (sc_stack st) = 64 \<or> length value \<ge> 32 then Inl bad_structure
               else if sc_stack st = [] \<and>
                       \<not> same_nocase value (if format = RCResourceVCard then ''VCARD'' else ''VCALENDAR'')
               then Inl bad_structure
               else if format = RCResourceVCard \<and> sc_stack st \<noteq> [] then Inl bad_structure
               else Inr (st\<lparr>sc_stack := (sc_components st, map to_upper value) # sc_stack st,
                            sc_components := sc_components st + 1\<rparr>))
            else (case sc_stack st of [] \<Rightarrow> Inl bad_structure
              | (cid, kind) # below \<Rightarrow>
                  if same_nocase_n 4 line ''END:'' then
                    (if \<not> same_nocase value kind then Inl bad_structure
                     else case each_edit (append_edit start cid kind) 0 edits (sc_patches st) of
                         Inl x \<Rightarrow> Inl x
                       | Inr ps \<Rightarrow> Inr (st\<lparr>sc_stack := below, sc_closed := sc_closed st \<or> below = [], sc_patches := ps\<rparr>))
                  else (case each_edit (property_edit start pos cid kind front) 0 edits (sc_patches st) of
                      Inl x \<Rightarrow> Inl x
                    | Inr ps \<Rightarrow> Inr (st\<lparr>sc_patches := ps\<rparr>))))"

lemma logical_line_shorter: "bs \<noteq> [] \<Longrightarrow> length (snd (logical_line bs)) < length bs"
proof (induction bs rule: logical_line.induct)
  case (1 bs)
  let ?rest = "after_eol (dropWhile (\<lambda>c. \<not> eol c) bs)"
  note short = rest_shorter [OF 1(2)]
  show ?case
  proof (cases "?rest = [] \<or> \<not> blank (hd ?rest)")
    case True
    with short show ?thesis by (subst logical_line.simps) (simp add: Let_def)
  next
    case False
    have "length (snd (logical_line (tl ?rest))) \<le> length (tl ?rest)"
    proof (cases "tl ?rest = []")
      case True
      then show ?thesis by (subst True, subst logical_line.simps) (simp add: after_eol_def skip_def)
    qed (use 1(1) [OF refl refl] False in fastforce)
    with False short show ?thesis by (subst logical_line.simps) (auto simp: Let_def split_def)
  qed
qed

text \<open>The scan of what is left; positions count from the front of the resource of \<open>whole\<close> bytes.\<close>

function scan_loop ::
  "RCResourceFormat \<Rightarrow> RCResourceEdit list \<Rightarrow> nat \<Rightarrow> bytes \<Rightarrow> scan \<Rightarrow> patch_failure + scan" where
  "scan_loop format edits whole bs st =
     (if bs = [] then Inr st
      else case scan_line format edits (whole - length bs) (whole - length (snd (logical_line bs)))
                  (fst (logical_line bs)) st of
          Inl x \<Rightarrow> Inl x
        | Inr st' \<Rightarrow> scan_loop format edits whole (snd (logical_line bs)) st')"
  by auto
termination
  by (relation "measure (\<lambda>(format, edits, whole, bs, st). length bs)") (auto intro: logical_line_shorter)

declare scan_loop.simps [simp del]

section \<open>Applying the patches\<close>

text \<open>The insertion sort; the sorted part is kept reversed, as its scan runs from the right.\<close>

fun insert_patch :: "Patch \<Rightarrow> Patch list \<Rightarrow> Patch list" where
  "insert_patch p [] = [p]"
| "insert_patch p (q # qs) = (if p_start q > p_start p then q # insert_patch p qs else p # q # qs)"

fun sort_patches :: "Patch list \<Rightarrow> Patch list \<Rightarrow> Patch list" where
  "sort_patches front [] = rev front"
| "sort_patches front (p # ps) = sort_patches (insert_patch p front) ps"

fun splice :: "bytes \<Rightarrow> nat \<Rightarrow> Patch list \<Rightarrow> bytes \<Rightarrow> patch_failure + bytes" where
  "splice base cursor [] result =
     (case add result (drop cursor base) of None \<Rightarrow> Inl Memory | Some r \<Rightarrow> Inr r)"
| "splice base cursor (p # ps) result =
     (if p_start p < cursor then Inl (Invalid None ''overlapping edits target the same property'')
      else case add_all result [take (p_start p - cursor) (drop cursor base), p_replacement p] of
          None \<Rightarrow> Inl Memory
        | Some r \<Rightarrow> splice base (p_end p) ps r)"

definition empty_patch :: Patch where
  "empty_patch = \<lparr>p_start = 0, p_end = 0, p_replacement = [], p_found = False, p_seen = 0\<rparr>"

definition initial_scan :: "nat \<Rightarrow> scan" where
  "initial_scan count = \<lparr>sc_stack = [], sc_components = 0, sc_closed = False, sc_patches = replicate count empty_patch\<rparr>"

fun missing_patch :: "nat \<Rightarrow> Patch list \<Rightarrow> nat option" where
  "missing_patch i [] = None"
| "missing_patch i (p # ps) = (if p_found p then missing_patch (Suc i) ps else Some i)"

definition find_patches :: "RCResourceFormat \<Rightarrow> RCResourceEdit list \<Rightarrow> bytes \<Rightarrow> patch_failure + Patch list" where
  "find_patches format edits base =
     (case check_edits format 0 edits of Some x \<Rightarrow> Inl x
      | None \<Rightarrow>
        (case scan_loop format edits (length base) base (initial_scan (length edits)) of Inl x \<Rightarrow> Inl x
         | Inr st \<Rightarrow>
             if sc_stack st \<noteq> [] \<or> \<not> sc_closed st then Inl (Invalid None ''unclosed component'')
             else case missing_patch 0 (sc_patches st) of
                 Some i \<Rightarrow> Inl (Invalid (Some i) ''target component/property occurrence was not found'')
               | None \<Rightarrow> Inr (sc_patches st)))"

definition failure_error :: "RCResourceEdit list \<Rightarrow> patch_failure \<Rightarrow> RCError" where
  "failure_error edits x =
     (case x of Memory \<Rightarrow> RCErrorSet 1 ''Out of memory applying resource edits''
      | Invalid None reason \<Rightarrow> RCErrorSet 1 (''Resource patch: '' @ reason)
      | Invalid (Some i) reason \<Rightarrow>
          (let e = edits ! i in
           RCErrorSet 1 (''Resource patch edit '' @ show_nat i @ '' (component '' @ show_nat (e_component e) @
             '', property '' @ take 64 (if token (e_property e) then property_of e else ''<invalid>'') @
             '', occurrence '' @ show_int (e_occurrence e) @ ''): '' @ reason)))"

definition RCResourcePatch ::
  "vc_parser \<Rightarrow> ('c, 'p, 'v, 'k) libical \<Rightarrow> RCResourceFormat \<Rightarrow> bytes option \<Rightarrow> nat \<Rightarrow> RCResourceEdit list option \<Rightarrow> nat \<Rightarrow> bytes res" where
  "RCResourcePatch vc ical format base len edits count =
     (let bs = take len (bytes_of base); es = take count (case edits of None \<Rightarrow> [] | Some es \<Rightarrow> es) in
      if base = None \<or> len = 0 \<or> len > INT_MAX \<or> CHR 0x00 \<in> set bs \<or> (count \<noteq> 0 \<and> edits = None) \<or> count > 10000
      then Inl (RCErrorSet 1 ''Invalid resource patch input'')
      else case valid vc ical format bs of Inl e \<Rightarrow> Inl e
        | Inr _ \<Rightarrow>
          (case find_patches format es bs of Inl x \<Rightarrow> Inl (failure_error es x)
           | Inr ps \<Rightarrow>
             (case splice bs 0 (sort_patches [] ps) [] of Inl x \<Rightarrow> Inl (failure_error es x)
              | Inr result \<Rightarrow> (case valid vc ical format result of Inl e \<Rightarrow> Inl e | Inr _ \<Rightarrow> Inr result))))"

section \<open>Queuing local edits\<close>

text \<open>The base to patch: that of the journaled operation of this change, else the published one.\<close>

definition edit_base :: "int \<Rightarrow> string option \<Rightarrow> string option \<Rightarrow> 'z jtables \<Rightarrow> (string \<times> bytes option \<times> int \<times> string) option" where
  "edit_base acct change key t =
     (case Option.bind change (\<lambda>c. find_change acct c t) of
        Some r \<Rightarrow> Some (op_href r, op_base_body r, op_revision r, op_key r)
      | None \<Rightarrow> map_option (\<lambda>b. (b_href b, Some (b_body b), b_revision b, b_key b))
                 (Option.bind key (\<lambda>k. find_base acct k t)))"

definition RCResourceEnqueueEdits ::
  "vc_parser \<Rightarrow> ('c, 'p, 'v, 'k) libical \<Rightarrow> int \<Rightarrow> string option \<Rightarrow> string option \<Rightarrow> int \<Rightarrow> RCResourceFormat \<Rightarrow>
   RCResourceEdit list option \<Rightarrow> nat \<Rightarrow> 'z jdb \<Rightarrow> int res \<times> 'z jdb" where
  "RCResourceEnqueueEdits vc ical acct change key revision format edits count d =
     (let (prepared, d) = sql_prepare d in
      if \<not> prepared then (Inl (RCErrorSet 1 (''Could not read published write base: '' @ errmsg d)), d)
      else case sql_query (edit_base acct change key) d of
          (Some (Some (href, body, known, k)), d) \<Rightarrow>
            if key \<noteq> Some k \<or> known \<noteq> revision
            then (Inl (RCErrorSet 1 ''No matching published revision for local edits''), d)
            else (case RCResourcePatch vc ical format body (length (bytes_of body)) edits count of
                Inl e \<Rightarrow> (Inl e, d)
              | Inr patched \<Rightarrow>
                  RCWriteJournalEnqueue acct change key (Some href) (Some ''update'') revision
                    (Some patched) (length patched) d)
        | (_, d) \<Rightarrow> (Inl (RCErrorSet 1 ''No matching published revision for local edits''), d))"

end
