(* ===== verification/ResourcePatchContract.thy ===== *)
theory ResourcePatchContract
  imports ResourcePatch JournalContract "HOL-Library.Multiset"
begin

text \<open>
  What edits of a resource promise: a written line survives folding and unfolding, every
  byte outside the selected lines is kept, and queuing the same edits again gives the same
  operation.
\<close>

section \<open>Folding\<close>

lemma add_Some: "add b p = Some r \<longleftrightarrow> length p \<le> INT_MAX \<and> length b + length p \<le> INT_MAX \<and> r = b @ p"
  by (auto simp: add_def)

lemma add_all_Some: "add_all b ps = Some r \<Longrightarrow> r = b @ concat ps"
proof (induction ps arbitrary: b)
  case (Cons p ps)
  then obtain c where "add b p = Some c" "add_all c ps = Some r" by (auto split: bind_splits)
  with Cons.IH [of c] show ?case by (simp add: add_Some)
qed simp

text \<open>The pieces of a folded line, and the text they make.\<close>

fun fold_text :: "bytes list \<Rightarrow> bytes" where
  "fold_text [] = []"
| "fold_text (c # cs) = c @ [CHR 0x0d, CHR 0x0a] @ concat (map (\<lambda>d. '' '' @ d @ [CHR 0x0d, CHR 0x0a]) cs)"

definition fold_more :: "bytes list \<Rightarrow> bytes" where
  "fold_more cs = concat (map (\<lambda>d. '' '' @ d @ [CHR 0x0d, CHR 0x0a]) cs)"

definition pieces_ok :: "bytes list \<Rightarrow> bool" where
  "pieces_ok cs \<longleftrightarrow> (\<forall>c \<in> set cs. c \<noteq> [] \<and> length c \<le> 75) \<and> (\<forall>c \<in> set (tl cs). length c \<le> 74 \<and> \<not> continuation (hd c))"

lemma back_up_char: "back_up line n \<noteq> 0 \<Longrightarrow> \<not> continuation (line ! back_up line n)"
  by (induction n) (auto split: if_splits)

lemma piece_bounds: "line \<noteq> [] \<Longrightarrow> piece first line \<le> length line \<and> piece first line \<le> (if first then 75 else 74)"
  using back_up_le [of line 74] back_up_le [of line 75] by (auto simp: piece_def Let_def)

lemma piece_next: "piece first line \<noteq> 0 \<Longrightarrow> drop (piece first line) line \<noteq> [] \<Longrightarrow> \<not> continuation (hd (drop (piece first line) line))"
  using back_up_char [of line 74] back_up_char [of line 75] back_up_le [of line 74] back_up_le [of line 75]
  by (auto simp: piece_def Let_def hd_drop_conv_nth split: if_splits)

lemma fold_loop_more:
  assumes "fold_loop False line out = Some r" and "line \<noteq> [] \<longrightarrow> \<not> continuation (hd line)"
  shows "\<exists>cs. r = out @ fold_more cs \<and> concat cs = line \<and> (\<forall>c \<in> set cs. c \<noteq> [] \<and> length c \<le> 74 \<and> \<not> continuation (hd c))"
  using assms
proof (induction "length line" arbitrary: line out rule: less_induct)
  case less
  show ?case
  proof (cases "line = []")
    case True
    with less.prems(1) have "r = out" by (simp add: fold_loop.simps)
    with True show ?thesis by (intro exI [of _ "[]"]) (simp add: fold_more_def)
  next
    case False
    let ?n = "piece False line"
    from less.prems(1) False obtain b where n: "?n \<noteq> 0" and b: "add_all out ['' '', take ?n line, [CHR 0x0d, CHR 0x0a]] = Some b"
      and rest: "fold_loop False (drop ?n line) b = Some r"
      by (subst (asm) fold_loop.simps) (auto simp: Let_def split: if_splits bind_splits)
    have next_ok: "drop ?n line \<noteq> [] \<longrightarrow> \<not> continuation (hd (drop ?n line))" using piece_next [OF n] by blast
    from less.hyps [OF _ rest next_ok] n False obtain cs where cs: "r = b @ fold_more cs" "concat cs = drop ?n line"
      "\<forall>c \<in> set cs. c \<noteq> [] \<and> length c \<le> 74 \<and> \<not> continuation (hd c)" by auto
    have "take ?n line \<noteq> []" "length (take ?n line) \<le> 74" "\<not> continuation (hd (take ?n line))"
      using piece_bounds [OF False, of False] n False less.prems(2) by auto
    with cs add_all_Some [OF b] show ?thesis
      by (intro exI [of _ "take ?n line # cs"]) (simp add: fold_more_def)
  qed
qed

lemma fold_loop_pieces:
  assumes "fold_loop True line out = Some r" and "line \<noteq> []"
  shows "\<exists>cs. cs \<noteq> [] \<and> r = out @ fold_text cs \<and> concat cs = line \<and> pieces_ok cs"
proof -
  let ?n = "piece True line"
  from assms obtain b where n: "?n \<noteq> 0" and b: "add_all out [take ?n line, [CHR 0x0d, CHR 0x0a]] = Some b"
    and rest: "fold_loop False (drop ?n line) b = Some r"
    by (subst (asm) fold_loop.simps) (auto simp: Let_def split: if_splits bind_splits)
  have "drop ?n line \<noteq> [] \<longrightarrow> \<not> continuation (hd (drop ?n line))" using piece_next [OF n] by blast
  from fold_loop_more [OF rest this] obtain cs where cs: "r = b @ fold_more cs" "concat cs = drop ?n line"
    "\<forall>c \<in> set cs. c \<noteq> [] \<and> length c \<le> 74 \<and> \<not> continuation (hd c)" by blast
  have first: "take ?n line \<noteq> []" "length (take ?n line) \<le> 75"
    using piece_bounds [OF assms(2), of True] n assms(2) by auto
  have "pieces_ok (take ?n line # cs)" using cs(3) first by (force simp: pieces_ok_def)
  with cs first add_all_Some [OF b] show ?thesis
    by (intro exI [of _ "take ?n line # cs"]) (simp add: fold_more_def)
qed

lemma folded_pieces:
  assumes "folded out prefix value = Some r" and "prefix @ value \<noteq> []"
  shows "\<exists>cs. cs \<noteq> [] \<and> r = out @ fold_text cs \<and> concat cs = prefix @ value \<and> pieces_ok cs"
proof -
  from assms(1) have "fold_loop True (prefix @ value) out = Some r"
    by (auto simp: folded_def add_Some split: bind_splits)
  from fold_loop_pieces [OF this assms(2)] show ?thesis .
qed

lemma RCUnfold_line:
  assumes "\<forall>c \<in> set t. \<not> eol c"
  shows "RCUnfold (t @ [CHR 0x0d, CHR 0x0a] @ rest) =
    (if rest \<noteq> [] \<and> blank (hd rest) then t @ RCUnfold (tl rest) else t @ CHR 0x0a # RCUnfold rest)"
proof -
  have e: "eol (CHR 0x0d)" by (simp add: eol_def)
  have "takeWhile (\<lambda>c. \<not> eol c) (t @ [CHR 0x0d, CHR 0x0a] @ rest) = t"
    "dropWhile (\<lambda>c. \<not> eol c) (t @ [CHR 0x0d, CHR 0x0a] @ rest) = [CHR 0x0d, CHR 0x0a] @ rest"
    using assms e by (simp_all add: takeWhile_append dropWhile_append)
  then show ?thesis by (subst RCUnfold.simps) (simp add: Let_def after_eol_def skip_def)
qed

lemma RCUnfold_fold_more: "\<forall>c \<in> set (concat cs). \<not> eol c \<Longrightarrow> \<forall>c \<in> set t. \<not> eol c \<Longrightarrow>
  RCUnfold (t @ [CHR 0x0d, CHR 0x0a] @ fold_more cs) = t @ concat cs @ [CHR 0x0a]"
proof (induction cs arbitrary: t)
  case Nil
  then show ?case using RCUnfold_line [of t "[]"] by (simp add: fold_more_def RCUnfold.simps)
next
  case (Cons c cs)
  have "blank (CHR '' '')" by (simp add: blank_def)
  with Cons show ?case using RCUnfold_line [of t "fold_more (c # cs)"] by (simp add: fold_more_def)
qed

text \<open>C33: a property line that is written survives the format's folding: unfolding it gives back the
  prefix and the value, every physical line has at most 75 bytes, and no line starts
  inside a UTF-8 sequence.\<close>

theorem folded_roundtrip:
  assumes "folded [] prefix value = Some out" and "prefix @ value \<noteq> []" and "\<forall>c \<in> set (prefix @ value). \<not> eol c"
  shows "RCUnfold out = prefix @ value @ [CHR 0x0a] \<and>
    (\<exists>cs. out = fold_text cs \<and> concat cs = prefix @ value \<and> pieces_ok cs)"
proof -
  from folded_pieces [OF assms(1,2)] obtain c cs where cs: "out = fold_text (c # cs)" "concat (c # cs) = prefix @ value"
    "pieces_ok (c # cs)" by (auto simp: neq_Nil_conv)
  from assms(3) have "\<forall>x \<in> set (concat cs). \<not> eol x" "\<forall>x \<in> set c. \<not> eol x" unfolding cs(2) [symmetric] by auto
  from RCUnfold_fold_more [OF this] cs(1) have "RCUnfold out = (concat (c # cs)) @ [CHR 0x0a]"
    by (simp add: fold_more_def)
  then show ?thesis using cs(1,2,3) by (metis append.assoc)
qed

text \<open>The witness of folding: a short line.\<close>

theorem folded_roundtrip_witness: "RCUnfold (''A:b'' @ [CHR 0x0d, CHR 0x0a]) = ''A:b'' @ [CHR 0x0a]"
proof -
  have "folded [] ''A:'' ''b'' = Some (''A:b'' @ [CHR 0x0d, CHR 0x0a])"
    by (simp add: folded_def fold_loop.simps piece_def Let_def add_def INT_MAX_def)
  from folded_roundtrip [OF this] show ?thesis by (simp add: eol_def)
qed

section \<open>The scan\<close>












section \<open>Sorting and splicing\<close>


lemma mset_insert_patch [simp]: "mset (insert_patch p ps) = add_mset p (mset ps)"
  by (induction ps) auto

lemma set_insert_patch [simp]: "set (insert_patch p ps) = insert p (set ps)"
  by (induction ps) auto











section \<open>Queuing edits\<close>

text \<open>The operation a change recorded, with the base its edits were applied to.\<close>

definition edit_recorded ::
  "int \<Rightarrow> string \<Rightarrow> string \<Rightarrow> string \<Rightarrow> bytes option \<Rightarrow> int \<Rightarrow> 'z jtables \<Rightarrow> bool" where
  "edit_recorded acct c k href body revision t \<longleftrightarrow> (\<exists>r \<in> set (write_operations t).
     op_account r = acct \<and> op_change r = c \<and> op_key r = k \<and> op_href r = href \<and> op_base_body r = body \<and> op_revision r = revision)"

lemma edit_recorded_extends: "edit_recorded acct c k href body revision t \<Longrightarrow> extends t t' \<Longrightarrow> edit_recorded acct c k href body revision t'"
  unfolding edit_recorded_def extends_def keeps_ops_def by (fastforce simp: intent_fields)

lemma edit_base_recorded:
  assumes "ids_inv t" and "edit_recorded acct c k href body revision t"
  shows "edit_base acct (Some c) key t = Some (href, body, revision, k)"
proof -
  from assms(2) obtain r where r: "r \<in> set (write_operations t)" "op_account r = acct" "op_change r = c" "op_key r = k"
    "op_href r = href" "op_base_body r = body" "op_revision r = revision" unfolding edit_recorded_def by blast
  with find_change_unique [OF assms(1) r(1)] show ?thesis by (simp add: edit_base_def)
qed

text \<open>A successful call read a base, patched it and queued the result.\<close>

lemma EnqueueEdits_Inr:
  assumes "RCResourceEnqueueEdits vc ical acct change key revision format edits n d = (Inr i, d')"
  obtains href body k patched d1 where "edit_base acct change key (tables d) = Some (href, body, revision, k)" "key = Some k"
    "RCResourcePatch vc ical format body (length (bytes_of body)) edits n = Inr patched"
    "RCWriteJournalEnqueue acct change key (Some href) (Some ''update'') revision (Some patched) (length patched) d1 = (Inr i, d')"
    "tables d1 = tables d" "txn d1 = txn d" "same_library d d1"
proof -
  obtain ok d2 where p: "sql_prepare d = (ok, d2)" by force
  obtain q d1 where s: "sql_query (edit_base acct change key) d2 = (q, d1)" by force
  from sql_prepare_keeps [OF p] sql_query_keeps [OF s] have same: "tables d1 = tables d" "txn d1 = txn d" "same_library d d1"
    using same_library_trans by auto
  from assms p s obtain href body k patched where q: "q = Some (Some (href, body, revision, k))" "key = Some k"
    "RCResourcePatch vc ical format body (length (bytes_of body)) edits n = Inr patched"
    "RCWriteJournalEnqueue acct change key (Some href) (Some ''update'') revision (Some patched) (length patched) d1 = (Inr i, d')"
    by (auto simp: RCResourceEnqueueEdits_def split: if_splits option.splits sum.splits)
  with sql_query_row [of _ d2] s sql_prepare_keeps [OF p] have "edit_base acct change key (tables d) = Some (href, body, revision, k)"
    by metis
  from that [OF this q(2-4) same] show thesis .
qed

lemma enqueue_edit_recorded:
  assumes "edit_base acct change key (tables d) = Some (href, body, revision, k)" and "key = Some k" and "undo_ok d"
    and "RCWriteJournalEnqueue acct change key (Some href) (Some ''update'') revision (Some patched) (length patched) d = (Inr i, d')"
  obtains c where "change = Some c" "edit_recorded acct c k href body revision (tables d')"
proof -
  from Enqueue_cases [OF assms(4,3)] obtain c where
    args: "enqueue_args change key (Some href) (Some ''update'') revision (Some patched) (length patched) = Some (c, k, href, Update)" and
    cs: "(\<exists>s. find_change acct c (tables d) = Some s \<and> tables d' = tables d) \<or>
      (find_change acct c (tables d) = None \<and> tables d' = (tables d)\<lparr>write_operations := write_operations (tables d) @
        [enqueue_row acct c k href Update revision (blob (Some patched) (length patched)) (tables d) i]\<rparr>)"
    by (auto dest!: enqueue_args_Some simp: assms(2) enqueue_args_def split: option.splits if_splits)
  then have c: "change = Some c" by (auto simp: enqueue_args_def split: option.splits if_splits)
  from cs have "edit_recorded acct c k href body revision (tables d')"
  proof (elim disjE exE conjE)
    fix s
    assume s: "find_change acct c (tables d) = Some s" "tables d' = tables d"
    with assms(1) c find_change_Some [OF s(1)] show ?thesis by (auto simp: edit_recorded_def edit_base_def)
  next
    assume nf: "find_change acct c (tables d) = None" and t: "tables d' = (tables d)\<lparr>write_operations := write_operations (tables d) @
        [enqueue_row acct c k href Update revision (blob (Some patched) (length patched)) (tables d) i]\<rparr>"
    from assms(1) c nf obtain b where "find_base acct k (tables d) = Some b" "body = Some (b_body b)"
      by (auto simp: edit_base_def assms(2))
    then show ?thesis by (simp add: t edit_recorded_def enqueue_row_def queued_row_def)
  qed
  with c that show thesis by blast
qed

text \<open>C34: queuing local edits is exactly-once: when the call of a change was committed, the same call at
  any later point returns the same operation and changes no table, whatever base has been
  published since, because it patches the base the operation was recorded with.\<close>

theorem edits_exactly_once:
  assumes "fresh_journal d0" and "program_step\<^sup>*\<^sup>* d0 d" and "txn d = []"
    and "RCResourceEnqueueEdits vc ical acct change key revision format edits n d = (Inr i, d1)"
    and "program_step\<^sup>*\<^sup>* d1 d2" and "reliable d2"
  shows "\<exists>d3. RCResourceEnqueueEdits vc ical acct change key revision format edits n d2 = (Inr i, d3) \<and>
    tables d3 = tables d2 \<and> txn d3 = txn d2"
proof -
  from EnqueueEdits_Inr [OF assms(4)] obtain href body k patched dr where base: "edit_base acct change key (tables d) = Some (href, body, revision, k)"
    and k: "key = Some k" and patch: "RCResourcePatch vc ical format body (length (bytes_of body)) edits n = Inr patched"
    and enq: "RCWriteJournalEnqueue acct change key (Some href) (Some ''update'') revision (Some patched) (length patched) dr = (Inr i, d1)"
    and same: "tables dr = tables d" "txn dr = txn d" "same_library d dr" .
  have "program_step d dr" by (rule program_step.elsewhere) (simp_all add: same)
  with assms(2) have reach: "program_step\<^sup>*\<^sup>* d0 dr" by simp
  note inv = reach_inv [OF assms(1) reach]
  have buf: "buffer_ok (Some patched) (length patched)" by (simp add: buffer_ok_def)
  have "txn dr = []" using assms(3) same by simp
  note later = enqueue_extends [OF assms(1) reach this buf enq assms(5)]
  obtain c where c: "change = Some c" and rec: "edit_recorded acct c k href body revision (tables d1)"
    using enqueue_edit_recorded [OF _ k _ enq] base same(1) inv by auto
  from Enqueue_records [OF enq _ buf] inv obtain c' k' h' kd' where args: "enqueue_args change key (Some href) (Some ''update'') revision
      (Some patched) (length patched) = Some (c', k', h', kd')"
    and q: "enqueued acct c' k' h' kd' revision (Some patched) (length patched) i (tables d1)" by blast
  have ids: "ids_inv (tables d2)" using jt.sound_good [OF later(2)] by (simp add: journal_inv_def)
  have base2: "edit_base acct change key (tables d2) = Some (href, body, revision, k)"
    unfolding c using edit_base_recorded [OF ids edit_recorded_extends [OF rec later(1)]] .
  define e where "e = d2\<lparr>calls := Suc (Suc (calls d2))\<rparr>"
  have e: "tables e = tables d2" "txn e = txn d2" "reliable e" using assms(6) by (simp_all add: e_def reliable_def)
  have "RCResourceEnqueueEdits vc ical acct change key revision format edits n d2 =
      RCWriteJournalEnqueue acct change key (Some href) (Some ''update'') revision (Some patched) (length patched) e"
    using assms(6) base2 patch k
    by (simp add: RCResourceEnqueueEdits_def sql_prepare_def sql_query_def sql_call_def reliable_def e_def)
  moreover have "enqueued acct c' k' h' kd' revision (Some patched) (length patched) i (tables e)"
    using enqueued_extends [OF q later(1)] e(1) by simp
  ultimately show ?thesis using Enqueue_again [OF args _ _ e(3)] ids e by (auto simp: on_tables_def)
qed

section \<open>A concrete edit\<close>

text \<open>A card whose name is replaced, with a parser that accepts every card.\<close>

definition demo_base :: bytes where
  "demo_base = ''BEGIN:VCARD'' @ [CHR 0x0a] @ ''FN:A'' @ [CHR 0x0a] @ ''END:VCARD'' @ [CHR 0x0a]"

definition demo_edit :: RCResourceEdit where
  "demo_edit = \<lparr>e_component = 0, e_property = Some ''FN'', e_group = None, e_occurrence = 0, e_value = Some ''B'',
     e_parameters = None, e_replacementGroup = None, e_replacementProperty = None\<rparr>"

definition demo_patched :: bytes where
  "demo_patched = ''BEGIN:VCARD'' @ [CHR 0x0a] @ ''FN:B'' @ [CHR 0x0d, CHR 0x0a] @ ''END:VCARD'' @ [CHR 0x0a]"

definition any_card :: vc_parser where
  "any_card = (\<lambda>_. Some ([], []))"

definition no_calendar :: "(unit, unit, unit, unit) libical" where
  "no_calendar = \<lparr>icalparser_parse_string = (\<lambda>_. None), is_vcalendar = (\<lambda>_. False), count_errors = (\<lambda>_. 0),
     first_property = (\<lambda>_ _. None), RECURRENCEID_PROPERTY = (), property_value = (\<lambda>_. None), is_text_value = (\<lambda>_. False),
     value_get_text = (\<lambda>_. None), value_as_string = (\<lambda>_. None), value_kind_string = (\<lambda>_. []),
     tzid_parameter = (\<lambda>_. None), is_null_time = (\<lambda>_. True), is_utc = (\<lambda>_. False)\<rparr>"

definition demo_patch :: Patch where
  "demo_patch = \<lparr>p_start = 12, p_end = 17, p_replacement = ''FN:B'' @ [CHR 0x0d, CHR 0x0a], p_found = True, p_seen = 1\<rparr>"

lemma demo_lines:
  "logical_line demo_base = (''BEGIN:VCARD'', ''FN:A'' @ [CHR 0x0a] @ ''END:VCARD'' @ [CHR 0x0a])"
  "logical_line (''FN:A'' @ [CHR 0x0a] @ ''END:VCARD'' @ [CHR 0x0a]) = (''FN:A'', ''END:VCARD'' @ [CHR 0x0a])"
  "logical_line (''END:VCARD'' @ [CHR 0x0a]) = (''END:VCARD'', [])"
  by code_simp+

definition in_card :: "Patch \<Rightarrow> scan" where
  "in_card p = \<lparr>sc_stack = [(0, ''VCARD'')], sc_components = 1, sc_closed = False, sc_patches = [p]\<rparr>"

lemma demo_begin: "scan_line RCResourceVCard [demo_edit] 0 12 ''BEGIN:VCARD'' (initial_scan 1) = Inr (in_card empty_patch)"
  by code_simp

lemma demo_replacement: "replacement_line demo_edit ''FN'' [] = Some (''FN:B'' @ [CHR 0x0d, CHR 0x0a])"
  by (simp add: replacement_line_def demo_edit_def folded_def fold_loop.simps piece_def Let_def add_def INT_MAX_def)

lemma demo_property:
  "scan_line RCResourceVCard [demo_edit] 12 17 ''FN:A'' (in_card empty_patch) = Inr (in_card demo_patch)"
proof -
  have c: "colon ''FN:A'' False = Some (''FN'', ''A'')" "\<not> same_nocase_n 6 ''FN:A'' ''BEGIN:''" "\<not> same_nocase_n 4 ''FN:A'' ''END:''"
    "selects 0 (line_group (line_name ''FN'')) (line_property (line_name ''FN'')) demo_edit"
    "allowed ''VCARD'' (property_of demo_edit)"
    by code_simp+
  then have "property_edit 12 17 0 ''VCARD'' ''FN'' 0 demo_edit empty_patch = Inr demo_patch"
    using demo_replacement by (simp add: property_edit_def Let_def empty_patch_def demo_patch_def) (simp add: demo_edit_def)
  with c show ?thesis by (simp add: scan_line_def in_card_def)
qed

lemma demo_end:
  "scan_line RCResourceVCard [demo_edit] 17 27 ''END:VCARD'' (in_card demo_patch) =
     Inr ((in_card demo_patch)\<lparr>sc_stack := [], sc_closed := True\<rparr>)"
  by code_simp

lemma scan_loop_step:
  assumes "bs \<noteq> []" and "logical_line bs = (line, rest)"
    and "scan_line format edits (w - length bs) (w - length rest) line st = Inr st'"
  shows "scan_loop format edits w bs st = scan_loop format edits w rest st'"
  using assms by (subst scan_loop.simps) simp

lemma demo_find: "find_patches RCResourceVCard [demo_edit] demo_base = Inr [demo_patch]"
proof -
  let ?loop = "scan_loop RCResourceVCard [demo_edit] 27"
  have l: "length demo_base = 27" "demo_base \<noteq> []" by code_simp+
  have "check_edits RCResourceVCard 0 [demo_edit] = None" by code_simp
  moreover have "?loop demo_base (initial_scan 1) = Inr ((in_card demo_patch)\<lparr>sc_stack := [], sc_closed := True\<rparr>)"
  proof -
    have "?loop demo_base (initial_scan 1) = ?loop (''FN:A'' @ [CHR 0x0a] @ ''END:VCARD'' @ [CHR 0x0a]) (in_card empty_patch)"
      by (rule scan_loop_step [OF l(2) demo_lines(1)]) (simp add: l demo_begin [simplified])
    also have "\<dots> = ?loop (''END:VCARD'' @ [CHR 0x0a]) (in_card demo_patch)"
      by (rule scan_loop_step [OF _ demo_lines(2)]) (simp_all add: demo_property)
    also have "\<dots> = ?loop [] ((in_card demo_patch)\<lparr>sc_stack := [], sc_closed := True\<rparr>)"
      by (rule scan_loop_step [OF _ demo_lines(3)]) (simp_all add: demo_end)
    finally show ?thesis by (simp add: scan_loop.simps)
  qed
  ultimately show ?thesis by (simp add: find_patches_def l in_card_def demo_patch_def)
qed

lemma demo_patch_eval:
  "RCResourcePatch any_card ical RCResourceVCard (Some demo_base) 27 (Some [demo_edit]) 1 = Inr demo_patched"
proof -
  have l: "length demo_base = 27" "length demo_patched = 28" "CHR 0x00 \<notin> set demo_base" "CHR 0x00 \<notin> set demo_patched" by code_simp+
  have v: "valid any_card ical RCResourceVCard demo_base = Inr ()" "valid any_card ical RCResourceVCard demo_patched = Inr ()"
    by (simp_all add: valid_def RCVCardParse_def any_card_def l INT_MAX_def)
  have "splice demo_base 0 [demo_patch] [] = Inr demo_patched"
    by (simp add: demo_base_def demo_patch_def demo_patched_def add_def INT_MAX_def)
  with l v demo_find show ?thesis by (simp add: RCResourcePatch_def Let_def INT_MAX_def)
qed


definition b_at :: "op_row list \<Rightarrow> nat \<Rightarrow> unit jdb" where
  "b_at ops n = (open_db (w_tables\<lparr>write_bases := [\<lparr>b_account = 1, b_key = ''k'', b_href = ''https://h/k'',
     b_etag = Some [CHR 0x22, CHR 0x22], b_body = demo_base, b_revision = 1\<rparr>], write_operations := ops\<rparr>))\<lparr>calls := n\<rparr>"

lemma b_base_eval: "\<exists>n. RCWriteJournalSetBase 1 (Some ''k'') (Some ''https://h/k'') (Some [CHR 0x22, CHR 0x22])
    (Some demo_base) 27 1 w0 = (Inr (), b_at [] n)"
proof -
  have "length demo_base = 27" by code_simp
  then show ?thesis by (simp add: journal_eval RCWriteJournalSetBase_def replace_base_def b_at_def)
qed

definition b_op :: op_row where
  "b_op = queued_row 1 1 ''c1'' ''k'' ''https://h/k'' Update 1 (Some [CHR 0x22, CHR 0x22]) (Some demo_base) (Some demo_patched)"

lemma b_edits_eval:
  "\<exists>n. RCResourceEnqueueEdits any_card ical 1 (Some ''c1'') (Some ''k'') 1 RCResourceVCard (Some [demo_edit]) 1 (b_at [] m) =
     (Inr 1, b_at [b_op] n)"
proof -
  have l: "length demo_base = 27" "length demo_patched = 28" by code_simp+
  have "\<exists>n. RCWriteJournalEnqueue 1 (Some ''c1'') (Some ''k'') (Some ''https://h/k'') (Some ''update'') 1 (Some demo_patched)
      (length demo_patched) (b_at [] k) = (Inr 1, b_at [b_op] n)" for k
    by (simp add: journal_eval b_at_def b_op_def l)
  from this [of "Suc (Suc m)"] show ?thesis
    using demo_patch_eval [of ical]
    by (simp add: RCResourceEnqueueEdits_def b_at_def sql_prepare_def sql_query_def sql_call_def open_db_def edit_base_def
        find_change_def find_base_def w_tables_def l)
qed

text \<open>The witness of exactly-once edits: the same call twice in a row.\<close>

theorem edits_exactly_once_witness:
  "\<exists>m n d. RCResourceEnqueueEdits any_card no_calendar 1 (Some ''c1'') (Some ''k'') 1 RCResourceVCard (Some [demo_edit]) 1 (b_at [] m) =
      (Inr 1, b_at [b_op] n) \<and>
    RCResourceEnqueueEdits any_card no_calendar 1 (Some ''c1'') (Some ''k'') 1 RCResourceVCard (Some [demo_edit]) 1 (b_at [b_op] n) =
      (Inr 1, d) \<and> tables d = tables (b_at [b_op] n)"
proof -
  obtain m where m: "RCWriteJournalSetBase 1 (Some ''k'') (Some ''https://h/k'') (Some [CHR 0x22, CHR 0x22])
    (Some demo_base) 27 1 w0 = (Inr (), b_at [] m)" using b_base_eval by blast
  have reach: "program_step\<^sup>*\<^sup>* w0 (b_at [] m)"
    by (rule r_into_rtranclp) (rule program_step.call [OF journal_call.set_base [OF m]])
  obtain n where n: "RCResourceEnqueueEdits any_card no_calendar 1 (Some ''c1'') (Some ''k'') 1 RCResourceVCard (Some [demo_edit]) 1 (b_at [] m) =
      (Inr 1, b_at [b_op] n)" using b_edits_eval by blast
  have "txn (b_at [] m) = []" "reliable (b_at [b_op] n)" by (simp_all add: b_at_def open_db_def reliable_def)
  from edits_exactly_once [OF w0_fresh(1) reach this(1) n rtranclp.rtrancl_refl this(2)] n show ?thesis by blast
qed

end
