(* ===== verification/SyncPolicy.thy ===== *)
theory SyncPolicy
  imports Prelude
begin

text \<open>
  The synchronisation policy of \<^verbatim>\<open>source/shared/RCSyncPolicy.c\<close> and the follow-up delay of
  \<^verbatim>\<open>source/shared/RCSyncFollowup.h\<close>: field lists, writable and independently retried fields,
  defaults, and the comparison of native records. The native records are opaque; the
  adapter's access functions are the argument \<open>ops\<close>.
\<close>

section \<open>Field lists\<close>

definition Is :: "string option \<Rightarrow> string \<Rightarrow> bool" where
  "Is a b \<longleftrightarrow> a = Some b"

function list_contains :: "string \<Rightarrow> string \<Rightarrow> bool" where
  "list_contains l field =
     (if l = [] then False
      else if takeWhile (\<lambda>c. c \<noteq> CHR ''|'') l = field then True
      else if CHR ''|'' \<notin> set l then False
      else list_contains (drop 1 (dropWhile (\<lambda>c. c \<noteq> CHR ''|'') l)) field)"
  by auto
termination
  by (relation "measure (\<lambda>(l, field). length l)")
    (auto intro: le_less_trans [OF diff_le_mono [OF length_dropWhile_le]] simp: diff_less)

declare list_contains.simps [simp del]

definition RCFieldListContains :: "string option \<Rightarrow> string option \<Rightarrow> bool" where
  "RCFieldListContains l field = (case (l, field) of (Some l, Some f) \<Rightarrow> list_contains l f | _ \<Rightarrow> False)"

definition child_fields :: string where
  "child_fields = ''contact|value|type|label''"

definition person_fields :: string where
  "person_fields = ''owner|email|common name|role|status|user type|rsvp''"

definition alarm_fields :: string where
  "alarm_fields = ''owner|description|triggerdate|triggerduration|repeat count|repeat interval|sound|com.apple.ical.sound''"

definition writable_entries :: "(string \<times> string) list" where
  "writable_entries =
    [(''com.apple.contacts.Contact'', ''first name|last name|middle name|title|suffix|nickname|company name|department|job title|birthday|notes|image|first name yomi|middle name yomi|last name yomi|company name yomi|dates|related names|IMs|primary phone number|primary email address|primary street address|primary URL|display as company|phone numbers|email addresses|street addresses|URLs''),
     (''com.apple.contacts.Street Address'', ''contact|street|city|state|postal code|country|country code|type|label''),
     (''com.apple.contacts.Phone Number'', child_fields),
     (''com.apple.contacts.Email Address'', child_fields),
     (''com.apple.contacts.URL'', child_fields),
     (''com.apple.contacts.Date'', child_fields),
     (''com.apple.contacts.Related Name'', child_fields),
     (''com.apple.contacts.IM'', ''contact|user|service|type|label''),
     (''com.apple.calendars.Event'', ''summary|description|location|url|status|classification|calendar|main event|original date|start date|end date|all day|exception dates|detached events|recurrences|attendees|organizer|display alarms|audio alarms''),
     (''com.apple.calendars.Recurrence'', ''owner|frequency|interval|count|until|bymonth|bymonthday|byyearday|byweeknumber|bysetpos|bydaydays|bydayfreq|weekstartday''),
     (''com.apple.calendars.Attendee'', person_fields),
     (''com.apple.calendars.Organizer'', person_fields),
     (''com.apple.calendars.AudioAlarm'', alarm_fields),
     (''com.apple.calendars.DisplayAlarm'', alarm_fields)]"

definition RCWritableFieldNames :: "string option \<Rightarrow> string option" where
  "RCWritableFieldNames entity = Option.bind entity (map_of writable_entries)"

definition group_entries :: "(string \<times> string list) list" where
  "group_entries =
    [(''com.apple.contacts.Contact'', [''first name|last name|middle name|title|suffix'', ''company name|department'',
        ''first name yomi'', ''middle name yomi'', ''last name yomi'', ''company name yomi'', ''notes'', ''image'', ''job title'',
        ''nickname'', ''birthday'', ''display as company'']),
     (''com.apple.contacts.Street Address'', [''street|city|state|postal code|country'']),
     (''com.apple.contacts.Phone Number'', [''value'']),
     (''com.apple.contacts.Email Address'', [''value'']),
     (''com.apple.contacts.URL'', [''value'']),
     (''com.apple.calendars.Event'', [''summary'', ''description'', ''location'', ''url'', ''status'', ''classification'']),
     (''com.apple.calendars.AudioAlarm'', [''sound|com.apple.ical.sound''])]"

definition RCIndependentFieldGroup :: "string option \<Rightarrow> nat \<Rightarrow> string option" where
  "RCIndependentFieldGroup entity index =
     (case Option.bind entity (map_of group_entries) of None \<Rightarrow> None
      | Some groups \<Rightarrow> if index < length groups then Some (groups ! index) else None)"

definition RCContactTypeSupported :: "string option \<Rightarrow> string option \<Rightarrow> bool" where
  "RCContactTypeSupported entity type =
     (if RCFieldListContains (Some ''home|work|other'') type then True
      else if Is entity ''com.apple.contacts.Phone Number''
      then RCFieldListContains (Some ''mobile|pager|home fax|work fax'') type
      else if Is entity ''com.apple.contacts.URL'' then Is type ''home page''
      else if Is entity ''com.apple.contacts.Date'' then Is type ''anniversary''
      else Is entity ''com.apple.contacts.Related Name'' \<and>
        RCFieldListContains (Some ''father|mother|parent|child|brother|sister|friend|spouse|partner|assistant|manager'') type)"

definition RCFollowChildRelationship :: "string option \<Rightarrow> string option \<Rightarrow> bool" where
  "RCFollowChildRelationship field entity \<longleftrightarrow>
     \<not> RCFieldListContains (Some ''contact|owner|calendar|main event|parent groups'') field \<and>
     \<not> Is entity ''com.apple.calendars.Calendar'' \<and> \<not> Is entity ''com.apple.contacts.Contact''"

definition RCUnorderedField :: "string option \<Rightarrow> bool" where
  "RCUnorderedField field =
     RCFieldListContains (Some ''phone numbers|email addresses|street addresses|URLs|events|tasks|detached events|exception dates|attendees|organizer|recurrences|display alarms|audio alarms|mail alarms'') field"

definition RCIgnoredNativeField :: "string option \<Rightarrow> string option \<Rightarrow> bool" where
  "RCIgnoredNativeField entity field \<longleftrightarrow>
     Is entity ''com.apple.calendars.Event'' \<and>
     RCFieldListContains (Some ''com.apple.ical.uid|com.apple.ical.sequence|com.apple.ical.creationdate|com.apple.ical.datestamp|invitationId|invitationSequence|invitationTimestamp'') field"

record RCFieldDefault =
  fd_text :: "string option"
  fd_number :: int
  fd_present :: bool

definition text_default :: "string \<Rightarrow> RCFieldDefault" where
  "text_default t = \<lparr>fd_text = Some t, fd_number = 0, fd_present = True\<rparr>"

definition number_default :: "int \<Rightarrow> RCFieldDefault" where
  "number_default n = \<lparr>fd_text = None, fd_number = n, fd_present = True\<rparr>"

definition no_default :: RCFieldDefault where
  "no_default = \<lparr>fd_text = None, fd_number = 0, fd_present = False\<rparr>"

definition RCSyncFieldDefault :: "string option \<Rightarrow> string option \<Rightarrow> RCFieldDefault" where
  "RCSyncFieldDefault entity field =
     (if Is entity ''com.apple.calendars.Event'' then
        (if Is field ''summary'' then text_default ''Untitled event''
         else if Is field ''all day'' then number_default 0
         else if Is field ''status'' then text_default ''none''
         else if Is field ''classification'' then text_default ''public'' else no_default)
      else if Is entity ''com.apple.calendars.Recurrence'' then
        (if Is field ''interval'' then number_default 1
         else if Is field ''count'' then number_default 0
         else if Is field ''weekstartday'' then text_default ''monday'' else no_default)
      else if Is entity ''com.apple.calendars.Attendee'' then
        (if Is field ''rsvp'' then number_default 0
         else if Is field ''role'' then text_default ''requiredparticipant''
         else if Is field ''status'' then text_default ''needsaction''
         else if Is field ''user type'' then text_default ''individual'' else no_default)
      else if Is entity ''com.apple.contacts.Contact'' \<and> Is field ''display as company'' then text_default ''person''
      else if RCFieldListContains (Some ''com.apple.contacts.Phone Number|com.apple.contacts.Email Address|com.apple.contacts.Street Address|com.apple.contacts.URL|com.apple.contacts.Date|com.apple.contacts.Related Name|com.apple.contacts.IM'') entity \<and>
              Is field ''type'' then text_default ''other''
      else no_default)"

section \<open>Records\<close>

text \<open>The adapter's functions. An iterator is the list of the keys it will give; a dictionary
  that is \<open>NULL\<close> has no values.\<close>

record 'r RCRecordAccess =
  ra_count :: "'r \<Rightarrow> nat"
  ra_keys :: "'r \<Rightarrow> 'r list"
  ra_get :: "'r option \<Rightarrow> 'r \<Rightarrow> 'r option"
  ra_text :: "'r \<Rightarrow> string option"
  ra_entity :: "'r \<Rightarrow> string option"
  ra_propertyEqual :: "string option \<Rightarrow> string option \<Rightarrow> 'r option \<Rightarrow> 'r option \<Rightarrow> bool"
  ra_unorderedEqual :: "'r option \<Rightarrow> 'r option \<Rightarrow> bool"
  ra_alarmEqual :: "'r \<Rightarrow> 'r \<Rightarrow> int"
  ra_tombstone :: "'r option \<Rightarrow> bool"
  ra_scopedEqual :: "'r \<Rightarrow> 'r option \<Rightarrow> 'r option \<Rightarrow> bool"

definition common_entity :: "'r RCRecordAccess \<Rightarrow> 'r \<Rightarrow> 'r \<Rightarrow> string option" where
  "common_entity ops a b = (if ra_entity ops a = ra_entity ops b then ra_entity ops a else None)"

definition key_agrees :: "'r RCRecordAccess \<Rightarrow> string option \<Rightarrow> int \<Rightarrow> 'r \<Rightarrow> 'r \<Rightarrow> 'r \<Rightarrow> bool" where
  "key_agrees ops entity alarm a b key =
     (let name = ra_text ops key; x = ra_get ops (Some a) key; y = ra_get ops (Some b) key in
      RCIgnoredNativeField entity name \<or>
      (alarm = 1 \<and> (Is name ''sound'' \<or> Is name ''com.apple.ical.sound'')) \<or>
      ra_propertyEqual ops entity name x y \<or>
      (RCUnorderedField name \<and> ra_unorderedEqual ops x y))"

fun keys_agree :: "'r RCRecordAccess \<Rightarrow> string option \<Rightarrow> int \<Rightarrow> 'r \<Rightarrow> 'r \<Rightarrow> bool \<Rightarrow> 'r list \<Rightarrow> bool" where
  "keys_agree ops entity alarm a b side [] = True"
| "keys_agree ops entity alarm a b side (key # keys) =
     (if side \<and> ra_get ops (Some a) key \<noteq> None then keys_agree ops entity alarm a b side keys
      else if key_agrees ops entity alarm a b key then keys_agree ops entity alarm a b side keys
      else False)"

definition RCRecordsEqual :: "'r RCRecordAccess \<Rightarrow> 'r option \<Rightarrow> 'r option \<Rightarrow> bool" where
  "RCRecordsEqual ops ra rb =
     (case (ra, rb) of
        (Some a, Some b) \<Rightarrow>
          (let entity = common_entity ops a b;
               alarm = (if Is entity ''com.apple.calendars.AudioAlarm'' then ra_alarmEqual ops a b else -1) in
           if alarm = 0 then False
           else keys_agree ops entity alarm a b False (ra_keys ops a) \<and> keys_agree ops entity alarm a b True (ra_keys ops b))
      | (None, None) \<Rightarrow> True
      | _ \<Rightarrow> False)"

definition RCGraphsEqual :: "'r RCRecordAccess \<Rightarrow> 'r option \<Rightarrow> 'r option \<Rightarrow> bool" where
  "RCGraphsEqual ops ga gb =
     (case (ga, gb) of
        (Some a, Some b) \<Rightarrow>
          ra_count ops a = ra_count ops b \<and>
          list_all (\<lambda>key. RCRecordsEqual ops (ra_get ops (Some a) key) (ra_get ops (Some b) key)) (ra_keys ops a)
      | (None, None) \<Rightarrow> True
      | _ \<Rightarrow> False)"

fun receipt_keys :: "'r RCRecordAccess \<Rightarrow> 'r option \<Rightarrow> 'r \<Rightarrow> 'r option \<Rightarrow> 'r list \<Rightarrow> bool" where
  "receipt_keys ops current receipt scopes [] = True"
| "receipt_keys ops current receipt scopes (key # keys) =
     (let expected = ra_get ops (Some receipt) key; found = ra_get ops current key; fields = ra_get ops scopes key in
      if ra_tombstone ops expected then (if found \<noteq> None then False else receipt_keys ops current receipt scopes keys)
      else if (case fields of None \<Rightarrow> False | Some f \<Rightarrow> ra_count ops f = 0) then receipt_keys ops current receipt scopes keys
      else case found of None \<Rightarrow> False
        | Some r \<Rightarrow> if ra_scopedEqual ops r expected fields then receipt_keys ops current receipt scopes keys else False)"

definition RCReceiptMatches :: "'r RCRecordAccess \<Rightarrow> 'r option \<Rightarrow> 'r \<Rightarrow> 'r option \<Rightarrow> bool" where
  "RCReceiptMatches ops current receipt scopes = receipt_keys ops current receipt scopes (ra_keys ops receipt)"

section \<open>Independent fields\<close>

record 'c RCIndependentPlan =
  ip_encodeStructure :: "'c \<Rightarrow> bool \<times> 'c"
  ip_restoreStructure :: "'c \<Rightarrow> 'c"
  ip_groupChanged :: "nat \<Rightarrow> 'c \<Rightarrow> bool \<times> 'c"
  ip_encodeGroup :: "nat \<Rightarrow> 'c \<Rightarrow> bool \<times> 'c"
  ip_rejectGroup :: "nat \<Rightarrow> 'c \<Rightarrow> 'c"

definition plan_group :: "'c RCIndependentPlan \<Rightarrow> nat \<Rightarrow> 'c \<Rightarrow> 'c" where
  "plan_group ops i c =
     (let (changed, c) = ip_groupChanged ops i c in
      if \<not> changed then c
      else let (encoded, c) = ip_encodeGroup ops i c in if encoded then c else ip_rejectGroup ops i c)"

definition RCPlanIndependentFields :: "nat \<Rightarrow> 'c RCIndependentPlan \<Rightarrow> 'c \<Rightarrow> bool \<times> 'c" where
  "RCPlanIndependentFields groups ops c =
     (let (encoded, c) = ip_encodeStructure ops c in
      let (encoded, c) = (if encoded then (True, c) else ip_encodeStructure ops (ip_restoreStructure ops c)) in
      if \<not> encoded then (False, c) else (True, fold (plan_group ops) [0..<groups] c))"

section \<open>Follow-up (RCSyncFollowup.h)\<close>

definition RCSyncFollowupDelay :: "bool \<Rightarrow> bool \<Rightarrow> nat \<Rightarrow> nat \<times> bool" where
  "RCSyncFollowupDelay uploaded followup interval = (if uploaded \<and> \<not> followup then (0, True) else (interval, False))"

text \<open>The delays of a run of synchronisations, given whether each one uploaded anything.\<close>

fun followup_delays :: "bool \<Rightarrow> nat \<Rightarrow> bool list \<Rightarrow> nat list" where
  "followup_delays followup interval [] = []"
| "followup_delays followup interval (u # us) =
     (let (delay, followup') = RCSyncFollowupDelay u followup interval in delay # followup_delays followup' interval us)"

section \<open>What the policy guarantees\<close>

definition join_fields :: "string list \<Rightarrow> string" where
  "join_fields fs = (case fs of [] \<Rightarrow> [] | f # more_fields \<Rightarrow> f @ concat (map (\<lambda>g. CHR ''|'' # g) more_fields))"

lemma join_fields_Cons: "fs \<noteq> [] \<Longrightarrow> join_fields (f # fs) = f @ CHR ''|'' # join_fields fs"
  by (cases fs) (simp_all add: join_fields_def)

lemma list_contains_join:
  "\<forall>f \<in> set fs. f \<noteq> [] \<and> CHR ''|'' \<notin> set f \<Longrightarrow> list_contains (join_fields fs) field \<longleftrightarrow> field \<in> set fs"
proof (induction fs)
  case Nil
  show ?case by (simp add: join_fields_def list_contains.simps)
next
  case (Cons f fs)
  then have f: "f \<noteq> []" "CHR ''|'' \<notin> set f" by auto
  then have all: "takeWhile (\<lambda>c. c \<noteq> CHR ''|'') f = f" "dropWhile (\<lambda>c. c \<noteq> CHR ''|'') f = []"
    by (auto simp: takeWhile_eq_all_conv dropWhile_eq_Nil_conv)
  show ?case
  proof (cases "fs = []")
    case True
    have "list_contains f field \<longleftrightarrow> f = field" by (subst list_contains.simps) (simp only: f all if_False if_True simp_thms split: if_split)
    then show ?thesis unfolding True by (auto simp: join_fields_def)
  next
    case False
    have "takeWhile (\<lambda>c. c \<noteq> CHR ''|'') (f @ CHR ''|'' # join_fields fs) = f"
      "dropWhile (\<lambda>c. c \<noteq> CHR ''|'') (f @ CHR ''|'' # join_fields fs) = CHR ''|'' # join_fields fs"
      using f(2) all by (simp_all add: takeWhile_append dropWhile_append)
    then have "list_contains (f @ CHR ''|'' # join_fields fs) field \<longleftrightarrow> f = field \<or> list_contains (join_fields fs) field"
      by (subst list_contains.simps) (use f(1) in simp)
    moreover have "list_contains (join_fields fs) field \<longleftrightarrow> field \<in> set fs" using Cons by simp
    ultimately show ?thesis unfolding join_fields_Cons [OF False] by auto
  qed
qed

text \<open>Membership in a field list is exact: a field is found exactly when it is one of the names between
  the bars, never as a part of a longer name.\<close>

lemma field_list_exact:
  assumes "\<forall>f \<in> set fs. f \<noteq> [] \<and> CHR ''|'' \<notin> set f"
  shows "RCFieldListContains (Some (join_fields fs)) (Some field) \<longleftrightarrow> field \<in> set fs"
  using list_contains_join [OF assms] by (simp add: RCFieldListContains_def)

text \<open>The names of a list, and the check of the tables against each other.\<close>

function fields_of :: "string \<Rightarrow> string list" where
  "fields_of l =
     (if l = [] then []
      else takeWhile (\<lambda>c. c \<noteq> CHR ''|'') l #
        (if CHR ''|'' \<notin> set l then [] else fields_of (drop 1 (dropWhile (\<lambda>c. c \<noteq> CHR ''|'') l))))"
  by auto
termination
  by (relation "measure length")
    (auto intro: le_less_trans [OF diff_le_mono [OF length_dropWhile_le]] simp: diff_less)

declare fields_of.simps [simp del]

lemma list_contains_fields: "list_contains l field \<longleftrightarrow> field \<in> set (fields_of l)"
proof (induction l field rule: list_contains.induct)
  case (1 l field)
  then show ?case by (subst list_contains.simps, subst fields_of.simps) auto
qed

lemma contains_fields: "RCFieldListContains (Some l) (Some f) \<longleftrightarrow> f \<in> set (fields_of l)"
  by (simp add: RCFieldListContains_def list_contains_fields)

definition groups_fit :: "string \<times> string list \<Rightarrow> bool" where
  "groups_fit p \<longleftrightarrow> (case map_of writable_entries (fst p) of None \<Rightarrow> False
     | Some w \<Rightarrow> list_all (\<lambda>f. f \<in> set (fields_of w)) (concat (map fields_of (snd p))) \<and>
         distinct (concat (map fields_of (snd p))))"

lemma all_groups_fit: "list_all groups_fit group_entries"
  by code_simp

lemma distinct_concat_nth:
  assumes "distinct (concat xss)" and "i < length xss" and "j < length xss" and "x \<in> set (xss ! i)" and "x \<in> set (xss ! j)"
  shows "i = j"
  using assms
proof (induction xss arbitrary: i j)
  case (Cons xs xss)
  have later: "x \<in> set (xss ! k) \<Longrightarrow> k < length xss \<Longrightarrow> x \<notin> set xs" for k
    using Cons.prems(1) by (auto dest: nth_mem)
  show ?case
    using Cons.IH [of "i - 1" "j - 1"] Cons.prems later [of "i - 1"] later [of "j - 1"]
    by (cases i; cases j) auto
qed simp

text \<open>The fields that are retried in independent groups are consistent with the writable fields: every
  field of every group of an entity is writable for that entity, and no field belongs to
  two groups of the entity.\<close>

lemma independent_groups_writable:
  assumes "RCIndependentFieldGroup entity i = Some g" and "RCFieldListContains (Some g) (Some field)"
  shows "RCFieldListContains (RCWritableFieldNames entity) (Some field) \<and>
    (\<forall>j h. RCIndependentFieldGroup entity j = Some h \<and> RCFieldListContains (Some h) (Some field) \<longrightarrow> j = i)"
proof -
  from assms(1) obtain e groups where e: "entity = Some e" "map_of group_entries e = Some groups" and i: "i < length groups" "g = groups ! i"
    by (auto simp: RCIndependentFieldGroup_def split: option.splits bind_splits if_splits)
  from all_groups_fit map_of_SomeD [OF e(2)] have "groups_fit (e, groups)" by (auto simp: list_all_iff)
  then obtain w where w: "map_of writable_entries e = Some w" "\<forall>f \<in> set (concat (map fields_of groups)). f \<in> set (fields_of w)"
    and d: "distinct (concat (map fields_of groups))" by (auto simp: groups_fit_def list_all_iff split: option.splits)
  have at: "x \<in> set (map fields_of groups ! j)" if "j < length groups" "x \<in> set (fields_of (groups ! j))" for x j
    using that by simp
  have mem: "field \<in> set (fields_of (groups ! i))" using assms(2) i(2) by (simp add: contains_fields)
  have "field \<in> set (fields_of w)" using w(2) mem i(1) by auto
  then have "RCFieldListContains (RCWritableFieldNames entity) (Some field)"
    by (simp add: RCWritableFieldNames_def e(1) w(1) contains_fields)
  moreover have "j = i" if "RCIndependentFieldGroup entity j = Some h" "RCFieldListContains (Some h) (Some field)" for j h
  proof -
    from that e have j: "j < length groups" "field \<in> set (fields_of (groups ! j))"
      by (auto simp: RCIndependentFieldGroup_def contains_fields split: if_splits)
    from distinct_concat_nth [OF d _ _ at [OF j] at [OF i(1) mem]] j(1) i(1) show ?thesis by simp
  qed
  ultimately show ?thesis by blast
qed

text \<open>Two graphs are equal exactly when they have the same keys and equal records under every key,
  although the code walks the keys of the first graph only and compares the counts. This
  rests on the adapter: keys are not repeated, the count is their number, and a key has a
  value exactly when it is listed.\<close>

lemma graphs_equal_iff:
  assumes "distinct (ra_keys ops a)" and "distinct (ra_keys ops b)"
    and "ra_count ops a = length (ra_keys ops a)" and "ra_count ops b = length (ra_keys ops b)"
    and "\<forall>k. (ra_get ops (Some a) k \<noteq> None \<longleftrightarrow> k \<in> set (ra_keys ops a)) \<and> (ra_get ops (Some b) k \<noteq> None \<longleftrightarrow> k \<in> set (ra_keys ops b))"
  shows "RCGraphsEqual ops (Some a) (Some b) \<longleftrightarrow>
    set (ra_keys ops a) = set (ra_keys ops b) \<and>
    (\<forall>k \<in> set (ra_keys ops a). RCRecordsEqual ops (ra_get ops (Some a) k) (ra_get ops (Some b) k))"
proof -
  have card: "card (set (ra_keys ops a)) = ra_count ops a" "card (set (ra_keys ops b)) = ra_count ops b"
    using assms by (simp_all add: distinct_card)
  have sub: "set (ra_keys ops a) \<subseteq> set (ra_keys ops b)"
    if "\<forall>k \<in> set (ra_keys ops a). RCRecordsEqual ops (ra_get ops (Some a) k) (ra_get ops (Some b) k)"
  proof
    fix k
    assume "k \<in> set (ra_keys ops a)"
    with that assms(5) have "RCRecordsEqual ops (ra_get ops (Some a) k) (ra_get ops (Some b) k)" "ra_get ops (Some a) k \<noteq> None" by blast+
    then have "ra_get ops (Some b) k \<noteq> None" by (auto simp: RCRecordsEqual_def split: option.splits)
    with assms(5) show "k \<in> set (ra_keys ops b)" by blast
  qed
  show ?thesis
    using card sub card_subset_eq [of "set (ra_keys ops b)" "set (ra_keys ops a)"]
    by (auto simp: RCGraphsEqual_def list_all_iff)
qed

text \<open>Immediate follow-ups cannot become a polling loop: whatever is uploaded, no two synchronisations
  in a row skip the configured interval.\<close>

lemma followup_never_polls:
  assumes "Suc n < length us"
  shows "followup_delays followup interval us ! n = interval \<or> followup_delays followup interval us ! Suc n = interval"
  using assms
proof (induction us arbitrary: n followup)
  case (Cons u us)
  then obtain v vs where us: "us = v # vs" by (cases us) auto
  show ?case
  proof (cases n)
    case 0
    then show ?thesis by (simp add: us RCSyncFollowupDelay_def)
  next
    case (Suc m)
    with Cons.prems Cons.IH [of m] show ?thesis by (simp add: split_def Let_def)
  qed
qed simp

end
