(* ===== verification/StatusPolicy.thy ===== *)
theory StatusPolicy
  imports JournalReach
begin

text \<open>
  The user-visible status of \<^verbatim>\<open>source/shared/RCStatusPolicy.c\<close>: what is pending for an account,
  counted over the journal, the two-way tables and the mirrors. A query that fails makes
  the status unknown. The rows of the mirrors are those of the joins the queries use.
\<close>

record contact_status =
  cs_account :: int
  cs_missing :: bool
  cs_parse_error :: "string option"

record resource_status =
  rs_account :: int
  rs_missing :: bool
  rs_excluded :: bool
  rs_parse_error :: "string option"
  rs_export :: string

record status_tables = journal_tables +
  two_way_pending_fields :: "(int \<times> string) list"
  two_way_attention :: "(int \<times> string) list"
  calendar_actions :: "(int \<times> string) list"
  contact_rows :: "contact_status list"
  calendar_rows :: "resource_status list"

type_synonym 'z sdb = "'z status_tables_scheme db"

record RCStatusResult =
  st_pending :: int
  st_uploaded :: int
  st_attention :: int
  st_known :: bool
  st_advanceSuccess :: bool
  st_phase :: string
  st_severity :: string

text \<open>Whether a table exists; \<open>None\<close> stands for the failed query (\<open>-1\<close>).\<close>

definition HasTable :: "string \<Rightarrow> 'z sdb \<Rightarrow> bool option \<times> 'z sdb" where
  "HasTable table d =
     (let (prepared, d) = sql_prepare d in
      if \<not> prepared then (None, d)
      else let (r, d) = sql_query (\<lambda>t. if table \<in> set (schema t) then Some () else None) d in
        (map_option (\<lambda>row. row \<noteq> None) r, d))"

text \<open>The count of a query over an optional table; \<open>None\<close> stands for \<open>-1\<close>.\<close>

definition Count :: "string \<Rightarrow> ('z status_tables_scheme \<Rightarrow> nat) \<Rightarrow> 'z sdb \<Rightarrow> nat option \<times> 'z sdb" where
  "Count table query d =
     (case HasTable table d of
        (None, d) \<Rightarrow> (None, d)
      | (Some False, d) \<Rightarrow> (Some 0, d)
      | (Some True, d) \<Rightarrow>
          (let (prepared, d) = sql_prepare d in
           if \<not> prepared then (None, d)
           else let (r, d) = sql_query (\<lambda>t. Some (query t)) d in (case r of Some (Some n) \<Rightarrow> Some n | _ \<Rightarrow> None, d)))"

definition open_operations :: "int \<Rightarrow> 'z jtables \<Rightarrow> nat" where
  "open_operations acct t = count_rows (\<lambda>r. op_account r = acct \<and> unresolved r) (write_operations t)"

definition attention_count :: "int \<Rightarrow> 'z jtables \<Rightarrow> nat" where
  "attention_count acct t =
     length (filter (\<lambda>(a, r). op_id r = a_operation a \<and> op_account r = acct \<and> op_state r = Applied)
       (List.product (write_attention t) (write_operations t)))"

definition applied_operations :: "int \<Rightarrow> 'z jtables \<Rightarrow> nat" where
  "applied_operations acct t = count_rows (\<lambda>r. op_account r = acct \<and> op_state r = Applied) (write_operations t)"

definition status_queries :: "int \<Rightarrow> (string \<times> ('z status_tables_scheme \<Rightarrow> nat)) list" where
  "status_queries acct =
     [(''write_operations'', open_operations acct),
      (''two_way_pending_fields'', \<lambda>t. count_rows (\<lambda>p. fst p = acct) (two_way_pending_fields t)),
      (''two_way_attention'', \<lambda>t. count_rows (\<lambda>p. fst p = acct) (two_way_attention t)),
      (''calendar_actions'', \<lambda>t. count_rows (\<lambda>p. fst p = acct \<and> snd p \<noteq> ''done'') (calendar_actions t)),
      (''write_attention'', attention_count acct)]"

definition overlap_count :: "int \<Rightarrow> 'z status_tables_scheme \<Rightarrow> nat" where
  "overlap_count acct t =
     length (filter (\<lambda>(p, a). fst a = fst p \<and> snd a = snd p \<and> fst p = acct)
       (List.product (two_way_pending_fields t) (two_way_attention t)))"

definition invalid_count :: "bool \<Rightarrow> int \<Rightarrow> 'z status_tables_scheme \<Rightarrow> nat" where
  "invalid_count contacts acct t =
     (if contacts
      then count_rows (\<lambda>c. cs_account c = acct \<and> \<not> cs_missing c \<and> cs_parse_error c \<noteq> None) (contact_rows t)
      else count_rows (\<lambda>r. rs_account r = acct \<and> \<not> rs_missing r \<and> \<not> rs_excluded r \<and>
             (rs_parse_error r \<noteq> None \<or> rs_export r \<in> {''unsupported'', ''retained previous''})) (calendar_rows t))"

text \<open>The running sum and whether every query so far was answered.\<close>

definition tally :: "nat option \<Rightarrow> int \<times> bool \<Rightarrow> int \<times> bool" where
  "tally n s = (case n of None \<Rightarrow> (fst s, False) | Some k \<Rightarrow> (fst s + int k, snd s))"

fun count_all :: "(string \<times> ('z status_tables_scheme \<Rightarrow> nat)) list \<Rightarrow> int \<times> bool \<Rightarrow> 'z sdb \<Rightarrow> (int \<times> bool) \<times> 'z sdb" where
  "count_all [] s d = (s, d)"
| "count_all ((table, q) # qs) s d = (let (n, d) = Count table q d in count_all qs (tally n s) d)"

definition subtract_overlap :: "int \<Rightarrow> int \<times> bool \<Rightarrow> 'z sdb \<Rightarrow> (int \<times> bool) \<times> 'z sdb" where
  "subtract_overlap acct s d =
     (let (fields, d) = HasTable ''two_way_pending_fields'' d; (attention, d) = HasTable ''two_way_attention'' d in
      if fields = None \<or> attention = None then ((fst s, False), d)
      else if fields = Some True \<and> attention = Some True then
        (let (overlap, d) = Count ''two_way_pending_fields'' (overlap_count acct) d in
         ((case overlap of None \<Rightarrow> (fst s, False) | Some k \<Rightarrow> (fst s - int k, snd s)), d))
      else (s, d))"

definition RCStatusEvaluate :: "int \<Rightarrow> bool \<Rightarrow> bool \<Rightarrow> bool \<Rightarrow> bool \<Rightarrow> 'z sdb \<Rightarrow> RCStatusResult \<times> 'z sdb" where
  "RCStatusEvaluate acct contacts complete failed stopping d =
     (let (s, d) = count_all (status_queries acct) (0, True) d;
          (s, d) = subtract_overlap acct s d;
          (invalid, d) = Count (if contacts then ''contacts'' else ''calendar_resources'') (invalid_count contacts acct) d;
          s = tally invalid s;
          (up, d) = Count ''write_operations'' (applied_operations acct) d;
          known = (snd s \<and> up \<noteq> None);
          uploaded = (case up of None \<Rightarrow> 0 | Some k \<Rightarrow> int k);
          attention = fst s - uploaded;
          unsettled = (\<not> known \<or> attention \<noteq> 0 \<or> (\<not> complete \<and> uploaded = 0)) in
      (\<lparr>st_pending = fst s, st_uploaded = uploaded, st_attention = attention, st_known = known,
        st_advanceSuccess = (\<not> stopping \<and> \<not> failed \<and> complete \<and> known \<and> fst s = 0),
        st_phase = (if stopping then ''Stopping'' else if failed then ''Error'' else if unsettled then ''Attention''
                    else if uploaded \<noteq> 0 then ''Uploaded'' else ''UpToDate''),
        st_severity = (if stopping then ''yellow'' else if failed then ''red'' else if unsettled then ''yellow'' else ''green'')\<rparr>, d))"

section \<open>What an evaluation saw\<close>

text \<open>The value of a query over an optional table.\<close>

definition table_count :: "string \<Rightarrow> ('z status_tables_scheme \<Rightarrow> nat) \<Rightarrow> 'z status_tables_scheme \<Rightarrow> nat" where
  "table_count table q t = (if table \<in> set (schema t) then q t else 0)"

lemma HasTable_result:
  assumes "HasTable table d = (r, d')"
  shows "tables d' = tables d" and "r = None \<or> r = Some (table \<in> set (schema (tables d)))" and "reliable d \<longrightarrow> r \<noteq> None \<and> reliable d'"
  using assms
  by (auto simp: HasTable_def sql_prepare_def sql_query_def sql_call_def reliable_def Let_def split: if_splits)

lemma Count_result:
  assumes "Count table q d = (r, d')"
  shows "tables d' = tables d" and "r = None \<or> r = Some (table_count table q (tables d))" and "reliable d \<longrightarrow> r \<noteq> None \<and> reliable d'"
proof -
  obtain h d1 where h: "HasTable table d = (h, d1)" by force
  note has = HasTable_result [OF h]
  show "tables d' = tables d" "r = None \<or> r = Some (table_count table q (tables d))" "reliable d \<longrightarrow> r \<noteq> None \<and> reliable d'"
    using assms has unfolding Count_def h
    by (auto simp: table_count_def sql_prepare_def sql_query_def sql_call_def reliable_def Let_def split: option.splits bool.splits if_splits)
qed

lemma count_all_result:
  assumes "count_all qs s d = (s', d')"
  shows "tables d' = tables d \<and> (snd s' \<longrightarrow> snd s \<and> fst s' = fst s + (\<Sum>(table, q) \<leftarrow> qs. int (table_count table q (tables d)))) \<and>
    (reliable d \<longrightarrow> snd s' = snd s \<and> reliable d')"
  using assms
proof (induction qs arbitrary: s d)
  case (Cons p qs)
  obtain table q where p: "p = (table, q)" by force
  obtain n d1 where n: "Count table q d = (n, d1)" by force
  with Cons.prems p have r: "count_all qs (tally n s) d1 = (s', d')" by simp
  from Cons.IH [OF r] Count_result [OF n] show ?case
    by (cases n) (auto simp: p tally_def)
qed simp

lemma subtract_overlap_result:
  assumes "subtract_overlap acct s d = (s', d')"
  shows "tables d' = tables d \<and> (snd s' \<longrightarrow> snd s \<and>
      fst s' = fst s - (if ''two_way_attention'' \<in> set (schema (tables d)) then int (table_count ''two_way_pending_fields'' (overlap_count acct) (tables d)) else 0)) \<and>
    (reliable d \<longrightarrow> snd s' = snd s \<and> reliable d')"
proof -
  obtain f d1 where f: "HasTable ''two_way_pending_fields'' d = (f, d1)" by force
  obtain a d2 where a: "HasTable ''two_way_attention'' d1 = (a, d2)" by force
  obtain k d3 where k: "Count ''two_way_pending_fields'' (overlap_count acct) d2 = (k, d3)" by force
  note res = HasTable_result [OF f] HasTable_result [OF a] Count_result [OF k]
  show ?thesis
    using assms res unfolding subtract_overlap_def f a k Let_def split_conv
    by (auto simp: table_count_def split: if_splits option.splits)
qed

section \<open>The status is honest\<close>

definition overlap_at :: "int \<Rightarrow> 'z status_tables_scheme \<Rightarrow> nat" where
  "overlap_at acct t = (if ''two_way_attention'' \<in> set (schema t)
     then table_count ''two_way_pending_fields'' (overlap_count acct) t else 0)"

definition invalid_at :: "bool \<Rightarrow> int \<Rightarrow> 'z status_tables_scheme \<Rightarrow> nat" where
  "invalid_at contacts acct t = table_count (if contacts then ''contacts'' else ''calendar_resources'') (invalid_count contacts acct) t"

text \<open>Nothing of the account is left to do, in any of the tables that exist.\<close>

definition settled :: "bool \<Rightarrow> int \<Rightarrow> 'z status_tables_scheme \<Rightarrow> bool" where
  "settled contacts acct t \<longleftrightarrow> (\<forall>(table, q) \<in> set (status_queries acct). table_count table q t = 0) \<and> invalid_at contacts acct t = 0"

lemma distinct_filter_eq: "distinct A \<Longrightarrow> length (filter (\<lambda>a. a = p) A) \<le> 1"
  by (induction A) (auto simp: filter_empty_conv)

lemma overlap_bounded: "distinct A \<Longrightarrow>
  length (filter (\<lambda>(p, a). fst a = fst p \<and> snd a = snd p \<and> fst p = acct) (List.product P A)) \<le> count_rows (\<lambda>p. fst p = acct) P"
proof (induction P)
  case (Cons p P)
  have "length (filter (\<lambda>(p, a). fst a = fst p \<and> snd a = snd p \<and> fst p = acct) (map (Pair p) A)) \<le> (if fst p = acct then 1 else 0)"
  proof -
    from distinct_filter_eq [OF Cons.prems, of p] show ?thesis by (auto simp: filter_map comp_def prod_eq_iff [symmetric])
  qed
  with Cons show ?case by (auto simp: count_rows_def)
qed simp

lemma overlap_at_bounded:
  "distinct (two_way_attention t) \<Longrightarrow>
     overlap_at acct t \<le> table_count ''two_way_pending_fields'' (\<lambda>t. count_rows (\<lambda>p. fst p = acct) (two_way_pending_fields t)) t"
  using overlap_bounded [of "two_way_attention t" acct "two_way_pending_fields t"]
  by (simp add: overlap_at_def table_count_def overlap_count_def)

lemma applied_open: "applied_operations acct t \<le> open_operations acct t"
  unfolding applied_operations_def open_operations_def
  by (rule count_rows_mono) (auto simp: unresolved_def)

lemma evaluate_result:
  assumes "RCStatusEvaluate acct contacts complete failed stopping d = (res, d')"
  shows "tables d' = tables d" and "reliable d \<longrightarrow> st_known res"
    and "st_known res \<longrightarrow> st_pending res = (\<Sum>(table, q) \<leftarrow> status_queries acct. int (table_count table q (tables d))) -
      int (overlap_at acct (tables d)) + int (invalid_at contacts acct (tables d)) \<and>
      st_uploaded res = int (table_count ''write_operations'' (applied_operations acct) (tables d))"
    and "st_advanceSuccess res \<longleftrightarrow> \<not> stopping \<and> \<not> failed \<and> complete \<and> st_known res \<and> st_pending res = 0"
    and "st_attention res = st_pending res - st_uploaded res"
    and "st_phase res = ''UpToDate'' \<longleftrightarrow> \<not> stopping \<and> \<not> failed \<and> complete \<and> st_known res \<and> st_pending res = 0 \<and> st_uploaded res = 0"
proof -
  obtain s1 d1 where s1: "count_all (status_queries acct) (0, True) d = (s1, d1)" by (meson surj_pair)
  obtain s2 d2 where s2: "subtract_overlap acct s1 d1 = (s2, d2)" by (meson surj_pair)
  obtain v d3 where v: "Count (if contacts then ''contacts'' else ''calendar_resources'') (invalid_count contacts acct) d2 = (v, d3)" by (meson surj_pair)
  obtain u d4 where u: "Count ''write_operations'' (applied_operations acct) d3 = (u, d4)" by (meson surj_pair)
  note r = count_all_result [OF s1] subtract_overlap_result [OF s2] Count_result [OF v] Count_result [OF u]
  note e = assms [unfolded RCStatusEvaluate_def s1 Let_def split_conv s2 v u]
  from e have d': "d' = d4" and pending: "st_pending res = fst (tally v s2)"
    and known: "st_known res \<longleftrightarrow> snd (tally v s2) \<and> u \<noteq> None" and uploaded: "st_uploaded res = (case u of None \<Rightarrow> 0 | Some k \<Rightarrow> int k)"
    by auto
  show "tables d' = tables d" using r d' by simp
  show "reliable d \<longrightarrow> st_known res" using r known by (cases v) (auto simp: tally_def)
  have "st_known res \<Longrightarrow> snd s2 \<and> v = Some (invalid_at contacts acct (tables d2)) \<and>
      u = Some (table_count ''write_operations'' (applied_operations acct) (tables d3))"
    using known r(4,7) unfolding r(3,6) invalid_at_def by (cases v) (auto simp: tally_def)
  then show "st_known res \<longrightarrow> st_pending res = (\<Sum>(table, q) \<leftarrow> status_queries acct. int (table_count table q (tables d))) -
      int (overlap_at acct (tables d)) + int (invalid_at contacts acct (tables d)) \<and>
      st_uploaded res = int (table_count ''write_operations'' (applied_operations acct) (tables d))"
    using pending uploaded r(1,2,3,6) by (simp add: tally_def overlap_at_def)
  show adv: "st_advanceSuccess res \<longleftrightarrow> \<not> stopping \<and> \<not> failed \<and> complete \<and> st_known res \<and> st_pending res = 0"
    and att: "st_attention res = st_pending res - st_uploaded res" using e by auto
  have "st_phase res = (if stopping then ''Stopping'' else if failed then ''Error''
      else if \<not> st_known res \<or> st_attention res \<noteq> 0 \<or> (\<not> complete \<and> st_uploaded res = 0) then ''Attention''
      else if st_uploaded res \<noteq> 0 then ''Uploaded'' else ''UpToDate'')" using e by auto
  then show "st_phase res = ''UpToDate'' \<longleftrightarrow> \<not> stopping \<and> \<not> failed \<and> complete \<and> st_known res \<and> st_pending res = 0 \<and> st_uploaded res = 0"
    using att by (cases stopping; cases failed; cases "st_known res"; cases "st_uploaded res = 0"; cases complete) simp_all
qed

text \<open>C35: the status never claims more than it saw. Success is advanced only when every query was answered
  and nothing of the account is left to do in any table, and then the phase is up to date;
  it is advanced whenever that is the case, the pass is complete, nothing failed and the
  library answers. A known status never counts fewer pending items than uploaded ones.
  This rests on the primary key of the attention table, one row per account and record.\<close>

theorem status_success_settled:
  assumes "RCStatusEvaluate acct contacts complete failed stopping d = (res, d')"
    and "distinct (two_way_attention (tables d))"
  shows "(st_advanceSuccess res \<longrightarrow> st_phase res = ''UpToDate'' \<and> settled contacts acct (tables d)) \<and>
    (reliable d \<and> settled contacts acct (tables d) \<and> complete \<and> \<not> failed \<and> \<not> stopping \<longrightarrow> st_advanceSuccess res) \<and>
    (st_known res \<longrightarrow> 0 \<le> st_attention res) \<and> tables d' = tables d"
proof -
  note r = evaluate_result [OF assms(1)]
  let ?t = "tables d"
  let ?c = "\<lambda>table q. table_count table q ?t"
  have o: "overlap_at acct ?t \<le> ?c ''two_way_pending_fields'' (\<lambda>t. count_rows (\<lambda>p. fst p = acct) (two_way_pending_fields t))"
    by (rule overlap_at_bounded [OF assms(2)])
  have up: "?c ''write_operations'' (applied_operations acct) \<le> ?c ''write_operations'' (open_operations acct)"
    using applied_open [of acct ?t] by (simp add: table_count_def)
  have none: "overlap_at acct ?t = 0" if "?c ''two_way_attention'' (\<lambda>t. count_rows (\<lambda>p. fst p = acct) (two_way_attention t)) = 0"
    using that by (fastforce simp: overlap_at_def table_count_def overlap_count_def count_rows_zero filter_empty_conv)
  have sums: "st_known res \<Longrightarrow> st_pending res = 0 \<longleftrightarrow> settled contacts acct ?t"
    using r(3) o none by (auto simp: settled_def status_queries_def)
  have "st_known res \<Longrightarrow> 0 \<le> st_attention res"
    using r(3,5) o up by (simp add: status_queries_def)
  moreover have "settled contacts acct ?t \<Longrightarrow> st_known res \<Longrightarrow> st_uploaded res = 0"
    using r(3) up by (auto simp: settled_def status_queries_def)
  ultimately show ?thesis using r sums by blast
qed

text \<open>The witness: an account with an empty journal, and the same account with a queued write.\<close>

definition idle_tables :: status_tables where
  "idle_tables = \<lparr>schema = [''write_operations''], accounts = [], write_bases = [], write_operations = [],
     write_resolutions = [], write_attention = [], two_way_pending_fields = [], two_way_attention = [],
     calendar_actions = [], contact_rows = [], calendar_rows = []\<rparr>"

theorem status_success_settled_witness:
  "st_advanceSuccess (fst (RCStatusEvaluate 1 True True False False (open_db idle_tables)))"
proof -
  obtain res d' where e: "RCStatusEvaluate 1 True True False False (open_db idle_tables) = (res, d')" by force
  have "reliable (open_db idle_tables)" by (simp add: reliable_def open_db_def)
  moreover have "settled True 1 (tables (open_db idle_tables))"
    by (simp add: settled_def status_queries_def table_count_def invalid_at_def open_db_def idle_tables_def open_operations_def count_rows_def)
  moreover have "distinct (two_way_attention (tables (open_db idle_tables)))" by (simp add: open_db_def idle_tables_def)
  ultimately show ?thesis using status_success_settled [OF e] e by simp
qed

end
