(* ===== verification/DAVClient.thy ===== *)
theory DAVClient
  imports HTTPSafety "HOL-Library.Sublist"
begin

text \<open>
  The DAV client of \<^verbatim>\<open>source/shared/RCDAVClient.c\<close>: multistatus documents, discovery,
  collection and resource listings, and incremental collection synchronisation. libxml2 is
  the argument \<open>lx\<close>: reading a document, the text content of a node, and the escaping of
  special characters. Its tree is the datatype \<open>xml_node\<close> with what the code reads of a node;
  a node without a namespace URL has none. Errors that a function leaves unset are the
  cleared error, because every request clears the error first.
\<close>

section \<open>Documents\<close>

datatype xml_node = XmlNode (xml_element: bool) (xml_name: string) (xml_ns: "string option")
  (xml_children: "xml_node list") (xml_value: string)

record xml_doc =
  doc_dtd :: bool
  doc_root :: "xml_node option"

record libxml =
  xml_read :: "bytes \<Rightarrow> string option \<Rightarrow> xml_doc option"
  xml_content :: "xml_node \<Rightarrow> string option"
  xml_encode :: "string \<Rightarrow> string option"

record RCDAVCollection =
  k_url :: string
  k_displayName :: "string option"
  k_description :: "string option"
  k_color :: "string option"
  k_syncToken :: "string option"
  k_supportsSync :: bool

text \<open>In a synchronisation report a missing entity tag is an explicit deletion.\<close>

record RCDAVResource =
  v_url :: string
  v_etag :: "string option"

definition kDAVNamespace :: string where "kDAVNamespace = ''DAV:''"
definition caldav_ns :: string where "caldav_ns = ''urn:ietf:params:xml:ns:caldav''"
definition ical_ns :: string where "ical_ns = ''http://apple.com/ns/ical/''"
definition xml_type :: string where "xml_type = ''application/xml; charset=utf-8''"

definition kCollectionsRequest :: string where
  \<open>kCollectionsRequest = ''<?xml version="1.0" encoding="utf-8"?>'' @
     ''<d:propfind xmlns:d="DAV:" xmlns:c="urn:ietf:params:xml:ns:caldav" '' @
     ''xmlns:a="http://apple.com/ns/ical/"><d:prop>'' @
     ''<d:resourcetype/><d:displayname/><d:sync-token/><d:supported-report-set/><c:calendar-description/>'' @
     ''<a:calendar-color/><c:supported-calendar-component-set/>'' @
     ''</d:prop></d:propfind>''\<close>

definition kInventoryRequest :: string where
  \<open>kInventoryRequest = ''<?xml version="1.0" encoding="utf-8"?>'' @
     ''<d:propfind xmlns:d="DAV:"><d:prop>'' @ ''<d:resourcetype/><d:getetag/>'' @ ''</d:prop></d:propfind>''\<close>

definition RCNodeIs :: "xml_node \<Rightarrow> string \<Rightarrow> string \<Rightarrow> bool" where
  "RCNodeIs n name ns \<longleftrightarrow> xml_element n \<and> xml_name n = name \<and> xml_ns n = Some ns"

definition RCFindChild :: "xml_node option \<Rightarrow> string \<Rightarrow> string \<Rightarrow> xml_node option" where
  "RCFindChild parent name ns = (case parent of None \<Rightarrow> None
     | Some p \<Rightarrow> find (\<lambda>n. RCNodeIs n name ns) (xml_children p))"

text \<open>The search over a list of siblings, each before its descendants.\<close>

fun find_descendant :: "string \<Rightarrow> string \<Rightarrow> xml_node list \<Rightarrow> xml_node option" where
  "find_descendant name ns [] = None"
| "find_descendant name ns (XmlNode el nm sp kids v # rest) =
     (if RCNodeIs (XmlNode el nm sp kids v) name ns then Some (XmlNode el nm sp kids v)
      else case find_descendant name ns kids of
          Some found \<Rightarrow> Some found | None \<Rightarrow> find_descendant name ns rest)"

definition RCFindDescendant :: "xml_node option \<Rightarrow> string \<Rightarrow> string \<Rightarrow> xml_node option" where
  "RCFindDescendant parent name ns = (case parent of None \<Rightarrow> None
     | Some p \<Rightarrow> find_descendant name ns (xml_children p))"

definition RCNodeText :: "libxml \<Rightarrow> xml_node option \<Rightarrow> string option" where
  "RCNodeText lx n = Option.bind n (xml_content lx)"

definition MAX_XML :: nat where "MAX_XML = 0x7fffffff"

text \<open>The root element of the document.\<close>

definition RCParseXML :: "libxml \<Rightarrow> RCHTTPResponse \<Rightarrow> xml_node res" where
  "RCParseXML lx response =
     (if bodyLength response > MAX_XML then Inl (RCErrorSet 1 ''DAV XML response is too large'')
      else case xml_read lx (bytes_of (rs_body response)) (rs_effectiveURL response) of
          None \<Rightarrow> Inl (RCErrorSet 1 ''Could not parse DAV XML response'')
        | Some doc \<Rightarrow>
            if doc_dtd doc then Inl (RCErrorSet 1 ''DAV XML must not contain a DTD'')
            else (case doc_root doc of
                None \<Rightarrow> Inl (RCErrorSet 1 ''DAV response is not a multistatus document'')
              | Some root \<Rightarrow>
                  if \<not> RCNodeIs root ''multistatus'' kDAVNamespace
                  then Inl (RCErrorSet 1 ''DAV response is not a multistatus document'') else Inr root))"

definition RCRequireMultiStatus :: "RCHTTPResponse \<Rightarrow> string \<Rightarrow> unit res" where
  "RCRequireMultiStatus response operation =
     (if rs_statusCode response \<noteq> 207
      then Inl (RCErrorSet (column_int (rs_statusCode response))
             (operation @ '' returned HTTP '' @ show_int (rs_statusCode response)))
      else Inr ())"

definition RCPropertyStatusIsSuccessful :: "libxml \<Rightarrow> xml_node \<Rightarrow> bool" where
  "RCPropertyStatusIsSuccessful lx propstat =
     (case RCNodeText lx (RCFindChild (Some propstat) ''status'' kDAVNamespace) of
        None \<Rightarrow> False | Some status \<Rightarrow> sublist '' 200 '' status)"

fun successful_property :: "libxml \<Rightarrow> string \<Rightarrow> string \<Rightarrow> xml_node list \<Rightarrow> xml_node option" where
  "successful_property lx name ns [] = None"
| "successful_property lx name ns (propstat # rest) =
     (if \<not> RCNodeIs propstat ''propstat'' kDAVNamespace \<or> \<not> RCPropertyStatusIsSuccessful lx propstat
      then successful_property lx name ns rest
      else case RCFindChild (RCFindChild (Some propstat) ''prop'' kDAVNamespace) name ns of
          Some found \<Rightarrow> Some found | None \<Rightarrow> successful_property lx name ns rest)"

definition RCSuccessfulProperty :: "libxml \<Rightarrow> xml_node \<Rightarrow> string \<Rightarrow> string \<Rightarrow> xml_node option" where
  "RCSuccessfulProperty lx responseNode name ns = successful_property lx name ns (xml_children responseNode)"

text \<open>The URL the response came from, which a successful request always sets.\<close>

definition effective :: "RCHTTPResponse \<Rightarrow> string" where
  "effective response = (case rs_effectiveURL response of None \<Rightarrow> [] | Some u \<Rightarrow> u)"

section \<open>Discovery and listings\<close>

text \<open>A multistatus request: its response and the root of its document.\<close>

definition multistatus ::
  "libxml \<Rightarrow> ('l::len word, 'w) curl \<Rightarrow> 'l word RCHTTPClient \<Rightarrow> string \<Rightarrow> string \<Rightarrow> string \<Rightarrow> string \<Rightarrow> string \<Rightarrow> 'w \<Rightarrow>
   (string \<times> xml_node) res \<times> 'w" where
  "multistatus lx cu client operation method url depth request w =
     (case RCHTTPClientRequest cu client method url (Some depth) (Some xml_type) (Some request) (length request) w of
        (Inl e, w) \<Rightarrow> (Inl e, w)
      | (Inr response, w) \<Rightarrow>
          (case RCRequireMultiStatus response operation of Inl e \<Rightarrow> (Inl e, w)
           | Inr _ \<Rightarrow> (case RCParseXML lx response of Inl e \<Rightarrow> (Inl e, w)
               | Inr root \<Rightarrow> (Inr (effective response, root), w))))"

fun first_property :: "libxml \<Rightarrow> string \<Rightarrow> string \<Rightarrow> xml_node list \<Rightarrow> xml_node option" where
  "first_property lx name ns [] = None"
| "first_property lx name ns (node # rest) =
     (if \<not> RCNodeIs node ''response'' kDAVNamespace then first_property lx name ns rest
      else case RCSuccessfulProperty lx node name ns of
          Some found \<Rightarrow> Some found | None \<Rightarrow> first_property lx name ns rest)"

definition RCDAVDiscoverHref ::
  "libxml \<Rightarrow> ('l::len word, 'w) curl \<Rightarrow> 'l word RCHTTPClient \<Rightarrow> string \<Rightarrow> string \<Rightarrow> string \<Rightarrow> string \<Rightarrow> 'w \<Rightarrow> string res \<times> 'w" where
  "RCDAVDiscoverHref lx cu client url requestBody propertyName propertyNamespace w =
     chain (multistatus lx cu client ''DAV discovery'' ''PROPFIND'' url ''0'' requestBody w) (\<lambda>(base, root) w.
       (case RCNodeText lx (RCFindDescendant (first_property lx propertyName propertyNamespace (xml_children root))
               ''href'' kDAVNamespace) of
          None \<Rightarrow> Inl (RCErrorSet 1 (''DAV discovery response omitted '' @ propertyName))
        | Some hrefText \<Rightarrow> RCURLResolve cu base hrefText, w))"

definition nonempty :: "string option \<Rightarrow> string option" where
  "nonempty s = (if empty_text s then None else s)"

definition read_collection :: "libxml \<Rightarrow> xml_node \<Rightarrow> string \<Rightarrow> RCDAVCollection" where
  "read_collection lx node url =
     (let token = nonempty (RCNodeText lx (RCSuccessfulProperty lx node ''sync-token'' kDAVNamespace)) in
      \<lparr>k_url = url,
       k_displayName = RCNodeText lx (RCSuccessfulProperty lx node ''displayname'' kDAVNamespace),
       k_description = RCNodeText lx (RCSuccessfulProperty lx node ''calendar-description'' caldav_ns),
       k_color = RCNodeText lx (RCSuccessfulProperty lx node ''calendar-color'' ical_ns),
       k_syncToken = token,
       k_supportsSync = (token \<noteq> None \<or>
         RCFindDescendant (RCSuccessfulProperty lx node ''supported-report-set'' kDAVNamespace)
           ''sync-collection'' kDAVNamespace \<noteq> None)\<rparr>)"

fun list_collections ::
  "libxml \<Rightarrow> ('l::len word, 'w) curl \<Rightarrow> string \<Rightarrow> string \<Rightarrow> string \<Rightarrow> xml_node list \<Rightarrow> RCDAVCollection list \<Rightarrow> RCDAVCollection list res" where
  "list_collections lx cu base type ns [] acc = Inr acc"
| "list_collections lx cu base type ns (node # rest) acc =
     (if \<not> RCNodeIs node ''response'' kDAVNamespace then list_collections lx cu base type ns rest acc
      else case RCSuccessfulProperty lx node ''resourcetype'' kDAVNamespace of
          None \<Rightarrow> Inl (RCErrorSet 1 ''Collection listing omitted a successful resource type'')
        | Some resourceType \<Rightarrow>
            if RCFindChild (Some resourceType) type ns = None then list_collections lx cu base type ns rest acc
            else case RCNodeText lx (RCFindChild (Some node) ''href'' kDAVNamespace) of
                None \<Rightarrow> Inl RCErrorClear
              | Some hrefText \<Rightarrow>
                  (case RCURLResolve cu base hrefText of Inl e \<Rightarrow> Inl e
                   | Inr url \<Rightarrow> list_collections lx cu base type ns rest (acc @ [read_collection lx node url])))"

definition RCDAVListCollections ::
  "libxml \<Rightarrow> ('l::len word, 'w) curl \<Rightarrow> 'l word RCHTTPClient \<Rightarrow> string \<Rightarrow> string \<Rightarrow> string \<Rightarrow> 'w \<Rightarrow> RCDAVCollection list res \<times> 'w" where
  "RCDAVListCollections lx cu client homeURL type typeNamespace w =
     chain (multistatus lx cu client ''Collection listing'' ''PROPFIND'' homeURL ''1'' kCollectionsRequest w)
       (\<lambda>(base, root) w. (list_collections lx cu base type typeNamespace (xml_children root) [], w))"

fun list_resources ::
  "libxml \<Rightarrow> ('l::len word, 'w) curl \<Rightarrow> string \<Rightarrow> xml_node list \<Rightarrow> RCDAVResource list \<Rightarrow> RCDAVResource list res" where
  "list_resources lx cu base [] acc = Inr acc"
| "list_resources lx cu base (node # rest) acc =
     (if \<not> RCNodeIs node ''response'' kDAVNamespace then list_resources lx cu base rest acc
      else if RCFindChild (Some node) ''status'' kDAVNamespace \<noteq> None \<and> \<not> RCPropertyStatusIsSuccessful lx node
      then Inl (RCErrorSet 1 ''DAV inventory contains an unsuccessful resource response'')
      else if RCFindChild (RCSuccessfulProperty lx node ''resourcetype'' kDAVNamespace) ''collection'' kDAVNamespace \<noteq> None
      then list_resources lx cu base rest acc
      else case (RCNodeText lx (RCFindChild (Some node) ''href'' kDAVNamespace),
                 RCNodeText lx (RCSuccessfulProperty lx node ''getetag'' kDAVNamespace)) of
          (Some hrefText, Some etag) \<Rightarrow>
            (case RCURLResolve cu base hrefText of Inl e \<Rightarrow> Inl e
             | Inr url \<Rightarrow> list_resources lx cu base rest (acc @ [\<lparr>v_url = url, v_etag = Some etag\<rparr>]))
        | _ \<Rightarrow> Inl RCErrorClear)"

definition RCListResources ::
  "libxml \<Rightarrow> ('l::len word, 'w) curl \<Rightarrow> 'l word RCHTTPClient \<Rightarrow> string \<Rightarrow> string \<Rightarrow> string \<Rightarrow> 'w \<Rightarrow> RCDAVResource list res \<times> 'w" where
  "RCListResources lx cu client collectionURL method request w =
     chain (multistatus lx cu client ''Resource inventory'' method collectionURL ''1'' request w) (\<lambda>(base, root) w.
       (if RCFindDescendant (Some root) ''error'' kDAVNamespace \<noteq> None
        then Inl (RCErrorSet 1 ''DAV inventory contains an error or truncated result'')
        else list_resources lx cu base (xml_children root) [], w))"

definition RCDAVListResources ::
  "libxml \<Rightarrow> ('l::len word, 'w) curl \<Rightarrow> 'l word RCHTTPClient \<Rightarrow> string \<Rightarrow> 'w \<Rightarrow> RCDAVResource list res \<times> 'w" where
  "RCDAVListResources lx cu client url w = RCListResources lx cu client url ''PROPFIND'' kInventoryRequest w"

definition digit :: "char \<Rightarrow> bool" where
  "digit c \<longleftrightarrow> c \<in> set ''0123456789''"

definition valid_start :: "string option \<Rightarrow> bool" where
  "valid_start start = (case start of None \<Rightarrow> False | Some s \<Rightarrow>
     length s = 16 \<and> s ! 8 = CHR ''T'' \<and> s ! 15 = CHR ''Z'' \<and> (\<forall>i \<in> {0..<15}. i \<noteq> 8 \<longrightarrow> digit (s ! i)))"

definition since_request :: "string \<Rightarrow> string" where
  \<open>since_request start = take 511 (''<?xml version="1.0" encoding="utf-8"?>'' @
     ''<c:calendar-query xmlns:d="DAV:" xmlns:c="urn:ietf:params:xml:ns:caldav">'' @
     ''<d:prop><d:getetag/></d:prop><c:filter>'' @
     ''<c:comp-filter name="VCALENDAR"><c:comp-filter name="VEVENT">'' @
     ''<c:time-range start="'' @ start @ ''"/>'' @
     ''</c:comp-filter></c:comp-filter></c:filter></c:calendar-query>'')\<close>

definition RCDAVListCalendarResourcesSince ::
  "libxml \<Rightarrow> ('l::len word, 'w) curl \<Rightarrow> 'l word RCHTTPClient \<Rightarrow> string \<Rightarrow> string option \<Rightarrow> 'w \<Rightarrow> RCDAVResource list res \<times> 'w" where
  "RCDAVListCalendarResourcesSince lx cu client url start w =
     (if \<not> valid_start start then (Inl (RCErrorSet 1 ''Calendar history start must be a UTC date-time''), w)
      else RCListResources lx cu client url ''REPORT'' (since_request (the start)) w)"

section \<open>Collection synchronisation\<close>

definition RCIsSyncCollectionURL :: "string \<Rightarrow> string \<Rightarrow> bool" where
  "RCIsSyncCollectionURL href collectionURL =
     (let trim = (\<lambda>s. if s \<noteq> [] \<and> last s = CHR ''/'' then butlast s else s) in
      if href = collectionURL then True
      else if CHR ''?'' \<in> set href \<or> CHR ''#'' \<in> set href \<or> CHR ''?'' \<in> set collectionURL \<or> CHR ''#'' \<in> set collectionURL
      then False else trim href = trim collectionURL)"

text \<open>
  \<open>sscanf(status, "HTTP/%*s %d", &code)\<close> with \<open>code\<close> zero before. A number that does not fit an
  \<open>int\<close> is undefined in C; here it is the number.
\<close>

definition space :: "char \<Rightarrow> bool" where
  "space c \<longleftrightarrow> c \<in> {CHR 0x20, CHR 0x09, CHR 0x0a, CHR 0x0b, CHR 0x0c, CHR 0x0d}"

definition digits_value :: "string \<Rightarrow> int" where
  "digits_value s = foldl (\<lambda>n c. 10 * n + (of_char c - 48)) 0 s"

definition scan_int :: "string \<Rightarrow> int option" where
  "scan_int s = (let s = dropWhile space s;
       negative = (s \<noteq> [] \<and> hd s = CHR ''-'');
       s = (if s \<noteq> [] \<and> hd s \<in> {CHR ''-'', CHR ''+''} then tl s else s);
       ds = takeWhile digit s in
     if ds = [] then None else Some (if negative then - digits_value ds else digits_value ds))"

definition scan_status :: "string \<Rightarrow> int" where
  "scan_status status = (let s = dropWhile space (drop 5 status) in
     if take 5 status \<noteq> ''HTTP/'' \<or> s = [] then 0
     else case scan_int (dropWhile (\<lambda>c. \<not> space c) s) of None \<Rightarrow> 0 | Some n \<Rightarrow> n)"

definition MAX_TOKEN :: nat where "MAX_TOKEN = 16384"
definition MAX_PAGES :: nat where "MAX_PAGES = 1024"

definition sync_request :: "string \<Rightarrow> string" where
  \<open>sync_request escaped = ''<?xml version="1.0" encoding="utf-8"?>'' @
     ''<d:sync-collection xmlns:d="DAV:"><d:sync-token>'' @ escaped @ ''</d:sync-token>'' @
     ''<d:sync-level>1</d:sync-level><d:limit><d:nresults>200</d:nresults></d:limit>'' @
     ''<d:prop><d:getetag/></d:prop></d:sync-collection>''\<close>

text \<open>What has been read of a page.\<close>

record sync_page =
  pg_more :: bool
  pg_tokenNodes :: nat
  pg_returned :: "string option"
  pg_changes :: "RCDAVResource list"

definition empty_page :: sync_page where
  "empty_page = \<lparr>pg_more = False, pg_tokenNodes = 0, pg_returned = None, pg_changes = []\<rparr>"

text \<open>
  A \<open>response\<close> element whose href has been resolved: a continuation mark, the properties of the
  collection itself, a deletion, or a change.
\<close>

definition sync_response :: "libxml \<Rightarrow> string \<Rightarrow> xml_node \<Rightarrow> string \<Rightarrow> sync_page \<Rightarrow> sync_page option" where
  "sync_response lx base node resolved page =
     (let status = RCNodeText lx (RCFindChild (Some node) ''status'' kDAVNamespace);
          code = (case status of None \<Rightarrow> 0 | Some s \<Rightarrow> scan_status s);
          isCollection = RCIsSyncCollectionURL resolved base;
          propstat = (RCFindChild (Some node) ''propstat'' kDAVNamespace \<noteq> None);
          failed = (RCFindDescendant (Some node) ''error'' kDAVNamespace \<noteq> None);
          getetag = RCSuccessfulProperty lx node ''getetag'' kDAVNamespace in
      if code = 507 \<and> isCollection \<and> \<not> pg_more page \<and> \<not> propstat then Some (page\<lparr>pg_more := True\<rparr>)
      else if isCollection \<and> status = None \<and> \<not> failed \<and> getetag \<noteq> None then Some page
      else if (status \<noteq> None \<and> (code \<noteq> 404 \<or> propstat)) \<or> isCollection \<or> failed then None
      else let etag = (if code = 404 then None else RCNodeText lx getetag) in
        if code \<noteq> 404 \<and> empty_text etag then None
        else if resolved \<in> v_url ` set (pg_changes page) then None
        else Some (page\<lparr>pg_changes := pg_changes page @ [\<lparr>v_url = resolved, v_etag = etag\<rparr>]\<rparr>))"

definition sync_node ::
  "libxml \<Rightarrow> ('l::len word, 'w) curl \<Rightarrow> string \<Rightarrow> xml_node \<Rightarrow> sync_page \<Rightarrow> sync_page res" where
  "sync_node lx cu base node page =
     (if RCNodeIs node ''sync-token'' kDAVNamespace then
        (if pg_tokenNodes page \<noteq> 0 then Inl RCErrorClear
         else Inr (page\<lparr>pg_tokenNodes := pg_tokenNodes page + 1, pg_returned := RCNodeText lx (Some node)\<rparr>))
      else if RCNodeIs node ''error'' kDAVNamespace then Inl RCErrorClear
      else if \<not> RCNodeIs node ''response'' kDAVNamespace then Inr page
      else case nonempty (RCNodeText lx (RCFindChild (Some node) ''href'' kDAVNamespace)) of
          None \<Rightarrow> Inl RCErrorClear
        | Some href \<Rightarrow>
            (case RCURLResolve cu base href of Inl e \<Rightarrow> Inl e
             | Inr resolved \<Rightarrow>
                 (case sync_response lx base node resolved page of
                    None \<Rightarrow> Inl RCErrorClear | Some page \<Rightarrow> Inr page)))"

fun sync_nodes ::
  "libxml \<Rightarrow> ('l::len word, 'w) curl \<Rightarrow> string \<Rightarrow> xml_node list \<Rightarrow> sync_page \<Rightarrow> sync_page res" where
  "sync_nodes lx cu base [] page = Inr page"
| "sync_nodes lx cu base (node # rest) page =
     (case sync_node lx cu base node page of Inl e \<Rightarrow> Inl e | Inr page \<Rightarrow> sync_nodes lx cu base rest page)"

definition page_ok :: "string list \<Rightarrow> sync_page \<Rightarrow> bool" where
  "page_ok tokens page \<longleftrightarrow> pg_tokenNodes page = 1 \<and> \<not> empty_text (pg_returned page) \<and>
     length (the (pg_returned page)) \<le> MAX_TOKEN \<and> \<not> (pg_more page \<and> pg_changes page = []) \<and>
     ((pg_more page \<or> pg_changes page \<noteq> []) \<longrightarrow> the (pg_returned page) \<notin> set tokens)"

datatype sync_status = RCDAVSyncFailed | RCDAVSyncComplete string | RCDAVSyncFallback

definition sync_error :: "RCError \<Rightarrow> RCError" where
  "sync_error e = (if err_code e = 0
     then RCErrorSet 1 ''Incomplete, invalid, or excessive DAV sync response'' else e)"

text \<open>The document of a page: the page it holds, the request to start over, or a failure.\<close>

definition sync_document ::
  "libxml \<Rightarrow> ('l::len word, 'w) curl \<Rightarrow> RCHTTPResponse \<Rightarrow> (sync_page option) res" where
  "sync_document lx cu response =
     (let status = rs_statusCode response in
      if status = 405 \<or> status = 501 then Inr None
      else if bodyLength response > MAX_XML then Inl RCErrorClear
      else case xml_read lx (bytes_of (rs_body response)) (rs_effectiveURL response) of
          None \<Rightarrow> Inl RCErrorClear
        | Some doc \<Rightarrow>
            (case doc_root doc of None \<Rightarrow> Inl RCErrorClear
             | Some root \<Rightarrow>
                if doc_dtd doc then Inl RCErrorClear
                else if RCNodeIs root ''error'' kDAVNamespace then
                  (if ((status = 403 \<or> status = 409) \<and>
                        (RCFindChild (Some root) ''valid-sync-token'' kDAVNamespace \<noteq> None \<or>
                         RCFindChild (Some root) ''supported-report'' kDAVNamespace \<noteq> None)) \<or>
                      (status = 507 \<and> RCFindChild (Some root) ''number-of-matches-within-limits'' kDAVNamespace \<noteq> None)
                   then Inr None else Inl RCErrorClear)
                else if status \<noteq> 207 \<or> \<not> RCNodeIs root ''multistatus'' kDAVNamespace then Inl RCErrorClear
                else map_sum id Some (sync_nodes lx cu (effective response) (xml_children root) empty_page)))"

type_synonym ('c, 'w) RCDAVSyncCallback = "RCDAVResource list \<Rightarrow> 'c \<times> 'w \<Rightarrow> unit res \<times> 'c \<times> 'w"

definition run_callback ::
  "('c, 'w) RCDAVSyncCallback option \<Rightarrow> RCDAVResource list \<Rightarrow> 'c \<times> 'w \<Rightarrow> unit res \<times> 'c \<times> 'w" where
  "run_callback callback changes s = (case callback of None \<Rightarrow> (Inr (), s) | Some f \<Rightarrow> f changes s)"

text \<open>
  The loop over the pages, with the tokens sent so far, the newest last. The state is the
  callback's context and the world of the HTTP client.
\<close>

fun sync_pages ::
  "libxml \<Rightarrow> ('l::len word, 'w) curl \<Rightarrow> 'l word RCHTTPClient \<Rightarrow> string \<Rightarrow> ('c, 'w) RCDAVSyncCallback option \<Rightarrow>
   nat \<Rightarrow> string list \<Rightarrow> 'c \<times> 'w \<Rightarrow> (sync_status \<times> RCError) \<times> 'c \<times> 'w" where
  "sync_pages lx cu client url callback 0 tokens s = ((RCDAVSyncFailed, RCErrorClear), s)"
| "sync_pages lx cu client url callback (Suc left) tokens s =
     (case RCCheckCancellation (stop cu (snd s)) of Some e \<Rightarrow> ((RCDAVSyncFailed, e), s)
      | None \<Rightarrow>
        if length (last tokens) > MAX_TOKEN then ((RCDAVSyncFailed, RCErrorClear), s)
        else case xml_encode lx (last tokens) of None \<Rightarrow> ((RCDAVSyncFailed, RCErrorClear), s)
          | Some escaped \<Rightarrow>
            (case RCHTTPClientRequest cu client ''REPORT'' url (Some ''0'') (Some xml_type)
                    (Some (sync_request escaped)) (length (sync_request escaped)) (snd s) of
               (Inl e, w) \<Rightarrow> ((RCDAVSyncFailed, e), fst s, w)
             | (Inr response, w) \<Rightarrow>
                 (case sync_document lx cu response of
                    Inl e \<Rightarrow> ((RCDAVSyncFailed, e), fst s, w)
                  | Inr None \<Rightarrow> ((RCDAVSyncFallback, RCErrorClear), fst s, w)
                  | Inr (Some page) \<Rightarrow>
                      if \<not> page_ok tokens page then ((RCDAVSyncFailed, RCErrorClear), fst s, w)
                      else (case run_callback callback (pg_changes page) (fst s, w) of
                          (Inl e, s) \<Rightarrow> ((RCDAVSyncFailed, e), s)
                        | (Inr _, s) \<Rightarrow>
                            if \<not> pg_more page then ((RCDAVSyncComplete (the (pg_returned page)), RCErrorClear), s)
                            else sync_pages lx cu client url callback left (tokens @ [the (pg_returned page)]) s))))"

definition RCDAVSyncCollection ::
  "libxml \<Rightarrow> ('l::len word, 'w) curl \<Rightarrow> 'l word RCHTTPClient \<Rightarrow> string \<Rightarrow> string option \<Rightarrow> ('c, 'w) RCDAVSyncCallback option \<Rightarrow>
   'c \<times> 'w \<Rightarrow> (sync_status \<times> RCError) \<times> 'c \<times> 'w" where
  "RCDAVSyncCollection lx cu client url token callback s =
     (let ((status, e), s) = sync_pages lx cu client url callback MAX_PAGES
            [case token of None \<Rightarrow> [] | Some t \<Rightarrow> t] s in
      ((status, if status = RCDAVSyncFailed then sync_error e else e), s))"

end
