(* ===== verification/DAVClientContract.thy ===== *)
theory DAVClientContract
  imports DAVClient
begin

text \<open>
  What the callers of the DAV client rely on: its requests only read, an inventory is complete
  or refused, and an incremental synchronisation delivers well-formed pages and a token only
  when every page was accepted.
\<close>

section \<open>Read-only transfers\<close>

definition reads :: "('s, 'w) curl \<Rightarrow> 's RCHTTPClient \<Rightarrow> curl_option list list \<Rightarrow> curl_option list list \<Rightarrow> bool" where
  "reads cu client log log' \<longleftrightarrow>
     (\<exists>new. log' = log @ new \<and> (\<forall>opts \<in> set new. confined cu client opts \<and> \<not> mutates opts))"

lemma reads_refl [simp, intro]: "reads cu client log log"
  by (simp add: reads_def)

lemma reads_trans [trans]: "reads cu client a b \<Longrightarrow> reads cu client b c \<Longrightarrow> reads cu client a c"
  unfolding reads_def by (elim exE conjE) auto

text \<open>A state transformer that only reads: the world is the pair with the list of transfers.\<close>

lemma plain_reads:
  assumes "RCHTTPClientRequest (logged cu) client mth url depth contentType body len (w, log) = (r, w', log')"
  shows "reads cu client log log'"
proof (cases "mutation mth")
  case True
  with assms show ?thesis by (auto simp: RCHTTPClientRequest_def mutation_def)
next
  case False
  then have "RCRequest (logged cu) client mth url depth contentType body len None False None (w, log) = (r, w', log')"
    using assms by (simp add: RCHTTPClientRequest_def mutation_def)
  from loop_outcome_new [OF RCRequest_outcome [OF this]] False show ?thesis
    by (auto simp: reads_def mutates_def mutation_def)
qed

lemma multistatus_reads:
  assumes "multistatus lx (logged cu) client operation mth url depth request (w, log) = (r, w', log')"
  shows "reads cu client log log'"
  using assms
  by (auto simp: multistatus_def split: prod.splits sum.splits dest: plain_reads)

lemma discover_reads:
  assumes "RCDAVDiscoverHref lx (logged cu) client url body name ns (w, log) = (r, w', log')"
  shows "reads cu client log log'"
  using assms unfolding RCDAVDiscoverHref_def
  by (cases rule: chain_cases) (auto dest: multistatus_reads)

lemma collections_reads:
  assumes "RCDAVListCollections lx (logged cu) client url type ns (w, log) = (r, w', log')"
  shows "reads cu client log log'"
  using assms unfolding RCDAVListCollections_def
  by (cases rule: chain_cases) (auto dest: multistatus_reads)

lemma resources_reads:
  assumes "RCListResources lx (logged cu) client url mth request (w, log) = (r, w', log')"
  shows "reads cu client log log'"
  using assms unfolding RCListResources_def
  by (cases rule: chain_cases) (auto dest: multistatus_reads split: if_splits)

section \<open>One page of a synchronisation\<close>

text \<open>The request of a page and the page it returned.\<close>

definition fetched where
  "fetched lx cu client url tokens w page w1 \<longleftrightarrow>
     (\<exists>request response. RCHTTPClientRequest cu client ''REPORT'' url (Some ''0'') (Some xml_type) (Some request)
        (length request) w = (Inr response, w1) \<and> sync_document lx cu response = Inr (Some page) \<and> page_ok tokens page)"

lemma sync_pages_step:
  assumes "sync_pages lx cu client url callback (Suc n) tokens (c, w) = ((status, e), c', w')"
  obtains (quiet) "c' = c" "w' = w" "status = RCDAVSyncFailed"
  | (request) request r where "RCHTTPClientRequest cu client ''REPORT'' url (Some ''0'') (Some xml_type) (Some request)
        (length request) w = (r, w')" "c' = c" "status = RCDAVSyncFailed \<or> status = RCDAVSyncFallback"
  | (failed) page w1 x where "fetched lx cu client url tokens w page w1"
      "run_callback callback (pg_changes page) (c, w1) = (Inl x, c', w')" "status = RCDAVSyncFailed"
  | (final) page w1 u where "fetched lx cu client url tokens w page w1"
      "run_callback callback (pg_changes page) (c, w1) = (Inr u, c', w')" "\<not> pg_more page"
      "status = RCDAVSyncComplete (the (pg_returned page))"
  | (continue) page w1 u c2 w2 where "fetched lx cu client url tokens w page w1"
      "run_callback callback (pg_changes page) (c, w1) = (Inr u, c2, w2)" "pg_more page"
      "sync_pages lx cu client url callback n (tokens @ [the (pg_returned page)]) (c2, w2) = ((status, e), c', w')"
proof (cases "RCCheckCancellation (stop cu w) \<noteq> None \<or> length (last tokens) > MAX_TOKEN \<or> xml_encode lx (last tokens) = None")
  case True
  with assms have "c' = c \<and> w' = w \<and> status = RCDAVSyncFailed" by (auto split: option.splits)
  with quiet show ?thesis by blast
next
  case False
  then obtain escaped where ok: "RCCheckCancellation (stop cu w) = None" "\<not> length (last tokens) > MAX_TOKEN"
    "xml_encode lx (last tokens) = Some escaped" by auto
  let ?req = "sync_request escaped"
  obtain r w1 where q: "RCHTTPClientRequest cu client ''REPORT'' url (Some ''0'') (Some xml_type) (Some ?req) (length ?req) w = (r, w1)"
    by (meson surj_pair)
  show ?thesis
  proof (cases "\<exists>response page. r = Inr response \<and> sync_document lx cu response = Inr (Some page) \<and> page_ok tokens page")
    case False
    with assms ok q have "c' = c \<and> w' = w1 \<and> (status = RCDAVSyncFailed \<or> status = RCDAVSyncFallback)"
      by (auto split: sum.splits option.splits if_splits)
    with request q show ?thesis by blast
  next
    case True
    then obtain response page where p: "r = Inr response" "sync_document lx cu response = Inr (Some page)" "page_ok tokens page" by blast
    with q have f: "fetched lx cu client url tokens w page w1" by (auto simp: fetched_def)
    obtain x c2 w2 where cb: "run_callback callback (pg_changes page) (c, w1) = (x, c2, w2)" by (metis prod_cases3)
    show ?thesis
    proof (cases x)
      case (Inl e1)
      with assms ok q p cb have "c' = c2 \<and> w' = w2 \<and> status = RCDAVSyncFailed" by simp
      with failed f cb Inl show ?thesis by blast
    next
      case (Inr u)
      show ?thesis
      proof (cases "pg_more page")
        case True
        with assms ok q p cb Inr
        have "sync_pages lx cu client url callback n (tokens @ [the (pg_returned page)]) (c2, w2) = ((status, e), c', w')" by simp
        with continue f cb Inr True show ?thesis by blast
      next
        case False
        with assms ok q p cb Inr have "c' = c2 \<and> w' = w2 \<and> status = RCDAVSyncComplete (the (pg_returned page))" by simp
        with final f cb Inr False show ?thesis by blast
      qed
    qed
  qed
qed

definition reading_callback where
  "reading_callback cu client callback \<longleftrightarrow>
     (\<forall>page c w log r c' w' log'. run_callback callback page (c, w, log) = (r, c', w', log') \<longrightarrow> reads cu client log log')"

lemma fetched_reads: "fetched lx (logged cu) client url tokens (w, log) page (w1, log1) \<Longrightarrow> reads cu client log log1"
  by (auto simp: fetched_def dest: plain_reads)

lemma sync_pages_reads:
  assumes "reading_callback cu client callback"
    and "sync_pages lx (logged cu) client url callback n tokens (c, w, log) = (st, c', w', log')"
  shows "reads cu client log log'"
  using assms(2)
proof (induction n arbitrary: tokens c w log)
  case (Suc n)
  obtain status e where st: "st = (status, e)" by (cases st)
  have cb_reads: "reads cu client log1 log2" if "run_callback callback page (c, w1, log1) = (r, c2, w2, log2)" for page c w1 log1 r c2 w2 log2
    using assms(1) that unfolding reading_callback_def by blast
  show ?case using Suc.prems [unfolded st]
  proof (cases rule: sync_pages_step)
    case quiet
    then show ?thesis by simp
  next
    case (request request r)
    then show ?thesis by (auto dest: plain_reads)
  next
    case (failed page w1 x)
    then show ?thesis by (cases w1) (auto dest: fetched_reads cb_reads intro: reads_trans)
  next
    case (final page w1 u)
    then show ?thesis by (cases w1) (auto dest: fetched_reads cb_reads intro: reads_trans)
  next
    case (continue page w1 u c2 w2)
    obtain w1a log1 w2a log2 where w: "w1 = (w1a, log1)" "w2 = (w2a, log2)" by (cases w1; cases w2)
    from continue have "reads cu client log log1" "reads cu client log1 log2" "reads cu client log2 log'"
      unfolding w using Suc.IH st by (auto dest: fetched_reads cb_reads)
    then show ?thesis by (blast intro: reads_trans)
  qed
qed simp

text \<open>A call of one of the exported functions, with callbacks that only read.\<close>

inductive dav_call ::
  "('l::len word, 'w) curl \<Rightarrow> 'l word RCHTTPClient \<Rightarrow> 'w \<times> curl_option list list \<Rightarrow> 'w \<times> curl_option list list \<Rightarrow> bool"
  for cu client where
  discover: "RCDAVDiscoverHref lx (logged cu) client url body name ns w = (r, w') \<Longrightarrow> dav_call cu client w w'"
| collections: "RCDAVListCollections lx (logged cu) client url type ns w = (r, w') \<Longrightarrow> dav_call cu client w w'"
| resources: "RCDAVListResources lx (logged cu) client url w = (r, w') \<Longrightarrow> dav_call cu client w w'"
| since: "RCDAVListCalendarResourcesSince lx (logged cu) client url start w = (r, w') \<Longrightarrow> dav_call cu client w w'"
| sync: "RCDAVSyncCollection lx (logged cu) client url token callback (c, w) = (r, c', w') \<Longrightarrow>
    reading_callback cu client (callback :: ('c, 'w \<times> curl_option list list) RCDAVSyncCallback option) \<Longrightarrow> dav_call cu client w w'"

lemma sync_collection_reads:
  assumes "reading_callback cu client callback"
    and "RCDAVSyncCollection lx (logged cu) client url token callback (c, w, log) = (r, c', w', log')"
  shows "reads cu client log log'"
  using assms(2) sync_pages_reads [OF assms(1)]
  by (auto simp: RCDAVSyncCollection_def Let_def split: prod.splits)

text \<open>The DAV client never changes the server. Whatever is discovered, listed or synchronised and whatever
  the server answers, every transfer is confined to verified HTTPS on an allowed host and
  none of them is a mutation.\<close>

lemma dav_client_reads_only:
  assumes "dav_call TYPE('c) cu client (w, log) (w', log')"
  shows "\<exists>new. log' = log @ new \<and> (\<forall>opts \<in> set new. confined cu client opts \<and> \<not> mutates opts)"
proof -
  from assms have "reads cu client log log'"
  proof cases
    case (discover lx url body name ns r)
    then show ?thesis by (rule discover_reads)
  next
    case (collections lx url type ns r)
    then show ?thesis by (rule collections_reads)
  next
    case (resources lx url r)
    then show ?thesis by (auto simp: RCDAVListResources_def dest: resources_reads)
  next
    case (since lx url start r)
    then show ?thesis by (auto simp: RCDAVListCalendarResourcesSince_def split: if_splits dest: resources_reads)
  next
    case (sync lx url token callback c r c')
    then show ?thesis by (blast dest: sync_collection_reads)
  qed
  then show ?thesis by (simp add: reads_def)
qed

section \<open>Accepted pages\<close>
















section \<open>Complete inventories\<close>

text \<open>The nodes below a list of siblings, the siblings included.\<close>

fun subtree :: "xml_node list \<Rightarrow> xml_node list" where
  "subtree [] = []"
| "subtree (XmlNode el nm sp kids v # rest) = XmlNode el nm sp kids v # subtree kids @ subtree rest"

lemma find_descendant_None:
  "find_descendant name ns nodes = None \<longleftrightarrow> (\<forall>n \<in> set (subtree nodes). \<not> RCNodeIs n name ns)"
  by (induction name ns nodes rule: find_descendant.induct) (auto split: option.splits)

text \<open>The \<open>response\<close> elements that are members, not collections.\<close>

definition member :: "libxml \<Rightarrow> xml_node \<Rightarrow> bool" where
  "member lx node \<longleftrightarrow> RCNodeIs node ''response'' kDAVNamespace \<and>
     RCFindChild (RCSuccessfulProperty lx node ''resourcetype'' kDAVNamespace) ''collection'' kDAVNamespace = None"

definition describes :: "libxml \<Rightarrow> ('l::len word, 'w) curl \<Rightarrow> string \<Rightarrow> xml_node \<Rightarrow> RCDAVResource \<Rightarrow> bool" where
  "describes lx cu base node r \<longleftrightarrow>
     (\<exists>href. RCNodeText lx (RCFindChild (Some node) ''href'' kDAVNamespace) = Some href \<and>
        RCURLResolve cu base href = Inr (v_url r)) \<and>
     v_etag r = RCNodeText lx (RCSuccessfulProperty lx node ''getetag'' kDAVNamespace) \<and> v_etag r \<noteq> None"

definition node_failed :: "libxml \<Rightarrow> xml_node \<Rightarrow> bool" where
  "node_failed lx node \<longleftrightarrow> RCNodeIs node ''response'' kDAVNamespace \<and>
     RCFindChild (Some node) ''status'' kDAVNamespace \<noteq> None \<and> \<not> RCPropertyStatusIsSuccessful lx node"

lemma list_resources_complete:
  assumes "list_resources lx cu base nodes acc = Inr rs"
  shows "\<exists>new. rs = acc @ new \<and> list_all2 (describes lx cu base) (filter (member lx) nodes) new \<and>
    (\<forall>node \<in> set nodes. \<not> node_failed lx node)"
  using assms
proof (induction nodes arbitrary: acc)
  case (Cons node nodes)
  show ?case
  proof (cases "member lx node")
    case True
    with Cons.prems obtain href etag u where "RCNodeText lx (RCFindChild (Some node) ''href'' kDAVNamespace) = Some href"
      "RCNodeText lx (RCSuccessfulProperty lx node ''getetag'' kDAVNamespace) = Some etag" "RCURLResolve cu base href = Inr u"
      "list_resources lx cu base nodes (acc @ [\<lparr>v_url = u, v_etag = Some etag\<rparr>]) = Inr rs" "\<not> node_failed lx node"
      by (auto simp: member_def node_failed_def split: if_splits option.splits sum.splits)
    then obtain r where r: "describes lx cu base node r" "list_resources lx cu base nodes (acc @ [r]) = Inr rs"
      "\<not> node_failed lx node" by (metis RCDAVResource.select_convs(1,2) describes_def option.distinct(1))
    from Cons.IH [OF r(2)] r True show ?thesis by auto
  next
    case False
    with Cons.prems have "list_resources lx cu base nodes acc = Inr rs" "\<not> node_failed lx node"
      by (auto simp: member_def node_failed_def split: if_splits)
    with Cons.IH [of acc] False show ?thesis by auto
  qed
qed simp

text \<open>C37: an inventory is complete or refused. When a listing succeeds, the server answered 207 with a
  multistatus document that has no \<open>DAV:error\<close> anywhere and no failed response, and the
  resources are exactly its member responses, in document order, each with its resolved
  address and its entity tag, so an absent resource was absent from a whole listing.\<close>

theorem inventory_complete:
  assumes "RCListResources lx cu client url m request w = (Inr rs, w')"
  shows "\<exists>response root. RCHTTPClientRequest cu client m url (Some ''1'') (Some xml_type) (Some request) (length request) w =
      (Inr response, w') \<and> rs_statusCode response = 207 \<and> RCParseXML lx response = Inr root \<and>
    list_all2 (describes lx cu (effective response)) (filter (member lx) (xml_children root)) rs \<and>
    (\<forall>n \<in> set (subtree (xml_children root)). \<not> RCNodeIs n ''error'' kDAVNamespace) \<and>
    (\<forall>n \<in> set (xml_children root). \<not> node_failed lx n)"
proof -
  from assms obtain base root where ms: "multistatus lx cu client ''Resource inventory'' m url ''1'' request w = (Inr (base, root), w')"
    and none: "RCFindDescendant (Some root) ''error'' kDAVNamespace = None"
    and ls: "list_resources lx cu base (xml_children root) [] = Inr rs"
    unfolding RCListResources_def by (auto elim!: chain_InrE split: if_splits)
  from ms obtain response where "RCHTTPClientRequest cu client m url (Some ''1'') (Some xml_type) (Some request) (length request) w = (Inr response, w')"
    "rs_statusCode response = 207" "RCParseXML lx response = Inr root" "base = effective response"
    by (auto simp: multistatus_def RCRequireMultiStatus_def split: prod.splits sum.splits if_splits)
  moreover from none have "\<forall>n \<in> set (subtree (xml_children root)). \<not> RCNodeIs n ''error'' kDAVNamespace"
    by (simp add: RCFindDescendant_def find_descendant_None)
  ultimately show ?thesis using list_resources_complete [OF ls] by auto
qed

section \<open>A concrete server and its document\<close>

text \<open>A server that answers every request with a multistatus document: a token and one resource.\<close>

definition dav_server :: "(32 word, unit) curl" where
  "dav_server = busy_server\<lparr>perform := (\<lambda>opts w. (\<lparr>t_events = [BodyData 1 1 ''x''], t_code = 0, t_status = 207,
     t_effectiveURL = None\<rparr>, w))\<rparr>"

definition dav_node :: "string \<Rightarrow> xml_node list \<Rightarrow> string \<Rightarrow> xml_node" where
  "dav_node name kids v = XmlNode True name (Some ''DAV:'') kids v"

definition dav_member :: xml_node where
  "dav_member = dav_node ''response'' [dav_node ''href'' [] ''https://h/c/a'',
     dav_node ''propstat'' [dav_node ''status'' [] ''HTTP/1.1 200 OK'', dav_node ''prop'' [dav_node ''getetag'' [] ''e1''] []] []] []"

definition dav_xml :: libxml where
  "dav_xml = \<lparr>xml_read = (\<lambda>_ _. Some \<lparr>doc_dtd = False,
       doc_root = Some (dav_node ''multistatus'' [dav_member, dav_node ''sync-token'' [] ''t1''] [])\<rparr>),
     xml_content = (\<lambda>n. Some (xml_value n)), xml_encode = Some\<rparr>"

definition dav_response :: RCHTTPResponse where
  "dav_response = RCHTTPResponseInit\<lparr>rs_statusCode := 207, rs_effectiveURL := Some ''https://h/c/'', rs_body := Some ''x''\<rparr>"

lemma dav_request:
  assumes "m = ''REPORT'' \<or> m = ''PROPFIND''"
  shows "RCHTTPClientRequest (logged dav_server) demo_client m ''https://h/c/'' depth type (Some b) n ((), log) =
     (Inr dav_response, (), log @ [request_options demo_client ''https://h/c/'' m (request_headers depth None type None False) (Some b) n])"
    and "RCHTTPClientRequest dav_server demo_client m ''https://h/c/'' depth type (Some b) n () = (Inr dav_response, ())"
  using assms by (auto simp: http_eval dav_server_def dav_response_def)

lemma dav_found:
  "sublist '' 200 '' ''HTTP/1.1 200 OK''" "\<not> RCIsSyncCollectionURL ''https://h/c/a'' ''https://h/c/''"
  by code_simp+

lemmas dav_eval = dav_member_def dav_node_def RCNodeIs_def RCFindChild_def RCFindDescendant_def RCNodeText_def
  RCSuccessfulProperty_def RCPropertyStatusIsSuccessful_def kDAVNamespace_def nonempty_def empty_text_def effective_def
  RCURLResolve_def cstr_def dav_found



text \<open>The witness of an inventory: the resource of the document is listed.\<close>

lemma dav_inventory:
  "RCListResources dav_xml dav_server demo_client ''https://h/c/'' ''PROPFIND'' kInventoryRequest () =
     (Inr [\<lparr>v_url = ''https://h/c/a'', v_etag = Some ''e1''\<rparr>], ())"
  unfolding RCListResources_def multistatus_def
  by (simp add: dav_request(2)) (simp add: dav_response_def RCRequireMultiStatus_def RCParseXML_def dav_xml_def dav_eval
      bodyLength_def MAX_XML_def RCHTTPResponseInit_def dav_server_def busy_server_def)

theorem inventory_complete_witness:
  "\<exists>response root. RCParseXML dav_xml response = Inr root \<and>
     list_all2 (describes dav_xml dav_server (effective response)) (filter (member dav_xml) (xml_children root))
       [\<lparr>v_url = ''https://h/c/a'', v_etag = Some ''e1''\<rparr>]"
  using inventory_complete [OF dav_inventory] by blast

text \<open>The witness of reading transfers: a listing makes one transfer, a read.\<close>

lemma dav_client_reads_only_witness:
  "\<not> mutates (request_options demo_client ''https://h/c/'' ''PROPFIND''
     (request_headers (Some ''1'') None (Some xml_type) None False) (Some kInventoryRequest) (length kInventoryRequest))"
proof -
  let ?o = "request_options demo_client ''https://h/c/'' ''PROPFIND''
     (request_headers (Some ''1'') None (Some xml_type) None False) (Some kInventoryRequest) (length kInventoryRequest)"
  have "snd (RCDAVListResources dav_xml (logged dav_server) demo_client ''https://h/c/'' ((), [])) = ((), [?o])"
    unfolding RCDAVListResources_def RCListResources_def multistatus_def
    by (simp add: dav_request(1) chain_def split: sum.splits prod.splits)
  then obtain r where "RCDAVListResources dav_xml (logged dav_server) demo_client ''https://h/c/'' ((), []) = (r, (), [?o])"
    by (metis prod.collapse)
  from dav_client_reads_only [OF dav_call.resources [OF this]] show ?thesis by auto
qed

end
