(* ===== verification/DAVSyncState.thy ===== *)
theory DAVSyncState
  imports WriteJournal
begin

text \<open>
  The durable synchronisation state of \<^verbatim>\<open>source/shared/RCDAVSyncState.c\<close>: one row per account
  and collection with the token of the last complete synchronisation, the scope it covered
  and the run that confirmed it. The table is created on the first save, so its presence is
  an entry of the schema. Loading is allowed at any time; saving and finishing demand the
  transaction of the mirror.
\<close>

section \<open>Table and operations\<close>

record state_row =
  y_account :: int
  y_url :: string
  y_token :: "string option"
  y_scope :: string
  y_run :: int

record sync_tables = journal_tables +
  dav_sync_state :: "state_row list"

type_synonym 'z sync_db = "'z sync_tables_scheme db"

definition state_fail :: "'t db \<Rightarrow> RCError" where
  "state_fail d = RCErrorSet 1 (''DAV sync state: '' @ errmsg d)"

definition state_table :: string where
  "state_table = ''dav_sync_state''"

text \<open>\<open>CREATE TABLE IF NOT EXISTS\<close>: a new table is empty.\<close>

definition create_state :: "'z sync_tables_scheme \<Rightarrow> 'z sync_tables_scheme" where
  "create_state t = (if state_table \<in> set (schema t) then t
     else t\<lparr>schema := schema t @ [state_table], dav_sync_state := []\<rparr>)"

definition state_prepare :: "'z sync_db \<Rightarrow> unit res \<times> 'z sync_db" where
  "state_prepare d =
     (if autocommit d then (Inl (RCErrorSet 1 ''DAV sync state requires the mirror transaction''), d)
      else let (created, d) = sql_call Exec d in
        if \<not> created then (Inl (state_fail d), d)
        else let (prepared, d) = sql_prepare (d\<lparr>tables := create_state (tables d)\<rparr>) in
          if prepared then (Inr (), d) else (Inl (state_fail d), d))"

definition find_state :: "int \<Rightarrow> string option \<Rightarrow> 'z sync_tables_scheme \<Rightarrow> (string option \<times> string) option" where
  "find_state acct url t = map_option (\<lambda>r. (y_token r, y_scope r))
     (find (\<lambda>r. y_account r = acct \<and> Some (y_url r) = url) (dav_sync_state t))"

text \<open>The token and the scope; both are \<open>NULL\<close> when nothing has been saved.\<close>

definition RCDAVSyncStateLoad ::
  "int \<Rightarrow> string option \<Rightarrow> 'z sync_db \<Rightarrow> (string option \<times> string option) res \<times> 'z sync_db" where
  "RCDAVSyncStateLoad acct url d =
     (let (prepared, d) = sql_prepare d in
      if \<not> prepared then (Inl (state_fail d), d)
      else case sql_query (\<lambda>t. if state_table \<in> set (schema t) then Some () else None) d of
          (None, d) \<Rightarrow> (Inl (state_fail d), d)
        | (Some None, d) \<Rightarrow> (Inr (None, None), d)
        | (Some (Some _), d) \<Rightarrow>
            (let (prepared, d) = sql_prepare d in
             if \<not> prepared then (Inl (state_fail d), d)
             else case sql_query (find_state acct url) d of
                 (None, d) \<Rightarrow> (Inl (RCErrorSet 1 ''Could not read durable DAV sync state''), d)
               | (Some None, d) \<Rightarrow> (Inr (None, None), d)
               | (Some (Some (token, scope)), d) \<Rightarrow> (Inr (token, Some scope), d)))"

definition state_step :: "('z sync_tables_scheme \<Rightarrow> ('z sync_tables_scheme \<times> unit) option) \<Rightarrow> 'z sync_db \<Rightarrow> unit res \<times> 'z sync_db" where
  "state_step f d = (case sql_modify f d of (Some _, d) \<Rightarrow> (Inr (), d) | (None, d) \<Rightarrow> (Inl (state_fail d), d))"

text \<open>
  \<open>INSERT OR REPLACE\<close>: a missing URL violates \<open>NOT NULL\<close>, an unknown account the foreign key.
\<close>

definition put_state ::
  "int \<Rightarrow> string option \<Rightarrow> string option \<Rightarrow> string option \<Rightarrow> int \<Rightarrow> 'z sync_tables_scheme \<Rightarrow>
   ('z sync_tables_scheme \<times> unit) option" where
  "put_state acct url token scope run t = (case url of None \<Rightarrow> None
     | Some u \<Rightarrow> if \<not> has_account acct t then None
         else Some (t\<lparr>dav_sync_state :=
           filter (\<lambda>r. \<not> (y_account r = acct \<and> y_url r = u)) (dav_sync_state t) @
             [\<lparr>y_account = acct, y_url = u, y_token = token,
               y_scope = (case scope of None \<Rightarrow> [] | Some s \<Rightarrow> s), y_run = run\<rparr>]\<rparr>, ()))"

definition RCDAVSyncStateSave ::
  "int \<Rightarrow> string option \<Rightarrow> string option \<Rightarrow> string option \<Rightarrow> int \<Rightarrow> 'z sync_db \<Rightarrow> unit res \<times> 'z sync_db" where
  "RCDAVSyncStateSave acct url token scope run d =
     chain (state_prepare d) (\<lambda>_ d. state_step (put_state acct url token scope run) d)"

definition sweep_state :: "int \<Rightarrow> int \<Rightarrow> 'z sync_tables_scheme \<Rightarrow> 'z sync_tables_scheme" where
  "sweep_state acct run t = t\<lparr>dav_sync_state :=
     filter (\<lambda>r. \<not> (y_account r = acct \<and> y_run r \<noteq> run)) (dav_sync_state t)\<rparr>"

definition RCDAVSyncStateFinish :: "int \<Rightarrow> int \<Rightarrow> 'z sync_db \<Rightarrow> unit res \<times> 'z sync_db" where
  "RCDAVSyncStateFinish acct run d =
     chain (state_prepare d) (\<lambda>_ d. state_step (\<lambda>t. Some (sweep_state acct run t, ())) d)"

section \<open>Effects on the tables\<close>

lemma state_prepare_result:
  assumes "state_prepare d = (r, d')"
  shows "txn d' = txn d \<and> same_library d d' \<and> (tables d' = tables d \<or> tables d' = create_state (tables d)) \<and>
    (r = Inr () \<longrightarrow> \<not> autocommit d \<and> tables d' = create_state (tables d))"
  using assms
  by (auto simp: state_prepare_def Let_def same_library_def split: if_splits prod.splits
      dest!: sql_call_keeps sql_prepare_keeps)

lemma state_step_result:
  assumes "state_step f d = (r, d')"
  shows "txn d' = txn d \<and> same_library d d' \<and>
    (r = Inr () \<longrightarrow> f (tables d) = Some (tables d', ())) \<and> (r \<noteq> Inr () \<longrightarrow> tables d' = tables d)"
  using assms
  by (auto simp: state_step_def split: prod.splits option.splits dest: sql_modify_keeps sql_modify_None sql_modify_Some)

lemma save_result:
  assumes "RCDAVSyncStateSave acct url token scope run d = (r, d')"
  shows "txn d' = txn d \<and> same_library d d' \<and>
    (r = Inr () \<longrightarrow> \<not> autocommit d \<and> put_state acct url token scope run (create_state (tables d)) = Some (tables d', ())) \<and>
    (r \<noteq> Inr () \<longrightarrow> tables d' = tables d \<or> tables d' = create_state (tables d))"
  using assms unfolding RCDAVSyncStateSave_def
  by (cases rule: chain_cases) (auto dest!: state_prepare_result state_step_result intro: same_library_trans)

lemma finish_result:
  assumes "RCDAVSyncStateFinish acct run d = (r, d')"
  shows "txn d' = txn d \<and> same_library d d' \<and>
    (r = Inr () \<longrightarrow> \<not> autocommit d \<and> tables d' = sweep_state acct run (create_state (tables d))) \<and>
    (r \<noteq> Inr () \<longrightarrow> tables d' = tables d \<or> tables d' = create_state (tables d))"
  using assms unfolding RCDAVSyncStateFinish_def
  by (cases rule: chain_cases) (auto dest!: state_prepare_result state_step_result intro: same_library_trans)

text \<open>Only the table and its presence ever change.\<close>

lemma state_unchanged: "t = t\<lparr>dav_sync_state := dav_sync_state t\<rparr>"
  by simp

lemma save_tables:
  assumes "RCDAVSyncStateSave acct url token scope run d = (r, d')"
  shows "tables d' = tables d \<or> (\<exists>rows. tables d' = (create_state (tables d))\<lparr>dav_sync_state := rows\<rparr>)"
proof (cases "r = Inr ()")
  case True
  with save_result [OF assms] have "put_state acct url token scope run (create_state (tables d)) = Some (tables d', ())" by simp
  then have "\<exists>rows. (create_state (tables d))\<lparr>dav_sync_state := rows\<rparr> = tables d'"
    by (auto simp: put_state_def split: option.splits if_splits)
  then show ?thesis by metis
next
  case False
  with save_result [OF assms] state_unchanged [of "create_state (tables d)"] show ?thesis by metis
qed

lemma finish_tables:
  assumes "RCDAVSyncStateFinish acct run d = (r, d')"
  shows "tables d' = tables d \<or> (\<exists>rows. tables d' = (create_state (tables d))\<lparr>dav_sync_state := rows\<rparr>)"
proof (cases "r = Inr ()")
  case True
  with finish_result [OF assms] show ?thesis by (auto simp: sweep_state_def)
next
  case False
  with finish_result [OF assms] state_unchanged [of "create_state (tables d)"] show ?thesis by metis
qed

text \<open>What is durably known of a collection, whether or not the table exists.\<close>

definition known_state :: "int \<Rightarrow> string \<Rightarrow> 'z sync_tables_scheme \<Rightarrow> (string option \<times> string) option" where
  "known_state acct url t = (if state_table \<in> set (schema t) then find_state acct (Some url) t else None)"

lemma load_result:
  assumes "RCDAVSyncStateLoad acct (Some url) d = (r, d')"
  shows "tables d' = tables d \<and> txn d' = txn d \<and> same_library d d' \<and>
    (\<forall>p. r = Inr p \<longrightarrow> p = (case known_state acct url (tables d) of None \<Rightarrow> (None, None) | Some (t, s) \<Rightarrow> (t, Some s)))"
  using assms
  by (auto simp: RCDAVSyncStateLoad_def Let_def known_state_def split: prod.splits option.splits if_splits
      dest!: sql_prepare_keeps sql_query_result intro: same_library_trans)

section \<open>A whole run\<close>

text \<open>The saves of one run, in order, and the sweep that ends it.\<close>

fun save_all :: "int \<Rightarrow> int \<Rightarrow> (string \<times> string option \<times> string option) list \<Rightarrow> 'z sync_db \<Rightarrow> unit res \<times> 'z sync_db" where
  "save_all acct run [] d = (Inr (), d)"
| "save_all acct run ((url, token, scope) # es) d =
     chain (RCDAVSyncStateSave acct (Some url) token scope run d) (\<lambda>_ d. save_all acct run es d)"

definition saved_run :: "int \<Rightarrow> int \<Rightarrow> (string \<times> string option \<times> string option) list \<Rightarrow> 'z sync_db \<Rightarrow> unit res \<times> 'z sync_db" where
  "saved_run acct run es d = chain (save_all acct run es d) (\<lambda>_ d. RCDAVSyncStateFinish acct run d)"

text \<open>The rows of the table, as far as it exists.\<close>

definition state_rows :: "'z sync_tables_scheme \<Rightarrow> state_row list" where
  "state_rows t = (if state_table \<in> set (schema t) then dav_sync_state t else [])"

lemma create_state_rows [simp]:
  "dav_sync_state (create_state t) = state_rows t" "state_table \<in> set (schema (create_state t))"
  "state_rows (create_state t) = state_rows t" "create_state (create_state t) = create_state t"
  by (simp_all add: create_state_def state_rows_def)

definition key_row :: "int \<Rightarrow> string \<Rightarrow> state_row \<Rightarrow> bool" where
  "key_row acct url r \<longleftrightarrow> y_account r = acct \<and> y_url r = url"

lemma known_state_rows:
  "known_state acct url t = map_option (\<lambda>r. (y_token r, y_scope r)) (find (key_row acct url) (state_rows t))"
  by (simp add: known_state_def find_state_def state_rows_def key_row_def [abs_def] conj_commute)

lemma save_rows:
  assumes "RCDAVSyncStateSave acct (Some url) token scope run d = (Inr (), d')"
  shows "state_rows (tables d') = filter (\<lambda>r. \<not> key_row acct url r) (state_rows (tables d)) @
    [\<lparr>y_account = acct, y_url = url, y_token = token, y_scope = (case scope of None \<Rightarrow> [] | Some s \<Rightarrow> s), y_run = run\<rparr>]"
proof -
  have t: "tables d' = create_state (tables d)\<lparr>dav_sync_state := filter (\<lambda>r. \<not> key_row acct url r) (state_rows (tables d)) @
    [\<lparr>y_account = acct, y_url = url, y_token = token, y_scope = (case scope of None \<Rightarrow> [] | Some s \<Rightarrow> s), y_run = run\<rparr>]\<rparr>"
    using save_result [OF assms] by (auto simp: put_state_def key_row_def split: if_splits)
  show ?thesis unfolding t by (subst state_rows_def) simp
qed

lemma finish_rows:
  assumes "RCDAVSyncStateFinish acct run d = (Inr (), d')"
  shows "state_rows (tables d') = filter (\<lambda>r. \<not> (y_account r = acct \<and> y_run r \<noteq> run)) (state_rows (tables d))"
proof -
  have t: "tables d' = sweep_state acct run (create_state (tables d))" using finish_result [OF assms] by simp
  show ?thesis unfolding t by (subst state_rows_def) (simp add: sweep_state_def)
qed

lemma find_filter_keeps: "find P xs = Some x \<Longrightarrow> Q x \<Longrightarrow> find P (filter Q xs) = Some x"
  by (induction xs) (auto split: if_splits)

lemma find_replaced:
  assumes "key_row acct u new"
  shows "find (key_row b url) (filter (\<lambda>r. \<not> key_row acct u r) rows @ [new]) =
    (if b = acct \<and> url = u then Some new else find (key_row b url) rows)"
proof (cases "b = acct \<and> url = u")
  case True
  then have "find (key_row b url) (filter (\<lambda>r. \<not> key_row acct u r) rows) = None" by (intro find_filter_none) simp
  with True assms show ?thesis by (simp add: find_append)
next
  case False
  then have "find (key_row b url) (filter (\<lambda>r. \<not> key_row acct u r) rows) = find (key_row b url) rows"
    by (intro find_filter_other) (auto simp: key_row_def)
  moreover have "\<not> key_row b url new" using False assms by (auto simp: key_row_def)
  ultimately show ?thesis unfolding find_append if_not_P [OF False] by (simp split: option.splits)
qed

text \<open>After the saves: the last entry for a collection, and nothing else, carries the new run.\<close>

definition saved_row :: "int \<Rightarrow> int \<Rightarrow> string \<Rightarrow> string option \<times> string option \<Rightarrow> state_row" where
  "saved_row acct run url e = \<lparr>y_account = acct, y_url = url, y_token = fst e,
     y_scope = (case snd e of None \<Rightarrow> [] | Some s \<Rightarrow> s), y_run = run\<rparr>"

lemma save_all_rows:
  assumes "save_all acct run es d = (Inr (), d')"
  shows "find (key_row b url) (state_rows (tables d')) =
    (case (if b = acct then map_of (rev es) url else None) of
       Some e \<Rightarrow> Some (saved_row acct run url e) | None \<Rightarrow> find (key_row b url) (state_rows (tables d)))"
  using assms
proof (induction es arbitrary: d)
  case (Cons e es)
  obtain u token scope where e: "e = (u, token, scope)" by (cases e)
  with Cons.prems obtain d1 where s: "RCDAVSyncStateSave acct (Some u) token scope run d = (Inr (), d1)"
    and rest: "save_all acct run es d1 = (Inr (), d')" by (auto elim!: chain_InrE)
  have "find (key_row b url) (state_rows (tables d1)) =
      (if b = acct \<and> url = u then Some (saved_row acct run u (token, scope)) else find (key_row b url) (state_rows (tables d)))"
    unfolding save_rows [OF s] saved_row_def by (subst find_replaced) (simp_all add: key_row_def)
  with Cons.IH [OF rest] show ?case by (auto simp: e map_of_append map_add_def split: option.splits)
qed simp

lemma save_all_run:
  assumes "save_all acct run es d = (Inr (), d')" and "r \<in> set (state_rows (tables d'))"
  shows "r \<in> set (state_rows (tables d)) \<or> y_url r \<in> fst ` set es"
  using assms
proof (induction es arbitrary: d)
  case (Cons e es)
  obtain u token scope where e: "e = (u, token, scope)" by (cases e)
  with Cons.prems obtain d1 where s: "RCDAVSyncStateSave acct (Some u) token scope run d = (Inr (), d1)"
    and rest: "save_all acct run es d1 = (Inr (), d')" by (auto elim!: chain_InrE)
  from Cons.IH [OF rest Cons.prems(2)] show ?case by (auto simp: save_rows [OF s] e)
qed simp

text \<open>C38: the tokens of a committed run are what the next run loads. After the saves of a run and its
  sweep, loading a collection of the account returns the last token and scope saved for it in
  this run and nothing for a collection the run did not save, and the state of every other
  account is what it was.\<close>

theorem saved_run_loads:
  assumes "saved_run acct run es d = (Inr (), d1)" and "\<forall>r \<in> set (state_rows (tables d)). y_run r \<noteq> run"
    and "RCDAVSyncStateLoad b (Some url) d1 = (Inr loaded, d2)"
  shows "loaded =
    (if b = acct
     then (case map_of (rev es) url of None \<Rightarrow> (None, None)
           | Some (token, scope) \<Rightarrow> (token, Some (case scope of None \<Rightarrow> [] | Some s \<Rightarrow> s)))
     else (case known_state b url (tables d) of None \<Rightarrow> (None, None) | Some (t, s) \<Rightarrow> (t, Some s)))"
proof -
  from assms(1) obtain d0 where s: "save_all acct run es d = (Inr (), d0)"
    and f: "RCDAVSyncStateFinish acct run d0 = (Inr (), d1)" by (auto simp: saved_run_def elim!: chain_InrE)
  have l: "loaded = (case known_state b url (tables d1) of None \<Rightarrow> (None, None) | Some (t, s) \<Rightarrow> (t, Some s))"
    using load_result [OF assms(3)] by blast
  show ?thesis
  proof (cases "b = acct")
    case False
    then have "find (key_row b url) (state_rows (tables d1)) = find (key_row b url) (state_rows (tables d0))"
      unfolding finish_rows [OF f] by (intro find_filter_other) (simp add: key_row_def)
    with False save_all_rows [OF s, of b url] have "known_state b url (tables d1) = known_state b url (tables d)"
      by (simp add: known_state_rows)
    with l False show ?thesis by simp
  next
    case True
    have "known_state acct url (tables d1) = map_option (\<lambda>e. (fst e, case snd e of None \<Rightarrow> [] | Some s \<Rightarrow> s)) (map_of (rev es) url)"
    proof (cases "map_of (rev es) url")
      case None
      then have new: "url \<notin> fst ` set es" by (simp add: map_of_eq_None_iff)
      have "y_run r \<noteq> run" if "r \<in> set (state_rows (tables d0))" "key_row acct url r" for r
        using save_all_run [OF s that(1)] that(2) new assms(2) by (auto simp: key_row_def)
      then have "find (key_row acct url) (state_rows (tables d1)) = None"
        unfolding finish_rows [OF f] by (intro find_filter_none) (auto simp: key_row_def)
      with None show ?thesis by (simp add: known_state_rows)
    next
      case (Some e)
      with save_all_rows [OF s, of acct url]
      have "find (key_row acct url) (state_rows (tables d1)) = Some (saved_row acct run url e)"
        unfolding finish_rows [OF f] by (intro find_filter_keeps) (simp_all add: saved_row_def)
      with Some show ?thesis by (simp add: known_state_rows saved_row_def)
    qed
    with l True show ?thesis by (auto split: option.splits)
  qed
qed

text \<open>The witness: a first run saves one collection and loads it back.\<close>

definition state_demo :: "unit sync_tables_scheme db" where
  "state_demo = (open_db \<lparr>schema = [], accounts = [\<lparr>acc_id = 1, acc_username = ''u'', acc_sync_id = ''s'', acc_generation = 0, acc_published = 0\<rparr>],
     write_bases = [], write_operations = [], write_resolutions = [], write_attention = [], dav_sync_state = []\<rparr>)
     \<lparr>txn := [(None, undefined)]\<rparr>"

theorem saved_run_loads_witness:
  "fst (RCDAVSyncStateLoad 1 (Some ''/c/'') (snd (saved_run 1 7 [(''/c/'', Some ''t1'', None)] state_demo))) =
     Inr (Some ''t1'', Some [])"
proof -
  let ?es = "[(''/c/'', Some ''t1'', None)] :: (string \<times> string option \<times> string option) list"
  let ?d1 = "snd (saved_run 1 7 ?es state_demo)"
  have run: "saved_run 1 7 ?es state_demo = (Inr (), ?d1)"
    by (simp add: saved_run_def RCDAVSyncStateSave_def RCDAVSyncStateFinish_def state_prepare_def state_step_def
        state_demo_def open_db_def autocommit_def sql_call_def sql_prepare_def sql_modify_def put_state_def
        has_account_def create_state_def state_table_def Let_def)
  have fresh: "\<forall>r \<in> set (state_rows (tables state_demo)). y_run r \<noteq> 7"
    by (simp add: state_rows_def state_demo_def open_db_def state_table_def)
  obtain p d2 where l: "RCDAVSyncStateLoad 1 (Some ''/c/'') ?d1 = (Inr p, d2)"
    by (simp add: saved_run_def RCDAVSyncStateSave_def RCDAVSyncStateFinish_def RCDAVSyncStateLoad_def state_prepare_def state_step_def
        state_demo_def open_db_def autocommit_def sql_call_def sql_prepare_def sql_modify_def sql_query_def put_state_def
        has_account_def create_state_def state_table_def sweep_state_def find_state_def Let_def)
  from saved_run_loads [OF run fresh l] l show ?thesis by simp
qed

end
