(* ===== verification/DAVStaging.thy ===== *)
theory DAVStaging
  imports SQLite
begin

text \<open>
  The private staging database of \<^verbatim>\<open>source/shared/RCDAVStaging.c\<close>: the inventory of a
  synchronisation is collected here while it is downloaded, and replayed into the mirror in
  one transaction. The lookup of mirrored versions, which reads the tables of the stores,
  is in the theories of the stores.
\<close>

section \<open>Table and operations\<close>

datatype RCDAVStageAction = RCDAVStageSeen | RCDAVStageDownloaded | RCDAVStageDeleted

record stage_row =
  s_sequence :: int
  s_collection :: int
  s_action :: RCDAVStageAction
  s_href :: string
  s_etag :: "string option"
  s_body :: "bytes option"

type_synonym stage_db = "stage_row list db"

definition stage_failed :: RCError where
  "stage_failed = RCErrorSet 1 ''Could not stage DAV inventory''"

text \<open>The connection SQLite opened for the empty file name, if it did.\<close>

definition RCDAVStageOpen :: "stage_db option \<Rightarrow> stage_db res" where
  "RCDAVStageOpen opened = (case opened of None \<Rightarrow> Inl stage_failed
     | Some d \<Rightarrow> (let (ok, d) = sql_call Exec d in if ok then Inr (d\<lparr>tables := []\<rparr>) else Inl stage_failed))"

definition stage_modify :: "(stage_row list \<Rightarrow> (stage_row list \<times> unit) option) \<Rightarrow> stage_db \<Rightarrow> unit res \<times> stage_db" where
  "stage_modify f d = (let (prepared, d) = sql_prepare d in
     if \<not> prepared then (Inl stage_failed, d)
     else case sql_modify f d of (Some _, d) \<Rightarrow> (Inr (), d) | (None, d) \<Rightarrow> (Inl stage_failed, d))"

definition RCDAVStageReset :: "int \<Rightarrow> stage_db \<Rightarrow> unit res \<times> stage_db" where
  "RCDAVStageReset coll d = stage_modify (\<lambda>rows. Some (filter (\<lambda>r. s_collection r \<noteq> coll) rows, ())) d"

definition RCDAVStageHasResource :: "int \<Rightarrow> string \<Rightarrow> stage_db \<Rightarrow> bool res \<times> stage_db" where
  "RCDAVStageHasResource coll href d = (let (prepared, d) = sql_prepare d in
     if \<not> prepared then (Inl stage_failed, d)
     else case sql_query (find (\<lambda>r. s_collection r = coll \<and> s_href r = href)) d of
         (None, d) \<Rightarrow> (Inl stage_failed, d)
       | (Some row, d) \<Rightarrow> (Inr (row \<noteq> None), d))"

definition add_row :: "int \<Rightarrow> RCDAVStageAction \<Rightarrow> string option \<Rightarrow> string option \<Rightarrow> bytes option \<Rightarrow> stage_row list \<Rightarrow> (stage_row list \<times> unit) option" where
  "add_row coll action href etag body rows = (case href of None \<Rightarrow> None
     | Some h \<Rightarrow> Some (rows @ [\<lparr>s_sequence = next_rowid (map s_sequence rows), s_collection = coll, s_action = action,
         s_href = h, s_etag = etag, s_body = body\<rparr>], ()))"

definition RCDAVStageSave ::
  "int \<Rightarrow> RCDAVStageAction \<Rightarrow> string option \<Rightarrow> string option \<Rightarrow> bytes option \<Rightarrow> nat \<Rightarrow> stage_db \<Rightarrow> unit res \<times> stage_db" where
  "RCDAVStageSave coll action href etag body len d =
     (if len > INT_MAX then (Inl stage_failed, d)
      else stage_modify (add_row coll action href etag (blob body len)) d)"

text \<open>
  What a row delivers to the callback. \<open>sqlite3_column_blob\<close> returns \<open>NULL\<close> for an empty
  blob as for a missing one.
\<close>

type_synonym stage_item = "RCDAVStageAction \<times> string \<times> string option \<times> bytes option \<times> nat"

definition column_blob :: "bytes option \<Rightarrow> bytes option" where
  "column_blob b = (if bytes_of b = [] then None else b)"

definition stage_item :: "stage_row \<Rightarrow> stage_item" where
  "stage_item r = (s_action r, s_href r, s_etag r, column_blob (s_body r), length (bytes_of (s_body r)))"

definition staged :: "int \<Rightarrow> stage_row list \<Rightarrow> stage_item list" where
  "staged coll rows = map stage_item (sort_key s_sequence (filter (\<lambda>r. s_collection r = coll) rows))"

text \<open>
  The loop over the rows: each step, the cancellation check, the callback. The state \<open>c\<close> is the
  callback's context and all it reaches, and the stop flag is read from it.
\<close>

fun apply_rows ::
  "('c \<Rightarrow> bool) \<Rightarrow> (stage_item \<Rightarrow> 'c \<Rightarrow> unit res \<times> 'c) \<Rightarrow> stage_item list \<Rightarrow> stage_db \<Rightarrow> 'c \<Rightarrow> unit res \<times> stage_db \<times> 'c" where
  "apply_rows stop apply [] d c = (let (ok, d) = sql_call Step d in
     (if ok then Inr () else Inl stage_failed, d, c))"
| "apply_rows stop apply (item # items) d c = (let (ok, d) = sql_call Step d in
     if \<not> ok then (Inl stage_failed, d, c)
     else case RCCheckCancellation (stop c) of Some e \<Rightarrow> (Inl e, d, c)
       | None \<Rightarrow> (case apply item c of
            (Inl e, c) \<Rightarrow> (Inl e, d, c)
          | (Inr _, c) \<Rightarrow> apply_rows stop apply items d c))"

definition RCDAVStageApply ::
  "('c \<Rightarrow> bool) \<Rightarrow> int \<Rightarrow> (stage_item \<Rightarrow> 'c \<Rightarrow> unit res \<times> 'c) \<Rightarrow> stage_db \<Rightarrow> 'c \<Rightarrow> unit res \<times> stage_db \<times> 'c" where
  "RCDAVStageApply stop coll apply d c = (let (prepared, d) = sql_prepare d in
     if \<not> prepared then (Inl stage_failed, d, c) else apply_rows stop apply (staged coll (tables d)) d c)"

section \<open>The inventory a client relies on\<close>

text \<open>
  The contract of a staging area: per collection a sequence of items, to which a save appends,
  which a reset empties, and of which a failed call changes nothing.
\<close>

datatype 'i stage_command = StageReset int | StageSave int 'i

locale inventory =
  fixes content :: "'s \<Rightarrow> int \<Rightarrow> 'i list"
    and ready :: "'s \<Rightarrow> bool"
    and reset :: "int \<Rightarrow> 's \<Rightarrow> unit res \<times> 's"
    and save :: "int \<Rightarrow> 'a \<Rightarrow> 's \<Rightarrow> unit res \<times> 's"
    and item :: "'a \<Rightarrow> 'i"
  assumes reset_ok: "ready s \<Longrightarrow> reset k s = (Inr u, s') \<Longrightarrow> ready s' \<and> content s' = (content s)(k := [])"
    and save_ok: "ready s \<Longrightarrow> save k a s = (Inr u, s') \<Longrightarrow> ready s' \<and> content s' = (content s)(k := content s k @ [item a])"
    and reset_fail: "ready s \<Longrightarrow> reset k s = (Inl e, s') \<Longrightarrow> ready s' \<and> content s' = content s"
    and save_fail: "ready s \<Longrightarrow> save k a s = (Inl e, s') \<Longrightarrow> ready s' \<and> content s' = content s"
begin

fun command :: "'a stage_command \<Rightarrow> 's \<Rightarrow> unit res \<times> 's" where
  "command (StageReset k) s = reset k s"
| "command (StageSave k a) s = save k a s"

fun commands :: "'a stage_command list \<Rightarrow> 's \<Rightarrow> unit res \<times> 's" where
  "commands [] s = (Inr (), s)"
| "commands (c # cs) s = chain (command c s) (\<lambda>_ s. commands cs s)"

text \<open>What a script leaves in a collection: the items saved after its last reset.\<close>

fun since_reset :: "int \<Rightarrow> 'a stage_command list \<Rightarrow> 'i list \<Rightarrow> 'i list" where
  "since_reset k [] acc = acc"
| "since_reset k (StageReset j # cs) acc = since_reset k cs (if j = k then [] else acc)"
| "since_reset k (StageSave j a # cs) acc = since_reset k cs (if j = k then acc @ [item a] else acc)"

lemma commands_content:
  "ready s \<Longrightarrow> commands cs s = (Inr u, s') \<Longrightarrow> ready s' \<and> content s' k = since_reset k cs (content s k)"
proof (induction cs arbitrary: s)
  case (Cons c cs)
  from Cons.prems(2) obtain u1 s1 where c: "command c s = (Inr u1, s1)" and cs: "commands cs s1 = (Inr u, s')"
    by (auto elim: chain_InrE)
  from c Cons.prems(1) have "ready s1 \<and> since_reset k (c # cs) (content s k) = since_reset k cs (content s1 k)"
    by (cases c) (auto dest: reset_ok save_ok)
  with Cons.IH [OF _ cs] show ?case by simp
qed simp

end

text \<open>The arguments of a save, and the item a row delivers for them.\<close>

type_synonym save_args = "RCDAVStageAction \<times> string \<times> string option \<times> bytes option \<times> nat"

definition save_item :: "save_args \<Rightarrow> stage_item" where
  "save_item = (\<lambda>(action, href, etag, body, len).
     (action, href, etag, column_blob (blob body len), length (bytes_of (blob body len))))"

definition stage_save :: "int \<Rightarrow> save_args \<Rightarrow> stage_db \<Rightarrow> unit res \<times> stage_db" where
  "stage_save coll = (\<lambda>(action, href, etag, body, len) d. RCDAVStageSave coll action (Some href) etag body len d)"

text \<open>The rows are in the order of their sequence numbers.\<close>

definition in_order :: "stage_row list \<Rightarrow> bool" where
  "in_order rows \<longleftrightarrow> sorted (map s_sequence rows)"

lemma in_order_filter: "in_order rows \<Longrightarrow> in_order (filter P rows)"
  unfolding in_order_def by (rule sorted_filter)

lemma in_order_append:
  "in_order rows \<Longrightarrow> s_sequence r = next_rowid (map s_sequence rows) \<Longrightarrow> in_order (rows @ [r])"
  by (auto simp: in_order_def sorted_append intro!: less_imp_le next_rowid_gt)

lemma staged_in_order:
  "in_order rows \<Longrightarrow> staged coll rows = map stage_item (filter (\<lambda>r. s_collection r = coll) rows)"
  using in_order_filter [of rows "\<lambda>r. s_collection r = coll"]
  by (simp add: staged_def in_order_def sort_key_id_if_sorted)

lemma stage_modify_result:
  assumes "stage_modify f d = (r, d')"
  shows "(r = Inr () \<longrightarrow> f (tables d) = Some (tables d', ())) \<and> (r \<noteq> Inr () \<longrightarrow> tables d' = tables d)"
  using assms
  by (auto simp: stage_modify_def Let_def split: prod.splits option.splits if_splits
      dest!: sql_prepare_keeps sql_modify_result)

interpretation stage: inventory "\<lambda>d k. staged k (tables d)" "\<lambda>d. in_order (tables d)" RCDAVStageReset stage_save save_item
proof (unfold_locales, goal_cases)
  case (1 s k u s')
  then have t: "tables s' = filter (\<lambda>r. s_collection r \<noteq> k) (tables s)"
    unfolding RCDAVStageReset_def by (auto dest: stage_modify_result)
  have f: "filter (\<lambda>r. s_collection r = j) (filter (\<lambda>r. s_collection r \<noteq> k) rows) =
      (if j = k then [] else filter (\<lambda>r. s_collection r = j) rows)" for j rows
    by (induction rows) auto
  from 1 t have "in_order (tables s')" by (simp add: in_order_filter)
  with 1 show ?case by (simp add: staged_in_order fun_eq_iff t f del: filter_filter)
next
  case (2 s k a u s')
  obtain action href etag body len where a: "a = (action, href, etag, body, len)" by (metis prod_cases5)
  from 2 a have m: "stage_modify (add_row k action (Some href) etag (blob body len)) s = (Inr (), s')"
    by (auto simp: stage_save_def RCDAVStageSave_def split: if_splits)
  have t: "tables s' = tables s @ [\<lparr>s_sequence = next_rowid (map s_sequence (tables s)), s_collection = k, s_action = action,
         s_href = href, s_etag = etag, s_body = blob body len\<rparr>]"
    using stage_modify_result [OF m] by (simp add: add_row_def)
  with 2 have "in_order (tables s')" by (simp add: in_order_append)
  with 2 t a show ?case by (auto simp: staged_in_order fun_eq_iff stage_item_def save_item_def)
next
  case (3 s k e s')
  with stage_modify_result [of _ s "Inl e" s'] show ?case by (auto simp: RCDAVStageReset_def)
next
  case (4 s k a e s')
  obtain action href etag body len where a: "a = (action, href, etag, body, len)" by (metis prod_cases5)
  from 4 stage_modify_result [of _ s "Inl e" s'] a have "tables s' = tables s"
    by (auto simp: stage_save_def RCDAVStageSave_def split: if_splits)
  with 4 show ?case by simp
qed

section \<open>Replay\<close>

text \<open>The callbacks an application makes, as a fold that stops at the first failure.\<close>

fun deliver_items :: "(stage_item \<Rightarrow> 'c \<Rightarrow> unit res \<times> 'c) \<Rightarrow> stage_item list \<Rightarrow> 'c \<Rightarrow> unit res \<times> 'c" where
  "deliver_items f [] c = (Inr (), c)"
| "deliver_items f (i # is) c = chain (f i c) (\<lambda>_ c. deliver_items f is c)"

lemma deliver_items_append:
  "deliver_items f (xs @ ys) c = chain (deliver_items f xs c) (\<lambda>_ c. deliver_items f ys c)"
  by (induction xs arbitrary: c) (auto split: rc_split)

lemma apply_rows_delivers:
  assumes "apply_rows stop f items d c = (r, d', c')"
  shows "tables d' = tables d \<and> (r = Inr () \<longrightarrow> deliver_items f items c = (Inr (), c')) \<and>
    (\<exists>done. \<exists>rest. items = done @ rest \<and> snd (deliver_items f done c) = c')"
  using assms
proof (induction items arbitrary: d c)
  case Nil
  then show ?case by (auto simp: Let_def split: prod.splits if_splits dest: sql_call_keeps)
next
  case (Cons i items)
  obtain ok d1 where s: "sql_call Step d = (ok, d1)" by (cases "sql_call Step d")
  note k = sql_call_keeps [OF s]
  consider (skip) "c' = c" "r \<noteq> Inr ()" "d' = d1" | (fails) e where "f i c = (Inl e, c')" "r = Inl e" "d' = d1"
    | (goes) u c1 where "f i c = (Inr u, c1)" "apply_rows stop f items d1 c1 = (r, d', c')"
    using Cons.prems s by (auto simp: split: prod.splits if_splits option.splits sum.splits)
  then show ?case
  proof cases
    case skip
    then have "i # items = [] @ (i # items) \<and> snd (deliver_items f [] c) = c'" by simp
    with k skip show ?thesis by blast
  next
    case fails
    then have "i # items = [i] @ items \<and> snd (deliver_items f [i] c) = c'" by simp
    with k fails show ?thesis by blast
  next
    case goes
    from Cons.IH [OF goes(2)] obtain dn rest where ih: "tables d' = tables d1" "r = Inr () \<longrightarrow> deliver_items f items c1 = (Inr (), c')"
      "items = dn @ rest" "snd (deliver_items f dn c1) = c'" by blast
    then have "i # items = (i # dn) @ rest \<and> snd (deliver_items f (i # dn) c) = c'" using goes(1) by simp
    moreover have "r = Inr () \<longrightarrow> deliver_items f (i # items) c = (Inr (), c')" using ih(2) goes(1) by simp
    moreover have "tables d' = tables d" using k ih(1) by simp
    ultimately show ?thesis by blast
  qed
qed

text \<open>C39: a staged inventory is replayed exactly. After any script of saves and resets in a fresh staging
  area, applying a collection hands to the callback precisely the items saved for that
  collection since its last reset, in the order they were saved, and items of other
  collections never; when the application fails, the callback has seen a prefix of them.\<close>

theorem stage_replays_inventory:
  assumes "RCDAVStageOpen opened = Inr d0" and "stage.commands script d0 = (Inr (), d)"
    and "RCDAVStageApply stop coll apply d c = (r, d', c')"
  shows "(r = Inr () \<longrightarrow> deliver_items apply (stage.since_reset coll script []) c = (Inr (), c')) \<and>
    (\<exists>done rest. stage.since_reset coll script [] = done @ rest \<and> snd (deliver_items apply done c) = c')"
proof -
  from assms(1) have d0: "tables d0 = []"
    by (auto simp: RCDAVStageOpen_def Let_def split: option.splits prod.splits if_splits)
  have s: "staged coll (tables d) = stage.since_reset coll script []"
    using stage.commands_content [OF _ assms(2), of coll] by (simp add: d0 in_order_def staged_def)
  obtain ok d1 where p: "sql_prepare d = (ok, d1)" by (cases "sql_prepare d")
  show ?thesis
  proof (cases ok)
    case True
    with p assms(3) sql_prepare_keeps [OF p] s
    have "apply_rows stop apply (stage.since_reset coll script []) d1 c = (r, d', c')"
      by (simp add: RCDAVStageApply_def)
    from apply_rows_delivers [OF this] show ?thesis by blast
  next
    case False
    with p assms(3) have "r \<noteq> Inr ()" "snd (deliver_items apply [] c) = c'" by (auto simp: RCDAVStageApply_def)
    then show ?thesis by (metis append_Nil)
  qed
qed

text \<open>The witness: a reset discards the first save; the second and third are replayed in order.\<close>

definition stage_demo :: stage_db where
  "stage_demo = open_db []"

definition stage_script :: "save_args stage_command list" where
  "stage_script = [StageSave 0 (RCDAVStageSeen, ''x'', None, None, 0), StageReset 0,
     StageSave 0 (RCDAVStageSeen, ''b'', None, None, 0), StageSave 1 (RCDAVStageSeen, ''y'', None, None, 0),
     StageSave 0 (RCDAVStageDownloaded, ''a'', None, Some ''card'', 4)]"

definition note_href :: "stage_item \<Rightarrow> string list \<Rightarrow> unit res \<times> string list" where
  "note_href i seen = (Inr (), seen @ [fst (snd i)])"

theorem stage_replays_inventory_witness:
  "snd (snd (RCDAVStageApply (\<lambda>_. False) 0 note_href (snd (stage.commands stage_script (stage_demo\<lparr>calls := 1\<rparr>))) [])) =
     [''b'', ''a'']"
proof -
  let ?start = "stage_demo\<lparr>calls := 1\<rparr>" and ?d = "snd (stage.commands stage_script (stage_demo\<lparr>calls := 1\<rparr>))"
  note simps = stage_demo_def open_db_def sql_call_def sql_prepare_def sql_modify_def RCDAVStageReset_def stage_save_def
    RCDAVStageSave_def stage_modify_def add_row_def blob_def INT_MAX_def next_rowid_def stage_script_def Let_def
  have opened: "RCDAVStageOpen (Some stage_demo) = Inr ?start"
    by (simp add: RCDAVStageOpen_def stage_demo_def open_db_def sql_call_def)
  have run: "stage.commands stage_script ?start = (Inr (), ?d)" by (simp add: simps)
  obtain r d' c' where a: "RCDAVStageApply (\<lambda>_. False) 0 note_href ?d [] = (r, d', c')" by (metis prod_cases3)
  moreover have "fst (RCDAVStageApply (\<lambda>_. False) 0 note_href ?d []) = Inr ()"
    by (simp add: RCDAVStageApply_def simps staged_def RCCheckCancellation_def note_href_def)
  ultimately have "deliver_items note_href (stage.since_reset 0 stage_script []) [] = (Inr (), c')"
    using stage_replays_inventory [OF opened run a] by simp
  moreover have "stage.since_reset 0 stage_script [] = [(RCDAVStageSeen, ''b'', None, None, 0), (RCDAVStageDownloaded, ''a'', None, Some ''card'', 4)]"
    by (simp add: stage_script_def, simp add: save_item_def blob_def column_blob_def)
  ultimately show ?thesis unfolding a by (simp add: note_href_def)
qed

end
