(* ===== verification/ContactStore.thy ===== *)
theory ContactStore
  imports DAVSyncState VCard
begin

text \<open>
  The SQLite mirror of address books of \<^verbatim>\<open>source/shared/RCContactStore.c\<close>, one definition per
  function of the file. The account, the active run and the names the C structure keeps are
  the record \<open>RCContactStore\<close>; the connection is passed beside it. A statement that SQLite
  executes partly before it fails is modelled as not executed, and \<open>CURRENT_TIMESTAMP\<close> as
  whether the column is set.
\<close>

section \<open>Tables\<close>

record run_row =
  ru_id :: int
  ru_account :: int
  ru_finished :: bool
  ru_succeeded :: "bool option"
  ru_message :: "string option"

record collection_row =
  cl_id :: int
  cl_account :: int
  cl_url :: string
  cl_name :: "string option"
  cl_complete :: "int option"
  cl_missing :: bool

record contact_row =
  ct_id :: int
  ct_collection :: int
  ct_href :: string
  ct_uid :: "string option"
  ct_etag :: "string option"
  ct_version :: "string option"
  ct_formatted :: "string option"
  ct_given :: "string option"
  ct_family :: "string option"
  ct_organization :: "string option"
  ct_title :: "string option"
  ct_birthday :: "string option"
  ct_raw :: bytes
  ct_usable :: "bytes option"
  ct_usable_etag :: "string option"
  ct_parse_error :: "string option"
  ct_sync :: string
  ct_seen :: int
  ct_missing :: bool

record property_row =
  py_id :: int
  py_contact :: int
  py_position :: int
  py_group :: "string option"
  py_name :: string
  py_decoded :: "string option"
  py_original :: "string option"
  py_type :: "string option"
  py_sync :: "string option"

record parameter_row =
  pa_id :: int
  pa_property :: int
  pa_position :: int
  pa_name :: string
  pa_value :: string

record part_row =
  pt_id :: int
  pt_property :: int
  pt_component :: int
  pt_position :: int
  pt_value :: "string option"

record contact_tables = sync_tables +
  schema_version :: "int list"
  sync_runs :: "run_row list"
  collections :: "collection_row list"
  contacts :: "contact_row list"
  contact_properties :: "property_row list"
  contact_parameters :: "parameter_row list"
  contact_value_parts :: "part_row list"

type_synonym 'z cdb = "'z contact_tables_scheme db"

record RCContactStore =
  cs_account :: int
  cs_activeRun :: int
  cs_username :: string
  cs_syncIdentifier :: string

record RCContactStoreStatistics =
  resourceCount :: int
  availableCount :: int
  missingCount :: int
  parseErrorCount :: int

section \<open>Helpers of the C file\<close>

definition RCStoreError :: "string \<Rightarrow> 't db \<Rightarrow> RCError" where
  "RCStoreError operation d = RCErrorSet (errcode d) (operation @ '': '' @ errmsg d)"

definition execute_error :: "'t db \<Rightarrow> RCError" where
  "execute_error d = RCErrorSet (errcode d) (''SQLite error: '' @ errmsg d)"

text \<open>\<open>RCExecute\<close> of a transaction statement, and of a script that changes the tables.\<close>

definition RCExecute :: "('t db \<Rightarrow> bool \<times> 't db) \<Rightarrow> 't db \<Rightarrow> unit res \<times> 't db" where
  "RCExecute statement d = (let (ok, d) = statement d in (if ok then Inr () else Inl (execute_error d), d))"

definition sql_script :: "('t \<Rightarrow> 't) \<Rightarrow> 't db \<Rightarrow> bool \<times> 't db" where
  "sql_script f d = (let (ok, d) = sql_call Exec d in (ok, if ok then d\<lparr>tables := f (tables d)\<rparr> else d))"

definition RCPrepare :: "'t db \<Rightarrow> unit res \<times> 't db" where
  "RCPrepare d = (let (ok, d) = sql_prepare d in
     (if ok then Inr () else Inl (RCStoreError ''Could not prepare database statement'' d), d))"

text \<open>Prepare, bind and step a change or a query; a failed step is reported as \<open>err\<close>.\<close>

definition store_modify :: "('t db \<Rightarrow> RCError) \<Rightarrow> ('t \<Rightarrow> ('t \<times> 'r) option) \<Rightarrow> 't db \<Rightarrow> 'r res \<times> 't db" where
  "store_modify err f d = chain (RCPrepare d) (\<lambda>_ d.
     case sql_modify f d of (Some n, d) \<Rightarrow> (Inr n, d) | (None, d) \<Rightarrow> (Inl (err d), d))"

definition store_select :: "('t db \<Rightarrow> RCError) \<Rightarrow> ('t \<Rightarrow> 'r option) \<Rightarrow> 't db \<Rightarrow> 'r option res \<times> 't db" where
  "store_select err q d = chain (RCPrepare d) (\<lambda>_ d.
     case sql_query q d of (Some r, d) \<Rightarrow> (Inr r, d) | (None, d) \<Rightarrow> (Inl (err d), d))"

text \<open>A query that must return a row.\<close>

definition store_row :: "('t db \<Rightarrow> RCError) \<Rightarrow> ('t \<Rightarrow> 'r option) \<Rightarrow> 't db \<Rightarrow> 'r res \<times> 't db" where
  "store_row err q d = chain (store_select err q d) (\<lambda>r d.
     (case r of Some x \<Rightarrow> Inr x | None \<Rightarrow> Inl (err d), d))"

text \<open>
  The savepoint frame of this file: the body is undone when it fails; a failed release is
  reported and leaves the savepoint to the transaction around it.
\<close>

definition store_savepoint :: "string \<Rightarrow> ('t db \<Rightarrow> 'a res \<times> 't db) \<Rightarrow> 't db \<Rightarrow> 'a res \<times> 't db" where
  "store_savepoint n body d = chain (RCExecute (sql_savepoint n) d) (\<lambda>_ d.
     case body d of
       (Inl e, d) \<Rightarrow> (Inl e, sql_undo n d)
     | (Inr x, d) \<Rightarrow> chain (RCExecute (sql_release n) d) (\<lambda>_ d. (Inr x, d)))"

definition store_transaction :: "('t db \<Rightarrow> unit res \<times> 't db) \<Rightarrow> 't db \<Rightarrow> unit res \<times> 't db" where
  "store_transaction body d = chain (RCExecute sql_begin d) (\<lambda>_ d.
     case chain (body d) (\<lambda>_ d. RCExecute sql_commit d) of
       (Inl e, d) \<Rightarrow> (Inl e, snd (sql_rollback d))
     | (Inr x, d) \<Rightarrow> (Inr x, d))"

section \<open>Opening\<close>

text \<open>\<open>CREATE TABLE IF NOT EXISTS\<close> for the tables of the schema; a new table is empty.\<close>

definition create_table :: "string \<Rightarrow> ('z journal_tables_scheme \<Rightarrow> 'z journal_tables_scheme) \<Rightarrow> 'z journal_tables_scheme \<Rightarrow> 'z journal_tables_scheme" where
  "create_table name clear t = (if name \<in> set (schema t) then t else (clear t)\<lparr>schema := schema t @ [name]\<rparr>)"

definition kRCSchema :: "'z contact_tables_scheme \<Rightarrow> 'z contact_tables_scheme" where
  "kRCSchema t =
     (let t = create_table ''schema_version'' (\<lambda>t. t\<lparr>schema_version := []\<rparr>) t;
          t = (if schema_version t = [] then t\<lparr>schema_version := [4]\<rparr> else t);
          t = create_table ''accounts'' (\<lambda>t. t\<lparr>accounts := []\<rparr>) t;
          t = create_table ''sync_runs'' (\<lambda>t. t\<lparr>sync_runs := []\<rparr>) t;
          t = create_table ''collections'' (\<lambda>t. t\<lparr>collections := []\<rparr>) t;
          t = create_table ''contacts'' (\<lambda>t. t\<lparr>contacts := []\<rparr>) t;
          t = create_table ''contact_properties'' (\<lambda>t. t\<lparr>contact_properties := []\<rparr>) t;
          t = create_table ''contact_parameters'' (\<lambda>t. t\<lparr>contact_parameters := []\<rparr>) t
      in create_table ''contact_value_parts'' (\<lambda>t. t\<lparr>contact_value_parts := []\<rparr>) t)"

text \<open>\<open>username\<close> is \<open>COLLATE NOCASE UNIQUE\<close> and \<open>sync_id\<close> is \<open>UNIQUE\<close>; \<open>OR IGNORE\<close> skips a conflict.\<close>

definition add_account :: "string \<Rightarrow> string \<Rightarrow> 'z contact_tables_scheme \<Rightarrow> ('z contact_tables_scheme \<times> unit) option" where
  "add_account username sync t =
     Some (if \<exists>a \<in> set (accounts t). same_nocase (acc_username a) username \<or> acc_sync_id a = sync then t
           else t\<lparr>accounts := accounts t @ [\<lparr>acc_id = next_rowid (map acc_id (accounts t)), acc_username = username,
             acc_sync_id = sync, acc_generation = 0, acc_published = 0\<rparr>]\<rparr>, ())"

definition find_username :: "string \<Rightarrow> 'z contact_tables_scheme \<Rightarrow> (int \<times> string) option" where
  "find_username username t = map_option (\<lambda>a. (acc_id a, acc_sync_id a))
     (find (\<lambda>a. same_nocase (acc_username a) username) (accounts t))"

definition account_failed :: RCError where
  "account_failed = RCErrorSet 1 ''Could not open contact database account''"

definition open_account :: "string \<Rightarrow> 'z cdb \<Rightarrow> RCContactStore res \<times> 'z cdb" where
  "open_account username d =
     (case store_modify (\<lambda>_. account_failed) (add_account username (random d (Suc (calls d)))) d of
        (Inl _, d) \<Rightarrow> (Inl account_failed, d)
      | (Inr _, d) \<Rightarrow>
          (case store_row (\<lambda>_. account_failed) (find_username username) d of
             (Inl _, d) \<Rightarrow> (Inl account_failed, d)
           | (Inr (account, sync), d) \<Rightarrow>
               if length sync \<noteq> 32 then (Inl account_failed, d)
               else (Inr \<lparr>cs_account = account, cs_activeRun = 0, cs_username = username, cs_syncIdentifier = sync\<rparr>, d)))"

text \<open>
  The connection SQLite opened, if it did, the outcome of \<open>chmod\<close> and that of the file
  format option are arguments. A missing version row leaves the error unset.
\<close>

definition RCContactStoreOpen ::
  "string option \<Rightarrow> string option \<Rightarrow> RCError + 'z cdb \<Rightarrow> bool \<Rightarrow> bool \<Rightarrow> (RCContactStore \<times> 'z cdb) res" where
  "RCContactStoreOpen path username opened restricted legacy =
     (if path = None \<or> empty_text username then Inl (RCErrorSet 1 ''Contact database path/account is missing'')
      else case opened of Inl e \<Rightarrow> Inl e
        | Inr d \<Rightarrow>
            if \<not> restricted then Inl (RCErrorSet 1 ''Could not restrict contact database permissions'')
            else if \<not> legacy then Inl (RCErrorSet 1 ''Could not enable Tiger-compatible SQLite file format'')
            else (case chain (RCExecute (sql_script id) d) (\<lambda>_ d.
                    chain (RCExecute (sql_script kRCSchema) d) (\<lambda>_ d.
                    chain (store_row (\<lambda>_. RCErrorClear) (\<lambda>t. case schema_version t of [] \<Rightarrow> None | v # _ \<Rightarrow> Some v) d) (\<lambda>v d.
                    if column_int v \<noteq> 4
                    then (Inl (RCErrorSet 1 (''Unsupported contact database schema version '' @ show_int (column_int v))), d)
                    else chain (RCWriteJournalInitialize d) (\<lambda>_ d. open_account (the username) d)))) of
                (Inl e, _) \<Rightarrow> Inl e
              | (Inr store, d) \<Rightarrow> Inr (store, d)))"

definition RCContactStoreIsAccount :: "RCContactStore option \<Rightarrow> string option \<Rightarrow> bool" where
  "RCContactStoreIsAccount store username = (case (store, username) of
     (Some s, Some u) \<Rightarrow> same_nocase (cs_username s) u | _ \<Rightarrow> False)"

section \<open>Publication\<close>

definition RCContactStoreGetPublicationState :: "RCContactStore \<Rightarrow> 'z cdb \<Rightarrow> (int \<times> int) res \<times> 'z cdb" where
  "RCContactStoreGetPublicationState store d =
     (if cs_activeRun store \<noteq> 0 then (Inl (RCErrorSet 1 ''Cannot publish an incomplete contact inventory''), d)
      else store_row (RCStoreError ''Could not read contact publication state'')
        (\<lambda>t. map_option (\<lambda>a. (acc_generation a, acc_published a)) (find (\<lambda>a. acc_id a = cs_account store) (accounts t))) d)"

definition publish_account :: "int \<Rightarrow> int \<Rightarrow> 'z contact_tables_scheme \<Rightarrow> ('z contact_tables_scheme \<times> nat) option" where
  "publish_account acct generation t =
     (let P = (\<lambda>a. acc_id a = acct \<and> acc_generation a = generation) in
      Some (t\<lparr>accounts := update_rows P (\<lambda>a. a\<lparr>acc_published := generation\<rparr>) (accounts t)\<rparr>, count_rows P (accounts t)))"

definition clear_bases :: "int \<Rightarrow> 'z contact_tables_scheme \<Rightarrow> ('z contact_tables_scheme \<times> unit) option" where
  "clear_bases acct t = Some (t\<lparr>write_bases := filter (\<lambda>b. b_account b \<noteq> acct) (write_bases t)\<rparr>, ())"

text \<open>The contacts of the account that are present in the mirror, with their collections.\<close>

definition in_account :: "int \<Rightarrow> 'z contact_tables_scheme \<Rightarrow> contact_row \<Rightarrow> bool" where
  "in_account acct t c = (case find (\<lambda>b. cl_id b = ct_collection c) (collections t) of
     None \<Rightarrow> False | Some b \<Rightarrow> cl_account b = acct)"

definition available :: "int \<Rightarrow> 'z contact_tables_scheme \<Rightarrow> contact_row \<Rightarrow> bool" where
  "available acct t c \<longleftrightarrow> (case find (\<lambda>b. cl_id b = ct_collection c) (collections t) of
     None \<Rightarrow> False | Some b \<Rightarrow> cl_account b = acct \<and> \<not> cl_missing b) \<and> \<not> ct_missing c \<and> ct_usable c \<noteq> None"

definition base_of :: "int \<Rightarrow> int \<Rightarrow> contact_row \<Rightarrow> base_row" where
  "base_of acct generation c = \<lparr>b_account = acct, b_key = ct_sync c, b_href = ct_href c, b_etag = ct_usable_etag c,
     b_body = bytes_of (ct_usable c), b_revision = generation\<rparr>"

definition snapshot_bases :: "int \<Rightarrow> int \<Rightarrow> 'z contact_tables_scheme \<Rightarrow> ('z contact_tables_scheme \<times> unit) option" where
  "snapshot_bases acct generation t =
     (let new = map (base_of acct generation) (filter (available acct t) (contacts t));
          keys = map (\<lambda>b. (b_account b, b_key b)) (write_bases t @ new) in
      if distinct keys then Some (t\<lparr>write_bases := write_bases t @ new\<rparr>, ()) else None)"

definition publish_body :: "int \<Rightarrow> int \<Rightarrow> 'z cdb \<Rightarrow> unit res \<times> 'z cdb" where
  "publish_body acct generation d =
     chain (store_modify (RCStoreError ''Could not acknowledge contact publication'') (publish_account acct generation) d) (\<lambda>n d.
     if n \<noteq> 1 then (Inl (RCErrorSet 1 ''Contact inventory changed during publication''), d)
     else chain (store_modify (RCStoreError ''Could not snapshot contact publication bases'') (clear_bases acct) d) (\<lambda>_ d.
       store_modify (RCStoreError ''Could not snapshot contact publication bases'') (snapshot_bases acct generation) d))"

definition RCContactStoreMarkPublished :: "RCContactStore \<Rightarrow> int \<Rightarrow> 'z cdb \<Rightarrow> unit res \<times> 'z cdb" where
  "RCContactStoreMarkPublished store generation d =
     (if cs_activeRun store \<noteq> 0 \<or> generation \<le> 0
      then (Inl (RCErrorSet 1 ''Cannot acknowledge an incomplete contact inventory''), d)
      else store_transaction (publish_body (cs_account store) generation) d)"

section \<open>Runs and collections\<close>

definition wrong_collection :: RCError where
  "wrong_collection = RCErrorSet 1 ''Contact collection does not belong to this account''"

definition RCCheckCollection :: "RCContactStore \<Rightarrow> int \<Rightarrow> 'z cdb \<Rightarrow> unit res \<times> 'z cdb" where
  "RCCheckCollection store identifier d =
     chain (store_row (\<lambda>_. wrong_collection)
       (\<lambda>t. find (\<lambda>b. cl_id b = identifier \<and> cl_account b = cs_account store) (collections t)) d) (\<lambda>_ d. (Inr (), d))"

definition RCCheckRun :: "RCContactStore \<Rightarrow> int \<Rightarrow> unit res" where
  "RCCheckRun store run = (if run > 0 \<and> cs_activeRun store = run then Inr ()
     else Inl (RCErrorSet 1 ''Contact inventory is not active''))"

text \<open>The two checks every operation of a run starts with.\<close>

definition check_both :: "RCContactStore \<Rightarrow> int \<Rightarrow> int \<Rightarrow> 'z cdb \<Rightarrow> unit res \<times> 'z cdb" where
  "check_both store run coll d = chain (RCCheckRun store run, d) (\<lambda>_ d. RCCheckCollection store coll d)"

definition update_contacts ::
  "(contact_row \<Rightarrow> bool) \<Rightarrow> (contact_row \<Rightarrow> contact_row) \<Rightarrow> 'z contact_tables_scheme \<Rightarrow> ('z contact_tables_scheme \<times> unit) option" where
  "update_contacts P f t = Some (t\<lparr>contacts := update_rows P f (contacts t)\<rparr>, ())"

definition RCContactStoreKeepCollection :: "RCContactStore \<Rightarrow> int \<Rightarrow> int \<Rightarrow> 'z cdb \<Rightarrow> unit res \<times> 'z cdb" where
  "RCContactStoreKeepCollection store coll run d = chain (check_both store run coll d) (\<lambda>_ d.
     store_modify (RCStoreError ''Could not retain unchanged contacts'')
       (update_contacts (\<lambda>c. ct_collection c = coll \<and> \<not> ct_missing c) (\<lambda>c. c\<lparr>ct_seen := run\<rparr>)) d)"

definition RCContactStoreSyncDelete :: "RCContactStore \<Rightarrow> int \<Rightarrow> string option \<Rightarrow> int \<Rightarrow> 'z cdb \<Rightarrow> unit res \<times> 'z cdb" where
  "RCContactStoreSyncDelete store coll href run d = chain (check_both store run coll d) (\<lambda>_ d.
     store_modify (RCStoreError ''Could not record contact deletion'')
       (update_contacts (\<lambda>c. ct_collection c = coll \<and> Some (ct_href c) = href) (\<lambda>c. c\<lparr>ct_seen := 0, ct_missing := True\<rparr>)) d)"

definition add_run :: "int \<Rightarrow> 'z contact_tables_scheme \<Rightarrow> ('z contact_tables_scheme \<times> int) option" where
  "add_run acct t = (if \<not> has_account acct t then None
     else let i = next_rowid (map ru_id (sync_runs t)) in
       Some (t\<lparr>sync_runs := sync_runs t @ [\<lparr>ru_id = i, ru_account = acct, ru_finished = False, ru_succeeded = None, ru_message = None\<rparr>]\<rparr>, i))"

definition RCContactStoreBeginRun :: "RCContactStore \<Rightarrow> 'z cdb \<Rightarrow> int res \<times> RCContactStore \<times> 'z cdb" where
  "RCContactStoreBeginRun store d =
     (if cs_activeRun store \<noteq> 0 then (Inl (RCErrorSet 1 ''A contact inventory is already active''), store, d)
      else case store_modify (RCStoreError ''Could not begin contact run'') (add_run (cs_account store)) d of
          (Inl e, d) \<Rightarrow> (Inl e, store, d)
        | (Inr run, d) \<Rightarrow>
            (case RCExecute sql_begin d of
               (Inl e, d) \<Rightarrow> (Inl e, store, d)
             | (Inr _, d) \<Rightarrow> (Inr run, store\<lparr>cs_activeRun := run\<rparr>, d)))"

text \<open>\<open>INSERT OR IGNORE\<close>: a missing URL or a known one inserts nothing; an unknown account is an error.\<close>

definition add_collection :: "string option \<Rightarrow> string option \<Rightarrow> int \<Rightarrow> 'z contact_tables_scheme \<Rightarrow> ('z contact_tables_scheme \<times> unit) option" where
  "add_collection url name acct t = (case url of None \<Rightarrow> Some (t, ())
     | Some u \<Rightarrow>
         if \<exists>b \<in> set (collections t). cl_account b = acct \<and> cl_url b = u then Some (t, ())
         else if \<not> has_account acct t then None
         else Some (t\<lparr>collections := collections t @ [\<lparr>cl_id = next_rowid (map cl_id (collections t)), cl_account = acct,
           cl_url = u, cl_name = name, cl_complete = None, cl_missing = False\<rparr>]\<rparr>, ()))"

definition named_collection :: "int \<Rightarrow> string option \<Rightarrow> collection_row \<Rightarrow> bool" where
  "named_collection acct url b \<longleftrightarrow> cl_account b = acct \<and> Some (cl_url b) = url"

definition RCContactStoreGetCollection :: "RCContactStore \<Rightarrow> string option \<Rightarrow> string option \<Rightarrow> 'z cdb \<Rightarrow> int res \<times> 'z cdb" where
  "RCContactStoreGetCollection store url name d =
     chain (store_modify (RCStoreError ''Could not add collection'') (add_collection url name (cs_account store)) d) (\<lambda>_ d.
     chain (store_modify (RCStoreError ''Could not update collection'')
       (\<lambda>t. Some (t\<lparr>collections := update_rows (named_collection (cs_account store) url)
          (\<lambda>b. b\<lparr>cl_name := (case name of None \<Rightarrow> cl_name b | Some n \<Rightarrow> Some n)\<rparr>) (collections t)\<rparr>, ())) d) (\<lambda>_ d.
     store_row (RCStoreError ''Could not find collection'')
       (\<lambda>t. map_option cl_id (find (named_collection (cs_account store) url) (collections t))) d))"

definition at_href :: "int \<Rightarrow> string option \<Rightarrow> contact_row \<Rightarrow> bool" where
  "at_href coll href c \<longleftrightarrow> ct_collection c = coll \<and> Some (ct_href c) = href"

definition RCContactStoreResourceIsCurrent ::
  "RCContactStore \<Rightarrow> int \<Rightarrow> string option \<Rightarrow> string option \<Rightarrow> 'z cdb \<Rightarrow> bool res \<times> 'z cdb" where
  "RCContactStoreResourceIsCurrent store coll href etag d = chain (RCCheckCollection store coll d) (\<lambda>_ d.
     chain (store_select (RCStoreError ''Could not inspect contact ETag'')
       (\<lambda>t. map_option ct_etag (find (at_href coll href) (contacts t))) d) (\<lambda>row d.
     (Inr (case row of Some (Some stored) \<Rightarrow> etag = Some stored | _ \<Rightarrow> False), d)))"

definition RCContactStoreMarkSeen :: "RCContactStore \<Rightarrow> int \<Rightarrow> string option \<Rightarrow> int \<Rightarrow> 'z cdb \<Rightarrow> unit res \<times> 'z cdb" where
  "RCContactStoreMarkSeen store coll href run d = chain (check_both store run coll d) (\<lambda>_ d.
     store_modify (RCStoreError ''Could not mark contact as seen'')
       (update_contacts (at_href coll href) (\<lambda>c. c\<lparr>ct_seen := run, ct_missing := False\<rparr>)) d)"

section \<open>Resources\<close>

text \<open>One row per property: the identifier it had, if a property of its name and group was at its position.\<close>

definition previous_identifier :: "int \<Rightarrow> RCVCardProperty \<Rightarrow> 'z contact_tables_scheme \<Rightarrow> string option option" where
  "previous_identifier contact p t = map_option py_sync
     (find (\<lambda>r. py_contact r = contact \<and> py_position r = int (pr_position p) \<and> py_group r = pr_group p \<and> py_name r = pr_name p)
       (contact_properties t))"

fun previous_loop ::
  "int \<Rightarrow> RCVCardProperty list \<Rightarrow> 'z cdb \<Rightarrow> string option list res \<times> 'z cdb" where
  "previous_loop contact [] d = (Inr [], d)"
| "previous_loop contact (p # ps) d =
     (case sql_query (previous_identifier contact p) d of
        (None, d) \<Rightarrow> (Inl (RCStoreError ''Could not inspect contact property identity'' d), d)
      | (Some r, d) \<Rightarrow> chain (previous_loop contact ps d) (\<lambda>ids d.
          (Inr ((case r of None \<Rightarrow> None | Some i \<Rightarrow> i) # ids), d)))"

definition RCCopyPreviousPropertyIdentifiers ::
  "int \<Rightarrow> RCVCardDocument \<Rightarrow> 'z cdb \<Rightarrow> string option list res \<times> 'z cdb" where
  "RCCopyPreviousPropertyIdentifiers contact document d =
     chain (RCPrepare d) (\<lambda>_ d. previous_loop contact (dv_properties document) d)"

definition add_property ::
  "int \<Rightarrow> RCVCardProperty \<Rightarrow> string \<Rightarrow> 'z contact_tables_scheme \<Rightarrow> ('z contact_tables_scheme \<times> int) option" where
  "add_property contact p sync t =
     (if Some sync \<in> py_sync ` set (contact_properties t) \<or> contact \<notin> ct_id ` set (contacts t) then None
      else let i = next_rowid (map py_id (contact_properties t)) in
        Some (t\<lparr>contact_properties := contact_properties t @ [\<lparr>py_id = i, py_contact = contact, py_position = int (pr_position p),
          py_group = pr_group p, py_name = pr_name p, py_decoded = Some (pr_decodedValue p), py_original = Some (pr_originalValue p),
          py_type = pr_valueType p, py_sync = Some sync\<rparr>]\<rparr>, i))"

definition add_parameter :: "int \<Rightarrow> RCVCardParameter \<Rightarrow> 'z contact_tables_scheme \<Rightarrow> ('z contact_tables_scheme \<times> unit) option" where
  "add_parameter prop p t = (if prop \<notin> py_id ` set (contact_properties t) then None
     else Some (t\<lparr>contact_parameters := contact_parameters t @
       [\<lparr>pa_id = next_rowid (map pa_id (contact_parameters t)), pa_property = prop, pa_position = int (pm_position p),
         pa_name = pm_name p, pa_value = pm_value p\<rparr>]\<rparr>, ()))"

definition add_part :: "int \<Rightarrow> RCVCardValuePart \<Rightarrow> 'z contact_tables_scheme \<Rightarrow> ('z contact_tables_scheme \<times> unit) option" where
  "add_part prop p t = (if prop \<notin> py_id ` set (contact_properties t) then None
     else Some (t\<lparr>contact_value_parts := contact_value_parts t @
       [\<lparr>pt_id = next_rowid (map pt_id (contact_value_parts t)), pt_property = prop, pt_component = int (vp_component p),
         pt_position = int (vp_position p), pt_value = Some (vp_value p)\<rparr>]\<rparr>, ()))"

definition property_error :: "'t db \<Rightarrow> RCError" where
  "property_error d = RCStoreError ''Could not store parsed vCard property'' d"

definition step_or_fail :: "('t \<Rightarrow> ('t \<times> 'r) option) \<Rightarrow> 't db \<Rightarrow> 'r res \<times> 't db" where
  "step_or_fail f d = (case sql_modify f d of (Some n, d) \<Rightarrow> (Inr n, d) | (None, d) \<Rightarrow> (Inl (property_error d), d))"

fun step_all :: "('x \<Rightarrow> 't \<Rightarrow> ('t \<times> unit) option) \<Rightarrow> 'x list \<Rightarrow> 't db \<Rightarrow> unit res \<times> 't db" where
  "step_all f [] d = (Inr (), d)"
| "step_all f (x # xs) d = chain (step_or_fail (f x) d) (\<lambda>_ d. step_all f xs d)"

text \<open>\<open>COALESCE(?, lower(hex(randomblob(16))))\<close>: the previous identifier, else a new one.\<close>

fun insert_loop :: "int \<Rightarrow> (RCVCardProperty \<times> string option) list \<Rightarrow> 'z cdb \<Rightarrow> unit res \<times> 'z cdb" where
  "insert_loop contact [] d = (Inr (), d)"
| "insert_loop contact ((p, old) # rest) d =
     chain (step_or_fail (add_property contact p (case old of Some i \<Rightarrow> i | None \<Rightarrow> random d (calls d))) d) (\<lambda>prop d.
     chain (step_all (add_parameter prop) (pr_parameters p) d) (\<lambda>_ d.
     chain (step_all (add_part prop) (pr_parts p) d) (\<lambda>_ d.
     insert_loop contact rest d)))"

definition RCInsertProperties :: "int \<Rightarrow> RCVCardDocument \<Rightarrow> string option list \<Rightarrow> 'z cdb \<Rightarrow> unit res \<times> 'z cdb" where
  "RCInsertProperties contact document ids d =
     chain (RCPrepare d) (\<lambda>_ d. chain (RCPrepare d) (\<lambda>_ d. chain (RCPrepare d) (\<lambda>_ d.
       insert_loop contact (zip (dv_properties document) ids) d)))"

text \<open>
  \<open>INSERT OR IGNORE\<close> of a contact: a missing address or body, a known address and a repeated
  identifier insert nothing; an unknown collection is an error.
\<close>

definition add_contact ::
  "int \<Rightarrow> string option \<Rightarrow> bytes option \<Rightarrow> int \<Rightarrow> string \<Rightarrow> 'z contact_tables_scheme \<Rightarrow> ('z contact_tables_scheme \<times> unit) option" where
  "add_contact coll href raw run sync t = (case (href, raw) of
     (Some h, Some body) \<Rightarrow>
       if (\<exists>c \<in> set (contacts t). at_href coll href c \<or> ct_sync c = sync) then Some (t, ())
       else if coll \<notin> cl_id ` set (collections t) then None
       else Some (t\<lparr>contacts := contacts t @ [\<lparr>ct_id = next_rowid (map ct_id (contacts t)), ct_collection = coll, ct_href = h,
         ct_uid = None, ct_etag = None, ct_version = None, ct_formatted = None, ct_given = None, ct_family = None,
         ct_organization = None, ct_title = None, ct_birthday = None, ct_raw = body, ct_usable = None, ct_usable_etag = None,
         ct_parse_error = None, ct_sync = sync, ct_seen = run, ct_missing = False\<rparr>]\<rparr>, ())
   | _ \<Rightarrow> Some (t, ()))"

definition parsed_contact :: "RCVCardDocument \<Rightarrow> string option \<Rightarrow> bytes \<Rightarrow> int \<Rightarrow> contact_row \<Rightarrow> contact_row" where
  "parsed_contact document etag raw run c = c\<lparr>ct_uid := dv_uid document, ct_etag := etag, ct_version := dv_version document,
     ct_formatted := dv_formattedName document, ct_given := dv_givenName document, ct_family := dv_familyName document,
     ct_organization := dv_organization document, ct_title := dv_title document, ct_birthday := dv_birthday document,
     ct_raw := raw, ct_usable := Some raw, ct_usable_etag := etag, ct_parse_error := None, ct_seen := run, ct_missing := False\<rparr>"

text \<open>\<open>ON DELETE CASCADE\<close>: the parameters and parts of the deleted properties go with them.\<close>

definition drop_properties :: "int \<Rightarrow> 'z contact_tables_scheme \<Rightarrow> ('z contact_tables_scheme \<times> unit) option" where
  "drop_properties contact t =
     (let gone = py_id ` set (filter (\<lambda>p. py_contact p = contact) (contact_properties t)) in
      Some (t\<lparr>contact_properties := filter (\<lambda>p. py_contact p \<noteq> contact) (contact_properties t),
              contact_parameters := filter (\<lambda>p. pa_property p \<notin> gone) (contact_parameters t),
              contact_value_parts := filter (\<lambda>p. pt_property p \<notin> gone) (contact_value_parts t)\<rparr>, ()))"

text \<open>The update of a row sets \<open>raw_vcard\<close>, which is \<open>NOT NULL\<close>.\<close>

definition update_parsed ::
  "int \<Rightarrow> string option \<Rightarrow> RCVCardDocument \<Rightarrow> string option \<Rightarrow> bytes option \<Rightarrow> int \<Rightarrow> 'z contact_tables_scheme \<Rightarrow>
   ('z contact_tables_scheme \<times> unit) option" where
  "update_parsed coll href document etag raw run t = (case raw of
     Some body \<Rightarrow> update_contacts (at_href coll href) (parsed_contact document etag body run) t
   | None \<Rightarrow> if \<exists>c \<in> set (contacts t). at_href coll href c then None else Some (t, ()))"

definition save_body ::
  "int \<Rightarrow> int \<Rightarrow> string option \<Rightarrow> string option \<Rightarrow> bytes option \<Rightarrow> RCVCardDocument \<Rightarrow> 'z cdb \<Rightarrow> unit res \<times> 'z cdb" where
  "save_body coll run href etag raw document d =
     chain (store_modify (RCStoreError ''Could not create contact row'') (add_contact coll href raw run (random d (Suc (calls d)))) d) (\<lambda>_ d.
     chain (store_modify (RCStoreError ''Could not update contact row'') (update_parsed coll href document etag raw run) d) (\<lambda>_ d.
     chain (store_row (RCStoreError ''Could not locate stored contact'')
       (\<lambda>t. map_option ct_id (find (at_href coll href) (contacts t))) d) (\<lambda>contact d.
     chain (RCCopyPreviousPropertyIdentifiers contact document d) (\<lambda>ids d.
     chain (store_modify (RCStoreError ''Could not replace parsed contact properties'') (drop_properties contact) d) (\<lambda>_ d.
     RCInsertProperties contact document ids d)))))"

definition RCContactStoreSaveVCard ::
  "RCContactStore \<Rightarrow> int \<Rightarrow> int \<Rightarrow> string option \<Rightarrow> string option \<Rightarrow> bytes option \<Rightarrow> nat \<Rightarrow> RCVCardDocument \<Rightarrow> 'z cdb \<Rightarrow>
   unit res \<times> 'z cdb" where
  "RCContactStoreSaveVCard store coll run href etag raw len document d =
     chain (check_both store run coll d) (\<lambda>_ d.
       store_savepoint ''contact_resource'' (save_body coll run href etag (blob raw len) document) d)"

definition invalid_contact :: "string option \<Rightarrow> bytes \<Rightarrow> string \<Rightarrow> int \<Rightarrow> contact_row \<Rightarrow> contact_row" where
  "invalid_contact etag raw message run c =
     c\<lparr>ct_raw := raw, ct_etag := etag, ct_parse_error := Some message, ct_seen := run, ct_missing := False\<rparr>"

definition retain_body ::
  "int \<Rightarrow> int \<Rightarrow> string option \<Rightarrow> string option \<Rightarrow> bytes \<Rightarrow> string \<Rightarrow> 'z cdb \<Rightarrow> unit res \<times> 'z cdb" where
  "retain_body coll run href etag raw message d =
     chain (store_modify (RCStoreError ''Could not retain invalid contact resource'')
       (add_contact coll href (Some raw) run (random d (Suc (calls d)))) d) (\<lambda>_ d.
     store_modify (RCStoreError ''Could not retain invalid contact resource'')
       (update_contacts (at_href coll href) (invalid_contact etag raw message run)) d)"

text \<open>The flag tells whether the body could not be parsed.\<close>

definition RCContactStoreSaveResource ::
  "vc_parser \<Rightarrow> RCContactStore \<Rightarrow> int \<Rightarrow> int \<Rightarrow> string option \<Rightarrow> string option \<Rightarrow> bytes option \<Rightarrow> nat \<Rightarrow> 'z cdb \<Rightarrow>
   (bool \<times> unit res) \<times> 'z cdb" where
  "RCContactStoreSaveResource vc store coll run href etag bytes len d =
     (case RCVCardParse vc bytes len of
        Inr document \<Rightarrow>
          (let (r, d) = RCContactStoreSaveVCard store coll run href etag bytes len document d in ((False, r), d))
      | Inl e \<Rightarrow>
          (let (r, d) = chain (check_both store run coll d) (\<lambda>_ d.
             store_savepoint ''contact_resource'' (retain_body coll run href etag (take len (bytes_of bytes)) (err_message e)) d)
           in ((True, r), d)))"

section \<open>Finishing\<close>

definition seen_in :: "int \<Rightarrow> contact_row \<Rightarrow> contact_row" where
  "seen_in run c = c\<lparr>ct_missing := (ct_seen c \<noteq> run)\<rparr>"

definition update_collections ::
  "(collection_row \<Rightarrow> bool) \<Rightarrow> (collection_row \<Rightarrow> collection_row) \<Rightarrow> 'z contact_tables_scheme \<Rightarrow> ('z contact_tables_scheme \<times> unit) option" where
  "update_collections P f t = Some (t\<lparr>collections := update_rows P f (collections t)\<rparr>, ())"

definition finish_collection_body :: "int \<Rightarrow> int \<Rightarrow> 'z cdb \<Rightarrow> unit res \<times> 'z cdb" where
  "finish_collection_body coll run d =
     chain (store_modify (RCStoreError ''Could not finish collection inventory'')
       (update_contacts (\<lambda>c. ct_collection c = coll) (seen_in run)) d) (\<lambda>_ d.
     store_modify (RCStoreError ''Could not finish collection inventory'')
       (update_collections (\<lambda>b. cl_id b = coll) (\<lambda>b. b\<lparr>cl_complete := Some run\<rparr>)) d)"

definition RCContactStoreFinishCollection :: "RCContactStore \<Rightarrow> int \<Rightarrow> int \<Rightarrow> 'z cdb \<Rightarrow> unit res \<times> 'z cdb" where
  "RCContactStoreFinishCollection store coll run d =
     chain (check_both store run coll d) (\<lambda>_ d. store_savepoint ''contact_collection'' (finish_collection_body coll run) d)"

definition retire_collections :: "int \<Rightarrow> int \<Rightarrow> 'z contact_tables_scheme \<Rightarrow> ('z contact_tables_scheme \<times> unit) option" where
  "retire_collections acct run = update_collections (\<lambda>b. cl_account b = acct) (\<lambda>b. b\<lparr>cl_missing := (cl_complete b \<noteq> Some run)\<rparr>)"

definition retire_contacts :: "int \<Rightarrow> 'z contact_tables_scheme \<Rightarrow> ('z contact_tables_scheme \<times> unit) option" where
  "retire_contacts acct t = update_contacts
     (\<lambda>c. ct_collection c \<in> cl_id ` set (filter (\<lambda>b. cl_account b = acct \<and> cl_missing b) (collections t)))
     (\<lambda>c. c\<lparr>ct_missing := True\<rparr>) t"

definition set_generation :: "int \<Rightarrow> int \<Rightarrow> 'z contact_tables_scheme \<Rightarrow> ('z contact_tables_scheme \<times> unit) option" where
  "set_generation acct run t = Some (t\<lparr>accounts := update_rows (\<lambda>a. acc_id a = acct) (\<lambda>a. a\<lparr>acc_generation := run\<rparr>) (accounts t)\<rparr>, ())"

definition end_run :: "int \<Rightarrow> int \<Rightarrow> bool \<Rightarrow> string option \<Rightarrow> 'z contact_tables_scheme \<Rightarrow> ('z contact_tables_scheme \<times> unit) option" where
  "end_run acct run succeeded message t = Some (t\<lparr>sync_runs := update_rows (\<lambda>r. ru_id r = run \<and> ru_account r = acct)
     (\<lambda>r. r\<lparr>ru_finished := True, ru_succeeded := Some succeeded, ru_message := message\<rparr>) (sync_runs t)\<rparr>, ())"

definition finish_error :: "'t db \<Rightarrow> RCError" where
  "finish_error d = RCStoreError ''Could not finish contact inventory'' d"

text \<open>A successful run: retire what was not completed, publish the generation, close the run, commit.\<close>

definition commit_run :: "int \<Rightarrow> int \<Rightarrow> string option \<Rightarrow> 'z cdb \<Rightarrow> unit res \<times> 'z cdb" where
  "commit_run acct run message d =
     chain (store_modify finish_error (retire_collections acct run) d) (\<lambda>_ d.
     chain (store_modify finish_error (retire_contacts acct) d) (\<lambda>_ d.
     chain (store_modify finish_error (set_generation acct run) d) (\<lambda>_ d.
     chain (store_modify finish_error (end_run acct run True message) d) (\<lambda>_ d.
     RCExecute sql_commit d))))"

text \<open>A failed run: everything since its start is rolled back before the run is closed.\<close>

definition abandon_run :: "int \<Rightarrow> int \<Rightarrow> string option \<Rightarrow> 'z cdb \<Rightarrow> unit res \<times> 'z cdb" where
  "abandon_run acct run message d =
     chain (RCExecute sql_rollback d) (\<lambda>_ d. store_modify finish_error (end_run acct run False message) d)"

definition RCContactStoreFinishRun ::
  "RCContactStore \<Rightarrow> int \<Rightarrow> bool \<Rightarrow> string option \<Rightarrow> 'z cdb \<Rightarrow> unit res \<times> RCContactStore \<times> 'z cdb" where
  "RCContactStoreFinishRun store run succeeded message d =
     (case RCCheckRun store run of Inl e \<Rightarrow> (Inl e, store, d)
      | Inr _ \<Rightarrow>
          (case (if succeeded then commit_run else abandon_run) (cs_account store) run message d of
             (Inr _, d) \<Rightarrow> (Inr (), store\<lparr>cs_activeRun := 0\<rparr>, d)
           | (Inl e, d) \<Rightarrow> (Inl e, store\<lparr>cs_activeRun := 0\<rparr>, if autocommit d then d else snd (sql_rollback d))))"

section \<open>Reading\<close>

definition statistics :: "int \<Rightarrow> 'z contact_tables_scheme \<Rightarrow> RCContactStoreStatistics" where
  "statistics acct t = (let rows = filter (in_account acct t) (contacts t) in
     \<lparr>resourceCount = int (length rows), availableCount = int (count_rows (\<lambda>c. \<not> ct_missing c) rows),
      missingCount = int (count_rows ct_missing rows),
      parseErrorCount = int (count_rows (\<lambda>c. \<not> ct_missing c \<and> ct_parse_error c \<noteq> None) rows)\<rparr>)"

definition RCContactStoreGetStatistics :: "RCContactStore \<Rightarrow> 'z cdb \<Rightarrow> RCContactStoreStatistics res \<times> 'z cdb" where
  "RCContactStoreGetStatistics store d =
     store_row (RCStoreError ''Could not read statistics'') (\<lambda>t. Some (statistics (cs_account store) t)) d"

text \<open>The loop over the rows; an empty body is not exported, and a callback that fails without an error gets one.\<close>

fun export_rows ::
  "(int \<Rightarrow> string \<Rightarrow> bytes \<Rightarrow> 'c \<Rightarrow> unit res \<times> 'c) \<Rightarrow> contact_row list \<Rightarrow> 'z cdb \<Rightarrow> 'c \<Rightarrow> unit res \<times> 'z cdb \<times> 'c" where
  "export_rows callback [] d c = (let (ok, d) = sql_call Step d in
     (if ok then Inr () else Inl (RCStoreError ''Could not enumerate cached contacts'' d), d, c))"
| "export_rows callback (r # rs) d c = (let (ok, d) = sql_call Step d in
     if \<not> ok then (Inl (RCStoreError ''Could not enumerate cached contacts'' d), d, c)
     else if bytes_of (ct_usable r) = [] then (Inl (RCErrorSet 1 ''Could not export cached contact''), d, c)
     else case callback (ct_id r) (ct_sync r) (bytes_of (ct_usable r)) c of
         (Inl e, c) \<Rightarrow> (Inl (if err_code e = 0 then RCErrorSet 1 ''Could not export cached contact'' else e), d, c)
       | (Inr _, c) \<Rightarrow> export_rows callback rs d c)"

definition exported :: "int \<Rightarrow> 'z contact_tables_scheme \<Rightarrow> contact_row list" where
  "exported acct t = sort_key ct_id (filter (available acct t) (contacts t))"

definition RCContactStoreForEachAvailableContact ::
  "RCContactStore option \<Rightarrow> (int \<Rightarrow> string \<Rightarrow> bytes \<Rightarrow> 'c \<Rightarrow> unit res \<times> 'c) option \<Rightarrow> 'z cdb \<Rightarrow> 'c \<Rightarrow> unit res \<times> 'z cdb \<times> 'c" where
  "RCContactStoreForEachAvailableContact store callback d c = (case (store, callback) of
     (Some s, Some f) \<Rightarrow>
       if cs_activeRun s \<noteq> 0 then (Inl (RCErrorSet 1 ''Cannot publish an incomplete contact inventory''), d, c)
       else (case RCPrepare d of (Inl e, d) \<Rightarrow> (Inl e, d, c)
         | (Inr _, d) \<Rightarrow> export_rows f (exported (cs_account s) (tables d)) d c)
   | _ \<Rightarrow> (Inl (RCErrorSet 1 ''Contact enumeration parameters are missing''), d, c))"

definition property_identity :: "int \<Rightarrow> int \<Rightarrow> int \<Rightarrow> 'z contact_tables_scheme \<Rightarrow> string option option" where
  "property_identity acct contact position t = map_option py_sync
     (find (\<lambda>p. py_contact p = contact \<and> py_position p = position \<and>
        (\<exists>c \<in> set (contacts t). ct_id c = contact \<and> in_account acct t c)) (contact_properties t))"

definition RCContactStoreCopyPropertySyncIdentifier ::
  "RCContactStore \<Rightarrow> int \<Rightarrow> int \<Rightarrow> 'z cdb \<Rightarrow> string res \<times> 'z cdb" where
  "RCContactStoreCopyPropertySyncIdentifier store contact position d =
     chain (store_select (RCStoreError ''Could not read contact property identity'')
       (property_identity (cs_account store) contact position) d) (\<lambda>row d.
     (case row of None \<Rightarrow> Inl (RCErrorSet 1 ''Could not find contact property identity'')
      | Some i \<Rightarrow> if empty_text i then Inl (RCErrorSet 1 ''Contact property sync identity is missing'')
          else Inr (the i), d))"

text \<open>
  The lookup of \<^verbatim>\<open>source/shared/RCDAVStaging.c\<close> in the contact mirror: whether the version
  with this entity tag is the one that is stored.
\<close>

definition RCDAVMirrorContactCurrent ::
  "int \<Rightarrow> string option \<Rightarrow> string option \<Rightarrow> string option \<Rightarrow> 'z cdb \<Rightarrow> bool res \<times> 'z cdb" where
  "RCDAVMirrorContactCurrent acct url href etag d =
     (let failed = RCErrorSet 1 ''Could not read mirror resource version''; (prepared, d) = sql_prepare d in
      if \<not> prepared then (Inl failed, d)
      else case sql_query (\<lambda>t. find (\<lambda>c. Some (ct_href c) = href \<and> ct_etag c \<noteq> None \<and> ct_etag c = etag \<and>
               (\<exists>b \<in> set (collections t). cl_id b = ct_collection c \<and> cl_account b = acct \<and> Some (cl_url b) = url)) (contacts t)) d of
          (None, d) \<Rightarrow> (Inl failed, d)
        | (Some row, d) \<Rightarrow> (Inr (row \<noteq> None), d))"

end
