(* ===== verification/CardDAVMirror.thy ===== *)
theory CardDAVMirror
  imports ContactStore DAVStaging DAVClientContract
begin

text \<open>
  The address book synchronisation of \<^verbatim>\<open>source/shared/RCCardDAVMirror.c\<close>: discovery, the
  download of every collection into the staging area, and one transaction that replays the
  staged inventory into the contact store together with the new synchronisation tokens. The
  state is the record \<open>mirror\<close> and the world of the HTTP client. Progress messages have no
  effect on it and are left out.
\<close>

section \<open>State\<close>

record RCCardDAVMirrorConfig =
  mc_serviceURL :: "string option"
  mc_username :: "string option"
  mc_password :: "string option"
  mc_certificatePath :: "string option"
  mc_allowedHostSuffix :: "string option"

record RCCardDAVMirrorResult =
  mr_collectionCount :: int
  mr_listed :: int
  mr_downloaded :: int
  mr_unchanged :: int

record 'z mirror =
  m_store :: RCContactStore
  m_db :: "'z cdb"
  m_stage :: stage_db
  m_result :: RCCardDAVMirrorResult

text \<open>What the download of a collection leaves for the commit.\<close>

record RCContactFetch =
  fe_keep :: bool
  fe_token :: "string option"

definition on_database :: "('z cdb \<Rightarrow> 'a res \<times> 'z cdb) \<Rightarrow> 'z mirror \<times> 'w \<Rightarrow> 'a res \<times> 'z mirror \<times> 'w" where
  "on_database f s = (let (r, d) = f (m_db (fst s)) in (r, (fst s)\<lparr>m_db := d\<rparr>, snd s))"

definition on_stage :: "(stage_db \<Rightarrow> 'a res \<times> stage_db) \<Rightarrow> 'z mirror \<times> 'w \<Rightarrow> 'a res \<times> 'z mirror \<times> 'w" where
  "on_stage f s = (let (r, d) = f (m_stage (fst s)) in (r, (fst s)\<lparr>m_stage := d\<rparr>, snd s))"

definition on_world :: "('w \<Rightarrow> 'a res \<times> 'w) \<Rightarrow> 'z mirror \<times> 'w \<Rightarrow> 'a res \<times> 'z mirror \<times> 'w" where
  "on_world f s = (let (r, w) = f (snd s) in (r, fst s, w))"

definition set_result :: "(RCCardDAVMirrorResult \<Rightarrow> RCCardDAVMirrorResult) \<Rightarrow> 'z mirror \<times> 'w \<Rightarrow> 'z mirror \<times> 'w" where
  "set_result f s = ((fst s)\<lparr>m_result := f (m_result (fst s))\<rparr>, snd s)"

definition stop_check :: "('l::len word, 'w) curl \<Rightarrow> 'z mirror \<times> 'w \<Rightarrow> unit res \<times> 'z mirror \<times> 'w" where
  "stop_check cu s = (case RCCheckCancellation (stop cu (snd s)) of Some e \<Rightarrow> (Inl e, s) | None \<Rightarrow> (Inr (), s))"

section \<open>Download\<close>

definition download ::
  "('l::len word, 'w) curl \<Rightarrow> 'l word RCHTTPClient \<Rightarrow> int \<Rightarrow> RCDAVResource \<Rightarrow> 'z mirror \<times> 'w \<Rightarrow> unit res \<times> 'z mirror \<times> 'w" where
  "download cu client k r s =
     chain (on_world (RCHTTPClientRequest cu client ''GET'' (v_url r) None None None 0) s) (\<lambda>response s.
     if rs_statusCode response \<noteq> 200
     then (Inl (RCErrorSet (column_int (rs_statusCode response))
             (''Contact GET returned HTTP '' @ show_int (rs_statusCode response))), s)
     else chain (on_stage (RCDAVStageSave k RCDAVStageDownloaded (Some (v_url r))
              (if rs_etag response \<noteq> None then rs_etag response else v_etag r) (rs_body response) (bodyLength response)) s) (\<lambda>_ s.
       (Inr (), set_result (\<lambda>n. n\<lparr>mr_downloaded := mr_downloaded n + 1\<rparr>) s)))"

definition apply_change ::
  "('l::len word, 'w) curl \<Rightarrow> 'l word RCHTTPClient \<Rightarrow> string \<Rightarrow> int \<Rightarrow> RCDAVResource \<Rightarrow> 'z mirror \<times> 'w \<Rightarrow> unit res \<times> 'z mirror \<times> 'w" where
  "apply_change cu client url k r s = chain (stop_check cu s) (\<lambda>_ s.
     if v_etag r = None then on_stage (RCDAVStageSave k RCDAVStageDeleted (Some (v_url r)) None None 0) s
     else chain (on_database (RCDAVMirrorContactCurrent (cs_account (m_store (fst s))) (Some url) (Some (v_url r)) (v_etag r)) s) (\<lambda>current s.
       chain (on_stage (RCDAVStageHasResource k (v_url r)) s) (\<lambda>staged s.
       if current \<and> \<not> staged
       then chain (on_stage (RCDAVStageSave k RCDAVStageSeen (Some (v_url r)) (v_etag r) None 0) s) (\<lambda>_ s.
              (Inr (), set_result (\<lambda>n. n\<lparr>mr_unchanged := mr_unchanged n + 1\<rparr>) s))
       else download cu client k r s)))"

fun apply_changes ::
  "('l::len word, 'w) curl \<Rightarrow> 'l word RCHTTPClient \<Rightarrow> string \<Rightarrow> int \<Rightarrow> RCDAVResource list \<Rightarrow> 'z mirror \<times> 'w \<Rightarrow> unit res \<times> 'z mirror \<times> 'w" where
  "apply_changes cu client url k [] s = (Inr (), s)"
| "apply_changes cu client url k (r # rs) s = chain (apply_change cu client url k r s) (\<lambda>_ s. apply_changes cu client url k rs s)"

definition RCApplyContactChanges ::
  "('l::len word, 'w) curl \<Rightarrow> 'l word RCHTTPClient \<Rightarrow> string \<Rightarrow> int \<Rightarrow> RCDAVResource list \<Rightarrow> 'z mirror \<times> 'w \<Rightarrow> unit res \<times> 'z mirror \<times> 'w" where
  "RCApplyContactChanges cu client url k rs s =
     apply_changes cu client url k rs (set_result (\<lambda>n. n\<lparr>mr_listed := mr_listed n + int (length rs)\<rparr>) s)"

text \<open>
  One incremental attempt: the fetch it completed, or nothing when the server asks to start
  over; then what was staged and counted is discarded.
\<close>

definition try_sync ::
  "libxml \<Rightarrow> ('l::len word, 'w) curl \<Rightarrow> 'l word RCHTTPClient \<Rightarrow> string \<Rightarrow> int \<Rightarrow> string option \<Rightarrow> 'z mirror \<times> 'w \<Rightarrow>
   RCContactFetch option res \<times> 'z mirror \<times> 'w" where
  "try_sync lx cu client url k base s =
     (let before = m_result (fst s) in
      case RCDAVSyncCollection lx cu client url base (Some (RCApplyContactChanges cu client url k)) s of
        ((RCDAVSyncFailed, e), s) \<Rightarrow> (Inl e, s)
      | ((RCDAVSyncComplete next, _), s) \<Rightarrow> (Inr (Some \<lparr>fe_keep = (base \<noteq> None), fe_token = Some next\<rparr>), s)
      | ((RCDAVSyncFallback, _), s) \<Rightarrow> chain (on_stage (RCDAVStageReset k) s) (\<lambda>_ s. (Inr None, set_result (\<lambda>_. before) s)))"

definition full_listing ::
  "libxml \<Rightarrow> ('l::len word, 'w) curl \<Rightarrow> 'l word RCHTTPClient \<Rightarrow> string \<Rightarrow> int \<Rightarrow> 'z mirror \<times> 'w \<Rightarrow> RCContactFetch res \<times> 'z mirror \<times> 'w" where
  "full_listing lx cu client url k s =
     chain (on_world (RCDAVListResources lx cu client url) s) (\<lambda>resources s.
     chain (RCApplyContactChanges cu client url k resources s) (\<lambda>_ s. (Inr \<lparr>fe_keep = False, fe_token = None\<rparr>, s)))"

definition RCFetchCollection ::
  "libxml \<Rightarrow> ('l::len word, 'w) curl \<Rightarrow> 'l word RCHTTPClient \<Rightarrow> RCDAVCollection \<Rightarrow> int \<Rightarrow> 'z mirror \<times> 'w \<Rightarrow>
   RCContactFetch res \<times> 'z mirror \<times> 'w" where
  "RCFetchCollection lx cu client coll k s =
     chain (on_database (RCDAVSyncStateLoad (cs_account (m_store (fst s))) (Some (k_url coll))) s) (\<lambda>(token, scope) s.
     if \<not> k_supportsSync coll then full_listing lx cu client (k_url coll) k s
     else chain (try_sync lx cu client (k_url coll) k token s) (\<lambda>fetched s.
       case fetched of Some f \<Rightarrow> (Inr f, s)
       | None \<Rightarrow>
           if token = None then full_listing lx cu client (k_url coll) k s
           else chain (try_sync lx cu client (k_url coll) k None s) (\<lambda>fetched s.
             case fetched of Some f \<Rightarrow> (Inr f, s) | None \<Rightarrow> full_listing lx cu client (k_url coll) k s)))"

fun fetch_all ::
  "libxml \<Rightarrow> ('l::len word, 'w) curl \<Rightarrow> 'l word RCHTTPClient \<Rightarrow> int \<Rightarrow> RCDAVCollection list \<Rightarrow> 'z mirror \<times> 'w \<Rightarrow>
   RCContactFetch list res \<times> 'z mirror \<times> 'w" where
  "fetch_all lx cu client k [] s = (Inr [], s)"
| "fetch_all lx cu client k (c # cs) s = chain (stop_check cu s) (\<lambda>_ s.
     chain (RCFetchCollection lx cu client c k s) (\<lambda>f s.
     chain (fetch_all lx cu client (k + 1) cs s) (\<lambda>fs s. (Inr (f # fs), s))))"

section \<open>Commit\<close>

definition RCCommitContact ::
  "vc_parser \<Rightarrow> RCContactStore \<Rightarrow> int \<Rightarrow> int \<Rightarrow> stage_item \<Rightarrow> 'z cdb \<times> 'w \<Rightarrow> unit res \<times> 'z cdb \<times> 'w" where
  "RCCommitContact vc store coll run = (\<lambda>(action, href, etag, body, len) (d, w).
     case action of
       RCDAVStageDeleted \<Rightarrow> (let (r, d) = RCContactStoreSyncDelete store coll (Some href) run d in (r, d, w))
     | RCDAVStageSeen \<Rightarrow> (let (r, d) = RCContactStoreMarkSeen store coll (Some href) run d in (r, d, w))
     | RCDAVStageDownloaded \<Rightarrow>
         (let ((_, r), d) = RCContactStoreSaveResource vc store coll run (Some href) etag body len d in (r, d, w)))"

definition apply_stage ::
  "vc_parser \<Rightarrow> ('l::len word, 'w) curl \<Rightarrow> int \<Rightarrow> int \<Rightarrow> int \<Rightarrow> 'z mirror \<times> 'w \<Rightarrow> unit res \<times> 'z mirror \<times> 'w" where
  "apply_stage vc cu k coll run s =
     (let (r, st, d, w) = RCDAVStageApply (\<lambda>(d, w). stop cu w) k (RCCommitContact vc (m_store (fst s)) coll run)
            (m_stage (fst s)) (m_db (fst s), snd s) in
      (r, (fst s)\<lparr>m_stage := st, m_db := d\<rparr>, w))"

text \<open>The steps for one collection, after the stop flag was read.\<close>

definition commit_steps ::
  "vc_parser \<Rightarrow> ('l::len word, 'w) curl \<Rightarrow> int \<Rightarrow> int \<Rightarrow> RCDAVCollection \<Rightarrow> RCContactFetch \<Rightarrow> RCContactStore \<Rightarrow> 'z mirror \<times> 'w \<Rightarrow>
   unit res \<times> 'z mirror \<times> 'w" where
  "commit_steps vc cu run k coll f store s =
     chain (on_database (RCContactStoreGetCollection store (Some (k_url coll)) (k_displayName coll)) s) (\<lambda>c s.
     chain (if fe_keep f then on_database (RCContactStoreKeepCollection store c run) s else (Inr (), s)) (\<lambda>_ s.
     chain (apply_stage vc cu k c run s) (\<lambda>_ s.
     chain (on_database (RCDAVSyncStateSave (cs_account store) (Some (k_url coll)) (fe_token f) (Some []) run) s) (\<lambda>_ s.
     on_database (RCContactStoreFinishCollection store c run) s))))"

definition commit_collection ::
  "vc_parser \<Rightarrow> ('l::len word, 'w) curl \<Rightarrow> int \<Rightarrow> int \<Rightarrow> RCDAVCollection \<Rightarrow> RCContactFetch \<Rightarrow> 'z mirror \<times> 'w \<Rightarrow> unit res \<times> 'z mirror \<times> 'w" where
  "commit_collection vc cu run k coll f s =
     chain (stop_check cu s) (\<lambda>_ s. commit_steps vc cu run k coll f (m_store (fst s)) s)"

fun commit_all ::
  "vc_parser \<Rightarrow> ('l::len word, 'w) curl \<Rightarrow> int \<Rightarrow> int \<Rightarrow> (RCDAVCollection \<times> RCContactFetch) list \<Rightarrow> 'z mirror \<times> 'w \<Rightarrow>
   unit res \<times> 'z mirror \<times> 'w" where
  "commit_all vc cu run k [] s = (Inr (), s)"
| "commit_all vc cu run k ((c, f) # rest) s =
     chain (commit_collection vc cu run k c f s) (\<lambda>_ s. commit_all vc cu run (k + 1) rest s)"

text \<open>The run: the collections, the sweep of the tokens, and a last look at the stop flag.\<close>

definition run_body ::
  "vc_parser \<Rightarrow> ('l::len word, 'w) curl \<Rightarrow> int \<Rightarrow> (RCDAVCollection \<times> RCContactFetch) list \<Rightarrow> 'z mirror \<times> 'w \<Rightarrow> unit res \<times> 'z mirror \<times> 'w" where
  "run_body vc cu run work s =
     chain (commit_all vc cu run 0 work s) (\<lambda>_ s.
     chain (on_database (RCDAVSyncStateFinish (cs_account (m_store (fst s))) run) s) (\<lambda>_ s. stop_check cu s))"

definition finish_run ::
  "int \<Rightarrow> unit res \<Rightarrow> 'z mirror \<times> 'w \<Rightarrow> unit res \<times> 'z mirror \<times> 'w" where
  "finish_run run r s =
     (case r of
        Inr _ \<Rightarrow> (let (r, store, d) = RCContactStoreFinishRun (m_store (fst s)) run True None (m_db (fst s)) in
                   (r, (fst s)\<lparr>m_store := store, m_db := d\<rparr>, snd s))
      | Inl e \<Rightarrow> (let (_, store, d) = RCContactStoreFinishRun (m_store (fst s)) run False (Some (err_message e)) (m_db (fst s)) in
                   (Inl e, (fst s)\<lparr>m_store := store, m_db := d\<rparr>, snd s)))"

definition commit_run_of ::
  "vc_parser \<Rightarrow> ('l::len word, 'w) curl \<Rightarrow> (RCDAVCollection \<times> RCContactFetch) list \<Rightarrow> 'z mirror \<times> 'w \<Rightarrow> unit res \<times> 'z mirror \<times> 'w" where
  "commit_run_of vc cu work s = chain (stop_check cu s) (\<lambda>_ s.
     case RCContactStoreBeginRun (m_store (fst s)) (m_db (fst s)) of
       (Inl e, store, d) \<Rightarrow> (Inl e, (fst s)\<lparr>m_store := store, m_db := d\<rparr>, snd s)
     | (Inr run, store, d) \<Rightarrow>
         (let (r, s) = run_body vc cu run work ((fst s)\<lparr>m_store := store, m_db := d\<rparr>, snd s) in finish_run run r s))"

definition kPrincipalRequest :: string where
  \<open>kPrincipalRequest = ''<?xml version="1.0" encoding="utf-8"?>'' @ ''<d:propfind xmlns:d="DAV:"><d:prop>'' @
     ''<d:current-user-principal/>'' @ ''</d:prop></d:propfind>''\<close>

definition kHomeRequest :: string where
  \<open>kHomeRequest = ''<?xml version="1.0" encoding="utf-8"?>'' @ ''<d:propfind xmlns:d="DAV:" '' @
     ''xmlns:c="urn:ietf:params:xml:ns:carddav"><d:prop>'' @ ''<c:addressbook-home-set/>'' @ ''</d:prop></d:propfind>''\<close>

definition kCardDAVNamespace :: string where
  "kCardDAVNamespace = ''urn:ietf:params:xml:ns:carddav''"

text \<open>Discovery and download: the collections with what was fetched for each.\<close>

definition download_all ::
  "libxml \<Rightarrow> ('l::len word, 'w) curl \<Rightarrow> 'l word RCHTTPClient \<Rightarrow> string \<Rightarrow> 'z mirror \<times> 'w \<Rightarrow>
   (RCDAVCollection \<times> RCContactFetch) list res \<times> 'z mirror \<times> 'w" where
  "download_all lx cu client serviceURL s =
     chain (on_world (RCDAVDiscoverHref lx cu client serviceURL kPrincipalRequest ''current-user-principal'' kDAVNamespace) s) (\<lambda>principalURL s.
     chain (on_world (RCDAVDiscoverHref lx cu client principalURL kHomeRequest ''addressbook-home-set'' kCardDAVNamespace) s) (\<lambda>homeURL s.
     chain (on_world (RCDAVListCollections lx cu client homeURL ''addressbook'' kCardDAVNamespace) s) (\<lambda>collections s.
     chain (fetch_all lx cu client 0 collections (set_result (\<lambda>n. n\<lparr>mr_collectionCount := int (length collections)\<rparr>) s)) (\<lambda>fetches s.
     (Inr (zip collections fetches), s)))))"

text \<open>Download and commit with a client and a staging area.\<close>

definition mirror_with ::
  "vc_parser \<Rightarrow> libxml \<Rightarrow> ('l::len word, 'w) curl \<Rightarrow> 'l word RCHTTPClient \<Rightarrow> string \<Rightarrow> 'z mirror \<times> 'w \<Rightarrow> unit res \<times> 'z mirror \<times> 'w" where
  "mirror_with vc lx cu client serviceURL s =
     chain (download_all lx cu client serviceURL s) (\<lambda>work s. commit_run_of vc cu work s)"

definition no_result :: RCCardDAVMirrorResult where
  "no_result = \<lparr>mr_collectionCount = 0, mr_listed = 0, mr_downloaded = 0, mr_unchanged = 0\<rparr>"

definition http_config :: "RCCardDAVMirrorConfig \<Rightarrow> ('l::len word) RCHTTPClientConfig" where
  "http_config config = \<lparr>g_username = mc_username config, g_password = mc_password config,
     g_certificatePath = mc_certificatePath config, g_allowedHostSuffix = mc_allowedHostSuffix config,
     g_userAgent = None, g_maximumResponseBytes = 0\<rparr>"

text \<open>
  The store is its structure and its connection; \<open>version\<close> is the program's version and
  \<open>staging\<close> the connection SQLite opens for the staging area.
\<close>

definition RCCardDAVMirrorFetch ::
  "string \<Rightarrow> vc_parser \<Rightarrow> libxml \<Rightarrow> ('l::len word, 'w) curl \<Rightarrow> stage_db option \<Rightarrow> RCCardDAVMirrorConfig option \<Rightarrow>
   RCContactStore \<Rightarrow> 'z cdb \<Rightarrow> 'w \<Rightarrow> (RCCardDAVMirrorResult \<times> unit res) \<times> RCContactStore \<times> 'z cdb \<times> 'w" where
  "RCCardDAVMirrorFetch version vc lx cu staging config store d w =
     (let refuse = (\<lambda>m. ((no_result, Inl (RCErrorSet 1 m)), store, d, w)) in
      case config of None \<Rightarrow> refuse ''CardDAV mirror configuration is incomplete''
      | Some g \<Rightarrow>
        if mc_serviceURL g = None \<or> mc_username g = None \<or> mc_password g = None \<or> mc_certificatePath g = None
        then refuse ''CardDAV mirror configuration is incomplete''
        else if \<not> RCContactStoreIsAccount (Some store) (mc_username g)
        then refuse ''CardDAV credentials do not match the contact database account''
        else if \<not> autocommit d then refuse ''Contact download requires an idle mirror transaction''
        else case (RCDAVStageOpen staging, RCHTTPClientCreate version (Some (http_config g :: 'l word RCHTTPClientConfig))) of
            (Inl e, _) \<Rightarrow> ((no_result, Inl e), store, d, w)
          | (Inr stage, Inl e) \<Rightarrow> ((no_result, Inl e), store, d, w)
          | (Inr stage, Inr client) \<Rightarrow>
              (let (r, m, w) = mirror_with vc lx cu client (the (mc_serviceURL g))
                     (\<lparr>m_store = store, m_db = d, m_stage = stage, m_result = no_result\<rparr>, w)
               in ((m_result m, r), m_store m, m_db m, w)))"

end
