(* ===== verification/StateRelation.thy ===== *)
theory StateRelation
  imports Prelude
begin

text \<open>
  Operations that pass a state and may fail, measured by a preorder on states: what holds
  between the state before and after the parts holds for their sequence and their branches.
  The contracts of the stores and the mirrors are instances.
\<close>

locale state_relation =
  fixes R :: "'s \<Rightarrow> 's \<Rightarrow> bool"
  assumes R_refl: "R s s" and R_trans: "R a b \<Longrightarrow> R b c \<Longrightarrow> R a c"
begin

definition keeps :: "('s \<Rightarrow> 'a res \<times> 's) \<Rightarrow> bool" where
  "keeps f \<longleftrightarrow> (\<forall>s r s'. f s = (r, s') \<longrightarrow> R s s')"

lemma keepsI: "(\<And>s r s'. f s = (r, s') \<Longrightarrow> R s s') \<Longrightarrow> keeps f"
  by (simp add: keeps_def)

lemma keepsD: "keeps f \<Longrightarrow> f s = (r, s') \<Longrightarrow> R s s'"
  unfolding keeps_def by blast

lemma keeps_return: "keeps (\<lambda>s. (g s, s))"
  by (simp add: keeps_def R_refl)

lemma keeps_chain:
  assumes "keeps f" and "\<And>x. keeps (g x)"
  shows "keeps (\<lambda>s. chain (f s) (\<lambda>x s. g x s))"
proof (rule keepsI)
  fix s r s' assume "chain (f s) (\<lambda>x s. g x s) = (r, s')"
  then show "R s s'"
    by (cases rule: chain_cases) (blast intro: R_trans keepsD assms)+
qed

lemma keeps_if: "(b \<Longrightarrow> keeps f) \<Longrightarrow> (\<not> b \<Longrightarrow> keeps g) \<Longrightarrow> keeps (\<lambda>s. if b then f s else g s)"
  by (cases b) simp_all

lemma keeps_when: "keeps f \<Longrightarrow> keeps g \<Longrightarrow> keeps (\<lambda>s. if b s then f s else g s)"
  by (simp add: keeps_def)

lemma keeps_option: "keeps f \<Longrightarrow> (\<And>x. keeps (g x)) \<Longrightarrow> keeps (\<lambda>s. case x of None \<Rightarrow> f s | Some x \<Rightarrow> g x s)"
  by (cases x) simp_all

text \<open>A step before the operation that is itself related.\<close>

lemma keeps_after: "keeps f \<Longrightarrow> (\<And>s. R s (h s)) \<Longrightarrow> keeps (\<lambda>s. f (h s))"
  unfolding keeps_def by (blast intro: R_trans)

text \<open>The parameter of an operation may be read from the state.\<close>

lemma keeps_read: "(\<And>x. keeps (g x)) \<Longrightarrow> keeps (\<lambda>s. g (h s) s)"
  by (simp add: keeps_def)

end

end
