(* ===== verification/StoreSteps.thy ===== *)
theory StoreSteps
  imports ContactStore StateRelation
begin

text \<open>
  What the statements of a store may do to its connection, stated once for every relation on
  tables that a client cares about: an operation that takes only related steps, and that
  leaves every transaction it found open, is closed under sequencing, branching and the
  savepoint frame, also when a failed release leaves a savepoint behind.
\<close>

named_theorems does_intros "rules for operations that take related steps"

lemma prepare_result: "RCPrepare d = (r, d') \<Longrightarrow> tables d' = tables d \<and> txn d' = txn d \<and> same_library d d'"
  by (auto simp: RCPrepare_def Let_def split: prod.splits if_splits dest!: sql_prepare_keeps)

lemma modify_result:
  assumes "store_modify err f d = (r, d')"
  shows "txn d' = txn d \<and> same_library d d' \<and>
    (case r of Inl _ \<Rightarrow> tables d' = tables d | Inr n \<Rightarrow> f (tables d) = Some (tables d', n))"
  using assms unfolding store_modify_def
  by (cases rule: chain_cases)
    (auto dest!: prepare_result split: prod.splits option.splits dest: sql_modify_result intro: same_library_trans)

lemma select_result:
  assumes "store_select err q d = (r, d')"
  shows "tables d' = tables d \<and> txn d' = txn d \<and> same_library d d' \<and> (\<forall>x. r = Inr x \<longrightarrow> q (tables d) = x)"
  using assms unfolding store_select_def
  by (cases rule: chain_cases)
    (auto dest!: prepare_result split: prod.splits option.splits dest: sql_query_result intro: same_library_trans)

lemma row_result:
  assumes "store_row err q d = (r, d')"
  shows "tables d' = tables d \<and> txn d' = txn d \<and> same_library d d' \<and> (\<forall>x. r = Inr x \<longrightarrow> q (tables d) = Some x)"
  using assms unfolding store_row_def
  by (cases rule: chain_cases) (auto dest!: select_result split: option.splits)

locale table_relation =
  fixes R :: "'t \<Rightarrow> 't \<Rightarrow> bool"
  assumes R_refl: "R t t" and R_trans: "R a b \<Longrightarrow> R b c \<Longrightarrow> R a c"
begin

definition related :: "'t db \<Rightarrow> 't db \<Rightarrow> bool" where
  "related d d' \<longleftrightarrow> same_library d d' \<and> R (tables d) (tables d') \<and>
     (\<exists>ext. txn d' = ext @ txn d \<and> (\<forall>x \<in> set ext. R (tables d) (snd x)))"

lemma related_refl [simp, intro]: "related d d"
  by (simp add: related_def R_refl)

lemma related_trans: "related a b \<Longrightarrow> related b c \<Longrightarrow> related a c"
  unfolding related_def by (elim conjE exE) (auto intro: same_library_trans R_trans)

lemma related_tables: "related d d' \<Longrightarrow> R (tables d) (tables d')"
  by (simp add: related_def)

lemma related_same: "tables d' = tables d \<Longrightarrow> txn d' = txn d \<Longrightarrow> same_library d d' \<Longrightarrow> related d d'"
  by (simp add: related_def R_refl)

lemma related_step: "R (tables d) (tables d') \<Longrightarrow> txn d' = txn d \<Longrightarrow> same_library d d' \<Longrightarrow> related d d'"
  by (simp add: related_def)

end

sublocale table_relation \<subseteq> st: state_relation related
  by unfold_locales (rule related_refl, rule related_trans)

context table_relation begin

lemmas does_return [does_intros] = st.keeps_return
lemmas does_chain [does_intros] = st.keeps_chain
lemmas does_if [does_intros] = st.keeps_if
lemmas does_option [does_intros] = st.keeps_option

lemma does_prepare [does_intros]: "st.keeps RCPrepare"
  by (auto simp: st.keeps_def RCPrepare_def Let_def split: prod.splits dest!: sql_prepare_keeps intro: related_same)

lemma does_modify [does_intros]:
  "(\<And>d t t' n. f d t = Some (t', n) \<Longrightarrow> R t t') \<Longrightarrow> st.keeps (\<lambda>d. store_modify err (f d) d)"
  unfolding st.keeps_def
proof (intro allI impI)
  fix d r d' assume f: "\<And>d t t' n. f d t = Some (t', n) \<Longrightarrow> R t t'" and s: "store_modify err (f d) d = (r, d')"
  then show "related d d'"
    using modify_result [OF s] by (intro related_step) (auto simp: R_refl split: sum.splits dest: f)
qed

lemma does_step [does_intros]:
  "(\<And>d t t' n. f d t = Some (t', n) \<Longrightarrow> R t t') \<Longrightarrow> st.keeps (\<lambda>d. step_or_fail (f d) d)"
  by (auto simp: st.keeps_def step_or_fail_def R_refl split: prod.splits option.splits
      dest!: sql_modify_result intro!: related_step)

lemma does_select [does_intros]: "st.keeps (store_select err q)"
  by (rule st.keepsI) (blast intro: related_same dest: select_result)

lemma does_row [does_intros]: "st.keeps (store_row err q)"
  unfolding store_row_def [abs_def] by (intro does_chain does_select does_return)

lemma find_savepoint_ext:
  assumes "find_savepoint n (ext @ (Some n, t0) # st) = Some (t, st')"
  shows "\<exists>e. st' = e @ st \<and> snd ` set e \<subseteq> insert t0 (snd ` set ext) \<and> t \<in> insert t0 (snd ` set ext)"
  using assms
proof (induction ext)
  case (Cons x ext)
  obtain m u where x: "x = (m, u)" by (cases x)
  show ?case
  proof (cases "m = Some n")
    case True
    with Cons.prems x have "st' = (ext @ [(Some n, t0)]) @ st" "t = u" by simp_all
    moreover have "snd ` set (ext @ [(Some n, t0)]) \<subseteq> insert t0 (snd ` set (x # ext))" "u \<in> snd ` set (x # ext)"
      using x by auto
    ultimately show ?thesis by blast
  next
    case False
    with Cons x have "\<exists>e. st' = e @ st \<and> snd ` set e \<subseteq> insert t0 (snd ` set ext) \<and> t \<in> insert t0 (snd ` set ext)" by simp
    then show ?thesis by auto
  qed
qed simp

lemma related_pop:
  assumes "related d (d'\<lparr>txn := st\<rparr>)"
  shows "R (tables d) (tables d')" "same_library d d'"
  using assms by (simp_all add: related_def same_library_def)

lemma does_savepoint [does_intros]:
  assumes "st.keeps body"
  shows "st.keeps (store_savepoint n body)"
  unfolding st.keeps_def
proof (intro allI impI)
  fix d r d' assume *: "store_savepoint n body d = (r, d')"
  obtain ok d1 where p: "sql_savepoint n d = (ok, d1)" by (cases "sql_savepoint n d")
  show "related d d'"
  proof (cases ok)
    case False
    with p * have "d' = d1" by (simp add: store_savepoint_def RCExecute_def)
    with p False show ?thesis
      by (auto simp: sql_savepoint_def Let_def split: prod.splits if_splits dest!: sql_call_keeps intro: related_same)
  next
    case True
    with p have d1: "tables d1 = tables d" "txn d1 = (Some n, tables d) # txn d" "same_library d d1"
      by (auto simp: sql_savepoint_def Let_def same_library_def split: prod.splits if_splits dest!: sql_call_keeps)
    obtain x d2 where b: "body d1 = (x, d2)" by (cases "body d1")
    from st.keepsD [OF assms b] obtain ext where d2: "same_library d1 d2" "R (tables d1) (tables d2)"
      "txn d2 = ext @ (Some n, tables d) # txn d" "\<forall>x \<in> set ext. R (tables d) (snd x)"
      using d1 by (auto simp: related_def)
    have ctl: "related d e" if "same_library d2 e"
      "(tables e = tables d2 \<and> txn e = txn d2) \<or>
       (\<exists>t st. find_savepoint n (txn d2) = Some (t, st) \<and> txn e = st \<and> (tables e = tables d2 \<or> tables e = t))" for e
    proof -
      from that(1) d1(3) d2(1) have lib: "same_library d e" by (blast intro: same_library_trans)
      from that(2) consider (same) "tables e = tables d2" "txn e = txn d2"
        | (popped) t st where "find_savepoint n (txn d2) = Some (t, st)" "txn e = st" "tables e = tables d2 \<or> tables e = t" by blast
      then show ?thesis
      proof cases
        case same
        with lib d1 d2 show ?thesis by (auto simp: related_def R_refl intro!: exI [of _ "ext @ [(Some n, tables d)]"])
      next
        case popped
        from find_savepoint_ext [OF popped(1) [unfolded d2(3)]] obtain e0 where e0: "st = e0 @ txn d"
          "snd ` set e0 \<subseteq> insert (tables d) (snd ` set ext)" "t \<in> insert (tables d) (snd ` set ext)" by blast
        have "R (tables d) t'" if "t' \<in> insert (tables d) (snd ` set ext)" for t' using that d2(4) R_refl by auto
        with e0 popped(3) d1(1) d2(2) have "R (tables d) (tables e)" "\<forall>x \<in> set e0. R (tables d) (snd x)" by auto
        with lib popped(2) e0(1) show ?thesis unfolding related_def by blast
      qed
    qed
    show ?thesis
    proof (cases x)
      case (Inl e)
      with * p True b have "d' = sql_undo n d2" by (simp add: store_savepoint_def RCExecute_def)
      then show ?thesis
        by (intro ctl) (auto simp: sql_undo_def Let_def same_library_def split: prod.splits option.splits if_splits dest!: sql_call_keeps)
    next
      case (Inr y)
      with * p True b have "d' = snd (sql_release n d2)"
        by (cases "sql_release n d2") (auto simp: store_savepoint_def RCExecute_def split: if_splits)
      then show ?thesis
        by (intro ctl) (auto simp: sql_release_def Let_def same_library_def split: prod.splits option.splits if_splits dest!: sql_call_keeps)
    qed
  qed
qed

end

end
