(* ===== verification/ContactContract.thy ===== *)
theory ContactContract
  imports StoreSteps
begin

text \<open>
  The contact store against a specification of what a run may do to the mirror: the
  elementary changes are the relation \<open>mirror_change\<close>, every operation of a run is a sequence
  of them, and the invariant and the identities of the mirror are preserved by each. The
  publication of a generation and the treatment of invalid resources are stated here too.
\<close>

section \<open>Elementary changes\<close>

definition identity :: "contact_row \<Rightarrow> int \<times> int \<times> string \<times> string" where
  "identity c = (ct_id c, ct_collection c, ct_href c, ct_sync c)"

text \<open>A contact that is present in the mirror just when the run has seen it.\<close>

definition accounted :: "int \<Rightarrow> contact_row \<Rightarrow> bool" where
  "accounted run c \<longleftrightarrow> 0 < run \<longrightarrow> (ct_missing c \<longleftrightarrow> ct_seen c \<noteq> run)"

inductive mirror_change :: "int \<Rightarrow> int \<Rightarrow> int \<Rightarrow> 'z contact_tables_scheme \<Rightarrow> 'z contact_tables_scheme \<Rightarrow> bool"
  for acct coll run where
  contact_rows: "(\<And>c. identity (f c) = identity c) \<Longrightarrow> (\<And>c. P c \<Longrightarrow> ct_collection c = coll) \<Longrightarrow>
    (\<And>c. P c \<Longrightarrow> accounted run (f c)) \<Longrightarrow>
    mirror_change acct coll run t (t\<lparr>contacts := update_rows P f (contacts t)\<rparr>)"
| new_contact: "add_contact coll href raw run sync t = Some (t', u) \<Longrightarrow> mirror_change acct coll run t t'"
| old_properties: "drop_properties contact t = Some (t', u) \<Longrightarrow> mirror_change acct coll run t t'"
| new_property: "add_property contact p sync t = Some (t', i) \<Longrightarrow> mirror_change acct coll run t t'"
| new_parameter: "add_parameter prop q t = Some (t', u) \<Longrightarrow> mirror_change acct coll run t t'"
| new_part: "add_part prop v t = Some (t', u) \<Longrightarrow> mirror_change acct coll run t t'"
| new_collection: "add_collection url name acct t = Some (t', u) \<Longrightarrow> mirror_change acct coll run t t'"
| names: "(\<And>b. \<exists>n. f b = b\<lparr>cl_name := n\<rparr>) \<Longrightarrow>
    mirror_change acct coll run t (t\<lparr>collections := update_rows P f (collections t)\<rparr>)"
| complete: "(\<And>c. c \<in> set (contacts t) \<Longrightarrow> ct_collection c = coll \<Longrightarrow> accounted run c) \<Longrightarrow> mirror_change acct coll run t
    (t\<lparr>collections := update_rows (\<lambda>b. cl_id b = coll) (\<lambda>b. b\<lparr>cl_complete := Some run\<rparr>) (collections t)\<rparr>)"
| sync_state: "mirror_change acct coll run t (t\<lparr>schema := names, dav_sync_state := rows\<rparr>)"

abbreviation mirror_changes :: "int \<Rightarrow> int \<Rightarrow> int \<Rightarrow> 'z contact_tables_scheme \<Rightarrow> 'z contact_tables_scheme \<Rightarrow> bool" where
  "mirror_changes acct coll run \<equiv> (mirror_change acct coll run)\<^sup>*\<^sup>*"

interpretation ms: table_relation "mirror_changes acct coll run" for acct coll run
  by unfold_locales auto

lemma one_change: "mirror_change acct coll run t t' \<Longrightarrow> mirror_changes acct coll run t t'"
  by (rule r_into_rtranclp)

lemmas does_intros = ms.does_return ms.does_chain ms.does_if ms.does_option ms.does_prepare ms.does_select
  ms.does_row ms.does_savepoint

section \<open>Operations are sequences of changes\<close>

lemma identity_updates [simp]:
  "identity (c\<lparr>ct_seen := run\<rparr>) = identity c" "identity (c\<lparr>ct_seen := s, ct_missing := b\<rparr>) = identity c"
  "identity (parsed_contact document etag raw run c) = identity c"
  "identity (invalid_contact etag raw message run c) = identity c" "identity (seen_in run c) = identity c"
  by (simp_all add: identity_def parsed_contact_def invalid_contact_def seen_in_def)

lemma accounted_updates [simp]:
  "\<not> ct_missing c \<Longrightarrow> accounted run (c\<lparr>ct_seen := run\<rparr>)" "accounted run (c\<lparr>ct_seen := run, ct_missing := False\<rparr>)"
  "accounted run (c\<lparr>ct_seen := 0, ct_missing := True\<rparr>)" "accounted run (parsed_contact document etag raw run c)"
  "accounted run (invalid_contact etag raw message run c)" "accounted run (seen_in run c)"
  by (auto simp: accounted_def parsed_contact_def invalid_contact_def seen_in_def)

lemma contacts_changed:
  assumes "update_contacts P f t = Some (t', u)" and "\<And>c. identity (f c) = identity c" and "\<And>c. P c \<Longrightarrow> ct_collection c = coll"
    and "\<And>c. P c \<Longrightarrow> accounted run (f c)"
  shows "mirror_changes acct coll run t t'"
  using assms by (auto simp: update_contacts_def intro!: one_change mirror_change.contact_rows)

lemma does_check [intro]: "ms.st.keeps acct coll run (check_both store run' coll')"
  unfolding check_both_def [abs_def] RCCheckCollection_def [abs_def] by (intro does_intros)

lemma does_keep: "ms.st.keeps acct coll run (RCContactStoreKeepCollection store coll run)"
  unfolding RCContactStoreKeepCollection_def [abs_def]
  by (intro does_intros does_check ms.does_modify) (auto elim: contacts_changed)

lemma does_delete: "ms.st.keeps acct coll run (RCContactStoreSyncDelete store coll href run)"
  unfolding RCContactStoreSyncDelete_def [abs_def]
  by (intro does_intros does_check ms.does_modify) (auto elim: contacts_changed)

lemma does_seen: "ms.st.keeps acct coll run (RCContactStoreMarkSeen store coll href run)"
  unfolding RCContactStoreMarkSeen_def [abs_def]
  by (intro does_intros does_check ms.does_modify) (auto elim: contacts_changed simp: at_href_def)

lemma does_get_collection: "ms.st.keeps (cs_account store) coll run (RCContactStoreGetCollection store url name)"
  unfolding RCContactStoreGetCollection_def [abs_def]
  by (intro does_intros ms.does_modify)
    (auto intro!: one_change mirror_change.names intro: mirror_change.new_collection)

lemma does_step_all:
  "(\<And>x t t' u. f x t = Some (t', u) \<Longrightarrow> mirror_change acct coll run t t') \<Longrightarrow> ms.st.keeps acct coll run (step_all f xs)"
proof (induction xs)
  case Nil
  then show ?case by (simp add: ms.st.keeps_def)
next
  case (Cons x xs)
  have "ms.st.keeps acct coll run (\<lambda>d. chain (step_or_fail (f x) d) (\<lambda>_ d. step_all f xs d))"
    by (intro does_intros ms.does_step Cons.IH) (blast intro: one_change Cons.prems)+
  then show ?case by (simp add: ms.st.keeps_def)
qed

lemma insert_loop_Cons:
  "insert_loop contact ((p, old) # rest) = (\<lambda>d.
     chain (step_or_fail (add_property contact p (case old of Some i \<Rightarrow> i | None \<Rightarrow> random d (calls d))) d) (\<lambda>prop d.
     chain (step_all (add_parameter prop) (pr_parameters p) d) (\<lambda>_ d.
     chain (step_all (add_part prop) (pr_parts p) d) (\<lambda>_ d. insert_loop contact rest d))))"
  by (rule ext) simp

lemma does_insert: "ms.st.keeps acct coll run (insert_loop contact ps)"
proof (induction ps)
  case Nil
  then show ?case by (simp add: ms.st.keeps_def)
next
  case (Cons x ps)
  obtain p old where x: "x = (p, old)" by (cases x)
  show ?case unfolding x insert_loop_Cons
    by (intro does_intros ms.does_step does_step_all Cons)
      (blast intro: one_change mirror_change.new_property mirror_change.new_parameter mirror_change.new_part)+
qed

lemma does_previous: "ms.st.keeps acct coll run (previous_loop contact ps :: 'z cdb \<Rightarrow> _)"
proof (induction ps)
  case Nil
  then show ?case by (simp add: ms.st.keeps_def)
next
  case (Cons p ps)
  show ?case unfolding ms.st.keeps_def
  proof (intro allI impI)
    fix d d' :: "'z cdb" and r assume *: "previous_loop contact (p # ps) d = (r, d')"
    obtain q d1 where q: "sql_query (previous_identifier contact p) d = (q, d1)" by (cases "sql_query (previous_identifier contact p) d")
    then have first: "ms.related acct coll run d d1" using sql_query_result [OF q] by (intro ms.related_same) auto
    show "ms.related acct coll run d d'"
    proof (cases q)
      case None
      with * q first show ?thesis by simp
    next
      case (Some x)
      with * q obtain r1 where "previous_loop contact ps d1 = (r1, d')"
        by (cases "previous_loop contact ps d1"; cases "fst (previous_loop contact ps d1)") auto
      from ms.related_trans [OF first ms.st.keepsD [OF Cons.IH this]] show ?thesis .
    qed
  qed
qed

lemma does_save_body: "ms.st.keeps acct coll run (save_body coll run href etag raw document)"
  unfolding save_body_def [abs_def] RCCopyPreviousPropertyIdentifiers_def [abs_def] RCInsertProperties_def [abs_def]
  by (intro does_intros ms.does_modify does_previous does_insert)
    (auto simp: update_parsed_def at_href_def split: option.splits if_splits
      intro: one_change mirror_change.new_contact mirror_change.old_properties elim: contacts_changed)

lemma does_retain_body: "ms.st.keeps acct coll run (retain_body coll run href etag raw message)"
  unfolding retain_body_def [abs_def]
  by (intro does_intros ms.does_modify)
    (auto simp: at_href_def intro: one_change mirror_change.new_contact elim: contacts_changed)

lemma does_save_vcard: "ms.st.keeps acct coll run (RCContactStoreSaveVCard store coll run href etag raw len document)"
  unfolding RCContactStoreSaveVCard_def [abs_def] by (intro does_intros does_check does_save_body)

lemma save_resource_related:
  assumes "RCContactStoreSaveResource vc store coll run href etag bytes len d = (r, d')"
  shows "ms.related acct coll run d d'"
proof (cases "RCVCardParse vc bytes len")
  case (Inr document)
  with assms obtain x where "RCContactStoreSaveVCard store coll run href etag bytes len document d = (x, d')"
    by (auto simp: RCContactStoreSaveResource_def Let_def split: prod.splits)
  from ms.st.keepsD [OF does_save_vcard this] show ?thesis by simp
next
  case (Inl e)
  let ?body = "\<lambda>d. chain (check_both store run coll d) (\<lambda>_ d.
     store_savepoint ''contact_resource'' (retain_body coll run href etag (take len (bytes_of bytes)) (err_message e)) d)"
  from assms Inl obtain x where x: "?body d = (x, d')"
    by (auto simp: RCContactStoreSaveResource_def Let_def split: prod.splits)
  have "ms.st.keeps acct coll run ?body" by (intro does_intros does_check does_retain_body)
  from ms.st.keepsD [OF this x] show ?thesis by simp
qed

lemma does_finish_body: "ms.st.keeps acct coll run (finish_collection_body coll run)"
  unfolding ms.st.keeps_def
proof (intro allI impI)
  fix d d' r assume *: "finish_collection_body coll run d = (r, d')"
  let ?err = "RCStoreError ''Could not finish collection inventory''"
  obtain r1 d1 where m: "store_modify ?err (update_contacts (\<lambda>c. ct_collection c = coll) (seen_in run)) d = (r1, d1)"
    by (metis surj_pair)
  have first: "ms.related acct coll run d d1"
    using modify_result [OF m] by (intro ms.related_step) (auto split: sum.splits elim: contacts_changed)
  show "ms.related acct coll run d d'"
  proof (cases r1)
    case (Inl e)
    with * m first show ?thesis by (simp add: finish_collection_body_def)
  next
    case (Inr u)
    with * m have "store_modify ?err (update_collections (\<lambda>b. cl_id b = coll) (\<lambda>b. b\<lparr>cl_complete := Some run\<rparr>)) d1 = (r, d')"
      by (simp add: finish_collection_body_def)
    moreover from modify_result [OF m] Inr
    have "tables d1 = (tables d)\<lparr>contacts := update_rows (\<lambda>c. ct_collection c = coll) (seen_in run) (contacts (tables d))\<rparr>"
      by (simp add: update_contacts_def)
    then have "contacts (tables d1) = update_rows (\<lambda>c. ct_collection c = coll) (seen_in run) (contacts (tables d))" by simp
    then have "accounted run c" if "c \<in> set (contacts (tables d1))" "ct_collection c = coll" for c
      using that by (auto elim!: in_update_rowsE)
    then have "mirror_change acct coll run (tables d1) ((tables d1)\<lparr>collections := update_rows (\<lambda>b. cl_id b = coll)
        (\<lambda>b. b\<lparr>cl_complete := Some run\<rparr>) (collections (tables d1))\<rparr>)"
      by (intro mirror_change.complete)
    ultimately have "mirror_changes acct coll run (tables d1) (tables d') \<and> txn d' = txn d1 \<and> same_library d1 d'"
      by (auto dest!: modify_result split: sum.splits simp: update_collections_def dest: one_change)
    then have "ms.related acct coll run d1 d'" by (intro ms.related_step) simp_all
    with first show ?thesis by (rule ms.related_trans)
  qed
qed

lemma does_finish_collection: "ms.st.keeps acct coll run (RCContactStoreFinishCollection store coll run)"
  unfolding RCContactStoreFinishCollection_def [abs_def] by (intro does_intros does_check does_finish_body)

text \<open>The synchronisation state shares the transaction.\<close>

lemma state_change:
  "t' = t \<or> (\<exists>rows. t' = (create_state t)\<lparr>dav_sync_state := rows\<rparr>) \<Longrightarrow> mirror_changes acct coll run t t'"
proof (elim disjE exE)
  fix rows assume t': "t' = (create_state t)\<lparr>dav_sync_state := rows\<rparr>"
  have "(create_state t)\<lparr>dav_sync_state := rows\<rparr> = t\<lparr>schema := schema (create_state t), dav_sync_state := rows\<rparr>"
    by (simp add: create_state_def)
  with t' show ?thesis by (metis one_change mirror_change.sync_state)
qed simp

lemma does_state_save: "ms.st.keeps acct coll run (RCDAVSyncStateSave acct' url token scope run')"
  unfolding ms.st.keeps_def
  by (blast intro: ms.related_step state_change dest: save_tables save_result)

lemma does_state_finish: "ms.st.keeps acct coll run (RCDAVSyncStateFinish acct' run')"
  unfolding ms.st.keeps_def
  by (blast intro: ms.related_step state_change dest: finish_tables finish_result)

end
