(* ===== verification/MirrorContract.thy ===== *)
theory MirrorContract
  imports CardDAVMirror ContactContract
begin

text \<open>
  The address book mirror as its callers see it: the download leaves the contact store alone,
  the commit is one transaction that is kept whole or not at all, and no request of a
  synchronisation changes the server.
\<close>

section \<open>The download leaves the store alone\<close>

definition untouched :: "'z mirror \<Rightarrow> 'z mirror \<Rightarrow> bool" where
  "untouched m m' \<longleftrightarrow> m_store m' = m_store m \<and> tables (m_db m') = tables (m_db m) \<and> txn (m_db m') = txn (m_db m) \<and>
     same_library (m_db m) (m_db m')"

lemma untouched_refl [simp, intro]: "untouched m m"
  by (simp add: untouched_def)

lemma untouched_trans: "untouched a b \<Longrightarrow> untouched b c \<Longrightarrow> untouched a c"
  by (auto simp: untouched_def intro: same_library_trans)

interpretation lv: state_relation "\<lambda>(s :: 'z mirror \<times> 'w) s'. untouched (fst s) (fst s')"
  by unfold_locales (auto intro: untouched_trans)

abbreviation leaves :: "('z mirror \<times> 'w \<Rightarrow> 'a res \<times> 'z mirror \<times> 'w) \<Rightarrow> bool" where
  "leaves \<equiv> lv.keeps"

lemmas leaves_def = lv.keeps_def
lemmas leavesD = lv.keepsD

lemma leaves_result: "leaves (\<lambda>s. (g s, set_result (h s) s))"
  by (rule lv.keepsI) (simp add: set_result_def untouched_def)

lemma leaves_world: "leaves (\<lambda>s. on_world (f s) s)"
  by (rule lv.keepsI) (auto simp: on_world_def split: prod.splits)

lemma leaves_stage: "leaves (\<lambda>s. on_stage (f s) s)"
  by (rule lv.keepsI) (auto simp: on_stage_def untouched_def split: prod.splits)

lemma leaves_stop: "leaves (stop_check cu)"
  by (rule lv.keepsI) (auto simp: stop_check_def split: option.splits)

lemma current_keeps:
  assumes "RCDAVMirrorContactCurrent acct url href etag d = (r, d')"
  shows "tables d' = tables d \<and> txn d' = txn d \<and> same_library d d'"
proof -
  define q where "q = (\<lambda>t :: 'a contact_tables_scheme. find (\<lambda>c. Some (ct_href c) = href \<and> ct_etag c \<noteq> None \<and> ct_etag c = etag \<and>
    (\<exists>b \<in> set (collections t). cl_id b = ct_collection c \<and> cl_account b = acct \<and> Some (cl_url b) = url)) (contacts t))"
  obtain ok d1 where p: "sql_prepare d = (ok, d1)" by (cases "sql_prepare d")
  obtain x d2 where s: "sql_query q d1 = (x, d2)" by (cases "sql_query q d1")
  from assms p s have "d' = d1 \<or> d' = d2"
    unfolding RCDAVMirrorContactCurrent_def Let_def q_def [symmetric] by (auto split: if_splits option.splits)
  with sql_prepare_keeps [OF p] sql_query_result [OF s] show ?thesis by (auto intro: same_library_trans)
qed

lemma leaves_current: "leaves (\<lambda>s. on_database (RCDAVMirrorContactCurrent (acct s) url href etag) s)"
  by (rule lv.keepsI) (auto simp: on_database_def untouched_def split: prod.splits dest!: current_keeps)

lemma leaves_load: "leaves (\<lambda>s. on_database (RCDAVSyncStateLoad (acct s) (Some url)) s)"
  by (rule lv.keepsI) (auto simp: on_database_def untouched_def split: prod.splits dest!: load_result)

lemmas leaves_intros = lv.keeps_chain lv.keeps_when leaves_world leaves_stage leaves_stop leaves_current leaves_load
  leaves_result lv.keeps_return

lemma leaves_download: "leaves (download cu client k r)"
  unfolding download_def [abs_def] by (intro leaves_intros)

lemma leaves_apply_change: "leaves (apply_change cu client url k r)"
  unfolding apply_change_def [abs_def] by (intro leaves_intros leaves_download)

lemma apply_changes_Cons:
  "apply_changes cu client url k (r # rs) = (\<lambda>s. chain (apply_change cu client url k r s) (\<lambda>_ s. apply_changes cu client url k rs s))"
  by (rule ext) simp

lemma leaves_apply_changes: "leaves (apply_changes cu client url k rs)"
proof (induction rs)
  case Nil
  then show ?case by (auto intro: lv.keepsI)
next
  case (Cons r rs)
  show ?case unfolding apply_changes_Cons by (intro leaves_intros leaves_apply_change Cons)
qed

lemma untouched_result: "untouched (fst s) (fst (set_result h s))"
  by (simp add: set_result_def untouched_def)

lemma leaves_after_result: "leaves f \<Longrightarrow> leaves (\<lambda>s. f (set_result (h s) s))"
  by (erule lv.keeps_after) (rule untouched_result)

lemma leaves_changes: "leaves (RCApplyContactChanges cu client url k rs)"
  unfolding RCApplyContactChanges_def [abs_def] by (intro leaves_after_result leaves_apply_changes)

text \<open>A callback that keeps a relation on its context keeps it through a synchronisation.\<close>

lemma sync_pages_context:
  assumes "\<And>page c w r c' w'. f page (c, w) = (r, c', w') \<Longrightarrow> Q c c'"
    and "\<And>c. Q c c" and "\<And>a b c. Q a b \<Longrightarrow> Q b c \<Longrightarrow> Q a c"
    and "sync_pages lx cu client url (Some f) n tokens (c, w) = (st, c', w')"
  shows "Q c c'"
  using assms(4)
proof (induction n arbitrary: tokens c w)
  case 0
  then show ?case by (simp add: assms(2))
next
  case (Suc n)
  obtain status e where st: "st = (status, e)" by (cases st)
  have step: "Q c1 c2" if "run_callback (Some f) page (c1, w1) = (r, c2, w2)" for page c1 w1 r c2 w2
    using that assms(1) by (auto simp: run_callback_def)
  show ?case using Suc.prems [unfolded st]
    by (cases rule: sync_pages_step) (use Suc.IH st step assms(2,3) in blast)+
qed

lemma sync_leaves:
  assumes "RCDAVSyncCollection lx cu client url base (Some (RCApplyContactChanges cu client url k)) s = (st, s')"
  shows "untouched (fst s) (fst s')"
proof -
  obtain c w c' w' where s: "s = (c, w)" "s' = (c', w')" by (metis surj_pair)
  obtain st' tokens n where "sync_pages lx cu client url (Some (RCApplyContactChanges cu client url k)) n tokens (c, w) = (st', c', w')"
    using assms unfolding s by (auto simp: RCDAVSyncCollection_def Let_def split: prod.splits)
  then have "untouched c c'"
    using leavesD [OF leaves_changes] untouched_trans
    by (rule_tac sync_pages_context [where Q = untouched]) (auto | blast)+
  then show ?thesis by (simp add: s)
qed

lemma leaves_try_sync:
  fixes cu :: "('l::len word, 'w) curl"
  shows "leaves (try_sync lx cu client url k base :: 'z mirror \<times> 'w \<Rightarrow> _)"
  unfolding leaves_def
proof (intro allI impI)
  fix s s' :: "'z mirror \<times> 'w" and r assume *: "try_sync lx cu client url k base s = (r, s')"
  obtain status e s1 where q: "RCDAVSyncCollection lx cu client url base (Some (RCApplyContactChanges cu client url k)) s = ((status, e), s1)"
    by (metis surj_pair)
  have u: "untouched (fst s) (fst s1)" by (rule sync_leaves [OF q])
  have "leaves (\<lambda>s1. chain (on_stage (RCDAVStageReset k) s1) (\<lambda>_ s1. (Inr None :: RCContactFetch option res, set_result (\<lambda>_. m_result (fst s)) s1)))"
    by (intro leaves_intros)
  with * q u show "untouched (fst s) (fst s')"
    by (cases status) (auto simp: try_sync_def Let_def intro: untouched_trans dest: leavesD)
qed

lemma leaves_listing: "leaves (full_listing lx cu client url k)"
  unfolding full_listing_def [abs_def] by (intro leaves_intros leaves_changes)

lemma leaves_fetch: "leaves (RCFetchCollection lx cu client coll k)"
  unfolding RCFetchCollection_def [abs_def] split_def
  by (intro leaves_intros lv.keeps_option leaves_listing leaves_try_sync)

lemma fetch_all_Cons:
  "fetch_all lx cu client k (c # cs) = (\<lambda>s. chain (stop_check cu s) (\<lambda>_ s.
     chain (RCFetchCollection lx cu client c k s) (\<lambda>f s.
     chain (fetch_all lx cu client (k + 1) cs s) (\<lambda>fs s. (Inr (f # fs), s)))))"
  by (rule ext) simp

lemma leaves_fetch_all: "leaves (fetch_all lx cu client k cs)"
proof (induction cs arbitrary: k)
  case Nil
  then show ?case by (auto intro: lv.keepsI)
next
  case (Cons c cs)
  show ?case unfolding fetch_all_Cons by (intro leaves_intros leaves_fetch Cons)
qed

lemma leaves_download_all: "leaves (download_all lx cu client url)"
  unfolding download_all_def [abs_def]
  by (intro lv.keeps_chain leaves_world lv.keeps_return leaves_after_result leaves_fetch_all)

section \<open>The commit is one transaction\<close>

text \<open>What the run of an account may change: elementary changes, of any of its collections.\<close>

definition run_change :: "int \<Rightarrow> int \<Rightarrow> 'z contact_tables_scheme \<Rightarrow> 'z contact_tables_scheme \<Rightarrow> bool" where
  "run_change acct run t t' \<longleftrightarrow> (\<exists>coll. mirror_change acct coll run t t')"

interpretation rs: table_relation "(run_change acct run)\<^sup>*\<^sup>*" for acct run
  by unfold_locales auto

abbreviation database_of :: "'z mirror \<times> 'w \<Rightarrow> 'z cdb" where
  "database_of s \<equiv> m_db (fst s)"

lemma changes_run: "mirror_changes acct coll run t t' \<Longrightarrow> (run_change acct run)\<^sup>*\<^sup>* t t'"
  by (rule rtranclp_mono [THEN predicate2D, rotated]) (auto simp: run_change_def)

lemma related_run: "ms.related acct coll run d d' \<Longrightarrow> rs.related acct run d d'"
  by (auto simp: ms.related_def rs.related_def dest: changes_run)

text \<open>An operation of the mirror that takes steps of the run and keeps the store's structure.\<close>

interpretation rn: state_relation "\<lambda>(s :: 'z mirror \<times> 'w) s'. cs_account (m_store (fst s)) = acct \<longrightarrow>
     m_store (fst s') = m_store (fst s) \<and> rs.related acct run (database_of s) (database_of s')" for acct run
  by unfold_locales (auto intro: rs.related_trans)

abbreviation runs :: "int \<Rightarrow> int \<Rightarrow> ('z mirror \<times> 'w \<Rightarrow> 'a res \<times> 'z mirror \<times> 'w) \<Rightarrow> bool" where
  "runs \<equiv> rn.keeps"

lemmas runs_def = rn.keeps_def

lemma runsD:
  "runs acct run f \<Longrightarrow> f s = (r, s') \<Longrightarrow> cs_account (m_store (fst s)) = acct \<Longrightarrow>
     m_store (fst s') = m_store (fst s) \<and> rs.related acct run (database_of s) (database_of s')"
  unfolding runs_def by blast

lemma runs_stop: "runs acct run (stop_check cu)"
  by (rule rn.keepsI) (auto simp: stop_check_def split: option.splits)

lemma runs_database:
  assumes "ms.st.keeps acct coll run f"
  shows "runs acct run (on_database f)"
  unfolding runs_def
proof (intro allI impI)
  fix s s' and r assume f: "on_database f s = (r, s')"
  obtain x d where x: "f (database_of s) = (x, d)" by (cases "f (database_of s)")
  from related_run [OF ms.st.keepsD [OF assms x]] f x
  show "m_store (fst s') = m_store (fst s) \<and> rs.related acct run (database_of s) (database_of s')"
    by (auto simp: on_database_def)
qed

lemma runs_store:
  "(\<And>store. cs_account store = acct \<Longrightarrow> runs acct run (g store)) \<Longrightarrow> runs acct run (\<lambda>s. g (m_store (fst s)) s)"
  unfolding runs_def by blast

lemma deliver_related:
  assumes "\<And>i d w r d' w'. f i (d, w) = (r, d', w') \<Longrightarrow> rs.related acct run d d'"
  shows "deliver_items f items (d, w) = (r, d', w') \<Longrightarrow> rs.related acct run d d'"
proof (induction items arbitrary: d w)
  case (Cons i items)
  from Cons.prems [unfolded deliver_items.simps] show ?case
  proof (cases rule: chain_cases)
    case (stopped e)
    then show ?thesis by (blast dest: assms)
  next
    case (goes_on x s)
    obtain d1 w1 where s: "s = (d1, w1)" by (cases s)
    from goes_on assms Cons.IH [of d1 w1] show ?thesis unfolding s by (blast intro: rs.related_trans)
  qed
qed simp

lemma commit_contact_related:
  "RCCommitContact vc store coll run item (d, w) = (r, d', w') \<Longrightarrow> rs.related acct run d d'"
  by (cases item; cases "fst item")
    (auto simp: RCCommitContact_def Let_def split: prod.splits
      dest!: ms.st.keepsD [OF does_delete [where acct = acct]] ms.st.keepsD [OF does_seen [where acct = acct]]
        save_resource_related [where acct = acct] intro: related_run)

lemma stage_apply_related:
  assumes "RCDAVStageApply st k (RCCommitContact vc store coll run) sd (d, w) = (r, sd', d', w')"
  shows "rs.related acct run d d'"
proof -
  obtain ok sd1 where p: "sql_prepare sd = (ok, sd1)" by (cases "sql_prepare sd")
  show ?thesis
  proof (cases ok)
    case False
    with p assms show ?thesis by (simp add: RCDAVStageApply_def)
  next
    case True
    with p assms have "apply_rows st (RCCommitContact vc store coll run) (staged k (tables sd1)) sd1 (d, w) = (r, sd', d', w')"
      by (simp add: RCDAVStageApply_def)
    from apply_rows_delivers [OF this] obtain dn where "snd (deliver_items (RCCommitContact vc store coll run) dn (d, w)) = (d', w')" by blast
    then obtain r1 where "deliver_items (RCCommitContact vc store coll run) dn (d, w) = (r1, d', w')" by (metis prod.collapse)
    then show ?thesis by (rule deliver_related [rotated]) (erule commit_contact_related)
  qed
qed

lemma runs_apply_stage: "runs acct run (apply_stage vc (cu :: ('l::len word, 'w) curl) k coll run :: 'z mirror \<times> 'w \<Rightarrow> _)"
  unfolding runs_def
proof (intro allI impI)
  fix s s' :: "'z mirror \<times> 'w" and r assume *: "apply_stage vc cu k coll run s = (r, s')"
  obtain x st d w where a: "RCDAVStageApply (\<lambda>(d, w). stop cu w) k (RCCommitContact vc (m_store (fst s)) coll run)
      (m_stage (fst s)) (m_db (fst s), snd s) = (x, st, d, w)" by (metis prod_cases4)
  with * have "s' = ((fst s)\<lparr>m_stage := st, m_db := d\<rparr>, w)" by (simp add: apply_stage_def)
  with stage_apply_related [OF a] show "m_store (fst s') = m_store (fst s) \<and> rs.related acct run (database_of s) (database_of s')"
    by simp
qed

lemmas runs_intros = rn.keeps_chain rn.keeps_if runs_stop rn.keeps_return runs_apply_stage

lemma runs_commit_steps:
  assumes "cs_account store = acct"
  shows "runs acct run (commit_steps vc cu run k coll f store)"
proof -
  have get: "ms.st.keeps acct c run (RCContactStoreGetCollection store url name)" for c url name
    using does_get_collection [of store c run] unfolding assms .
  show ?thesis unfolding commit_steps_def [abs_def]
    by (intro runs_intros runs_database get does_state_save) (rule does_keep does_finish_collection)+
qed

lemma runs_commit_collection: "runs acct run (commit_collection vc cu run k coll f)"
  unfolding commit_collection_def [abs_def]
  by (intro rn.keeps_chain runs_stop runs_store [where g = "commit_steps vc cu run k coll f"] runs_commit_steps)

lemma commit_all_Cons:
  "commit_all vc cu run k ((c, f) # rest) = (\<lambda>s. chain (commit_collection vc cu run k c f s) (\<lambda>_ s. commit_all vc cu run (k + 1) rest s))"
  by (rule ext) simp

lemma runs_commit_all: "runs acct run (commit_all vc cu run k work)"
proof (induction work arbitrary: k)
  case Nil
  then show ?case by (auto intro: rn.keepsI)
next
  case (Cons x work)
  obtain c f where x: "x = (c, f)" by (cases x)
  show ?case unfolding x commit_all_Cons by (intro runs_intros runs_commit_collection Cons)
qed

lemma runs_body: "runs acct run (run_body vc cu run work)"
  unfolding run_body_def [abs_def]
  by (intro rn.keeps_chain runs_stop runs_commit_all runs_database does_state_finish
      runs_store [where g = "\<lambda>store. on_database (RCDAVSyncStateFinish (cs_account store) run)"])

end
