(* ===== verification/ContactInvariant.thy ===== *)
theory ContactInvariant
  imports ContactContract
begin

text \<open>
  The well-formedness of the contact mirror, as its schema and its code intend it, and its
  preservation by every elementary change of a run.
\<close>

section \<open>Well-formed tables\<close>

text \<open>Primary keys and unique columns.\<close>

definition keys_ok :: "'z contact_tables_scheme \<Rightarrow> bool" where
  "keys_ok t \<longleftrightarrow> distinct (map ru_id (sync_runs t)) \<and>
     distinct (map cl_id (collections t)) \<and> distinct (map (\<lambda>b. (cl_account b, cl_url b)) (collections t)) \<and>
     distinct (map ct_id (contacts t)) \<and> distinct (map (\<lambda>c. (ct_collection c, ct_href c)) (contacts t)) \<and>
     distinct (map ct_sync (contacts t)) \<and> distinct (map py_id (contact_properties t)) \<and>
     distinct (map pa_id (contact_parameters t)) \<and> distinct (map pt_id (contact_value_parts t)) \<and>
     distinct (filter (\<lambda>i. i \<noteq> None) (map py_sync (contact_properties t)))"

text \<open>References, also the one to the run that last completed a collection, which the schema does not enforce.\<close>

definition refs_ok :: "'z contact_tables_scheme \<Rightarrow> bool" where
  "refs_ok t \<longleftrightarrow> ru_account ` set (sync_runs t) \<subseteq> acc_id ` set (accounts t) \<and>
     cl_account ` set (collections t) \<subseteq> acc_id ` set (accounts t) \<and>
     cl_complete ` set (collections t) \<subseteq> insert None (Some ` ru_id ` set (sync_runs t)) \<and>
     ct_collection ` set (contacts t) \<subseteq> cl_id ` set (collections t) \<and>
     py_contact ` set (contact_properties t) \<subseteq> ct_id ` set (contacts t) \<and>
     pa_property ` set (contact_parameters t) \<subseteq> py_id ` set (contact_properties t) \<and>
     pt_property ` set (contact_value_parts t) \<subseteq> py_id ` set (contact_properties t)"

definition store_ok :: "'z contact_tables_scheme \<Rightarrow> bool" where
  "store_ok t \<longleftrightarrow> keys_ok t \<and> refs_ok t"

text \<open>In a collection that the run has completed, every contact is accounted for.\<close>

definition complete_accounted :: "int \<Rightarrow> 'z contact_tables_scheme \<Rightarrow> bool" where
  "complete_accounted run t \<longleftrightarrow> (\<forall>b \<in> set (collections t). cl_complete b = Some run \<longrightarrow>
     (\<forall>c \<in> set (contacts t). ct_collection c = cl_id b \<longrightarrow> accounted run c))"

text \<open>No contact is ever removed, moved or renamed.\<close>

definition keeps_identities :: "'z contact_tables_scheme \<Rightarrow> 'z contact_tables_scheme \<Rightarrow> bool" where
  "keeps_identities t t' \<longleftrightarrow> identity ` set (contacts t) \<subseteq> identity ` set (contacts t')"

lemma keeps_refl [simp, intro]: "keeps_identities t t"
  by (simp add: keeps_identities_def)

lemma keeps_trans: "keeps_identities a b \<Longrightarrow> keeps_identities b c \<Longrightarrow> keeps_identities a c"
  by (auto simp: keeps_identities_def)

section \<open>Elementary changes preserve it\<close>

lemma update_identity:
  assumes "\<And>c. identity (f c) = identity c"
  shows "map identity (update_rows P f cs) = map identity cs" "map ct_id (update_rows P f cs) = map ct_id cs"
    "map (\<lambda>c. (ct_collection c, ct_href c)) (update_rows P f cs) = map (\<lambda>c. (ct_collection c, ct_href c)) cs"
    "map ct_sync (update_rows P f cs) = map ct_sync cs" "map ct_collection (update_rows P f cs) = map ct_collection cs"
  using assms by (auto intro!: map_update_rows simp: identity_def)

lemma image_of_map: "map g xs = map g ys \<Longrightarrow> g ` set xs = g ` set ys"
  by (metis set_map)

lemma ball_of_map: "map g xs = map g ys \<Longrightarrow> (\<forall>x \<in> set xs. P (g x)) = (\<forall>x \<in> set ys. P (g x))"
  by (metis (no_types, lifting) image_eqI image_iff image_of_map)

lemma filter_keys_distinct:
  "distinct (map k xs) \<Longrightarrow> distinct (map k (filter P xs))"
  "distinct (filter Q (map k' xs)) \<Longrightarrow> distinct (filter Q (map k' (filter P xs)))"
  by (induction xs) (auto simp: rev_image_eqI)

lemma next_rowid_map [simp]: "next_rowid (map k xs) \<notin> k ` set xs"
  using next_rowid_fresh [of "map k xs"] by simp

lemmas store_ok_defs = store_ok_def keys_ok_def refs_ok_def

lemma contact_rows_ok:
  assumes "store_ok t" and id: "\<And>c. identity (f c) = identity c"
  shows "store_ok (t\<lparr>contacts := update_rows P f (contacts t)\<rparr>)"
  using assms(1) update_identity [OF id, of P "contacts t"] image_of_map [OF update_identity(2) [OF id, of P "contacts t"]]
    image_of_map [OF update_identity(5) [OF id, of P "contacts t"]]
  by (simp add: store_ok_defs)

text \<open>What the other changes leave alone.\<close>

lemma add_contact_cases:
  assumes "add_contact coll href raw run sync t = Some (t', u)"
  obtains (same) "t' = t"
  | (fresh) c h where "t' = t\<lparr>contacts := contacts t @ [c]\<rparr>" "ct_id c = next_rowid (map ct_id (contacts t))"
      "ct_collection c = coll" "ct_href c = h" "href = Some h" "ct_sync c = sync" "ct_seen c = run" "\<not> ct_missing c"
      "\<forall>c \<in> set (contacts t). \<not> at_href coll href c \<and> ct_sync c \<noteq> sync" "coll \<in> cl_id ` set (collections t)"
  using assms by (force simp: add_contact_def split: option.splits if_splits)

lemma parts_leave:
  "drop_properties contact t = Some (t', u) \<Longrightarrow> contacts t' = contacts t \<and> collections t' = collections t \<and> sync_runs t' = sync_runs t"
  "add_property contact p sync t = Some (t', i) \<Longrightarrow> contacts t' = contacts t \<and> collections t' = collections t \<and> sync_runs t' = sync_runs t"
  "add_parameter prop q t = Some (t', u) \<Longrightarrow> contacts t' = contacts t \<and> collections t' = collections t \<and> sync_runs t' = sync_runs t"
  "add_part prop v t = Some (t', u) \<Longrightarrow> contacts t' = contacts t \<and> collections t' = collections t \<and> sync_runs t' = sync_runs t"
  by (auto simp: drop_properties_def add_property_def add_parameter_def add_part_def Let_def split: if_splits)

lemma add_collection_cases:
  assumes "add_collection url name acct t = Some (t', u)"
  obtains (same) "t' = t"
  | (fresh) b w where "t' = t\<lparr>collections := collections t @ [b]\<rparr>" "cl_id b = next_rowid (map cl_id (collections t))"
      "cl_account b = acct" "cl_url b = w" "url = Some w" "cl_complete b = None" "\<not> cl_missing b" "acct \<in> acc_id ` set (accounts t)"
      "\<forall>b \<in> set (collections t). \<not> (cl_account b = acct \<and> cl_url b = w)"
  using assms by (force simp: add_collection_def has_account_def split: option.splits if_splits)

lemma new_contact_ok:
  assumes "store_ok t" and "add_contact coll href raw run sync t = Some (t', u)"
  shows "store_ok t'"
  using assms(2)
proof (cases rule: add_contact_cases)
  case (fresh c h)
  from fresh(3-6,9) have "(coll, h) \<notin> (\<lambda>c. (ct_collection c, ct_href c)) ` set (contacts t)" "sync \<notin> ct_sync ` set (contacts t)"
    by (auto simp: at_href_def)
  with assms(1) fresh(2-6,10) show ?thesis unfolding fresh(1) by (simp add: store_ok_defs subset_insertI2)
qed (use assms in simp)

lemma drop_properties_ok:
  assumes "store_ok t" and "drop_properties contact t = Some (t', u)"
  shows "store_ok t'"
proof -
  let ?gone = "py_id ` set (filter (\<lambda>p. py_contact p = contact) (contact_properties t))"
  have refs: "r ` set (filter (\<lambda>q. r q \<notin> ?gone) qs) \<subseteq> py_id ` set (filter (\<lambda>p. py_contact p \<noteq> contact) (contact_properties t))"
    if "r ` set qs \<subseteq> py_id ` set (contact_properties t)" for r and qs :: "'q list"
  proof
    fix i assume "i \<in> r ` set (filter (\<lambda>q. r q \<notin> ?gone) qs)"
    then obtain q where q: "i = r q" "q \<in> set qs" "i \<notin> ?gone" by auto
    with that obtain p where "p \<in> set (contact_properties t)" "i = py_id p" by blast
    with q(3) show "i \<in> py_id ` set (filter (\<lambda>p. py_contact p \<noteq> contact) (contact_properties t))" by auto
  qed
  have sub: "py_contact ` set (filter (\<lambda>p. py_contact p \<noteq> contact) (contact_properties t)) \<subseteq> ct_id ` set (contacts t)"
    using assms(1) by (auto simp: store_ok_defs)
  from assms(2) have t': "t' = t\<lparr>contact_properties := filter (\<lambda>p. py_contact p \<noteq> contact) (contact_properties t),
      contact_parameters := filter (\<lambda>p. pa_property p \<notin> ?gone) (contact_parameters t),
      contact_value_parts := filter (\<lambda>p. pt_property p \<notin> ?gone) (contact_value_parts t)\<rparr>"
    by (simp add: drop_properties_def Let_def)
  from assms(1) have k: "keys_ok t'" unfolding t' by (simp add: store_ok_defs filter_keys_distinct)
  from assms(1) have "refs_ok t'" unfolding t' refs_ok_def store_ok_def
    using refs [of pa_property "contact_parameters t"] refs [of pt_property "contact_value_parts t"] sub
    by (simp del: set_filter)
  with k show ?thesis by (simp add: store_ok_def)
qed

lemma new_property_ok:
  assumes "store_ok t" and "add_property contact p sync t = Some (t', i)"
  shows "store_ok t'"
  using assms by (clarsimp simp: add_property_def Let_def store_ok_defs subset_insertI2 split: if_splits)

lemma new_parameter_ok: "store_ok t \<Longrightarrow> add_parameter prop q t = Some (t', u) \<Longrightarrow> store_ok t'"
  by (clarsimp simp: add_parameter_def store_ok_defs subset_insertI2 split: if_splits)

lemma new_part_ok: "store_ok t \<Longrightarrow> add_part prop v t = Some (t', u) \<Longrightarrow> store_ok t'"
  by (clarsimp simp: add_part_def store_ok_defs subset_insertI2 split: if_splits)

lemma new_collection_ok:
  assumes "store_ok t" and "add_collection url name acct t = Some (t', u)"
  shows "store_ok t'"
  using assms(2)
proof (cases rule: add_collection_cases)
  case (fresh b w)
  from fresh(9) have "(acct, w) \<notin> (\<lambda>b. (cl_account b, cl_url b)) ` set (collections t)" by auto
  with assms(1) fresh(2-6,8) show ?thesis unfolding fresh(1) by (simp add: store_ok_defs subset_insertI2)
qed (use assms in simp)

lemma collection_rows_ok:
  assumes "store_ok t" and "\<And>b. cl_id (f b) = cl_id b \<and> cl_account (f b) = cl_account b \<and> cl_url (f b) = cl_url b"
    and "\<And>b r. cl_complete (f b) = Some r \<Longrightarrow> cl_complete b = Some r \<or> r \<in> ru_id ` set (sync_runs t)"
  shows "store_ok (t\<lparr>collections := update_rows P f (collections t)\<rparr>)"
proof -
  have id: "map cl_id (update_rows P f (collections t)) = map cl_id (collections t)"
    "map cl_account (update_rows P f (collections t)) = map cl_account (collections t)"
    "map (\<lambda>b. (cl_account b, cl_url b)) (update_rows P f (collections t)) = map (\<lambda>b. (cl_account b, cl_url b)) (collections t)"
    using assms(2) by (auto intro!: map_update_rows)
  have old: "cl_complete a \<in> insert None (Some ` ru_id ` set (sync_runs t))" if "a \<in> set (collections t)" for a
    using assms(1) that by (auto simp: store_ok_defs)
  have "cl_complete b \<in> insert None (Some ` ru_id ` set (sync_runs t))" if "b \<in> set (update_rows P f (collections t))" for b
    using that
  proof (cases rule: in_update_rowsE)
    case (1 a)
    with old [of a] assms(3) [of a] show ?thesis by (cases "cl_complete b") auto
  qed (rule old)
  then have "cl_complete ` set (update_rows P f (collections t)) \<subseteq> insert None (Some ` ru_id ` set (sync_runs t))"
    by (rule image_subsetI)
  with assms(1) id image_of_map [OF id(1)] image_of_map [OF id(2)] show ?thesis by (simp add: store_ok_defs)
qed

text \<open>What an elementary change of a run preserves, given that the run is logged.\<close>

definition run_logged :: "int \<Rightarrow> 'z contact_tables_scheme \<Rightarrow> bool" where
  "run_logged run t \<longleftrightarrow> run \<in> ru_id ` set (sync_runs t)"

lemma change_keeps_ok:
  assumes "mirror_change acct coll run t t'" and "store_ok t" and "run_logged run t"
  shows "store_ok t' \<and> run_logged run t'"
proof -
  have "sync_runs t' = sync_runs t"
    using assms(1) by cases (auto dest: parts_leave elim: add_contact_cases add_collection_cases)
  moreover have "store_ok t'"
    using assms(1)
  proof (cases rule: mirror_change.cases)
    case (names f P)
    have "cl_id (f b) = cl_id b \<and> cl_account (f b) = cl_account b \<and> cl_url (f b) = cl_url b \<and> cl_complete (f b) = cl_complete b" for b
      using names(2) [of b] by auto
    with names(1) assms(2) collection_rows_ok [of t f P] show ?thesis by simp
  next
    case complete
    with assms(2,3) collection_rows_ok [of t "\<lambda>b. b\<lparr>cl_complete := Some run\<rparr>" "\<lambda>b. cl_id b = coll"]
    show ?thesis by (auto simp: run_logged_def)
  next
    case sync_state
    with assms(2) show ?thesis by (simp add: store_ok_defs)
  qed (use assms(2) in \<open>blast intro: contact_rows_ok new_contact_ok drop_properties_ok new_property_ok new_parameter_ok new_part_ok
      new_collection_ok\<close>)+
  ultimately show ?thesis using assms(3) by (simp add: run_logged_def)
qed

lemma change_keeps_identities:
  assumes "mirror_change acct coll run t t'"
  shows "keeps_identities t t'"
  using assms
proof (cases rule: mirror_change.cases)
  case (contact_rows f P)
  from image_of_map [OF update_identity(1) [OF contact_rows(2), of P "contacts t"]] contact_rows(1) show ?thesis
    by (simp add: keeps_identities_def)
next
  case (new_contact href raw sync u)
  from new_contact show ?thesis by (elim add_contact_cases) (auto simp: keeps_identities_def)
next
  case (new_collection url name u)
  from new_collection show ?thesis by (elim add_collection_cases) (auto simp: keeps_identities_def)
qed (auto simp: keeps_identities_def dest: parts_leave)

lemma change_keeps_accounted:
  assumes "mirror_change acct coll run t t'" and "complete_accounted run t"
  shows "complete_accounted run t'"
  using assms(1)
proof (cases rule: mirror_change.cases)
  case (contact_rows f P)
  have "accounted run c" if b: "b \<in> set (collections t)" "cl_complete b = Some run"
    and c: "c \<in> set (update_rows P f (contacts t))" "ct_collection c = cl_id b" for b c
    using c(1)
  proof (cases rule: in_update_rowsE)
    case (1 a)
    with contact_rows(4) show ?thesis by simp
  next
    case 2
    with assms(2) b c(2) show ?thesis by (auto simp: complete_accounted_def)
  qed
  then show ?thesis unfolding contact_rows(1) by (auto simp: complete_accounted_def)
next
  case (new_contact href raw sync u)
  from new_contact show ?thesis
  proof (cases rule: add_contact_cases)
    case (fresh c h)
    then have "accounted run c" by (simp add: accounted_def)
    with fresh(1) assms(2) show ?thesis by (auto simp: complete_accounted_def)
  qed (use assms(2) in simp)
next
  case (new_collection url name u)
  from new_collection show ?thesis using assms(2) by (elim add_collection_cases) (auto simp: complete_accounted_def)
next
  case (names f P)
  have "cl_id (f b) = cl_id b \<and> cl_complete (f b) = cl_complete b" for b using names(2) [of b] by auto
  with assms(2) names(1) show ?thesis by (auto simp: complete_accounted_def elim!: in_update_rowsE)
next
  case complete
  with assms(2) show ?thesis by (auto simp: complete_accounted_def elim!: in_update_rowsE)
qed (use assms(2) in \<open>auto simp: complete_accounted_def dest: parts_leave\<close>)

end
