(* ===== verification/MirrorDemo.thy ===== *)
theory MirrorDemo
  imports CardDAVMirror
begin

text \<open>
  A concrete synchronisation: a server whose one document names a principal and a home without
  address books, and a store with one collection and one contact, which are marked missing.
\<close>

definition book_client :: "32 word RCHTTPClient" where
  "book_client = demo_client\<lparr>c_userAgent := ''jeffreybergier/Retro-Cloud-Sync/1'',
     c_maximumResponseBytes := of_nat RC_HTTP_DEFAULT_RESPONSE_LIMIT\<rparr>"

definition book_config :: RCCardDAVMirrorConfig where
  "book_config = \<lparr>mc_serviceURL = Some ''https://h/'', mc_username = Some ''u'', mc_password = Some ''p'',
     mc_certificatePath = Some ''c'', mc_allowedHostSuffix = Some ''h''\<rparr>"

definition book_xml :: libxml where
  "book_xml = dav_xml\<lparr>xml_read := (\<lambda>_ _. Some \<lparr>doc_dtd = False, doc_root = Some (dav_node ''multistatus''
     [dav_node ''response'' [dav_node ''href'' [] ''https://h/'', dav_node ''propstat'' [dav_node ''status'' [] ''HTTP/1.1 200 OK'',
        dav_node ''prop'' [dav_node ''current-user-principal'' [dav_node ''href'' [] ''https://h/p/''] [],
          XmlNode True ''addressbook-home-set'' (Some kCardDAVNamespace) [dav_node ''href'' [] ''https://h/b/''] [],
          dav_node ''resourcetype'' [] []] []] []] []] [])\<rparr>)\<rparr>"

definition book_contact :: contact_row where
  "book_contact = \<lparr>ct_id = 1, ct_collection = 1, ct_href = ''https://h/b/c/a'', ct_uid = None, ct_etag = Some ''e'', ct_version = None,
     ct_formatted = None, ct_given = None, ct_family = None, ct_organization = None, ct_title = None, ct_birthday = None,
     ct_raw = ''B'', ct_usable = Some ''B'', ct_usable_etag = Some ''e'', ct_parse_error = None, ct_sync = ''s'', ct_seen = 1,
     ct_missing = False\<rparr>"

definition book_tables :: contact_tables where
  "book_tables = \<lparr>schema = [], accounts = [\<lparr>acc_id = 1, acc_username = ''u'', acc_sync_id = ''i'', acc_generation = 1, acc_published = 1\<rparr>],
     write_bases = [], write_operations = [], write_resolutions = [], write_attention = [], dav_sync_state = [], schema_version = [4],
     sync_runs = [\<lparr>ru_id = 1, ru_account = 1, ru_finished = True, ru_succeeded = Some True, ru_message = None\<rparr>],
     collections = [\<lparr>cl_id = 1, cl_account = 1, cl_url = ''https://h/b/c/'', cl_name = None, cl_complete = Some 1, cl_missing = False\<rparr>],
     contacts = [book_contact], contact_properties = [], contact_parameters = [], contact_value_parts = []\<rparr>"

definition book_store :: RCContactStore where
  "book_store = \<lparr>cs_account = 1, cs_activeRun = 0, cs_username = ''u'', cs_syncIdentifier = ''i''\<rparr>"

definition book_response :: "string \<Rightarrow> RCHTTPResponse" where
  "book_response url = RCHTTPResponseInit\<lparr>rs_statusCode := 207, rs_effectiveURL := Some url, rs_body := Some ''x''\<rparr>"

lemma book_request:
  "RCHTTPClientRequest dav_server book_client ''PROPFIND'' url depth type (Some b) n () = (Inr (book_response url), ())"
  by (simp add: http_eval dav_server_def book_response_def book_client_def RC_HTTP_DEFAULT_RESPONSE_LIMIT_def)

lemmas book_eval = dav_node_def RCNodeIs_def RCFindChild_def RCFindDescendant_def RCNodeText_def RCSuccessfulProperty_def
  RCPropertyStatusIsSuccessful_def kDAVNamespace_def kCardDAVNamespace_def empty_text_def effective_def RCURLResolve_def cstr_def dav_found

lemma book_multistatus:
  "multistatus book_xml dav_server book_client op ''PROPFIND'' url depth request () =
     (Inr (url, the (doc_root (the (xml_read book_xml [] None)))), ())"
  unfolding multistatus_def
  by (simp add: book_request) (simp add: book_response_def RCRequireMultiStatus_def RCParseXML_def book_xml_def book_eval
      bodyLength_def MAX_XML_def RCHTTPResponseInit_def)

lemma book_discovery:
  "RCDAVDiscoverHref book_xml dav_server book_client url kPrincipalRequest ''current-user-principal'' kDAVNamespace () = (Inr ''https://h/p/'', ())"
  "RCDAVDiscoverHref book_xml dav_server book_client url kHomeRequest ''addressbook-home-set'' kCardDAVNamespace () = (Inr ''https://h/b/'', ())"
  "RCDAVListCollections book_xml dav_server book_client url ''addressbook'' kCardDAVNamespace () = (Inr [], ())"
  unfolding RCDAVDiscoverHref_def RCDAVListCollections_def book_multistatus
  by (simp_all add: book_xml_def dav_xml_def book_eval dav_server_def busy_server_def)

lemma book_open: "RCDAVStageOpen (Some (open_db [])) = Inr ((open_db [])\<lparr>calls := 1\<rparr>)"
  by (simp add: RCDAVStageOpen_def sql_call_def open_db_def)

lemma book_create: "RCHTTPClientCreate ''1'' (Some (http_config book_config)) = Inr book_client"
  by (simp add: RCHTTPClientCreate_def http_config_def book_config_def book_client_def demo_client_def)

definition book_result :: RCCardDAVMirrorResult where
  "book_result = \<lparr>mr_collectionCount = 0, mr_listed = 0, mr_downloaded = 0, mr_unchanged = 0\<rparr>"

definition retired_tables :: contact_tables where
  "retired_tables = book_tables\<lparr>schema := [state_table], accounts := map (\<lambda>a. a\<lparr>acc_generation := 2\<rparr>) (accounts book_tables),
     sync_runs := sync_runs book_tables @ [\<lparr>ru_id = 2, ru_account = 1, ru_finished = True, ru_succeeded = Some True, ru_message = None\<rparr>],
     collections := map (\<lambda>b. b\<lparr>cl_missing := True\<rparr>) (collections book_tables),
     contacts := [book_contact\<lparr>ct_missing := True\<rparr>]\<rparr>"

lemmas book_run_eval = commit_run_of_def stop_check_def RCCheckCancellation_def RCContactStoreBeginRun_def store_modify_def
  RCPrepare_def RCExecute_def sql_prepare_def sql_call_def sql_modify_def sql_begin_def sql_commit_def run_body_def on_database_def
  RCDAVSyncStateFinish_def state_prepare_def state_step_def sweep_state_def create_state_def autocommit_def
  finish_run_def RCContactStoreFinishRun_def RCCheckRun_def commit_run_def retire_collections_def update_collections_def
  retire_contacts_def update_contacts_def set_generation_def end_run_def add_run_def has_account_def next_rowid_def table_simps

lemma book_fields:
  "mc_serviceURL book_config = Some ''https://h/''" "mc_username book_config = Some ''u''" "mc_password book_config = Some ''p''"
  "mc_certificatePath book_config = Some ''c''" "RCContactStoreIsAccount (Some book_store) (Some ''u'')" "stop dav_server () = False"
  by (simp_all add: book_config_def RCContactStoreIsAccount_def book_store_def dav_server_def busy_server_def)

lemma book_mirror:
  "mirror_with vc book_xml dav_server book_client url
     (\<lparr>m_store = book_store, m_db = open_db book_tables, m_stage = st, m_result = no_result\<rparr>, ()) =
   (Inr (), \<lparr>m_store = book_store, m_db = (open_db retired_tables)\<lparr>calls := 15\<rparr>, m_stage = st, m_result = book_result\<rparr>, ())"
  by (simp add: mirror_with_def download_all_def on_world_def book_discovery set_result_def book_fields book_store_def
    open_db_def book_tables_def book_contact_def no_result_def book_result_def book_run_eval retired_tables_def)

lemma book_run:
  "RCCardDAVMirrorFetch ''1'' vc book_xml dav_server (Some (open_db [])) (Some book_config) book_store (open_db book_tables) () =
     ((book_result, Inr ()), book_store, (open_db retired_tables)\<lparr>calls := 15\<rparr>, ())"
  unfolding RCCardDAVMirrorFetch_def book_open book_create Let_def
  by (simp add: book_fields book_create book_mirror autocommit_def) (simp add: open_db_def)

text \<open>The same run against a database that refuses to commit.\<close>

definition stubborn_db :: "contact_tables db" where
  "stubborn_db = (open_db book_tables)\<lparr>outcome := (\<lambda>op _. op \<noteq> Commit)\<rparr>"

lemma book_mirror_refused:
  "\<exists>e d'. mirror_with vc book_xml dav_server book_client url
     (\<lparr>m_store = book_store, m_db = stubborn_db, m_stage = st, m_result = no_result\<rparr>, ()) =
   (Inl e, \<lparr>m_store = book_store, m_db = d', m_stage = st, m_result = book_result\<rparr>, ())"
  by (simp add: mirror_with_def download_all_def on_world_def book_discovery set_result_def book_fields book_store_def stubborn_db_def
    open_db_def book_tables_def book_contact_def no_result_def book_result_def book_run_eval sql_rollback_def)

lemma book_refused:
  "\<exists>e d'. RCCardDAVMirrorFetch ''1'' vc book_xml dav_server (Some (open_db [])) (Some book_config) book_store stubborn_db () =
     ((book_result, Inl e), book_store, d', ())"
proof -
  have idle: "autocommit stubborn_db" by (simp add: autocommit_def stubborn_db_def open_db_def)
  obtain e d' where "mirror_with vc book_xml dav_server book_client ''https://h/''
     (\<lparr>m_store = book_store, m_db = stubborn_db, m_stage = (open_db [])\<lparr>calls := 1\<rparr>, m_result = no_result\<rparr>, ()) =
   (Inl e, \<lparr>m_store = book_store, m_db = d', m_stage = (open_db [])\<lparr>calls := 1\<rparr>, m_result = book_result\<rparr>, ())"
    using book_mirror_refused by blast
  then show ?thesis unfolding RCCardDAVMirrorFetch_def book_open book_create Let_def
    by (simp add: book_fields book_create idle)
qed

end
