(* ===== verification/MirrorAtomicity.thy ===== *)
theory MirrorAtomicity
  imports MirrorContract ContactInvariant MirrorDemo
begin

text \<open>
  The transaction of the address book mirror: whatever happens during a synchronisation, the
  connection is left idle and the store either has the whole run or, but for the log of
  runs, what it had.
\<close>

definition unlogged :: "'z contact_tables_scheme \<Rightarrow> 'z contact_tables_scheme" where
  "unlogged t = t\<lparr>sync_runs := []\<rparr>"

definition can_roll_back :: "'t db \<Rightarrow> bool" where
  "can_roll_back d \<longleftrightarrow> (\<forall>n. outcome d Rollback n)"

lemma can_roll_back_same: "same_library d d' \<Longrightarrow> can_roll_back d' = can_roll_back d"
  by (simp add: can_roll_back_def same_library_def)

lemma rollback_works:
  "can_roll_back d \<Longrightarrow> txn d \<noteq> [] \<Longrightarrow> sql_rollback d = (ok, d') \<Longrightarrow>
     ok \<and> txn d' = [] \<and> tables d' = snd (last (txn d)) \<and> same_library d d'"
  by (auto simp: sql_rollback_def sql_call_def can_roll_back_def same_library_def Let_def split: if_splits)

text \<open>Nothing but the log of runs has changed, and the tables are as well-formed as before.\<close>

definition undone :: "'z contact_tables_scheme \<Rightarrow> 'z contact_tables_scheme \<Rightarrow> bool" where
  "undone t t' \<longleftrightarrow> unlogged t' = unlogged t \<and> (store_ok t \<longrightarrow> store_ok t')"

lemma undone_refl [simp, intro]: "undone t t"
  by (simp add: undone_def)

lemma undone_trans: "undone a b \<Longrightarrow> undone b c \<Longrightarrow> undone a c"
  by (simp add: undone_def)

lemma add_run_fresh:
  assumes "add_run acct t = Some (t', run)"
  obtains r where "t' = t\<lparr>sync_runs := sync_runs t @ [r]\<rparr>" "ru_id r = run" "ru_account r = acct" "run = next_rowid (map ru_id (sync_runs t))"
    "acct \<in> acc_id ` set (accounts t)"
proof (rule that)
  let ?i = "next_rowid (map ru_id (sync_runs t))"
  let ?r = "\<lparr>ru_id = ?i, ru_account = acct, ru_finished = False, ru_succeeded = None, ru_message = None\<rparr>"
  from assms have "t\<lparr>sync_runs := sync_runs t @ [?r]\<rparr> = t'" "?i = run" "acct \<in> acc_id ` set (accounts t)"
    by (auto simp add: add_run_def has_account_def Let_def split: if_splits)
  then show "t' = t\<lparr>sync_runs := sync_runs t @ [?r]\<rparr>" "ru_id ?r = run" "run = ?i" "acct \<in> acc_id ` set (accounts t)"
    by simp_all
qed simp

lemma add_run_undone: "add_run acct t = Some (t', run) \<Longrightarrow> undone t t' \<and> 0 < run"
  by (elim add_run_fresh) (auto simp: undone_def unlogged_def store_ok_defs next_rowid_pos)

lemma end_run_undone:
  assumes "end_run acct run b m t = Some (t', u)"
  shows "undone t t'"
proof -
  let ?f = "\<lambda>r. r\<lparr>ru_finished := True, ru_succeeded := Some b, ru_message := m\<rparr>"
  let ?runs = "update_rows (\<lambda>r. ru_id r = run \<and> ru_account r = acct) ?f (sync_runs t)"
  have id: "map ru_id ?runs = map ru_id (sync_runs t)" "map ru_account ?runs = map ru_account (sync_runs t)"
    by (auto intro!: map_update_rows)
  from assms have t': "t' = t\<lparr>sync_runs := ?runs\<rparr>" by (simp add: end_run_def)
  show ?thesis unfolding t' using image_of_map [OF id(1)] image_of_map [OF id(2)] id
    by (simp add: undone_def unlogged_def store_ok_defs)
qed

lemma begin_run_result:
  assumes "RCContactStoreBeginRun store d = (r, store', d')" and "txn d = []"
  shows "same_library d d' \<and> undone (tables d) (tables d') \<and>
    (case r of Inl _ \<Rightarrow> store' = store \<and> txn d' = []
     | Inr run \<Rightarrow> 0 < run \<and> cs_activeRun store = 0 \<and> store' = store\<lparr>cs_activeRun := run\<rparr> \<and>
         txn d' = [(None, tables d')])"
proof (cases "cs_activeRun store = 0")
  case False
  with assms show ?thesis by (auto simp: RCContactStoreBeginRun_def)
next
  case True
  obtain x d1 where m: "store_modify (RCStoreError ''Could not begin contact run'') (add_run (cs_account store)) d = (x, d1)"
    by (metis surj_pair)
  note k = modify_result [OF m]
  show ?thesis
  proof (cases x)
    case (Inl e)
    with True m k assms show ?thesis by (auto simp: RCContactStoreBeginRun_def)
  next
    case (Inr run)
    with k have run: "add_run (cs_account store) (tables d) = Some (tables d1, run)" by simp
    obtain ok d2 where b: "sql_begin d1 = (ok, d2)" by (cases "sql_begin d1")
    from sql_begin_result [OF b] k add_run_undone [OF run] True m b Inr assms show ?thesis
      by (cases ok) (auto simp: RCContactStoreBeginRun_def RCExecute_def intro: same_library_trans)
  qed
qed

lemma commit_run_result:
  assumes "commit_run acct run message d = (r, d')"
  shows "same_library d d' \<and> (if is_ok r then txn d' = [] else txn d' = txn d)"
  using assms unfolding commit_run_def
  by (elim chain_cases)
    (auto dest!: modify_result sql_commit_result simp: RCExecute_def same_library_def split: prod.splits if_splits)

lemma abandon_run_result:
  assumes "abandon_run acct run message d = (r, d')" and "can_roll_back d" and "txn d = ext @ [(None, t1)]"
  shows "txn d' = [] \<and> undone t1 (tables d')"
proof -
  obtain ok d1 where b: "sql_rollback d = (ok, d1)" by (cases "sql_rollback d")
  from rollback_works [OF assms(2) _ b] assms(3) have d1: "ok" "txn d1 = []" "tables d1 = t1" by simp_all
  with assms(1) b have "store_modify finish_error (end_run acct run False message) d1 = (r, d')"
    by (simp add: abandon_run_def RCExecute_def)
  from modify_result [OF this] d1 show ?thesis by (auto split: sum.splits dest: end_run_undone)
qed

lemma finish_run_store_result:
  assumes f: "RCContactStoreFinishRun store run b message d = (r, store', d')"
    and run: "0 < run" "cs_activeRun store = run" and d: "can_roll_back d" "txn d = ext @ [(None, t1)]"
  shows "store' = store\<lparr>cs_activeRun := 0\<rparr> \<and> txn d' = [] \<and>
    (\<not> (b \<and> is_ok r) \<longrightarrow> undone t1 (tables d'))"
proof (cases b)
  case False
  obtain x d1 where a: "abandon_run (cs_account store) run message d = (x, d1)" by (metis surj_pair)
  from abandon_run_result [OF a d] False a f run show ?thesis
    by (cases x) (auto simp: RCContactStoreFinishRun_def RCCheckRun_def autocommit_def)
next
  case True
  obtain x d1 where c: "commit_run (cs_account store) run message d = (x, d1)" by (metis surj_pair)
  note k = commit_run_result [OF c]
  show ?thesis
  proof (cases x)
    case (Inr u)
    with k True c f run show ?thesis by (auto simp: RCContactStoreFinishRun_def RCCheckRun_def)
  next
    case (Inl e)
    with k d have t: "txn d1 = ext @ [(None, t1)]" by simp
    moreover from k d have "can_roll_back d1" by (blast dest: can_roll_back_same)
    ultimately have t: "txn d1 = ext @ [(None, t1)]" "can_roll_back d1" .
    obtain ok d2 where b: "sql_rollback d1 = (ok, d2)" by (cases "sql_rollback d1")
    from rollback_works [OF t(2) _ b] t(1) have "txn d2 = []" "tables d2 = t1" by simp_all
    with Inl True c f run t b show ?thesis
      by (auto simp: RCContactStoreFinishRun_def RCCheckRun_def autocommit_def)
  qed
qed

lemma finish_run_result:
  assumes "finish_run run r s = (r', s')" and "0 < run" "cs_activeRun (m_store (fst s)) = run"
    and "can_roll_back (database_of s)" "txn (database_of s) = ext @ [(None, t1)]"
  shows "m_store (fst s') = (m_store (fst s))\<lparr>cs_activeRun := 0\<rparr> \<and> txn (database_of s') = [] \<and>
    (\<not> is_ok r' \<longrightarrow> undone t1 (tables (database_of s')))"
proof (cases r)
  case (Inl e)
  obtain x store d where f: "RCContactStoreFinishRun (m_store (fst s)) run False (Some (err_message e)) (m_db (fst s)) = (x, store, d)"
    by (metis prod_cases3)
  from finish_run_store_result [OF f assms(2-5)] f Inl assms(1) show ?thesis by (auto simp: finish_run_def)
next
  case (Inr u)
  obtain x store d where f: "RCContactStoreFinishRun (m_store (fst s)) run True None (m_db (fst s)) = (x, store, d)"
    by (metis prod_cases3)
  from finish_run_store_result [OF f assms(2-5)] f Inr assms(1) show ?thesis by (auto simp: finish_run_def)
qed

lemma stop_check_result: "stop_check cu s = (r, s') \<Longrightarrow> s' = s"
  by (auto simp: stop_check_def split: option.splits)

lemma commit_run_of_result:
  assumes c: "commit_run_of vc cu work s = (r, s')" and idle: "txn (database_of s) = []" and rb: "can_roll_back (database_of s)"
  shows "m_store (fst s') = m_store (fst s) \<and> txn (database_of s') = [] \<and>
    (\<not> is_ok r \<longrightarrow> undone (tables (database_of s)) (tables (database_of s')))"
proof -
  obtain x store d where b: "RCContactStoreBeginRun (m_store (fst s)) (m_db (fst s)) = (x, store, d)" by (metis prod_cases3)
  note k = begin_run_result [OF b idle]
  consider (stopped) e where "s' = s" "r = Inl e"
    | (failed) e where "x = Inl e" "s' = ((fst s)\<lparr>m_store := store, m_db := d\<rparr>, snd s)"
    | (run) run where "x = Inr run"
      "(let (r0, s0) = run_body vc cu run work ((fst s)\<lparr>m_store := store, m_db := d\<rparr>, snd s) in finish_run run r0 s0) = (r, s')"
    using c [unfolded commit_run_of_def]
  proof (cases rule: chain_cases)
    case (stopped e)
    with that(1) stop_check_result show ?thesis by metis
  next
    case (goes_on u s1)
    from stop_check_result [OF goes_on(1)] goes_on(2) b have
      "(case x of Inl e \<Rightarrow> (Inl e, (fst s)\<lparr>m_store := store, m_db := d\<rparr>, snd s)
        | Inr run \<Rightarrow> (let (r0, s0) = run_body vc cu run work ((fst s)\<lparr>m_store := store, m_db := d\<rparr>, snd s) in finish_run run r0 s0)) = (r, s')"
      by (cases x) simp_all
    with that(2,3) show ?thesis by (cases x) auto
  qed
  then show ?thesis
  proof cases
    case (run run)
    obtain r0 s0 where body: "run_body vc cu run work ((fst s)\<lparr>m_store := store, m_db := d\<rparr>, snd s) = (r0, s0)" by (metis surj_pair)
    with run have fin: "finish_run run r0 s0 = (r, s')" by simp
    from runsD [OF runs_body body refl] have r: "m_store (fst s0) = store" "rs.related (cs_account store) run d (database_of s0)" by simp_all
    from r(2) k run(1) obtain ext where t: "txn (database_of s0) = ext @ [(None, tables d)]" "same_library d (database_of s0)"
      by (auto simp: rs.related_def)
    from k t(2) rb have "can_roll_back (database_of s0)" by (blast dest: can_roll_back_same)
    from finish_run_result [OF fin _ _ this t(1)] k run(1) r(1) show ?thesis by (auto intro: undone_trans)
  qed (use idle k in simp_all)
qed

lemma mirror_with_result:
  assumes m: "mirror_with vc lx cu client url s = (r, s')" and idle: "txn (database_of s) = []" and rb: "can_roll_back (database_of s)"
  shows "m_store (fst s') = m_store (fst s) \<and> txn (database_of s') = [] \<and>
    (\<not> is_ok r \<longrightarrow> undone (tables (database_of s)) (tables (database_of s')))"
proof -
  consider (stopped) "untouched (fst s) (fst s')" "\<not> is_ok r"
    | (commit) s1 work where "untouched (fst s) (fst s1)" "commit_run_of vc cu work s1 = (r, s')"
    using m [unfolded mirror_with_def] by (cases rule: chain_cases) (auto dest: leavesD [OF leaves_download_all])
  then show ?thesis
  proof cases
    case stopped
    with idle show ?thesis by (simp add: untouched_def)
  next
    case commit
    from commit(1) idle rb have k: "txn (database_of s1) = []" "can_roll_back (database_of s1)"
      by (auto simp: untouched_def dest: can_roll_back_same)
    from commit_run_of_result [OF commit(2) k] commit(1) show ?thesis by (simp add: untouched_def)
  qed
qed

lemma mirror_fetch_undone:
  assumes "RCCardDAVMirrorFetch version vc lx cu staging config store d w = ((result, r), store', d', w')"
    and "can_roll_back d"
  shows "store' = store \<and> txn d' = txn d \<and> (\<not> is_ok r \<longrightarrow> undone (tables d) (tables d'))"
proof (cases "d' = d \<and> store' = store")
  case False
  with assms(1) obtain client m stage url where idle: "txn d = []"
    and m: "mirror_with vc lx cu client url (\<lparr>m_store = store, m_db = d, m_stage = stage, m_result = no_result\<rparr>, w) = (r, m, w')"
    and out: "store' = m_store m" "d' = m_db m"
    by (auto simp: RCCardDAVMirrorFetch_def Let_def autocommit_def split: option.splits if_splits sum.splits prod.splits)
  from mirror_with_result [OF m] idle assms(2) out show ?thesis by simp
qed simp

text \<open>C4: all or nothing. However a synchronisation of the address books ends, with any server, any
  bodies and any failures of SQLite but that of \<open>ROLLBACK\<close>, the store's structure is as before
  and no transaction is left open; and unless it succeeded, every table but the log of runs
  has the rows it had, so readers never see a partial inventory.\<close>

theorem mirror_all_or_nothing:
  assumes "RCCardDAVMirrorFetch version vc lx cu staging config store d w = ((result, r), store', d', w')"
    and "can_roll_back d"
  shows "store' = store \<and> txn d' = txn d \<and> (\<not> is_ok r \<longrightarrow> unlogged (tables d') = unlogged (tables d))"
  using mirror_fetch_undone [OF assms] by (simp add: undone_def)

text \<open>The witness: a commit that SQLite refuses leaves the tables as they were.\<close>

theorem mirror_all_or_nothing_witness:
  "\<exists>e d'. RCCardDAVMirrorFetch ''1'' (\<lambda>_. None) book_xml dav_server (Some (open_db [])) (Some book_config) book_store stubborn_db () =
     ((book_result, Inl e), book_store, d', ()) \<and> txn d' = [] \<and> unlogged (tables d') = unlogged book_tables"
proof -
  obtain e d' where r: "RCCardDAVMirrorFetch ''1'' (\<lambda>_. None) book_xml dav_server (Some (open_db [])) (Some book_config) book_store
      stubborn_db () = ((book_result, Inl e), book_store, d', ())" using book_refused by blast
  have "can_roll_back stubborn_db" by (simp add: can_roll_back_def stubborn_db_def)
  from mirror_all_or_nothing [OF r this] r show ?thesis by (auto simp: stubborn_db_def open_db_def)
qed

end
