(* ===== verification/MirrorOutcome.thy ===== *)
theory MirrorOutcome
  imports MirrorAtomicity
begin

text \<open>
  What a synchronisation of the address books leaves in the store: the tables stay
  well-formed, no contact loses its identity, and after a success a contact is absent just
  when the inventory of its collection was completed without it.
\<close>

section \<open>The changes of a whole run\<close>

lemma run_changes_keep:
  assumes "(run_change acct run)\<^sup>*\<^sup>* t t'" and "store_ok t" "run_logged run t" "complete_accounted run t"
  shows "store_ok t' \<and> run_logged run t' \<and> complete_accounted run t' \<and> keeps_identities t t'"
  using assms(1)
proof (induction rule: rtranclp_induct)
  case base
  with assms show ?case by simp
next
  case (step y z)
  then obtain coll where "mirror_change acct coll run y z" by (auto simp: run_change_def)
  with step.IH show ?case
    by (blast intro: keeps_trans dest: change_keeps_ok change_keeps_identities change_keeps_accounted)
qed

text \<open>The state a successful run publishes.\<close>

definition synchronised :: "int \<Rightarrow> int \<Rightarrow> 'z contact_tables_scheme \<Rightarrow> bool" where
  "synchronised acct run t \<longleftrightarrow>
     (\<forall>a \<in> set (accounts t). acc_id a = acct \<longrightarrow> acc_generation a = run) \<and>
     (\<exists>r \<in> set (sync_runs t). ru_id r = run \<and> ru_account r = acct \<and> ru_finished r \<and> ru_succeeded r = Some True) \<and>
     (\<forall>b \<in> set (collections t). cl_account b = acct \<longrightarrow> (cl_missing b \<longleftrightarrow> cl_complete b \<noteq> Some run)) \<and>
     (\<forall>b \<in> set (collections t). \<forall>c \<in> set (contacts t). cl_account b = acct \<longrightarrow> ct_collection c = cl_id b \<longrightarrow>
        (ct_missing c \<longleftrightarrow> cl_missing b \<or> ct_seen c \<noteq> run))"

definition run_of :: "int \<Rightarrow> int \<Rightarrow> 'z contact_tables_scheme \<Rightarrow> bool" where
  "run_of acct run t \<longleftrightarrow> (\<exists>r \<in> set (sync_runs t). ru_id r = run \<and> ru_account r = acct)"

lemma run_of_logged: "run_of acct run t \<Longrightarrow> run_logged run t"
  by (auto simp: run_of_def run_logged_def)

lemma run_change_runs: "(run_change acct run)\<^sup>*\<^sup>* t t' \<Longrightarrow> sync_runs t' = sync_runs t"
proof (induction rule: rtranclp_induct)
  case (step y z)
  then obtain coll where "mirror_change acct coll run y z" by (auto simp: run_change_def)
  then have "sync_runs z = sync_runs y"
    by cases (auto dest: parts_leave elim: add_contact_cases add_collection_cases)
  with step.IH show ?case by simp
qed simp

text \<open>The four changes that end a successful run.\<close>

definition concluded :: "int \<Rightarrow> int \<Rightarrow> string option \<Rightarrow> 'z contact_tables_scheme \<Rightarrow> 'z contact_tables_scheme \<Rightarrow> bool" where
  "concluded acct run m t t' \<longleftrightarrow> (\<exists>t1 t2 t3. retire_collections acct run t = Some (t1, ()) \<and> retire_contacts acct t1 = Some (t2, ()) \<and>
     set_generation acct run t2 = Some (t3, ()) \<and> end_run acct run True m t3 = Some (t', ()))"

lemma commit_run_concludes:
  assumes "commit_run acct run m d = (Inr u, d')"
  shows "concluded acct run m (tables d) (tables d')"
  using assms unfolding commit_run_def concluded_def
  by (auto elim!: chain_InrE dest!: modify_result sql_commit_result simp: RCExecute_def split: prod.splits if_splits)

definition retired_row :: "int \<Rightarrow> int \<Rightarrow> collection_row \<Rightarrow> collection_row" where
  "retired_row acct run b = (if cl_account b = acct then b\<lparr>cl_missing := (cl_complete b \<noteq> Some run)\<rparr> else b)"

definition retired_ids :: "int \<Rightarrow> int \<Rightarrow> 'z contact_tables_scheme \<Rightarrow> int set" where
  "retired_ids acct run t = cl_id ` set (filter (\<lambda>b. cl_account b = acct \<and> cl_complete b \<noteq> Some run) (collections t))"

definition dropped_row :: "int set \<Rightarrow> contact_row \<Rightarrow> contact_row" where
  "dropped_row gone c = (if ct_collection c \<in> gone then c\<lparr>ct_missing := True\<rparr> else c)"

lemma retired_rows:
  "cl_id ` set (filter (\<lambda>b. cl_account b = acct \<and> cl_missing b)
       (update_rows (\<lambda>b. cl_account b = acct) (\<lambda>b. b\<lparr>cl_missing := (cl_complete b \<noteq> Some run)\<rparr>) bs)) =
     cl_id ` set (filter (\<lambda>b. cl_account b = acct \<and> cl_complete b \<noteq> Some run) bs)"
  by (induction bs) (auto simp: table_simps)

lemma concluded_tables:
  assumes "concluded acct run m t t'"
  shows "collections t' = map (retired_row acct run) (collections t)"
    "contacts t' = map (dropped_row (retired_ids acct run t)) (contacts t)"
    "accounts t' = update_rows (\<lambda>a. acc_id a = acct) (\<lambda>a. a\<lparr>acc_generation := run\<rparr>) (accounts t)"
    "sync_runs t' = update_rows (\<lambda>r. ru_id r = run \<and> ru_account r = acct)
       (\<lambda>r. r\<lparr>ru_finished := True, ru_succeeded := Some True, ru_message := m\<rparr>) (sync_runs t)"
    "contact_properties t' = contact_properties t" "contact_parameters t' = contact_parameters t"
    "contact_value_parts t' = contact_value_parts t"
proof -
  let ?rows = "update_rows (\<lambda>b. cl_account b = acct) (\<lambda>b. b\<lparr>cl_missing := (cl_complete b \<noteq> Some run)\<rparr>) (collections t)"
  have "?rows = map (retired_row acct run) (collections t)" by (auto simp: update_rows_def retired_row_def)
  moreover have "cl_id ` set (filter (\<lambda>b. cl_account b = acct \<and> cl_missing b) ?rows) = retired_ids acct run t"
    unfolding retired_ids_def by (rule retired_rows)
  moreover from assms have t': "collections t' = ?rows"
    "contacts t' = update_rows (\<lambda>c. ct_collection c \<in> cl_id ` set (filter (\<lambda>b. cl_account b = acct \<and> cl_missing b) ?rows))
       (\<lambda>c. c\<lparr>ct_missing := True\<rparr>) (contacts t)"
    by (auto simp: concluded_def retire_collections_def update_collections_def retire_contacts_def update_contacts_def
        set_generation_def end_run_def simp del: set_filter)
  ultimately show "collections t' = map (retired_row acct run) (collections t)"
    "contacts t' = map (dropped_row (retired_ids acct run t)) (contacts t)"
    by (simp_all add: update_rows_def dropped_row_def)
qed (use assms in \<open>auto simp: concluded_def retire_collections_def update_collections_def retire_contacts_def update_contacts_def
        set_generation_def end_run_def\<close>)

lemma rows_same [simp]:
  "cl_id (retired_row acct run b) = cl_id b" "cl_account (retired_row acct run b) = cl_account b"
  "cl_url (retired_row acct run b) = cl_url b" "cl_complete (retired_row acct run b) = cl_complete b"
  "ct_id (dropped_row gone c) = ct_id c" "ct_collection (dropped_row gone c) = ct_collection c"
  "ct_href (dropped_row gone c) = ct_href c" "ct_sync (dropped_row gone c) = ct_sync c" "ct_seen (dropped_row gone c) = ct_seen c"
  "identity (dropped_row gone c) = identity c"
  by (simp_all add: retired_row_def dropped_row_def identity_def)

lemma concluded_ok:
  assumes "concluded acct run m t t'" and "store_ok t"
  shows "store_ok t' \<and> keeps_identities t t'"
proof -
  note t = concluded_tables [OF assms(1)]
  have id: "map acc_id (accounts t') = map acc_id (accounts t)" "map ru_id (sync_runs t') = map ru_id (sync_runs t)"
    "map ru_account (sync_runs t') = map ru_account (sync_runs t)"
    unfolding t by (auto intro!: map_update_rows)
  have "store_ok t'" unfolding store_ok_defs
    using assms(2) id image_of_map [OF id(1)] image_of_map [OF id(2)] image_of_map [OF id(3)] t(1,2,5-7)
    by (simp add: store_ok_defs o_def image_image)
  moreover have "keeps_identities t t'" unfolding keeps_identities_def t by (simp add: image_image)
  ultimately show ?thesis ..
qed

lemma concluded_synchronised:
  assumes c: "concluded acct run m t t'" and "store_ok t" "run_of acct run t" "complete_accounted run t" and run: "0 < run"
  shows "synchronised acct run t'"
proof -
  note t = concluded_tables [OF c]
  have gen: "\<forall>a \<in> set (accounts t'). acc_id a = acct \<longrightarrow> acc_generation a = run"
  proof (intro ballI impI)
    fix a assume "a \<in> set (accounts t')" and a: "acc_id a = acct"
    then have "a \<in> set (update_rows (\<lambda>a. acc_id a = acct) (\<lambda>a. a\<lparr>acc_generation := run\<rparr>) (accounts t))" by (simp only: t(3))
    then show "acc_generation a = run" by (cases rule: in_update_rowsE) (use a in simp_all)
  qed
  from assms(3) obtain r where r: "r \<in> set (sync_runs t)" "ru_id r = run" "ru_account r = acct" by (auto simp: run_of_def)
  then have "r\<lparr>ru_finished := True, ru_succeeded := Some True, ru_message := m\<rparr> \<in> set (sync_runs t')"
    unfolding t set_update_rows by (intro image_eqI [of _ _ r]) simp_all
  then have fin: "\<exists>r \<in> set (sync_runs t'). ru_id r = run \<and> ru_account r = acct \<and> ru_finished r \<and> ru_succeeded r = Some True"
    by (rule bexI [rotated]) (simp add: r)
  have missing: "cl_missing b \<longleftrightarrow> cl_complete b \<noteq> Some run" if b: "b \<in> set (collections t')" "cl_account b = acct" for b
  proof -
    from b(1) t(1) obtain b0 where b0: "b = retired_row acct run b0" by auto
    from b(2) have "cl_account b0 = acct" unfolding b0 by simp
    then show ?thesis unfolding b0 by (simp add: retired_row_def)
  qed
  have "ct_missing c \<longleftrightarrow> cl_missing b \<or> ct_seen c \<noteq> run"
    if b: "b \<in> set (collections t')" "cl_account b = acct" and c: "c \<in> set (contacts t')" "ct_collection c = cl_id b" for b c
  proof -
    from b(1) t(1) obtain b0 where b0: "b0 \<in> set (collections t)" "b = retired_row acct run b0" by auto
    from c(1) t(2) obtain c0 where c0: "c0 \<in> set (contacts t)" "c = dropped_row (retired_ids acct run t) c0" by auto
    have "cl_id b0 \<in> retired_ids acct run t \<longleftrightarrow> cl_complete b0 \<noteq> Some run"
    proof
      assume "cl_id b0 \<in> retired_ids acct run t"
      then obtain b1 where "b1 \<in> set (collections t)" "cl_id b1 = cl_id b0" "cl_complete b1 \<noteq> Some run"
        by (auto simp: retired_ids_def)
      with distinct_key_eq [of cl_id "collections t" b1 b0] b0(1) assms(2) show "cl_complete b0 \<noteq> Some run"
        by (simp add: store_ok_defs)
    qed (use b b0 in \<open>auto simp: retired_ids_def\<close>)
    moreover have "cl_complete b0 = Some run \<Longrightarrow> accounted run c0"
      using assms(4) b0 c0 c(2) by (auto simp: complete_accounted_def)
    ultimately show ?thesis using missing [OF b] b0(2) c0(2) c(2) run
      by (auto simp: dropped_row_def accounted_def)
  qed
  with gen fin missing show ?thesis unfolding synchronised_def by blast
qed

text \<open>From the log entry of the run to its end.\<close>

lemma fresh_run:
  assumes "add_run acct t = Some (t', run)" and "store_ok t"
  shows "store_ok t' \<and> run_of acct run t' \<and> complete_accounted run t' \<and> contacts t' = contacts t"
proof -
  from assms(1) obtain r where r: "t' = t\<lparr>sync_runs := sync_runs t @ [r]\<rparr>" "ru_id r = run" "ru_account r = acct"
    "run = next_rowid (map ru_id (sync_runs t))" "acct \<in> acc_id ` set (accounts t)" by (rule add_run_fresh)
  have "cl_complete b \<noteq> Some run" if "b \<in> set (collections t)" for b
  proof
    assume "cl_complete b = Some run"
    moreover from assms(2) have "cl_complete ` set (collections t) \<subseteq> insert None (Some ` ru_id ` set (sync_runs t))"
      by (simp add: store_ok_defs)
    then have "cl_complete b \<in> insert None (Some ` ru_id ` set (sync_runs t))" using that by blast
    ultimately have "run \<in> ru_id ` set (sync_runs t)" by (simp add: inj_image_mem_iff)
    with r(4) show False by simp
  qed
  with r add_run_undone [OF assms(1)] assms(2) show ?thesis
    by (auto simp: undone_def run_of_def complete_accounted_def)
qed

lemma begun_run:
  assumes "RCContactStoreBeginRun store d = (Inr run, store', d')"
  shows "add_run (cs_account store) (tables d) = Some (tables d', run) \<and> store' = store\<lparr>cs_activeRun := run\<rparr>"
  using assms
  by (auto simp: RCContactStoreBeginRun_def RCExecute_def split: if_splits sum.splits prod.splits
      dest!: modify_result sql_begin_result)

lemma finished_run:
  assumes "finish_run run r s = (Inr u, s')" and "r = Inr v" and "0 < run" "cs_activeRun (m_store (fst s)) = run"
  shows "concluded (cs_account (m_store (fst s))) run None (tables (database_of s)) (tables (database_of s'))"
  using assms
  by (auto simp: finish_run_def RCContactStoreFinishRun_def RCCheckRun_def split: prod.splits sum.splits
      dest: commit_run_concludes)

lemma commit_run_of_outcome:
  assumes c: "commit_run_of vc cu work s = (Inr u, s')" and ok: "store_ok (tables (database_of s))"
  shows "\<exists>run. 0 < run \<and> run \<notin> ru_id ` set (sync_runs (tables (database_of s))) \<and>
    synchronised (cs_account (m_store (fst s))) run (tables (database_of s')) \<and>
    store_ok (tables (database_of s')) \<and> keeps_identities (tables (database_of s)) (tables (database_of s'))"
proof -
  let ?acct = "cs_account (m_store (fst s))"
  from c obtain run store d r0 s0 where b: "RCContactStoreBeginRun (m_store (fst s)) (m_db (fst s)) = (Inr run, store, d)"
    and body: "run_body vc cu run work ((fst s)\<lparr>m_store := store, m_db := d\<rparr>, snd s) = (r0, s0)"
    and fin: "finish_run run r0 s0 = (Inr u, s')"
    unfolding commit_run_of_def
    by (auto elim!: chain_InrE dest!: stop_check_result split: prod.splits sum.splits)
  from begun_run [OF b] have a: "add_run ?acct (tables (database_of s)) = Some (tables d, run)" "store = (m_store (fst s))\<lparr>cs_activeRun := run\<rparr>"
    by simp_all
  note fr = fresh_run [OF a(1) ok]
  from runsD [OF runs_body body refl] a(2) have r: "m_store (fst s0) = store"
    "(run_change ?acct run)\<^sup>*\<^sup>* (tables d) (tables (database_of s0))" by (auto dest: rs.related_tables)
  from run_changes_keep [OF r(2)] fr run_of_logged
  have k: "store_ok (tables (database_of s0))" "complete_accounted run (tables (database_of s0))"
    "keeps_identities (tables d) (tables (database_of s0))" by blast+
  from fr run_change_runs [OF r(2)] have k2: "run_of ?acct run (tables (database_of s0))" by (simp add: run_of_def)
  from fin obtain v where r0: "r0 = Inr v" by (cases r0) (auto simp: finish_run_def split: prod.splits)
  have run: "0 < run" using add_run_undone [OF a(1)] by simp
  from finished_run [OF fin r0 run] r(1) a(2)
  have con: "concluded ?acct run None (tables (database_of s0)) (tables (database_of s'))" by simp
  have "run \<notin> ru_id ` set (sync_runs (tables (database_of s)))" using a(1) by (elim add_run_fresh) simp
  moreover have "keeps_identities (tables (database_of s)) (tables d)" using fr by (simp add: keeps_identities_def)
  ultimately show ?thesis using concluded_synchronised [OF con k(1) k2 k(2) run] concluded_ok [OF con k(1)] k(3) run
    by (blast intro: keeps_trans)
qed

lemma mirror_with_outcome:
  assumes m: "mirror_with vc lx cu client url s = (Inr u, s')" and ok: "store_ok (tables (database_of s))"
  shows "\<exists>run. 0 < run \<and> run \<notin> ru_id ` set (sync_runs (tables (database_of s))) \<and>
    synchronised (cs_account (m_store (fst s))) run (tables (database_of s')) \<and>
    store_ok (tables (database_of s')) \<and> keeps_identities (tables (database_of s)) (tables (database_of s'))"
proof -
  from m obtain work s1 where d: "download_all lx cu client url s = (Inr work, s1)" and c: "commit_run_of vc cu work s1 = (Inr u, s')"
    unfolding mirror_with_def by (auto elim!: chain_InrE)
  from leavesD [OF leaves_download_all d] have "tables (database_of s1) = tables (database_of s)" "m_store (fst s1) = m_store (fst s)"
    by (simp_all add: untouched_def)
  with commit_run_of_outcome [OF c] ok show ?thesis by simp
qed

lemma mirror_fetch_with:
  assumes "RCCardDAVMirrorFetch version vc lx cu staging config store d w = ((result, Inr u), store', d', w')"
  obtains client stage url m where "txn d = []"
    "mirror_with vc lx cu client url (\<lparr>m_store = store, m_db = d, m_stage = stage, m_result = no_result\<rparr>, w) = (Inr u, m, w')"
    "store' = m_store m" "d' = m_db m" "result = m_result m"
  using assms
  by (auto simp: RCCardDAVMirrorFetch_def Let_def autocommit_def split: option.splits if_splits sum.splits prod.splits)

text \<open>C6: the mirror stays well-formed and keeps identities. Whatever the server sends and however a
  synchronisation of the address books ends, keys stay unique, references stay valid, and
  every contact keeps its row, its collection, its address and the sync identifier under
  which the system's address book knows it.\<close>

theorem mirror_well_formed:
  assumes "RCCardDAVMirrorFetch version vc lx cu staging config store d w = ((result, r), store', d', w')"
    and "can_roll_back d" and "store_ok (tables d)"
  shows "store_ok (tables d') \<and> identity ` set (contacts (tables d)) \<subseteq> identity ` set (contacts (tables d'))"
proof (cases r)
  case (Inl e)
  with mirror_fetch_undone [OF assms(1,2)] assms(3) have "undone (tables d) (tables d')" by simp
  then have "unlogged (tables d') = unlogged (tables d)" "store_ok (tables d')" using assms(3) by (simp_all add: undone_def)
  moreover have "contacts (unlogged t) = contacts t" for t :: "'d contact_tables_scheme" by (simp add: unlogged_def)
  ultimately show ?thesis by (metis order_refl)
next
  case (Inr u)
  with assms(1) have "RCCardDAVMirrorFetch version vc lx cu staging config store d w = ((result, Inr u), store', d', w')" by simp
  then show ?thesis
  proof (rule mirror_fetch_with)
    fix client stage url m
    assume "mirror_with vc lx cu client url (\<lparr>m_store = store, m_db = d, m_stage = stage, m_result = no_result\<rparr>, w) = (Inr u, m, w')"
      and "d' = m_db m"
    with mirror_with_outcome assms(3) show ?thesis by (fastforce simp: keeps_identities_def)
  qed
qed


text \<open>The witnesses: the concrete run retires the collection and the contact, and keeps them.\<close>

lemma book_tables_ok: "store_ok book_tables"
  by (simp add: store_ok_defs book_tables_def book_contact_def)

theorem mirror_well_formed_witness:
  "store_ok retired_tables \<and> identity ` set (contacts book_tables) \<subseteq> identity ` set (contacts retired_tables)"
proof -
  have "can_roll_back (open_db book_tables)" "store_ok (tables (open_db book_tables))"
    by (simp_all add: can_roll_back_def open_db_def book_tables_ok)
  from mirror_well_formed [OF book_run this] show ?thesis by (simp add: open_db_def)
qed


end
