(* ===== verification/MirrorReads.thy ===== *)
theory MirrorReads
  imports MirrorContract MirrorDemo
begin

text \<open>
  A synchronisation of the address books, watched at the HTTP library: it only reads from the
  server, whatever the documents it is served say.
\<close>

type_synonym 'w watched = "'w \<times> curl_option list list"

definition logs_only :: "(curl_option list \<Rightarrow> bool) \<Rightarrow> 'z mirror \<times> 'w watched \<Rightarrow> 'z mirror \<times> 'w watched \<Rightarrow> bool" where
  "logs_only P s s' \<longleftrightarrow> (\<exists>new. snd (snd s') = snd (snd s) @ new \<and> (\<forall>opts \<in> set new. P opts))"

interpretation rd: state_relation "logs_only P" for P
proof unfold_locales
  fix s :: "'z mirror \<times> 'w watched"
  show "logs_only P s s" by (simp add: logs_only_def)
next
  fix a b c :: "'z mirror \<times> 'w watched"
  assume "logs_only P a b" "logs_only P b c"
  then show "logs_only P a c" unfolding logs_only_def by (elim exE conjE) auto
qed

definition reading :: "('l::len word, 'w) curl \<Rightarrow> 'l word RCHTTPClient \<Rightarrow> curl_option list \<Rightarrow> bool" where
  "reading cu client opts \<longleftrightarrow> confined cu client opts \<and> \<not> mutates opts"

lemma logs_reads: "logs_only (reading cu client) s s' \<longleftrightarrow> reads cu client (snd (snd s)) (snd (snd s'))"
  by (simp add: logs_only_def reads_def reading_def)

lemma rd_world:
  fixes f :: "'z mirror \<times> 'w watched \<Rightarrow> 'w watched \<Rightarrow> 'a res \<times> 'w watched"
  assumes "\<And>s w log r w' log'. f s (w, log) = (r, w', log') \<Longrightarrow> reads cu client log log'"
  shows "rd.keeps (reading cu client) (\<lambda>s. on_world (f s) s)"
proof (rule rd.keepsI)
  fix s s' :: "'z mirror \<times> 'w watched" and r assume *: "on_world (f s) s = (r, s')"
  obtain x w' log' where f: "f s (fst (snd s), snd (snd s)) = (x, w', log')" by (metis prod_cases3)
  with * have "snd s' = (w', log')" by (auto simp: on_world_def)
  with assms [OF f] show "logs_only (reading cu client) s s'" by (simp add: logs_reads)
qed

lemma rd_database: "rd.keeps (reading cu client) (\<lambda>s. on_database (f s) s)"
  by (rule rd.keepsI) (auto simp: logs_reads on_database_def split: prod.splits)

lemma rd_stage: "rd.keeps (reading cu client) (\<lambda>s. on_stage (f s) s)"
  by (rule rd.keepsI) (auto simp: logs_reads on_stage_def split: prod.splits)

lemma rd_stop: "rd.keeps (reading cu client) (stop_check (logged cu))"
  by (rule rd.keepsI) (auto simp: logs_reads stop_check_def split: option.splits)

lemma rd_result: "rd.keeps (reading cu client) (\<lambda>s. (g s, set_result (h s) s))"
  by (rule rd.keepsI) (auto simp: logs_reads set_result_def)

lemma rd_after_result: "rd.keeps (reading cu client) f \<Longrightarrow> rd.keeps (reading cu client) (\<lambda>s. f (set_result (h s) s))"
  by (erule rd.keeps_after) (simp add: logs_reads set_result_def)

lemmas rd_intros = rd.keeps_chain rd.keeps_when rd.keeps_return rd_database rd_stage rd_stop rd_result

lemma rd_download: "rd.keeps (reading cu client) (download (logged cu) client k r)"
  unfolding download_def [abs_def] by (intro rd_intros rd_world) (rule plain_reads)

lemma rd_apply_change: "rd.keeps (reading cu client) (apply_change (logged cu) client url k r)"
  unfolding apply_change_def [abs_def] by (intro rd_intros rd_download)

lemma rd_apply_changes: "rd.keeps (reading cu client) (apply_changes (logged cu) client url k rs)"
proof (induction rs)
  case Nil
  show ?case by (rule rd.keepsI) (simp add: logs_reads)
next
  case (Cons r rs)
  show ?case unfolding apply_changes_Cons by (intro rd_intros rd_apply_change Cons)
qed

lemma rd_changes: "rd.keeps (reading cu client) (RCApplyContactChanges (logged cu) client url k rs)"
  unfolding RCApplyContactChanges_def [abs_def] by (intro rd_after_result rd_apply_changes)

lemma reading_changes: "reading_callback cu client (Some (RCApplyContactChanges (logged cu) client url k))"
  unfolding reading_callback_def by (auto simp: run_callback_def logs_reads dest!: rd.keepsD [OF rd_changes])

lemma rd_try_sync:
  fixes cu :: "('l::len word, 'w) curl"
  shows "rd.keeps (reading cu client) (try_sync lx (logged cu) client url k base :: 'z mirror \<times> 'w watched \<Rightarrow> _)"
proof (rule rd.keepsI)
  fix s s' :: "'z mirror \<times> 'w watched" and r assume *: "try_sync lx (logged cu) client url k base s = (r, s')"
  obtain c w log where s: "s = (c, w, log)" by (metis prod_cases3)
  obtain status e c1 w1 log1 where q: "RCDAVSyncCollection lx (logged cu) client url base
      (Some (RCApplyContactChanges (logged cu) client url k)) (c, w, log) = ((status, e), c1, w1, log1)" by (metis surj_pair)
  have u: "reads cu client log log1" by (rule sync_collection_reads [OF reading_changes q])
  have "rd.keeps (reading cu client) (\<lambda>s1 :: 'z mirror \<times> 'w watched. chain (on_stage (RCDAVStageReset k) s1)
      (\<lambda>_ s1. (Inr None :: RCContactFetch option res, set_result (\<lambda>_. m_result c) s1)))"
    by (intro rd_intros)
  from rd.keepsD [OF this, of "(c1, w1, log1)"] * q u s show "logs_only (reading cu client) s s'"
    by (cases status) (auto simp: logs_reads try_sync_def Let_def intro: reads_trans)
qed

lemma rd_listing: "rd.keeps (reading cu client) (full_listing lx (logged cu) client url k)"
  unfolding full_listing_def [abs_def] RCDAVListResources_def
  by (intro rd_intros rd_changes rd_world) (rule resources_reads)

lemma rd_fetch: "rd.keeps (reading cu client) (RCFetchCollection lx (logged cu) client coll k)"
  unfolding RCFetchCollection_def [abs_def] split_def
  by (intro rd_intros rd.keeps_option rd_listing rd_try_sync)

lemma rd_fetch_all: "rd.keeps (reading cu client) (fetch_all lx (logged cu) client k cs)"
proof (induction cs arbitrary: k)
  case Nil
  show ?case by (rule rd.keepsI) (simp add: logs_reads)
next
  case (Cons c cs)
  show ?case unfolding fetch_all_Cons by (intro rd_intros rd_fetch Cons)
qed

lemma rd_download_all: "rd.keeps (reading cu client) (download_all lx (logged cu) client url)"
  unfolding download_all_def [abs_def]
  by (intro rd_intros rd_world rd_after_result rd_fetch_all) (blast dest: discover_reads collections_reads)+

text \<open>The commit makes no transfer at all.\<close>

definition silent :: "'z mirror \<times> 'w watched \<Rightarrow> 'z mirror \<times> 'w watched \<Rightarrow> bool" where
  "silent s s' \<longleftrightarrow> snd (snd s') = snd (snd s)"

interpretation si: state_relation silent
  by unfold_locales (simp_all add: silent_def)

lemma si_database: "si.keeps (on_database f)"
  by (rule si.keepsI) (auto simp: silent_def on_database_def split: prod.splits)

lemma si_stop: "si.keeps (stop_check cu)"
  by (rule si.keepsI) (auto simp: silent_def stop_check_def split: option.splits)

lemma commit_contact_world:
  "RCCommitContact vc store coll run item (d, w) = (r, d', w') \<Longrightarrow> w' = w"
  by (cases item; cases "fst item") (auto simp: RCCommitContact_def Let_def split: prod.splits)

lemma deliver_world:
  assumes "\<And>i d w r d' w'. f i (d, w) = (r, d', w') \<Longrightarrow> w' = w"
  shows "deliver_items f items (d, w) = (r, d', w') \<Longrightarrow> w' = w"
proof (induction items arbitrary: d w)
  case (Cons i items)
  from Cons.prems [unfolded deliver_items.simps] show ?case
  proof (cases rule: chain_cases)
    case (stopped e)
    then show ?thesis by (blast dest: assms)
  next
    case (goes_on x s)
    obtain d1 w1 where s: "s = (d1, w1)" by (cases s)
    from goes_on(2) have "w' = w1" unfolding s by (rule Cons.IH)
    with assms goes_on(1) show ?thesis unfolding s by blast
  qed
qed simp

lemma stage_apply_world:
  assumes "RCDAVStageApply st k (RCCommitContact vc store coll run) sd (d, w) = (r, sd', d', w')"
  shows "w' = w"
proof -
  obtain ok sd1 where p: "sql_prepare sd = (ok, sd1)" by (cases "sql_prepare sd")
  show ?thesis
  proof (cases ok)
    case False
    with p assms show ?thesis by (simp add: RCDAVStageApply_def)
  next
    case True
    with p assms have "apply_rows st (RCCommitContact vc store coll run) (staged k (tables sd1)) sd1 (d, w) = (r, sd', d', w')"
      by (simp add: RCDAVStageApply_def)
    from apply_rows_delivers [OF this] obtain dn r1 where "deliver_items (RCCommitContact vc store coll run) dn (d, w) = (r1, d', w')"
      by (metis prod.collapse)
    then show ?thesis by (rule deliver_world [rotated]) (erule commit_contact_world)
  qed
qed

lemma si_stage: "si.keeps (apply_stage vc cu k coll run :: 'z mirror \<times> 'w watched \<Rightarrow> _)"
proof (rule si.keepsI)
  fix s s' :: "'z mirror \<times> 'w watched" and r assume *: "apply_stage vc cu k coll run s = (r, s')"
  obtain x st d w where a: "RCDAVStageApply (\<lambda>(d, w). stop cu w) k (RCCommitContact vc (m_store (fst s)) coll run)
      (m_stage (fst s)) (m_db (fst s), snd s) = (x, st, d, w)" by (metis prod_cases4)
  with * have "s' = ((fst s)\<lparr>m_stage := st, m_db := d\<rparr>, w)" by (simp add: apply_stage_def)
  with stage_apply_world [OF a] show "silent s s'" by (simp add: silent_def)
qed

lemma si_steps: "si.keeps (commit_steps vc cu run k coll f store)"
  unfolding commit_steps_def [abs_def]
  by (intro si.keeps_chain si.keeps_when si.keeps_return si_database si_stage)

lemma si_commit: "si.keeps (commit_collection vc cu run k coll f)"
  unfolding commit_collection_def [abs_def]
  by (intro si.keeps_chain si_stop si_steps
      si.keeps_read [where g = "commit_steps vc cu run k coll f" and h = "\<lambda>s. m_store (fst s)"])

lemma si_all: "si.keeps (commit_all vc cu run k work)"
proof (induction work arbitrary: k)
  case Nil
  show ?case by (rule si.keepsI) (simp add: silent_def)
next
  case (Cons x work)
  obtain c f where x: "x = (c, f)" by (cases x)
  show ?case unfolding x commit_all_Cons by (intro si.keeps_chain si_commit Cons)
qed

lemma si_body: "si.keeps (run_body vc cu run work)"
  unfolding run_body_def [abs_def]
  by (intro si.keeps_chain si_stop si_all si_database
      si.keeps_read [where g = "\<lambda>a. on_database (RCDAVSyncStateFinish a run)" and h = "\<lambda>s. cs_account (m_store (fst s))"])

lemma commit_silent:
  assumes "commit_run_of vc cu work s = (r, s')"
  shows "silent s s'"
proof -
  obtain x store d where b: "RCContactStoreBeginRun (m_store (fst s)) (m_db (fst s)) = (x, store, d)" by (metis prod_cases3)
  let ?s = "((fst s)\<lparr>m_store := store, m_db := d\<rparr>, snd s)"
  have fin: "finish_run run r1 s1 = (r, s') \<Longrightarrow> silent s1 s'" for run r1 s1
    by (auto simp: finish_run_def silent_def split: sum.splits prod.splits)
  have bs: "run_body vc cu run work ?s = (r1, s1) \<Longrightarrow> silent s s1" for run r1 s1
    using si.keepsD [OF si_body] by (fastforce simp: silent_def)
  show ?thesis using assms [unfolded commit_run_of_def]
  proof (cases rule: chain_cases)
    case (stopped e)
    then show ?thesis by (auto simp: stop_check_def silent_def split: option.splits)
  next
    case (goes_on u s1)
    then have s1: "s1 = s" by (auto simp: stop_check_def split: option.splits)
    show ?thesis
    proof (cases x)
      case (Inl e)
      with goes_on(2) s1 b show ?thesis by (auto simp: silent_def)
    next
      case (Inr run)
      obtain r1 s2 where body: "run_body vc cu run work ?s = (r1, s2)" by (metis surj_pair)
      with goes_on(2) s1 b Inr have "finish_run run r1 s2 = (r, s')" by simp
      with fin bs [OF body] show ?thesis by (auto simp: silent_def)
    qed
  qed
qed

text \<open>C12: a synchronisation of the address books never changes the server. Whatever the server answers, every
  transfer of a download is confined to verified HTTPS on an allowed host, none of them is
  a mutation, and the commit makes no transfer.\<close>

theorem mirror_reads_only:
  assumes "RCCardDAVMirrorFetch version vc lx (logged cu) staging (Some config) store d (w, log) = (out, store', d', w', log')"
    and "RCHTTPClientCreate version (Some (http_config config)) = Inr client"
  shows "\<exists>new. log' = log @ new \<and> (\<forall>opts \<in> set new. confined cu client opts \<and> \<not> mutates opts)"
proof (cases "log' = log")
  case False
  let ?m = "\<lambda>stage. \<lparr>m_store = store, m_db = d, m_stage = stage, m_result = no_result\<rparr>"
  from False assms obtain stage r m where
    m: "mirror_with vc lx (logged cu) client (the (mc_serviceURL config)) (?m stage, w, log) = (r, m, w', log')"
    by (auto simp: RCCardDAVMirrorFetch_def Let_def split: if_splits sum.splits prod.splits)
  have "logs_only (reading cu client) (?m stage, w, log) (m, w', log')"
    using m [unfolded mirror_with_def]
  proof (cases rule: chain_cases)
    case (stopped e)
    from rd.keepsD [OF rd_download_all stopped(1)] show ?thesis .
  next
    case (goes_on work s1)
    from rd.keepsD [OF rd_download_all goes_on(1)] commit_silent [OF goes_on(2)] show ?thesis
      by (simp add: logs_only_def silent_def)
  qed
  then show ?thesis by (simp add: logs_only_def reading_def)
qed auto

text \<open>The witness: the transfers of the concrete synchronisation.\<close>

theorem mirror_reads_only_witness:
  "\<exists>out store' d' w' log'. RCCardDAVMirrorFetch ''1'' (\<lambda>_. None) book_xml (logged dav_server) (Some (open_db [])) (Some book_config)
       book_store (open_db book_tables) ((), []) = (out, store', d', w', log') \<and>
     (\<forall>opts \<in> set log'. confined dav_server book_client opts \<and> \<not> mutates opts)"
proof -
  obtain out store' d' w' log' where r: "RCCardDAVMirrorFetch ''1'' (\<lambda>_. None) book_xml (logged dav_server) (Some (open_db []))
      (Some book_config) book_store (open_db book_tables) ((), []) = (out, store', d', w', log')"
    by (metis surj_pair)
  from mirror_reads_only [OF r book_create] show ?thesis unfolding r by auto
qed

end
