(* ===== verification/CalendarStore.thy ===== *)
theory CalendarStore
  imports ContactStore DAVClient DAVStaging ICalendar
begin

text \<open>
  The SQLite mirror of calendars of \<^verbatim>\<open>source/shared/RCCalendarStore.c\<close>, one definition per
  function of the file. A script that \<^verbatim>\<open>sqlite3_exec\<close> runs is the list of its statements, each of
  which may fail by itself, so the effects of the statements before a failing one remain. The
  connection keeps what \<^verbatim>\<open>sqlite3_last_insert_rowid\<close> and \<^verbatim>\<open>sqlite3_changes\<close> report as the result of
  the statement before; \<open>CURRENT_TIMESTAMP\<close> is whether the column is set, and the views and
  indices of the schema, which hold nothing of their own, are left out.
\<close>

section \<open>Tables\<close>

record calendar_row =
  ca_id :: int
  ca_account :: int
  ca_url :: string
  ca_name :: "string option"
  ca_description :: "string option"
  ca_color :: "string option"
  ca_sync :: string
  ca_seen :: "int option"
  ca_missing :: bool

record resource_row =
  re_id :: int
  re_calendar :: int
  re_href :: string
  re_uid :: "string option"
  re_etag :: "string option"
  re_raw :: bytes
  re_export :: "bytes option"
  re_export_etag :: "string option"
  re_parse_error :: "string option"
  re_export_error :: "string option"
  re_export_status :: string
  re_seen :: "int option"
  re_missing :: bool
  re_excluded :: bool

record identity_row =
  sr_owner :: string
  sr_key :: string
  sr_sync :: string

record component_row =
  co_id :: int
  co_resource :: int
  co_parent :: "int option"
  co_kind :: string
  co_position :: int

record ical_property_row =
  cp_id :: int
  cp_component :: int
  cp_position :: int
  cp_name :: string
  cp_value :: "string option"
  cp_type :: "string option"
  cp_text :: "string option"

record ical_parameter_row =
  cq_id :: int
  cq_property :: int
  cq_position :: int
  cq_name :: string
  cq_value :: string

record event_row =
  ev_component :: int
  ev_resource :: int
  ev_uid :: string
  ev_recurrence :: string
  ev_summary :: "string option"
  ev_description :: "string option"
  ev_location :: "string option"
  ev_url :: "string option"
  ev_status :: "string option"
  ev_class :: "string option"
  ev_priority :: int
  ev_sequence :: int
  ev_start :: string
  ev_start_kind :: string
  ev_start_tzid :: "string option"
  ev_end :: string
  ev_end_kind :: string
  ev_end_tzid :: "string option"
  ev_duration :: "string option"
  ev_all_day :: bool

record calendar_tables = sync_tables +
  calendar_version :: "int list"
  calendar_runs :: "run_row list"
  calendars :: "calendar_row list"
  calendar_resources :: "resource_row list"
  sync_record_ids :: "identity_row list"
  ical_components :: "component_row list"
  ical_properties :: "ical_property_row list"
  ical_parameters :: "ical_parameter_row list"
  events :: "event_row list"

type_synonym 'z kdb = "'z calendar_tables_scheme db"

record RCCalendarStore =
  ks_account :: int
  ks_run :: int
  ks_scopedRun :: bool

section \<open>Statements and scalars\<close>

text \<open>A statement that changes rows; \<open>None\<close> is a violated constraint.\<close>

definition sql_statement :: "('t \<Rightarrow> 't option) \<Rightarrow> 't db \<Rightarrow> bool \<times> 't db" where
  "sql_statement f d = (let (ok, d) = sql_call Exec d in
     if \<not> ok then (False, d) else case f (tables d) of None \<Rightarrow> (False, d) | Some t \<Rightarrow> (True, d\<lparr>tables := t\<rparr>))"

text \<open>\<open>ROLLBACK TO n; RELEASE n\<close>, with its result.\<close>

definition undo_statement :: "string \<Rightarrow> 't db \<Rightarrow> bool \<times> 't db" where
  "undo_statement n d = (outcome d (Undo n) (calls d) \<and> find_savepoint n (txn d) \<noteq> None, sql_undo n d)"

fun sql_statements :: "('t db \<Rightarrow> bool \<times> 't db) list \<Rightarrow> 't db \<Rightarrow> bool \<times> 't db" where
  "sql_statements [] d = (True, d)"
| "sql_statements (s # ss) d = (let (ok, d) = s d in if ok then sql_statements ss d else (False, d))"

definition calendar_error :: "'t db \<Rightarrow> RCError" where
  "calendar_error d = RCErrorSet (errcode d) (''Calendar database: '' @ errmsg d)"

definition RCCalendarStoreSQL :: "('t db \<Rightarrow> bool \<times> 't db) list \<Rightarrow> 't db \<Rightarrow> unit res \<times> 't db" where
  "RCCalendarStoreSQL script d =
     (let (ok, d) = sql_statements script d in (if ok then Inr () else Inl (calendar_error d), d))"

text \<open>A single statement with what the caller reads of it afterwards: the new row or the number of changes.\<close>

definition calendar_exec :: "('t \<Rightarrow> ('t \<times> 'r) option) \<Rightarrow> 't db \<Rightarrow> 'r res \<times> 't db" where
  "calendar_exec f d = (let (ok, d) = sql_call Exec d in
     if \<not> ok then (Inl (calendar_error d), d)
     else case f (tables d) of None \<Rightarrow> (Inl (calendar_error d), d) | Some (t, n) \<Rightarrow> (Inr n, d\<lparr>tables := t\<rparr>))"

text \<open>The first column of the first row; -1 when there is none or the query fails.\<close>

definition RCScalar :: "('t \<Rightarrow> int option) \<Rightarrow> 't db \<Rightarrow> int \<times> 't db" where
  "RCScalar q d = (let (prepared, d) = sql_prepare d in
     if \<not> prepared then (-1, d)
     else case sql_query q d of (Some (Some v), d) \<Rightarrow> (v, d) | (_, d) \<Rightarrow> (-1, d))"

definition RCFind :: "('t \<Rightarrow> int option) \<Rightarrow> 't db \<Rightarrow> int \<times> 't db" where
  "RCFind q d = RCScalar q d"

text \<open>\<open>sqlite3_column_int64\<close> of a nullable column.\<close>

definition null_zero :: "int option \<Rightarrow> int" where
  "null_zero v = (case v of None \<Rightarrow> 0 | Some i \<Rightarrow> i)"

section \<open>Rows of the mirror\<close>

definition calendar_of :: "'z calendar_tables_scheme \<Rightarrow> resource_row \<Rightarrow> calendar_row option" where
  "calendar_of t r = find (\<lambda>c. ca_id c = re_calendar r) (calendars t)"

definition of_account :: "int \<Rightarrow> 'z calendar_tables_scheme \<Rightarrow> resource_row \<Rightarrow> bool" where
  "of_account acct t r \<longleftrightarrow> (case calendar_of t r of None \<Rightarrow> False | Some c \<Rightarrow> ca_account c = acct)"

text \<open>What the view \<open>available_events\<close> and the exports select.\<close>

definition present :: "int \<Rightarrow> 'z calendar_tables_scheme \<Rightarrow> resource_row \<Rightarrow> bool" where
  "present acct t r \<longleftrightarrow> (case calendar_of t r of None \<Rightarrow> False | Some c \<Rightarrow> ca_account c = acct \<and> \<not> ca_missing c) \<and>
     \<not> re_missing r \<and> \<not> re_excluded r"

definition update_resources ::
  "(resource_row \<Rightarrow> bool) \<Rightarrow> (resource_row \<Rightarrow> resource_row) \<Rightarrow> 'z calendar_tables_scheme \<Rightarrow> 'z calendar_tables_scheme" where
  "update_resources P f t = t\<lparr>calendar_resources := update_rows P f (calendar_resources t)\<rparr>"

definition update_calendars ::
  "(calendar_row \<Rightarrow> bool) \<Rightarrow> (calendar_row \<Rightarrow> calendar_row) \<Rightarrow> 'z calendar_tables_scheme \<Rightarrow> 'z calendar_tables_scheme" where
  "update_calendars P f t = t\<lparr>calendars := update_rows P f (calendars t)\<rparr>"

definition update_accounts ::
  "int \<Rightarrow> (account_row \<Rightarrow> account_row) \<Rightarrow> 'z calendar_tables_scheme \<Rightarrow> 'z calendar_tables_scheme" where
  "update_accounts acct f t = t\<lparr>accounts := update_rows (\<lambda>a. acc_id a = acct) f (accounts t)\<rparr>"

text \<open>\<open>ON DELETE CASCADE\<close>: with the components of a set of resources go their properties, parameters and events.\<close>

definition drop_components :: "int set \<Rightarrow> 'z calendar_tables_scheme \<Rightarrow> 'z calendar_tables_scheme" where
  "drop_components resources t =
     (let gone = co_id ` set (filter (\<lambda>c. co_resource c \<in> resources) (ical_components t));
          props = cp_id ` set (filter (\<lambda>p. cp_component p \<in> gone) (ical_properties t)) in
      t\<lparr>ical_components := filter (\<lambda>c. co_resource c \<notin> resources) (ical_components t),
        ical_properties := filter (\<lambda>p. cp_component p \<notin> gone) (ical_properties t),
        ical_parameters := filter (\<lambda>p. cq_property p \<notin> props) (ical_parameters t),
        events := filter (\<lambda>e. ev_component e \<notin> gone) (events t)\<rparr>)"

section \<open>Runs and collections\<close>

definition add_calendar_run :: "int \<Rightarrow> 'z calendar_tables_scheme \<Rightarrow> ('z calendar_tables_scheme \<times> int) option" where
  "add_calendar_run acct t = (if \<not> has_account acct t then None
     else let i = next_rowid (map ru_id (calendar_runs t)) in
       Some (t\<lparr>calendar_runs := calendar_runs t @
         [\<lparr>ru_id = i, ru_account = acct, ru_finished = False, ru_succeeded = None, ru_message = None\<rparr>]\<rparr>, i))"

definition RCCalendarStoreBeginScopedRun :: "RCCalendarStore \<Rightarrow> bool \<Rightarrow> 'z kdb \<Rightarrow> unit res \<times> RCCalendarStore \<times> 'z kdb" where
  "RCCalendarStoreBeginScopedRun store scoped d =
     (if ks_run store \<noteq> 0 then (Inl (RCErrorSet 1 ''Calendar fetch already active''), store, d)
      else case calendar_exec (add_calendar_run (ks_account store)) d of
          (Inl e, d) \<Rightarrow> (Inl e, store, d)
        | (Inr run, d) \<Rightarrow>
            (case RCCalendarStoreSQL [sql_begin] d of
               (Inl e, d) \<Rightarrow> (Inl e, store\<lparr>ks_run := 0\<rparr>, d)
             | (Inr _, d) \<Rightarrow> (Inr (), store\<lparr>ks_run := run, ks_scopedRun := scoped\<rparr>, d)))"

definition RCCalendarStoreBeginRun :: "RCCalendarStore \<Rightarrow> 'z kdb \<Rightarrow> unit res \<times> RCCalendarStore \<times> 'z kdb" where
  "RCCalendarStoreBeginRun store d = RCCalendarStoreBeginScopedRun store False d"

text \<open>\<open>INSERT OR IGNORE\<close>: a known URL inserts nothing; an unknown account is an error.\<close>

definition named_calendar :: "int \<Rightarrow> string \<Rightarrow> calendar_row \<Rightarrow> bool" where
  "named_calendar acct url c \<longleftrightarrow> ca_account c = acct \<and> ca_url c = url"

definition fresh_calendar :: "int \<Rightarrow> int \<Rightarrow> string \<Rightarrow> string \<Rightarrow> calendar_row" where
  "fresh_calendar i acct url sync = \<lparr>ca_id = i, ca_account = acct, ca_url = url, ca_name = None, ca_description = None,
     ca_color = None, ca_sync = sync, ca_seen = None, ca_missing = False\<rparr>"

definition add_calendar :: "int \<Rightarrow> string \<Rightarrow> string \<Rightarrow> 'z calendar_tables_scheme \<Rightarrow> 'z calendar_tables_scheme option" where
  "add_calendar acct url sync t =
     (if \<exists>c \<in> set (calendars t). named_calendar acct url c then Some t
      else if \<not> has_account acct t then None
      else Some (t\<lparr>calendars := calendars t @ [fresh_calendar (next_rowid (map ca_id (calendars t))) acct url sync]\<rparr>))"

definition describe_calendar :: "RCDAVCollection \<Rightarrow> int \<Rightarrow> calendar_row \<Rightarrow> calendar_row" where
  "describe_calendar c run row =
     row\<lparr>ca_name := Some (case k_displayName c of None \<Rightarrow> ''Calendar'' | Some n \<Rightarrow> n), ca_description := k_description c,
       ca_color := k_color c, ca_seen := Some run, ca_missing := False\<rparr>"

text \<open>A calendar that cannot be found afterwards leaves the error unset.\<close>

definition RCCalendarStoreCollection :: "RCCalendarStore \<Rightarrow> RCDAVCollection \<Rightarrow> 'z kdb \<Rightarrow> int res \<times> 'z kdb" where
  "RCCalendarStoreCollection store c d =
     chain (RCCalendarStoreSQL [\<lambda>d. sql_statement (add_calendar (ks_account store) (k_url c) (random d (calls d))) d] d) (\<lambda>_ d.
     chain (RCCalendarStoreSQL [sql_statement (\<lambda>t. Some (update_calendars (named_calendar (ks_account store) (k_url c))
        (describe_calendar c (ks_run store)) t))] d) (\<lambda>_ d.
     let (i, d) = RCFind (\<lambda>t. map_option ca_id (find (named_calendar (ks_account store) (k_url c)) (calendars t))) d in
       (if i > 0 then Inr i else Inl RCErrorClear, d)))"

definition at_resource :: "int \<Rightarrow> string \<Rightarrow> resource_row \<Rightarrow> bool" where
  "at_resource cal href r \<longleftrightarrow> re_calendar r = cal \<and> re_href r = href"

text \<open>A row without a body, which the pruning leaves behind, is never current.\<close>

definition current_row :: "int \<Rightarrow> string \<Rightarrow> string option \<Rightarrow> resource_row \<Rightarrow> bool" where
  "current_row cal href etag r \<longleftrightarrow> at_resource cal href r \<and> re_etag r \<noteq> None \<and> re_etag r = etag \<and> re_raw r \<noteq> []"

definition RCCalendarStoreSeen ::
  "RCCalendarStore \<Rightarrow> int \<Rightarrow> string \<Rightarrow> string option \<Rightarrow> 'z kdb \<Rightarrow> bool res \<times> 'z kdb" where
  "RCCalendarStoreSeen store cal href etag d =
     (let (n, d) = RCFind (\<lambda>t. Some (int (count_rows (current_row cal href etag) (calendar_resources t)))) d in
      if n \<noteq> 1 then (Inr False, d)
      else chain (RCCalendarStoreSQL [sql_statement (\<lambda>t. Some (update_resources (at_resource cal href)
          (\<lambda>r. r\<lparr>re_seen := Some (ks_run store), re_missing := False, re_excluded := False\<rparr>) t))] d) (\<lambda>_ d. (Inr True, d)))"

section \<open>Parsed components\<close>

text \<open>
  What a resource is stored from: libical's accessors, with the sub-components of a component as the
  finite tree that libical keeps them in, and its properties and their parameters in order.
\<close>

datatype 'c icaltree = Component 'c "'c icaltree list"

record ('c, 'p, 'v, 'k) libical_walk = "('c, 'p, 'v, 'k) libical" +
  component_tree :: "'c \<Rightarrow> 'c icaltree"
  component_kind :: "'c \<Rightarrow> string"
  is_vevent :: "'c \<Rightarrow> bool"
  is_vtimezone :: "'c \<Rightarrow> bool"
  component_properties :: "'c \<Rightarrow> 'p list"
  property_name :: "'p \<Rightarrow> string option"
  property_line :: "'p \<Rightarrow> string option"
  property_parameters :: "'p \<Rightarrow> string option list"
  get_dtstart :: "'c \<Rightarrow> icaltimetype"
  get_dtend :: "'c \<Rightarrow> icaltimetype"
  get_sequence :: "'c \<Rightarrow> int"
  UID_PROPERTY :: 'k
  SUMMARY_PROPERTY :: 'k
  DESCRIPTION_PROPERTY :: 'k
  LOCATION_PROPERTY :: 'k
  URL_PROPERTY :: 'k
  STATUS_PROPERTY :: 'k
  CLASS_PROPERTY :: 'k
  PRIORITY_PROPERTY :: 'k
  DURATION_PROPERTY :: 'k
  DTSTART_PROPERTY :: 'k
  DTEND_PROPERTY :: 'k

fun tree_root :: "'c icaltree \<Rightarrow> 'c" where
  "tree_root (Component c cs) = c"

fun tree_children :: "'c icaltree \<Rightarrow> 'c icaltree list" where
  "tree_children (Component c cs) = cs"

text \<open>\<open>atoi\<close>, whose overflow the standard leaves open.\<close>

definition atoi :: "string \<Rightarrow> int" where
  "atoi s = (let s = dropWhile (\<lambda>c. c \<in> set [CHR '' '', CHR 0x09, CHR 0x0a, CHR 0x0b, CHR 0x0c, CHR 0x0d]) s;
       sign = (if s \<noteq> [] \<and> hd s = CHR ''-'' then -1 else 1);
       s = (if s \<noteq> [] \<and> (hd s = CHR ''-'' \<or> hd s = CHR ''+'') then tl s else s) in
     sign * foldl (\<lambda>n c. 10 * n + int (of_char c) - 48) 0 (takeWhile digit s))"

definition add_component ::
  "int \<Rightarrow> int \<Rightarrow> string \<Rightarrow> int \<Rightarrow> 'z calendar_tables_scheme \<Rightarrow> ('z calendar_tables_scheme \<times> int) option" where
  "add_component resource parent kind position t =
     (if resource \<notin> re_id ` set (calendar_resources t) \<or> (parent \<noteq> 0 \<and> parent \<notin> co_id ` set (ical_components t)) then None
      else let i = next_rowid (map co_id (ical_components t)) in
        Some (t\<lparr>ical_components := ical_components t @ [\<lparr>co_id = i, co_resource = resource,
          co_parent = (if parent = 0 then None else Some parent), co_kind = kind, co_position = position\<rparr>]\<rparr>, i))"

definition add_ical_property ::
  "int \<Rightarrow> int \<Rightarrow> string option \<Rightarrow> string option \<Rightarrow> string option \<Rightarrow> string option \<Rightarrow> 'z calendar_tables_scheme \<Rightarrow>
   ('z calendar_tables_scheme \<times> int) option" where
  "add_ical_property component position name value type line t =
     (case name of None \<Rightarrow> None
      | Some n \<Rightarrow> if component \<notin> co_id ` set (ical_components t) then None
          else let i = next_rowid (map cp_id (ical_properties t)) in
            Some (t\<lparr>ical_properties := ical_properties t @ [\<lparr>cp_id = i, cp_component = component, cp_position = position,
              cp_name = n, cp_value = value, cp_type = type, cp_text = line\<rparr>]\<rparr>, i))"

definition add_ical_parameter ::
  "int \<Rightarrow> int \<Rightarrow> string \<Rightarrow> string \<Rightarrow> 'z calendar_tables_scheme \<Rightarrow> 'z calendar_tables_scheme option" where
  "add_ical_parameter prop position name value t =
     (if prop \<notin> cp_id ` set (ical_properties t) then None
      else Some (t\<lparr>ical_parameters := ical_parameters t @ [\<lparr>cq_id = next_rowid (map cq_id (ical_parameters t)),
        cq_property = prop, cq_position = position, cq_name = name, cq_value = value\<rparr>]\<rparr>))"

fun store_parameters :: "int \<Rightarrow> int \<Rightarrow> string option list \<Rightarrow> 'z kdb \<Rightarrow> unit res \<times> 'z kdb" where
  "store_parameters prop i [] d = (Inr (), d)"
| "store_parameters prop i (text # rest) d =
     (case text of None \<Rightarrow> (Inl (RCErrorSet 1 ''Invalid iCalendar parameter''), d)
      | Some s \<Rightarrow>
          if CHR ''='' \<notin> set s then (Inl (RCErrorSet 1 ''Invalid iCalendar parameter''), d)
          else chain (RCCalendarStoreSQL [sql_statement (add_ical_parameter prop i (takeWhile (\<lambda>c. c \<noteq> CHR ''='') s)
                 (tl (dropWhile (\<lambda>c. c \<noteq> CHR ''='') s)))] d) (\<lambda>_ d.
               store_parameters prop (i + 1) rest d))"

definition property_text :: "('c, 'p, 'v, 'k, 'y) libical_walk_scheme \<Rightarrow> 'p \<Rightarrow> string option" where
  "property_text ical p = (case property_value ical p of
     Some v \<Rightarrow> if is_text_value ical v then value_get_text ical v else value_as_string ical p
   | None \<Rightarrow> value_as_string ical p)"

fun store_properties ::
  "('c, 'p, 'v, 'k, 'y) libical_walk_scheme \<Rightarrow> int \<Rightarrow> int \<Rightarrow> 'p list \<Rightarrow> 'z kdb \<Rightarrow> unit res \<times> 'z kdb" where
  "store_properties ical component i [] d = (Inr (), d)"
| "store_properties ical component i (p # ps) d =
     chain (calendar_exec (add_ical_property component i (property_name ical p) (property_text ical p)
       (case property_value ical p of None \<Rightarrow> None | v \<Rightarrow> Some (value_kind_string ical v)) (property_line ical p)) d) (\<lambda>prop d.
     chain (store_parameters prop 0 (property_parameters ical p) d) (\<lambda>_ d.
     store_properties ical component (i + 1) ps d))"

text \<open>The event row of a component; the time buffers hold 32 bytes.\<close>

definition time_column :: "('c, 'p, 'v, 'k, 'y) libical_walk_scheme \<Rightarrow> icaltimetype \<Rightarrow> string" where
  "time_column ical t = (case RCICalendarFormatTime ical t 32 of None \<Rightarrow> [] | Some s \<Rightarrow> s)"

definition event_of ::
  "('c, 'p, 'v, 'k, 'y) libical_walk_scheme \<Rightarrow> int \<Rightarrow> int \<Rightarrow> 'c \<Rightarrow> string \<Rightarrow> string \<Rightarrow> event_row" where
  "event_of ical resource i c uid key =
     (let start = get_dtstart ical c; end = get_dtend ical c;
          stz = RCICalendarTZID ical (first_property ical c (DTSTART_PROPERTY ical));
          etz = RCICalendarTZID ical (first_property ical c (DTEND_PROPERTY ical));
          etz = (if etz \<noteq> None then etz else stz) in
      \<lparr>ev_component = i, ev_resource = resource, ev_uid = uid, ev_recurrence = key,
       ev_summary = RCICalendarValue ical c (SUMMARY_PROPERTY ical),
       ev_description = RCICalendarValue ical c (DESCRIPTION_PROPERTY ical),
       ev_location = RCICalendarValue ical c (LOCATION_PROPERTY ical), ev_url = RCICalendarValue ical c (URL_PROPERTY ical),
       ev_status = RCICalendarValue ical c (STATUS_PROPERTY ical), ev_class = RCICalendarValue ical c (CLASS_PROPERTY ical),
       ev_priority = (case RCICalendarValue ical c (PRIORITY_PROPERTY ical) of None \<Rightarrow> 0 | Some s \<Rightarrow> atoi s),
       ev_sequence = get_sequence ical c, ev_start = time_column ical start, ev_start_kind = RCICalendarTimeKind ical start stz,
       ev_start_tzid = stz, ev_end = time_column ical end, ev_end_kind = RCICalendarTimeKind ical end etz, ev_end_tzid = etz,
       ev_duration = RCICalendarValue ical c (DURATION_PROPERTY ical), ev_all_day = t_is_date start\<rparr>)"

definition add_event :: "string option \<Rightarrow> (string \<Rightarrow> event_row) \<Rightarrow> 'z calendar_tables_scheme \<Rightarrow> 'z calendar_tables_scheme option" where
  "add_event uid row t = (case uid of None \<Rightarrow> None
     | Some u \<Rightarrow>
         let e = row u in
         if ev_component e \<in> ev_component ` set (events t) \<or> ev_component e \<notin> co_id ` set (ical_components t) \<or>
            ev_resource e \<notin> re_id ` set (calendar_resources t) \<or>
            (\<exists>x \<in> set (events t). ev_resource x = ev_resource e \<and> ev_recurrence x = ev_recurrence e)
         then None else Some (t\<lparr>events := events t @ [e]\<rparr>))"

definition store_event ::
  "('c, 'p, 'v, 'k, 'y) libical_walk_scheme \<Rightarrow> int \<Rightarrow> int \<Rightarrow> 'c \<Rightarrow> 'z kdb \<Rightarrow> unit res \<times> 'z kdb" where
  "store_event ical resource i c d =
     (if \<not> is_vevent ical c then (Inr (), d)
      else case RCICalendarRecurrenceKey ical c of
          None \<Rightarrow> (Inl (RCErrorSet 1 ''Out of memory saving event identity''), d)
        | Some key \<Rightarrow> RCCalendarStoreSQL [sql_statement (add_event (RCICalendarValue ical c (UID_PROPERTY ical))
            (\<lambda>uid. event_of ical resource i c uid key))] d)"

text \<open>A component, its properties, its event, and then its children in order.\<close>

fun RCStoreComponent ::
  "('c, 'p, 'v, 'k, 'y) libical_walk_scheme \<Rightarrow> int \<Rightarrow> int \<Rightarrow> int \<Rightarrow> 'c icaltree \<Rightarrow> 'z kdb \<Rightarrow> unit res \<times> 'z kdb"
  and store_children ::
  "('c, 'p, 'v, 'k, 'y) libical_walk_scheme \<Rightarrow> int \<Rightarrow> int \<Rightarrow> int \<Rightarrow> 'c icaltree list \<Rightarrow> 'z kdb \<Rightarrow> unit res \<times> 'z kdb" where
  "RCStoreComponent ical resource parent position (Component c children) d =
     chain (calendar_exec (add_component resource parent (component_kind ical c) position) d) (\<lambda>i d.
     chain (store_properties ical i 0 (component_properties ical c) d) (\<lambda>_ d.
     chain (store_event ical resource i c d) (\<lambda>_ d.
     store_children ical resource i 0 children d)))"
| "store_children ical resource parent position [] d = (Inr (), d)"
| "store_children ical resource parent position (child # rest) d =
     chain (RCStoreComponent ical resource parent position child d) (\<lambda>_ d.
     store_children ical resource parent (position + 1) rest d)"

section \<open>Saving a resource\<close>

text \<open>The UID that all components but the time zones share.\<close>

fun shared_uid ::
  "('c, 'p, 'v, 'k, 'y) libical_walk_scheme \<Rightarrow> string option \<Rightarrow> 'c icaltree list \<Rightarrow> string option res" where
  "shared_uid ical uid [] = Inr uid"
| "shared_uid ical uid (child # rest) =
     (if is_vtimezone ical (tree_root child) then shared_uid ical uid rest
      else case RCICalendarValue ical (tree_root child) (UID_PROPERTY ical) of
          None \<Rightarrow> Inl (RCErrorSet 1 ''Calendar resource has missing or conflicting UIDs'')
        | Some next \<Rightarrow>
            if uid \<noteq> None \<and> uid \<noteq> Some next then Inl (RCErrorSet 1 ''Calendar resource has missing or conflicting UIDs'')
            else shared_uid ical (Some next) rest)"

text \<open>The parsed root with its UID, or the error kept beside the raw body.\<close>

definition inspect_resource ::
  "('c, 'p, 'v, 'k, 'y) libical_walk_scheme \<Rightarrow> bytes option \<Rightarrow> nat \<Rightarrow> ('c icaltree \<times> string) res" where
  "inspect_resource ical bytes len =
     (case RCICalendarParse ical bytes len of Inl e \<Rightarrow> Inl e
      | Inr root \<Rightarrow>
          (case shared_uid ical None (tree_children (component_tree ical root)) of
             Inl e \<Rightarrow> Inl e
           | Inr None \<Rightarrow> Inl (RCErrorSet 1 ''Calendar resource contains no event or task'')
           | Inr (Some uid) \<Rightarrow> Inr (component_tree ical root, uid)))"

text \<open>
  The row to save into: the one at the address, or, when the UID is at another address that this run has
  not seen, that one, which is a rename. A UID at two addresses of the inventory is an error.
\<close>

definition resolve_uid :: "RCCalendarStore \<Rightarrow> int \<Rightarrow> string option \<Rightarrow> int \<Rightarrow> 'z kdb \<Rightarrow> int res \<times> 'z kdb" where
  "resolve_uid store cal uid resource d =
     (if uid = None then (Inr resource, d)
      else let (other, d) = RCFind (\<lambda>t. map_option re_id (find (\<lambda>r. re_calendar r = cal \<and> re_uid r = uid \<and> re_id r \<noteq> resource \<and>
               \<not> re_missing r) (calendar_resources t))) d;
             duplicate = RCErrorSet 1 ''Duplicate calendar UID in remote inventory'' in
        if other \<le> 0 then (Inr resource, d)
        else if resource > 0 then (Inl duplicate, d)
        else let (seen, d) = RCFind (\<lambda>t. map_option (\<lambda>r. null_zero (re_seen r)) (find (\<lambda>r. re_id r = other) (calendar_resources t))) d in
          if seen = ks_run store then (Inl duplicate, d) else (Inr other, d))"

definition fresh_resource :: "int \<Rightarrow> int \<Rightarrow> string \<Rightarrow> resource_row" where
  "fresh_resource i cal href = \<lparr>re_id = i, re_calendar = cal, re_href = href, re_uid = None, re_etag = None, re_raw = [],
     re_export = None, re_export_etag = None, re_parse_error = None, re_export_error = None, re_export_status = ''pending'',
     re_seen = None, re_missing = False, re_excluded = False\<rparr>"

definition add_resource :: "int \<Rightarrow> string \<Rightarrow> 'z calendar_tables_scheme \<Rightarrow> ('z calendar_tables_scheme \<times> int) option" where
  "add_resource cal href t =
     (if (\<exists>r \<in> set (calendar_resources t). at_resource cal href r) \<or> cal \<notin> ca_id ` set (calendars t) then None
      else let i = next_rowid (map re_id (calendar_resources t)) in
        Some (t\<lparr>calendar_resources := calendar_resources t @ [fresh_resource i cal href]\<rparr>, i))"

definition saved_resource ::
  "string \<Rightarrow> string option \<Rightarrow> bytes \<Rightarrow> string option \<Rightarrow> string option \<Rightarrow> int \<Rightarrow> resource_row \<Rightarrow> resource_row" where
  "saved_resource href etag raw parse_error uid run r =
     r\<lparr>re_href := href, re_etag := etag, re_raw := raw, re_parse_error := parse_error,
       re_uid := (if uid \<noteq> None then uid else re_uid r), re_seen := Some run, re_missing := False, re_excluded := False,
       re_export_status := ''pending''\<rparr>"

text \<open>\<open>raw_ical\<close> is \<open>NOT NULL\<close>, and the address is unique in its calendar.\<close>

definition put_resource ::
  "int \<Rightarrow> string \<Rightarrow> string option \<Rightarrow> bytes option \<Rightarrow> string option \<Rightarrow> string option \<Rightarrow> int \<Rightarrow> 'z calendar_tables_scheme \<Rightarrow>
   ('z calendar_tables_scheme \<times> unit) option" where
  "put_resource resource href etag raw parse_error uid run t =
     (case find (\<lambda>r. re_id r = resource) (calendar_resources t) of None \<Rightarrow> Some (t, ())
      | Some row \<Rightarrow>
          (case raw of None \<Rightarrow> None
           | Some body \<Rightarrow>
               if \<exists>r \<in> set (calendar_resources t). re_id r \<noteq> resource \<and> at_resource (re_calendar row) href r then None
               else Some (update_resources (\<lambda>r. re_id r = resource) (saved_resource href etag body parse_error uid run) t, ())))"

definition save_error :: "'t db \<Rightarrow> RCError" where
  "save_error d = RCErrorSet 1 (''Could not save calendar resource: '' @ errmsg d)"

definition save_row ::
  "int \<Rightarrow> string \<Rightarrow> string option \<Rightarrow> bytes option \<Rightarrow> string option \<Rightarrow> string option \<Rightarrow> int \<Rightarrow> 'z kdb \<Rightarrow> unit res \<times> 'z kdb" where
  "save_row resource href etag raw parse_error uid run d =
     (let (prepared, d) = sql_prepare d in
      if \<not> prepared then (Inl (save_error d), d)
      else case sql_modify (put_resource resource href etag raw parse_error uid run) d of
          (Some _, d) \<Rightarrow> (Inr (), d) | (None, d) \<Rightarrow> (Inl (save_error d), d))"

definition RCCalendarStoreSave ::
  "('c, 'p, 'v, 'k, 'y) libical_walk_scheme \<Rightarrow> RCCalendarStore \<Rightarrow> int \<Rightarrow> string \<Rightarrow> string option \<Rightarrow> bytes option \<Rightarrow> nat \<Rightarrow>
   'z kdb \<Rightarrow> unit res \<times> 'z kdb" where
  "RCCalendarStoreSave ical store cal href etag bytes len d =
     (let parsed = inspect_resource ical bytes len;
          uid = (case parsed of Inl _ \<Rightarrow> None | Inr (_, u) \<Rightarrow> Some u);
          parse_error = (case parsed of Inl e \<Rightarrow> Some (err_message e) | Inr _ \<Rightarrow> None);
          (resource, d) = RCFind (\<lambda>t. map_option re_id (find (at_resource cal href) (calendar_resources t))) d in
      chain (resolve_uid store cal uid resource d) (\<lambda>resource d.
      chain (if resource < 0 then calendar_exec (add_resource cal href) d else (Inr resource, d)) (\<lambda>resource d.
      chain (save_row resource href etag (blob bytes len) parse_error uid (ks_run store) d) (\<lambda>_ d.
      case parsed of Inl _ \<Rightarrow> (Inr (), d)
      | Inr (root, _) \<Rightarrow>
          chain (RCCalendarStoreSQL [sql_statement (\<lambda>t. Some (drop_components {resource} t))] d) (\<lambda>_ d.
          RCStoreComponent ical resource 0 0 root d)))))"

section \<open>Finishing a run\<close>

definition not_seen :: "int \<Rightarrow> int option \<Rightarrow> bool" where
  "not_seen run seen \<longleftrightarrow> seen = None \<or> seen \<noteq> Some run"

definition calendars_of :: "int \<Rightarrow> 'z calendar_tables_scheme \<Rightarrow> int set" where
  "calendars_of acct t = ca_id ` set (filter (\<lambda>c. ca_account c = acct) (calendars t))"

text \<open>A time-range inventory only excludes what it does not list; a complete one establishes absence.\<close>

definition retire_resources :: "bool \<Rightarrow> int \<Rightarrow> int \<Rightarrow> 'z calendar_tables_scheme \<Rightarrow> 'z calendar_tables_scheme" where
  "retire_resources scoped acct run t = update_resources (\<lambda>r. re_calendar r \<in> calendars_of acct t)
     (\<lambda>r. if scoped then r\<lparr>re_excluded := not_seen run (re_seen r)\<rparr>
          else r\<lparr>re_excluded := False, re_missing := not_seen run (re_seen r)\<rparr>) t"

definition retire_calendars :: "int \<Rightarrow> int \<Rightarrow> 'z calendar_tables_scheme \<Rightarrow> 'z calendar_tables_scheme" where
  "retire_calendars acct run t =
     update_calendars (\<lambda>c. ca_account c = acct) (\<lambda>c. c\<lparr>ca_missing := not_seen run (ca_seen c)\<rparr>) t"

definition close_run :: "int \<Rightarrow> bool \<Rightarrow> string option \<Rightarrow> 'z calendar_tables_scheme \<Rightarrow> 'z calendar_tables_scheme" where
  "close_run run succeeded message t = t\<lparr>calendar_runs := update_rows (\<lambda>r. ru_id r = run)
     (\<lambda>r. r\<lparr>ru_finished := True, ru_succeeded := Some succeeded, ru_message := message\<rparr>) (calendar_runs t)\<rparr>"

definition publish_run :: "RCCalendarStore \<Rightarrow> 'z kdb \<Rightarrow> unit res \<times> 'z kdb" where
  "publish_run store d =
     chain (RCCalendarStoreSQL [sql_statement (\<lambda>t. Some (retire_resources (ks_scopedRun store) (ks_account store) (ks_run store) t))] d) (\<lambda>_ d.
     chain (RCCalendarStoreSQL
       [sql_statement (\<lambda>t. Some (retire_calendars (ks_account store) (ks_run store) t)),
        sql_statement (\<lambda>t. Some (update_accounts (ks_account store) (\<lambda>a. a\<lparr>acc_generation := ks_run store\<rparr>) t))] d) (\<lambda>_ d.
     RCCalendarStoreSQL [sql_commit] d))"

definition RCCalendarStoreFinishRun ::
  "RCCalendarStore \<Rightarrow> bool \<Rightarrow> string option \<Rightarrow> 'z kdb \<Rightarrow> unit res \<times> RCCalendarStore \<times> 'z kdb" where
  "RCCalendarStoreFinishRun store success message d =
     (if ks_run store = 0 then (Inl RCErrorClear, store, d)
      else let (r, d) = (if success then publish_run store d else (Inl RCErrorClear, d));
               d = (if is_ok r then d else snd (RCCalendarStoreSQL [sql_rollback] d));
               (closed, d) = RCCalendarStoreSQL [sql_statement (\<lambda>t. Some (close_run (ks_run store) (is_ok r) message t))] d in
        (case closed of Inl e \<Rightarrow> Inl e | Inr _ \<Rightarrow> r, store\<lparr>ks_run := 0, ks_scopedRun := False\<rparr>, d))"

text \<open>An open run is rolled back; then the connection is closed.\<close>

definition RCCalendarStoreClose :: "RCCalendarStore \<Rightarrow> 'z kdb \<Rightarrow> 'z kdb" where
  "RCCalendarStoreClose store d = (if ks_run store \<noteq> 0 then snd (sql_rollback d) else d)"

section \<open>Publication and pruning\<close>

definition resource_key :: "int \<Rightarrow> string" where
  "resource_key i = ''resource-'' @ show_int i"

definition drop_bases :: "(base_row \<Rightarrow> bool) \<Rightarrow> 'z calendar_tables_scheme \<Rightarrow> 'z calendar_tables_scheme" where
  "drop_bases P t = t\<lparr>write_bases := filter (\<lambda>b. \<not> P b) (write_bases t)\<rparr>"

definition calendar_base :: "int \<Rightarrow> int \<Rightarrow> resource_row \<Rightarrow> base_row" where
  "calendar_base acct generation r = \<lparr>b_account = acct, b_key = resource_key (re_id r), b_href = re_href r,
     b_etag = re_export_etag r, b_body = bytes_of (re_export r), b_revision = generation\<rparr>"

definition insert_bases :: "int \<Rightarrow> int \<Rightarrow> 'z calendar_tables_scheme \<Rightarrow> 'z calendar_tables_scheme option" where
  "insert_bases acct generation t =
     (let new = map (calendar_base acct generation) (filter (\<lambda>r. present acct t r \<and> re_export r \<noteq> None) (calendar_resources t)) in
      if distinct (map (\<lambda>b. (b_account b, b_key b)) (write_bases t @ new))
      then Some (t\<lparr>write_bases := write_bases t @ new\<rparr>) else None)"

definition account_generation :: "int \<Rightarrow> 'z calendar_tables_scheme \<Rightarrow> int option" where
  "account_generation acct t = map_option acc_generation (find (\<lambda>a. acc_id a = acct) (accounts t))"

definition RCCalendarStoreSnapshotWriteBases :: "RCCalendarStore \<Rightarrow> int \<Rightarrow> 'z kdb \<Rightarrow> unit res \<times> 'z kdb" where
  "RCCalendarStoreSnapshotWriteBases store generation d =
     (let refused = Inl (RCErrorSet 1 ''Calendar write bases require the publication transaction'') in
      if autocommit d \<or> generation \<le> 0 \<or> ks_run store \<noteq> 0 then (refused, d)
      else let (current, d) = RCFind (account_generation (ks_account store)) d in
        if current \<noteq> generation then (refused, d)
        else RCCalendarStoreSQL
          [sql_statement (\<lambda>t. Some (drop_bases (\<lambda>b. b_account b = ks_account store) t)),
           sql_statement (insert_bases (ks_account store) generation)] d)"

text \<open>An operation of the outbox that is not settled and that names the resource by key or address.\<close>

definition awaited :: "int \<Rightarrow> 'z calendar_tables_scheme \<Rightarrow> resource_row \<Rightarrow> bool" where
  "awaited acct t r \<longleftrightarrow> (\<exists>w \<in> set (write_operations t). op_account w = acct \<and>
     (op_key w = resource_key (re_id r) \<or> op_href w = re_href r) \<and> op_state w \<notin> {Acknowledged, Cancelled})"

definition outside_window :: string where
  "outside_window = ''outside history window''"

definition prune_ids :: "int \<Rightarrow> 'z calendar_tables_scheme \<Rightarrow> int list" where
  "prune_ids acct t = map re_id (filter (\<lambda>r. of_account acct t r \<and> re_excluded r \<and> re_export_status r \<noteq> outside_window \<and>
     \<not> awaited acct t r) (calendar_resources t))"

definition pruned_resource :: "resource_row \<Rightarrow> resource_row" where
  "pruned_resource r = r\<lparr>re_raw := [], re_export := None, re_export_etag := None, re_etag := None, re_parse_error := None,
     re_export_error := None, re_export_status := outside_window\<rparr>"

definition unchanged :: "'t db \<Rightarrow> bool \<times> 't db" where
  "unchanged d = sql_statement Some d"

text \<open>
  One script: the statements up to the one that fills the temporary table, which hold \<open>unchanged\<close> for
  what only that table sees, and those that use its contents \<open>ids\<close>.
\<close>

definition prune_script :: "int \<Rightarrow> 'z kdb \<Rightarrow> unit res \<times> 'z kdb" where
  "prune_script acct d =
     chain (RCCalendarStoreSQL [sql_begin, unchanged, unchanged, unchanged] d) (\<lambda>_ d.
     let ids = set (prune_ids acct (tables d)) in
     RCCalendarStoreSQL
       [sql_statement (\<lambda>t. Some (drop_components ids t)),
        sql_statement (\<lambda>t. Some (drop_bases (\<lambda>b. b_account b = acct \<and> b_key b \<in> resource_key ` ids) t)),
        sql_statement (\<lambda>t. Some (update_resources (\<lambda>r. re_id r \<in> ids) pruned_resource t)),
        unchanged, sql_commit] d)"

text \<open>The numbers of free and of all pages are SQLite's; \<open>VACUUM\<close> does not change the tables.\<close>

definition RCCalendarStorePruneHistory :: "int \<Rightarrow> int \<Rightarrow> RCCalendarStore \<Rightarrow> 'z kdb \<Rightarrow> unit res \<times> 'z kdb" where
  "RCCalendarStorePruneHistory freelist_count page_count store d =
     (let refused = Inl (RCErrorSet 1 ''Calendar history cleanup requires a published inventory'') in
      if ks_run store \<noteq> 0 \<or> \<not> autocommit d then (refused, d)
      else let (n, d) = RCFind (\<lambda>t. Some (int (count_rows (\<lambda>a. acc_id a = ks_account store \<and> acc_generation a > 0 \<and>
                   acc_published a = acc_generation a) (accounts t)))) d in
        if n \<noteq> 1 then (refused, d)
        else case prune_script (ks_account store) d of
            (Inl e, d) \<Rightarrow> (Inl e, snd (RCCalendarStoreSQL [sql_rollback] d))
          | (Inr _, d) \<Rightarrow>
              (let (freePages, d) = RCScalar (\<lambda>_. Some freelist_count) d; (pages, d) = RCScalar (\<lambda>_. Some page_count) d in
               if freePages \<ge> 256 \<and> pages > 0 \<and> freePages > pages div 5
               then RCCalendarStoreSQL [unchanged] d else (Inr (), d)))"

section \<open>Identities\<close>

definition add_identity :: "string \<Rightarrow> string \<Rightarrow> string \<Rightarrow> 'z calendar_tables_scheme \<Rightarrow> 'z calendar_tables_scheme option" where
  "add_identity owner key sync t =
     Some (if \<exists>r \<in> set (sync_record_ids t). (sr_owner r = owner \<and> sr_key r = key) \<or> sr_sync r = sync then t
           else t\<lparr>sync_record_ids := sync_record_ids t @ [\<lparr>sr_owner = owner, sr_key = key, sr_sync = sync\<rparr>]\<rparr>)"

definition find_identity :: "string \<Rightarrow> string \<Rightarrow> 'z calendar_tables_scheme \<Rightarrow> string option" where
  "find_identity owner key t =
     map_option sr_sync (find (\<lambda>r. sr_owner r = owner \<and> sr_key r = key) (sync_record_ids t))"

definition RCCalendarStoreIdentity :: "string \<Rightarrow> string \<Rightarrow> 'z kdb \<Rightarrow> string res \<times> 'z kdb" where
  "RCCalendarStoreIdentity owner key d =
     chain (RCCalendarStoreSQL [\<lambda>d. sql_statement (add_identity owner key (random d (calls d))) d] d) (\<lambda>_ d.
     let failed = Inl (RCErrorSet 1 ''Could not allocate calendar record identity''); (prepared, d) = sql_prepare d in
     if \<not> prepared then (failed, d)
     else case sql_query (find_identity owner key) d of
         (Some (Some i), d) \<Rightarrow> (Inr i, d) | (_, d) \<Rightarrow> (failed, d))"

text \<open>The calendar branch of \<open>RCDAVMirrorResourceCurrent\<close> in \<^verbatim>\<open>source/shared/RCDAVStaging.c\<close>.\<close>

definition RCDAVMirrorCalendarCurrent ::
  "int \<Rightarrow> string \<Rightarrow> string \<Rightarrow> string option \<Rightarrow> 'z kdb \<Rightarrow> bool res \<times> 'z kdb" where
  "RCDAVMirrorCalendarCurrent acct url href etag d =
     (let failed = RCErrorSet 1 ''Could not read mirror resource version''; (prepared, d) = sql_prepare d in
      if \<not> prepared then (Inl failed, d)
      else case sql_query (\<lambda>t. find (\<lambda>r. re_href r = href \<and> re_etag r \<noteq> None \<and> re_etag r = etag \<and> re_raw r \<noteq> [] \<and>
               (\<exists>c \<in> set (calendars t). ca_id c = re_calendar r \<and> named_calendar acct url c)) (calendar_resources t)) d of
          (None, d) \<Rightarrow> (Inl failed, d)
        | (Some row, d) \<Rightarrow> (Inr (row \<noteq> None), d))"

section \<open>Opening\<close>

text \<open>The next cached resource whose body could not be parsed when it was stored.\<close>

definition reparse_next :: "int \<Rightarrow> int \<Rightarrow> 'z calendar_tables_scheme \<Rightarrow> resource_row option" where
  "reparse_next acct previous t =
     (case sort_key re_id (filter (\<lambda>r. re_id r > previous \<and> re_parse_error r \<noteq> None \<and> present acct t r) (calendar_resources t)) of
        [] \<Rightarrow> None | r # _ \<Rightarrow> Some r)"

definition reparse_savepoint :: string where
  "reparse_savepoint = ''reparse_calendar''"

text \<open>The resource keeps the run that saw it, since this is no new inventory.\<close>

definition reparsed :: "resource_row \<Rightarrow> 'z calendar_tables_scheme \<Rightarrow> 'z calendar_tables_scheme" where
  "reparsed row t = update_resources (\<lambda>r. re_id r = re_id row) (\<lambda>r. r\<lparr>re_seen := re_seen row, re_export_error := None\<rparr>) t"

definition reparse_row ::
  "('c, 'p, 'v, 'k, 'y) libical_walk_scheme \<Rightarrow> RCCalendarStore \<Rightarrow> resource_row \<Rightarrow> 'z kdb \<Rightarrow> unit res \<times> 'z kdb" where
  "reparse_row ical store row d =
     (let body = column_blob (Some (re_raw row)); len = length (re_raw row) in
      if \<not> is_ok (RCICalendarParse ical body len) then (Inr (), d)
      else chain (RCCalendarStoreSQL [sql_savepoint reparse_savepoint] d) (\<lambda>_ d.
        case RCCalendarStoreSave ical store (re_calendar row) (re_href row) (re_etag row) body len d of
          (Inl e, d) \<Rightarrow> chain (RCCalendarStoreSQL [undo_statement reparse_savepoint] d) (\<lambda>_ d. (Inl e, d))
        | (Inr _, d) \<Rightarrow>
            (let (found, d) = RCFind (\<lambda>t. map_option re_id (find (\<lambda>r. re_id r = re_id row \<and> re_parse_error r = None)
                   (calendar_resources t))) d in
             if found < 0 then RCCalendarStoreSQL [undo_statement reparse_savepoint] d
             else RCCalendarStoreSQL [sql_statement (\<lambda>t. Some (reparsed row t)), sql_release reparse_savepoint] d)))"

text \<open>
  The loop visits the resources by increasing identifier. It takes one more turn than there are
  resources at most, which is the fuel; \<open>None\<close> is its exhaustion.
\<close>

fun reparse_loop ::
  "('c, 'p, 'v, 'k, 'y) libical_walk_scheme \<Rightarrow> RCCalendarStore \<Rightarrow> nat \<Rightarrow> int \<Rightarrow> 'z kdb \<Rightarrow> unit res option \<times> 'z kdb" where
  "reparse_loop ical store 0 previous d = (None, d)"
| "reparse_loop ical store (Suc fuel) previous d = (let (prepared, d) = sql_prepare d in
     if \<not> prepared then (Some (Inl RCErrorClear), d)
     else case sql_query (reparse_next (ks_account store) previous) d of
         (None, d) \<Rightarrow> (Some (Inl RCErrorClear), d)
       | (Some None, d) \<Rightarrow> (Some (Inr ()), d)
       | (Some (Some row), d) \<Rightarrow>
           (case reparse_row ical store row d of
              (Inl e, d) \<Rightarrow> (Some (Inl e), d)
            | (Inr _, d) \<Rightarrow> reparse_loop ical store fuel (re_id row) d))"

definition RCReparseCachedResources ::
  "('c, 'p, 'v, 'k, 'y) libical_walk_scheme \<Rightarrow> RCCalendarStore \<Rightarrow> 'z kdb \<Rightarrow> unit res option \<times> 'z kdb" where
  "RCReparseCachedResources ical store d =
     (case reparse_loop ical store (Suc (length (calendar_resources (tables d)))) 0 d of
        (Some (Inl e), d) \<Rightarrow>
          (Some (Inl (if err_code e = 0 then RCErrorSet 1 ''Could not reparse cached calendar resources'' else e)),
           snd (RCCalendarStoreSQL [undo_statement reparse_savepoint] d))
      | r \<Rightarrow> r)"

definition calendar_schema :: "('z calendar_tables_scheme \<Rightarrow> 'z calendar_tables_scheme) list" where
  "calendar_schema =
     [create_table ''schema_version'' (\<lambda>t. t\<lparr>calendar_version := []\<rparr>),
      (\<lambda>t. if calendar_version t = [] then t\<lparr>calendar_version := [3]\<rparr> else t),
      create_table ''accounts'' (\<lambda>t. t\<lparr>accounts := []\<rparr>),
      create_table ''sync_runs'' (\<lambda>t. t\<lparr>calendar_runs := []\<rparr>),
      create_table ''calendars'' (\<lambda>t. t\<lparr>calendars := []\<rparr>),
      create_table ''calendar_resources'' (\<lambda>t. t\<lparr>calendar_resources := []\<rparr>),
      create_table ''sync_record_ids'' (\<lambda>t. t\<lparr>sync_record_ids := []\<rparr>),
      create_table ''ical_components'' (\<lambda>t. t\<lparr>ical_components := []\<rparr>),
      create_table ''ical_properties'' (\<lambda>t. t\<lparr>ical_properties := []\<rparr>),
      create_table ''ical_parameters'' (\<lambda>t. t\<lparr>ical_parameters := []\<rparr>),
      create_table ''events'' (\<lambda>t. t\<lparr>events := []\<rparr>)]"

text \<open>The new column of version 3 starts as 0.\<close>

definition migrate_scope :: "('z kdb \<Rightarrow> bool \<times> 'z kdb) list" where
  "migrate_scope =
     [sql_begin, sql_statement (\<lambda>t. Some (update_resources (\<lambda>_. True) (\<lambda>r. r\<lparr>re_excluded := False\<rparr>) t)),
      unchanged, unchanged, sql_statement (\<lambda>t. Some (t\<lparr>calendar_version := map (\<lambda>_. 3) (calendar_version t)\<rparr>)), sql_commit]"

definition read_version :: "'z calendar_tables_scheme \<Rightarrow> int option" where
  "read_version t = (case calendar_version t of [] \<Rightarrow> None | v # _ \<Rightarrow> Some v)"

text \<open>The database of version 2, which has no scope yet, becomes one of version 3.\<close>

definition upgrade :: "'z kdb \<Rightarrow> unit res \<times> 'z kdb" where
  "upgrade d =
     (let (version, d) = RCScalar read_version d in
      chain (if version \<noteq> 2 then (Inr (), d)
             else case RCCalendarStoreSQL migrate_scope d of
                 (Inl e, d) \<Rightarrow> (Inl e, snd (RCCalendarStoreSQL [sql_rollback] d)) | r \<Rightarrow> r) (\<lambda>_ d.
      let (version, d) = RCScalar read_version d in
        (if version \<noteq> 3 then Inl (RCErrorSet 1 ''Unsupported calendar database version'') else Inr (), d)))"

definition add_calendar_account :: "string \<Rightarrow> string \<Rightarrow> 'z calendar_tables_scheme \<Rightarrow> 'z calendar_tables_scheme option" where
  "add_calendar_account username sync t =
     Some (if \<exists>a \<in> set (accounts t). acc_username a = username then t
           else t\<lparr>accounts := accounts t @ [\<lparr>acc_id = next_rowid (map acc_id (accounts t)), acc_username = username,
             acc_sync_id = sync, acc_generation = 0, acc_published = 0\<rparr>]\<rparr>)"

definition open_calendar_account :: "string \<Rightarrow> 'z kdb \<Rightarrow> RCCalendarStore res \<times> 'z kdb" where
  "open_calendar_account username d =
     chain (RCCalendarStoreSQL [\<lambda>d. sql_statement (add_calendar_account username (random d (calls d))) d] d) (\<lambda>_ d.
     let (acct, d) = RCFind (\<lambda>t. map_option acc_id (find (\<lambda>a. acc_username a = username) (accounts t))) d in
       (if acct < 0 then Inl (RCErrorSet 1 ''Could not find calendar account'')
        else Inr \<lparr>ks_account = acct, ks_run = 0, ks_scopedRun = False\<rparr>, d))"

text \<open>
  The connection SQLite opened, if it did, the outcome of \<open>chmod\<close> and that of the file format option
  are arguments. The connection is returned also after a failure, for what the file then holds;
  the outer \<open>None\<close> is the exhaustion of the fuel.
\<close>

definition RCCalendarStoreOpen ::
  "('c, 'p, 'v, 'k, 'y) libical_walk_scheme \<Rightarrow> string option \<Rightarrow> string option \<Rightarrow> 'z kdb option \<Rightarrow> bool \<Rightarrow> bool \<Rightarrow>
   RCCalendarStore res option \<times> 'z kdb option" where
  "RCCalendarStoreOpen ical path username opened restricted legacy =
     (if path = None \<or> empty_text username then (Some (Inl (RCErrorSet 1 ''Calendar database account/path is missing'')), opened)
      else case opened of None \<Rightarrow> (Some (Inl (RCErrorSet 1 ''Could not open calendar database'')), None)
        | Some d \<Rightarrow>
            if \<not> restricted then (Some (Inl (RCErrorSet 1 ''Could not restrict calendar database permissions'')), Some d)
            else if \<not> legacy then (Some (Inl (RCErrorSet 1 ''Could not enable Tiger-compatible SQLite file format'')), Some d)
            else (case chain (RCCalendarStoreSQL [unchanged] d) (\<lambda>_ d.
                    chain (RCCalendarStoreSQL (map (\<lambda>f. sql_statement (\<lambda>t. Some (f t))) calendar_schema) d) (\<lambda>_ d.
                    chain (upgrade d) (\<lambda>_ d.
                    chain (RCWriteJournalInitialize d) (\<lambda>_ d. open_calendar_account (the username) d)))) of
                (Inl e, d) \<Rightarrow> (Some (Inl e), Some d)
              | (Inr store, d) \<Rightarrow>
                  (case RCReparseCachedResources ical store d of
                     (None, d) \<Rightarrow> (None, Some d)
                   | (Some (Inl e), d) \<Rightarrow> (Some (Inl e), Some d)
                   | (Some (Inr _), d) \<Rightarrow> (Some (Inr store), Some d))))"

end
