(* ===== verification/CalDAVMirror.thy ===== *)
theory CalDAVMirror
  imports CalendarStore CardDAVMirror
begin

text \<open>
  The calendar synchronisation of \<^verbatim>\<open>source/shared/RCCalDAVMirror.c\<close>: the start of the history
  window, discovery, the inventory of every calendar, complete or limited to the window, and one
  transaction that replays what was staged into the calendar store. An unchanged calendar keeps
  its rows when the window is the one its token was saved for. Progress messages have no effect
  and are left out.
\<close>

section \<open>The history window\<close>

text \<open>libical's calendar arithmetic.\<close>

record icaltime =
  icaltime_from_string :: "string \<Rightarrow> icaltimetype"
  icaltime_is_valid_time :: "icaltimetype \<Rightarrow> bool"
  icaltime_days_in_month :: "int \<Rightarrow> int \<Rightarrow> int"

definition RCCalDAVHistoryStart :: "icaltime \<Rightarrow> string option \<Rightarrow> int \<Rightarrow> string res" where
  "RCCalDAVHistoryStart it today years =
     (let invalid = Inl (RCErrorSet 1 ''Calendar history requires a valid UTC date and 1 or 2 years'') in
      case today of None \<Rightarrow> invalid
      | Some s \<Rightarrow>
          if length s \<noteq> 8 \<or> (years \<noteq> 1 \<and> years \<noteq> 2) \<or> \<not> list_all digit s then invalid
          else let date = icaltime_from_string it s; year = t_year date; month = t_month date; day = t_day date in
            if \<not> icaltime_is_valid_time it date \<or> year \<le> years \<or> month < 1 \<or> month > 12 \<or> day < 1 \<or>
               day > icaltime_days_in_month it month year then invalid
            else let year = year - years; last = icaltime_days_in_month it month year;
                     day = (if day > last then last else day) in
              Inr (take 16 (pad_int 4 year @ pad_int 2 month @ pad_int 2 day @ ''T000000Z'')))"

section \<open>State\<close>

record 'z calendar_mirror =
  n_store :: RCCalendarStore
  n_db :: "'z kdb"
  n_stage :: stage_db
  n_result :: RCCardDAVMirrorResult

record RCCalendarFetch =
  fc_keep :: bool
  fc_token :: "string option"

definition in_database :: "('z kdb \<Rightarrow> 'a res \<times> 'z kdb) \<Rightarrow> 'z calendar_mirror \<times> 'w \<Rightarrow> 'a res \<times> 'z calendar_mirror \<times> 'w" where
  "in_database f s = (let (r, d) = f (n_db (fst s)) in (r, (fst s)\<lparr>n_db := d\<rparr>, snd s))"

definition in_stage :: "(stage_db \<Rightarrow> 'a res \<times> stage_db) \<Rightarrow> 'z calendar_mirror \<times> 'w \<Rightarrow> 'a res \<times> 'z calendar_mirror \<times> 'w" where
  "in_stage f s = (let (r, d) = f (n_stage (fst s)) in (r, (fst s)\<lparr>n_stage := d\<rparr>, snd s))"

definition in_world :: "('w \<Rightarrow> 'a res \<times> 'w) \<Rightarrow> 'z calendar_mirror \<times> 'w \<Rightarrow> 'a res \<times> 'z calendar_mirror \<times> 'w" where
  "in_world f s = (let (r, w) = f (snd s) in (r, fst s, w))"

definition tally :: "(RCCardDAVMirrorResult \<Rightarrow> RCCardDAVMirrorResult) \<Rightarrow> 'z calendar_mirror \<times> 'w \<Rightarrow> 'z calendar_mirror \<times> 'w" where
  "tally f s = ((fst s)\<lparr>n_result := f (n_result (fst s))\<rparr>, snd s)"

definition cancel_check :: "('l::len word, 'w) curl \<Rightarrow> 'z calendar_mirror \<times> 'w \<Rightarrow> unit res \<times> 'z calendar_mirror \<times> 'w" where
  "cancel_check cu s = (case RCCheckCancellation (stop cu (snd s)) of Some e \<Rightarrow> (Inl e, s) | None \<Rightarrow> (Inr (), s))"

section \<open>Download\<close>

text \<open>The callback of the synchronisation report only notes that there was a change.\<close>

definition calendarChanges :: "RCDAVResource list \<Rightarrow> bool \<times> 'w \<Rightarrow> unit res \<times> bool \<times> 'w" where
  "calendarChanges changes s = (Inr (), if changes \<noteq> [] then True else fst s, snd s)"

text \<open>Whether the calendar is unchanged in its window, and the next token, if the server gave one.\<close>

definition check_token ::
  "libxml \<Rightarrow> ('l::len word, 'w) curl \<Rightarrow> 'l word RCHTTPClient \<Rightarrow> RCDAVCollection \<Rightarrow> string option \<Rightarrow> string option \<Rightarrow> string option \<Rightarrow>
   'w \<Rightarrow> (bool \<times> string option) res \<times> 'w" where
  "check_token lx cu client coll start token scope w =
     (if \<not> (k_supportsSync coll \<and> token \<noteq> None \<and> scope = Some (case start of None \<Rightarrow> [] | Some x \<Rightarrow> x)) then (Inr (False, None), w)
      else case RCDAVSyncCollection lx cu client (k_url coll) token (Some calendarChanges) (False, w) of
          ((RCDAVSyncFailed, e), _, w) \<Rightarrow> (Inl e, w)
        | ((RCDAVSyncComplete next, _), changed, w) \<Rightarrow> (Inr (\<not> changed, Some next), w)
        | ((RCDAVSyncFallback, _), _, w) \<Rightarrow> (Inr (False, None), w))"

definition get_resource ::
  "('l::len word, 'w) curl \<Rightarrow> 'l word RCHTTPClient \<Rightarrow> int \<Rightarrow> RCDAVResource \<Rightarrow> 'z calendar_mirror \<times> 'w \<Rightarrow> unit res \<times> 'z calendar_mirror \<times> 'w" where
  "get_resource cu client k r s =
     chain (in_world (RCHTTPClientRequest cu client ''GET'' (v_url r) None None None 0) s) (\<lambda>response s.
     if rs_statusCode response \<noteq> 200
     then (Inl (RCErrorSet (column_int (rs_statusCode response))
             (''Calendar GET returned HTTP '' @ show_int (rs_statusCode response))), s)
     else chain (in_stage (RCDAVStageSave k RCDAVStageDownloaded (Some (v_url r))
              (if rs_etag response \<noteq> None then rs_etag response else v_etag r) (rs_body response) (bodyLength response)) s) (\<lambda>_ s.
       (Inr (), tally (\<lambda>n. n\<lparr>mr_downloaded := mr_downloaded n + 1\<rparr>) s)))"

definition stage_resource ::
  "('l::len word, 'w) curl \<Rightarrow> 'l word RCHTTPClient \<Rightarrow> string \<Rightarrow> int \<Rightarrow> RCDAVResource \<Rightarrow> 'z calendar_mirror \<times> 'w \<Rightarrow>
   unit res \<times> 'z calendar_mirror \<times> 'w" where
  "stage_resource cu client url k r s = chain (cancel_check cu s) (\<lambda>_ s.
     chain (in_database (RCDAVMirrorCalendarCurrent (ks_account (n_store (fst s))) url (v_url r) (v_etag r)) s) (\<lambda>current s.
     chain (in_stage (RCDAVStageHasResource k (v_url r)) s) (\<lambda>staged s.
     if current \<and> \<not> staged
     then chain (in_stage (RCDAVStageSave k RCDAVStageSeen (Some (v_url r)) (v_etag r) None 0) s) (\<lambda>_ s.
            (Inr (), tally (\<lambda>n. n\<lparr>mr_unchanged := mr_unchanged n + 1\<rparr>) s))
     else get_resource cu client k r s)))"

fun stage_resources ::
  "('l::len word, 'w) curl \<Rightarrow> 'l word RCHTTPClient \<Rightarrow> string \<Rightarrow> int \<Rightarrow> RCDAVResource list \<Rightarrow> 'z calendar_mirror \<times> 'w \<Rightarrow>
   unit res \<times> 'z calendar_mirror \<times> 'w" where
  "stage_resources cu client url k [] s = (Inr (), s)"
| "stage_resources cu client url k (r # rs) s =
     chain (stage_resource cu client url k r s) (\<lambda>_ s. stage_resources cu client url k rs s)"

text \<open>The inventory of a calendar, complete or of the window.\<close>

definition list_calendar ::
  "libxml \<Rightarrow> ('l::len word, 'w) curl \<Rightarrow> 'l word RCHTTPClient \<Rightarrow> string \<Rightarrow> string option \<Rightarrow> 'w \<Rightarrow> RCDAVResource list res \<times> 'w" where
  "list_calendar lx cu client url start w =
     (if start \<noteq> None then RCDAVListCalendarResourcesSince lx cu client url start w else RCDAVListResources lx cu client url w)"

definition fetch_calendar ::
  "libxml \<Rightarrow> ('l::len word, 'w) curl \<Rightarrow> 'l word RCHTTPClient \<Rightarrow> string option \<Rightarrow> RCDAVCollection \<Rightarrow> int \<Rightarrow> 'z calendar_mirror \<times> 'w \<Rightarrow>
   RCCalendarFetch res \<times> 'z calendar_mirror \<times> 'w" where
  "fetch_calendar lx cu client start coll k s =
     chain (in_database (RCDAVSyncStateLoad (ks_account (n_store (fst s))) (Some (k_url coll))) s) (\<lambda>(token, scope) s.
     chain (in_world (check_token lx cu client coll start token scope) s) (\<lambda>(keep, next) s.
     let fetched = \<lparr>fc_keep = keep, fc_token = (if next \<noteq> None then next else k_syncToken coll)\<rparr> in
     if keep then (Inr fetched, s)
     else chain (in_world (list_calendar lx cu client (k_url coll) start) s) (\<lambda>resources s.
       chain (stage_resources cu client (k_url coll) k resources
         (tally (\<lambda>n. n\<lparr>mr_listed := mr_listed n + int (length resources)\<rparr>) s)) (\<lambda>_ s. (Inr fetched, s)))))"

fun fetch_calendars ::
  "libxml \<Rightarrow> ('l::len word, 'w) curl \<Rightarrow> 'l word RCHTTPClient \<Rightarrow> string option \<Rightarrow> int \<Rightarrow> RCDAVCollection list \<Rightarrow> 'z calendar_mirror \<times> 'w \<Rightarrow>
   RCCalendarFetch list res \<times> 'z calendar_mirror \<times> 'w" where
  "fetch_calendars lx cu client start k [] s = (Inr [], s)"
| "fetch_calendars lx cu client start k (c # cs) s = chain (cancel_check cu s) (\<lambda>_ s.
     chain (fetch_calendar lx cu client start c k s) (\<lambda>f s.
     chain (fetch_calendars lx cu client start (k + 1) cs s) (\<lambda>fs s. (Inr (f # fs), s))))"

section \<open>Commit\<close>

definition commitCalendar ::
  "('c, 'p, 'v, 'k, 'y) libical_walk_scheme \<Rightarrow> RCCalendarStore \<Rightarrow> int \<Rightarrow> stage_item \<Rightarrow> 'z kdb \<times> 'w \<Rightarrow> unit res \<times> 'z kdb \<times> 'w" where
  "commitCalendar ical store cal = (\<lambda>(action, href, etag, body, len) (d, w).
     if action = RCDAVStageSeen
     then (let (r, d) = chain (RCCalendarStoreSeen store cal href etag d) (\<lambda>current d.
             (if current then Inr () else Inl (RCErrorSet 1 ''Calendar mirror changed during download''), d)) in (r, d, w))
     else (let (r, d) = RCCalendarStoreSave ical store cal href etag body len d in (r, d, w)))"

definition replay_stage ::
  "('c, 'p, 'v, 'k, 'y) libical_walk_scheme \<Rightarrow> ('l::len word, 'w) curl \<Rightarrow> int \<Rightarrow> int \<Rightarrow> 'z calendar_mirror \<times> 'w \<Rightarrow>
   unit res \<times> 'z calendar_mirror \<times> 'w" where
  "replay_stage ical cu k cal s =
     (let (r, st, d, w) = RCDAVStageApply (\<lambda>(d, w). stop cu w) k (commitCalendar ical (n_store (fst s)) cal)
            (n_stage (fst s)) (n_db (fst s), snd s) in
      (r, (fst s)\<lparr>n_stage := st, n_db := d\<rparr>, w))"

text \<open>An unchanged calendar: its present rows are seen by this run; the number of them is reported.\<close>

definition keep_calendar :: "int \<Rightarrow> int \<Rightarrow> 'z calendar_tables_scheme \<Rightarrow> ('z calendar_tables_scheme \<times> nat) option" where
  "keep_calendar cal run t =
     (let P = (\<lambda>r. re_calendar r = cal \<and> \<not> re_missing r \<and> \<not> re_excluded r) in
      Some (update_resources P (\<lambda>r. r\<lparr>re_seen := Some run\<rparr>) t, count_rows P (calendar_resources t)))"

definition retain_calendar :: "int \<Rightarrow> int \<Rightarrow> 'z calendar_mirror \<times> 'w \<Rightarrow> unit res \<times> 'z calendar_mirror \<times> 'w" where
  "retain_calendar cal run s = chain (in_database (calendar_exec (keep_calendar cal run)) s) (\<lambda>n s.
     (Inr (), tally (\<lambda>m. m\<lparr>mr_unchanged := mr_unchanged m + int n\<rparr>) s))"

definition calendar_steps ::
  "('c, 'p, 'v, 'k, 'y) libical_walk_scheme \<Rightarrow> ('l::len word, 'w) curl \<Rightarrow> string option \<Rightarrow> int \<Rightarrow> RCDAVCollection \<Rightarrow> RCCalendarFetch \<Rightarrow>
   RCCalendarStore \<Rightarrow> 'z calendar_mirror \<times> 'w \<Rightarrow> unit res \<times> 'z calendar_mirror \<times> 'w" where
  "calendar_steps ical cu start k coll f store s =
     chain (in_database (RCCalendarStoreCollection store coll) s) (\<lambda>cal s.
     chain (if fc_keep f then retain_calendar cal (ks_run store) s else (Inr (), s)) (\<lambda>_ s.
     chain (replay_stage ical cu k cal s) (\<lambda>_ s.
     in_database (RCDAVSyncStateSave (ks_account store) (Some (k_url coll)) (fc_token f) start (ks_run store)) s)))"

definition commit_calendar ::
  "('c, 'p, 'v, 'k, 'y) libical_walk_scheme \<Rightarrow> ('l::len word, 'w) curl \<Rightarrow> string option \<Rightarrow> int \<Rightarrow> RCDAVCollection \<Rightarrow> RCCalendarFetch \<Rightarrow>
   'z calendar_mirror \<times> 'w \<Rightarrow> unit res \<times> 'z calendar_mirror \<times> 'w" where
  "commit_calendar ical cu start k coll f s =
     chain (cancel_check cu s) (\<lambda>_ s. calendar_steps ical cu start k coll f (n_store (fst s)) s)"

fun commit_calendars ::
  "('c, 'p, 'v, 'k, 'y) libical_walk_scheme \<Rightarrow> ('l::len word, 'w) curl \<Rightarrow> string option \<Rightarrow> int \<Rightarrow> (RCDAVCollection \<times> RCCalendarFetch) list \<Rightarrow>
   'z calendar_mirror \<times> 'w \<Rightarrow> unit res \<times> 'z calendar_mirror \<times> 'w" where
  "commit_calendars ical cu start k [] s = (Inr (), s)"
| "commit_calendars ical cu start k ((c, f) # rest) s =
     chain (commit_calendar ical cu start k c f s) (\<lambda>_ s. commit_calendars ical cu start (k + 1) rest s)"

definition calendar_run ::
  "('c, 'p, 'v, 'k, 'y) libical_walk_scheme \<Rightarrow> ('l::len word, 'w) curl \<Rightarrow> string option \<Rightarrow> (RCDAVCollection \<times> RCCalendarFetch) list \<Rightarrow>
   'z calendar_mirror \<times> 'w \<Rightarrow> unit res \<times> 'z calendar_mirror \<times> 'w" where
  "calendar_run ical cu start work s =
     chain (commit_calendars ical cu start 0 work s) (\<lambda>_ s.
     chain (in_database (RCDAVSyncStateFinish (ks_account (n_store (fst s))) (ks_run (n_store (fst s)))) s) (\<lambda>_ s.
     cancel_check cu s))"

text \<open>The error of a run that failed is kept; a run that could not be finished reports that.\<close>

definition finish_calendars :: "unit res \<Rightarrow> 'z calendar_mirror \<times> 'w \<Rightarrow> unit res \<times> 'z calendar_mirror \<times> 'w" where
  "finish_calendars r s =
     (let (f, store, d) = RCCalendarStoreFinishRun (n_store (fst s)) (is_ok r)
            (case r of Inr _ \<Rightarrow> None | Inl e \<Rightarrow> Some (err_message e)) (n_db (fst s)) in
      (case r of Inr _ \<Rightarrow> f | Inl e \<Rightarrow> Inl e, (fst s)\<lparr>n_store := store, n_db := d\<rparr>, snd s))"

definition commit_window ::
  "('c, 'p, 'v, 'k, 'y) libical_walk_scheme \<Rightarrow> ('l::len word, 'w) curl \<Rightarrow> string option \<Rightarrow> (RCDAVCollection \<times> RCCalendarFetch) list \<Rightarrow>
   'z calendar_mirror \<times> 'w \<Rightarrow> unit res \<times> 'z calendar_mirror \<times> 'w" where
  "commit_window ical cu start work s = chain (cancel_check cu s) (\<lambda>_ s.
     case RCCalendarStoreBeginScopedRun (n_store (fst s)) (start \<noteq> None) (n_db (fst s)) of
       (Inl e, store, d) \<Rightarrow> (Inl e, (fst s)\<lparr>n_store := store, n_db := d\<rparr>, snd s)
     | (Inr _, store, d) \<Rightarrow>
         (let (r, s) = calendar_run ical cu start work ((fst s)\<lparr>n_store := store, n_db := d\<rparr>, snd s) in finish_calendars r s))"

definition principalRequest :: string where
  \<open>principalRequest = ''<?xml version="1.0"?><d:propfind '' @
     ''xmlns:d="DAV:"><d:prop><d:current-user-principal/></d:prop></d:propfind>''\<close>

definition homeRequest :: string where
  \<open>homeRequest = ''<?xml version="1.0"?><d:propfind xmlns:d="DAV:" '' @
     ''xmlns:c="urn:ietf:params:xml:ns:caldav"><d:prop><'' @ ''c:calendar-home-set/></d:prop></d:propfind>''\<close>

definition kCalDAVNamespace :: string where
  "kCalDAVNamespace = ''urn:ietf:params:xml:ns:caldav''"

definition download_calendars ::
  "libxml \<Rightarrow> ('l::len word, 'w) curl \<Rightarrow> 'l word RCHTTPClient \<Rightarrow> string option \<Rightarrow> string \<Rightarrow> 'z calendar_mirror \<times> 'w \<Rightarrow>
   (RCDAVCollection \<times> RCCalendarFetch) list res \<times> 'z calendar_mirror \<times> 'w" where
  "download_calendars lx cu client start serviceURL s =
     chain (in_world (RCDAVDiscoverHref lx cu client serviceURL principalRequest ''current-user-principal'' kDAVNamespace) s) (\<lambda>principal s.
     chain (in_world (RCDAVDiscoverHref lx cu client principal homeRequest ''calendar-home-set'' kCalDAVNamespace) s) (\<lambda>home s.
     chain (in_world (RCDAVListCollections lx cu client home ''calendar'' kCalDAVNamespace) s) (\<lambda>collections s.
     chain (fetch_calendars lx cu client start 0 collections (tally (\<lambda>n. n\<lparr>mr_collectionCount := int (length collections)\<rparr>) s)) (\<lambda>fetches s.
     (Inr (zip collections fetches), s)))))"

definition calendars_with ::
  "('c, 'p, 'v, 'k, 'y) libical_walk_scheme \<Rightarrow> libxml \<Rightarrow> ('l::len word, 'w) curl \<Rightarrow> 'l word RCHTTPClient \<Rightarrow> string option \<Rightarrow> string \<Rightarrow>
   'z calendar_mirror \<times> 'w \<Rightarrow> unit res \<times> 'z calendar_mirror \<times> 'w" where
  "calendars_with ical lx cu client start serviceURL s =
     chain (download_calendars lx cu client start serviceURL s) (\<lambda>work s. commit_window ical cu start work s)"

text \<open>
  A busy connection is refused after the client was made, and the staging area is opened whether or
  not it was, so the last of these failures is the one reported. A missing service URL is refused
  by the first request.
\<close>

definition RCCalDAVMirrorFetchSince ::
  "string \<Rightarrow> ('c, 'p, 'v, 'k, 'y) libical_walk_scheme \<Rightarrow> libxml \<Rightarrow> ('l::len word, 'w) curl \<Rightarrow> stage_db option \<Rightarrow> RCCardDAVMirrorConfig option \<Rightarrow>
   RCCalendarStore \<Rightarrow> 'z kdb \<Rightarrow> string option \<Rightarrow> 'w \<Rightarrow> (RCCardDAVMirrorResult \<times> unit res) \<times> RCCalendarStore \<times> 'z kdb \<times> 'w" where
  "RCCalDAVMirrorFetchSince version ical lx cu staging config store d start w =
     (let refuse = (\<lambda>e. ((no_result, Inl e), store, d, w)) in
      case config of None \<Rightarrow> refuse (RCErrorSet 1 ''Calendar mirror configuration is missing'')
      | Some g \<Rightarrow>
        if \<not> autocommit d then refuse (RCErrorSet 1 ''Calendar download requires an idle mirror transaction'')
        else case (RCDAVStageOpen staging, RCHTTPClientCreate version (Some (http_config g :: 'l word RCHTTPClientConfig))) of
            (Inl e, _) \<Rightarrow> refuse e
          | (Inr stage, Inl e) \<Rightarrow> refuse e
          | (Inr stage, Inr client) \<Rightarrow>
              (case mc_serviceURL g of None \<Rightarrow> refuse (RCErrorSet 1 ''Out of memory copying request URL'')
               | Some url \<Rightarrow>
                   (let (r, m, w) = calendars_with ical lx cu client start url
                          (\<lparr>n_store = store, n_db = d, n_stage = stage, n_result = no_result\<rparr>, w)
                    in ((n_result m, r), n_store m, n_db m, w))))"

definition RCCalDAVMirrorFetch ::
  "string \<Rightarrow> ('c, 'p, 'v, 'k, 'y) libical_walk_scheme \<Rightarrow> libxml \<Rightarrow> ('l::len word, 'w) curl \<Rightarrow> stage_db option \<Rightarrow> RCCardDAVMirrorConfig option \<Rightarrow>
   RCCalendarStore \<Rightarrow> 'z kdb \<Rightarrow> 'w \<Rightarrow> (RCCardDAVMirrorResult \<times> unit res) \<times> RCCalendarStore \<times> 'z kdb \<times> 'w" where
  "RCCalDAVMirrorFetch version ical lx cu staging config store d w =
     RCCalDAVMirrorFetchSince version ical lx cu staging config store d None w"

end
