(* ===== verification/CalendarContract.thy ===== *)
theory CalendarContract
  imports CalDAVMirror StoreSteps
begin

text \<open>
  The calendar store against a specification of what a run may do to the mirror: the elementary
  changes are the relation \<open>calendar_change\<close>, and every operation of a run is a sequence of
  them that leaves the transactions it found open.
\<close>

section \<open>Statements and scalars\<close>

lemma statement_result:
  assumes "sql_statement f d = (ok, d')"
  shows "txn d' = txn d \<and> same_library d d' \<and> (if ok then f (tables d) = Some (tables d') else tables d' = tables d)"
  using assms
  by (auto simp: sql_statement_def Let_def same_library_def split: prod.splits if_splits option.splits dest!: sql_call_keeps)

lemma exec_result:
  assumes "calendar_exec f d = (r, d')"
  shows "txn d' = txn d \<and> same_library d d' \<and>
    (case r of Inl _ \<Rightarrow> tables d' = tables d | Inr n \<Rightarrow> f (tables d) = Some (tables d', n))"
  using assms
  by (auto simp: calendar_exec_def Let_def same_library_def split: prod.splits if_splits option.splits dest!: sql_call_keeps)

lemma scalar_result:
  assumes "RCScalar q d = (v, d')"
  shows "tables d' = tables d \<and> txn d' = txn d \<and> same_library d d' \<and> (v = -1 \<or> q (tables d) = Some v)"
proof -
  obtain ok d1 where p: "sql_prepare d = (ok, d1)" by (cases "sql_prepare d")
  obtain x d2 where s: "sql_query q d1 = (x, d2)" by (cases "sql_query q d1")
  from assms p s have "if ok then d' = d2 \<and> v = (case x of Some (Some i) \<Rightarrow> i | _ \<Rightarrow> -1) else d' = d1 \<and> v = -1"
    by (auto simp: RCScalar_def split: option.splits)
  with sql_prepare_keeps [OF p] sql_query_result [OF s] show ?thesis
    by (auto split: if_splits option.splits intro: same_library_trans)
qed

lemma find_result:
  "RCFind q d = (v, d') \<Longrightarrow> tables d' = tables d \<and> txn d' = txn d \<and> same_library d d' \<and> (v = -1 \<or> q (tables d) = Some v)"
  unfolding RCFind_def by (rule scalar_result)

lemma script_result:
  "RCCalendarStoreSQL script d = (r, d') \<Longrightarrow> sql_statements script d = (is_ok r, d')"
  by (auto simp: RCCalendarStoreSQL_def is_ok_def split: prod.splits if_splits)

lemma one_statement:
  assumes "RCCalendarStoreSQL [\<lambda>d. sql_statement (f d) d] d = (r, d')"
  shows "txn d' = txn d \<and> same_library d d' \<and> (if is_ok r then f d (tables d) = Some (tables d') else tables d' = tables d)"
proof -
  obtain ok d1 where s: "sql_statement (f d) d = (ok, d1)" by (cases "sql_statement (f d) d")
  with script_result [OF assms] have "d' = d1" "is_ok r = ok" by (cases ok; simp)+
  with statement_result [OF s] show ?thesis by simp
qed

context table_relation begin

lemma does_exec [does_intros]:
  "(\<And>t t' n. f t = Some (t', n) \<Longrightarrow> R t t') \<Longrightarrow> st.keeps (calendar_exec f)"
proof (rule st.keepsI)
  fix d r d' assume f: "\<And>t t' n. f t = Some (t', n) \<Longrightarrow> R t t'" and s: "calendar_exec f d = (r, d')"
  then show "related d d'"
    using exec_result [OF s] by (intro related_step) (auto simp: R_refl split: sum.splits dest: f)
qed

lemma does_statement [does_intros]:
  "(\<And>d t t'. f d t = Some t' \<Longrightarrow> R t t') \<Longrightarrow> st.keeps (RCCalendarStoreSQL [\<lambda>d. sql_statement (f d) d])"
proof (rule st.keepsI)
  fix d r d' assume f: "\<And>d t t'. f d t = Some t' \<Longrightarrow> R t t'" and s: "RCCalendarStoreSQL [\<lambda>d. sql_statement (f d) d] d = (r, d')"
  then show "related d d'"
    using one_statement [OF s] by (intro related_step) (auto simp: R_refl split: if_splits dest: f)
qed

lemma does_find [does_intros]:
  assumes "\<And>v. st.keeps (g v)"
  shows "st.keeps (\<lambda>d. case RCFind q d of (v, d) \<Rightarrow> g v d)"
proof (rule st.keepsI)
  fix d r d' assume *: "(case RCFind q d of (v, d) \<Rightarrow> g v d) = (r, d')"
  obtain v d1 where f: "RCFind q d = (v, d1)" by (cases "RCFind q d")
  from find_result [OF f] have "related d d1" by (intro related_same) simp_all
  moreover have "related d1 d'" using * f st.keepsD [OF assms, of v d1] by simp
  ultimately show "related d d'" by (rule related_trans)
qed

end

section \<open>Elementary changes\<close>

definition row_identity :: "resource_row \<Rightarrow> int \<times> int" where
  "row_identity r = (re_id r, re_calendar r)"

text \<open>What an update of a run may do to a row: keep its identity, and never declare it missing or excluded.\<close>

definition harmless :: "int \<Rightarrow> (resource_row \<Rightarrow> resource_row) \<Rightarrow> bool" where
  "harmless run f \<longleftrightarrow> (\<forall>r. row_identity (f r) = row_identity r \<and> re_href (f r) = re_href r \<and> re_seen (f r) = Some run \<and>
     (re_missing (f r) \<longrightarrow> re_missing r) \<and> (re_excluded (f r) \<longrightarrow> re_excluded r))"

text \<open>The changes to the parsed form of a resource.\<close>

inductive component_change :: "'z calendar_tables_scheme \<Rightarrow> 'z calendar_tables_scheme \<Rightarrow> bool" where
  old_components: "component_change t (drop_components resources t)"
| new_component: "add_component resource parent knd position t = Some (t', i) \<Longrightarrow> component_change t t'"
| new_ical_property: "add_ical_property component position name v type line t = Some (t', i) \<Longrightarrow> component_change t t'"
| new_ical_parameter: "add_ical_parameter prop_id position name v t = Some t' \<Longrightarrow> component_change t t'"
| new_event: "add_event uid row t = Some t' \<Longrightarrow> component_change t t'"

inductive calendar_change :: "int \<Rightarrow> int \<Rightarrow> 'z calendar_tables_scheme \<Rightarrow> 'z calendar_tables_scheme \<Rightarrow> bool" for acct run where
  new_calendar: "add_calendar acct url sync t = Some t' \<Longrightarrow> calendar_change acct run t t'"
| described: "calendar_change acct run t (update_calendars (named_calendar acct url) (describe_calendar c run) t)"
| seen_rows: "harmless run f \<Longrightarrow> calendar_change acct run t (update_resources P f t)"
| new_resource: "add_resource cal href t = Some (t', i) \<Longrightarrow> calendar_change acct run t t'"
| saved_row: "put_resource resource href etag raw parse_error uid run t = Some (t', u) \<Longrightarrow> calendar_change acct run t t'"
| parsed_form: "component_change t t' \<Longrightarrow> calendar_change acct run t t'"
| sync_rows: "calendar_change acct run t (t\<lparr>schema := names, dav_sync_state := rows\<rparr>)"

abbreviation calendar_changes :: "int \<Rightarrow> int \<Rightarrow> 'z calendar_tables_scheme \<Rightarrow> 'z calendar_tables_scheme \<Rightarrow> bool" where
  "calendar_changes acct run \<equiv> (calendar_change acct run)\<^sup>*\<^sup>*"

interpretation cr: table_relation "calendar_changes acct run" for acct run
  by unfold_locales auto

interpretation cc: table_relation "component_change\<^sup>*\<^sup>*"
  by unfold_locales auto

abbreviation component_does :: "('z kdb \<Rightarrow> 'a res \<times> 'z kdb) \<Rightarrow> bool" where
  "component_does \<equiv> cc.st.keeps"

lemma one_component_change: "component_change t t' \<Longrightarrow> component_change\<^sup>*\<^sup>* t t'"
  by (rule r_into_rtranclp)

lemmas component_intros = cc.does_return cc.does_chain cc.does_if cc.does_option cc.does_exec cc.does_statement

abbreviation calendar_does :: "int \<Rightarrow> int \<Rightarrow> ('z kdb \<Rightarrow> 'a res \<times> 'z kdb) \<Rightarrow> bool" where
  "calendar_does acct run \<equiv> cr.st.keeps acct run"

lemma one_calendar_change: "calendar_change acct run t t' \<Longrightarrow> calendar_changes acct run t t'"
  by (rule r_into_rtranclp)

lemmas calendar_intros = cr.does_return cr.does_chain cr.does_if cr.does_option cr.does_find cr.does_exec cr.does_statement

lemma component_changes: "component_change\<^sup>*\<^sup>* t t' \<Longrightarrow> calendar_changes acct run t t'"
  by (rule rtranclp_mono [THEN predicate2D, rotated]) (auto intro: calendar_change.parsed_form)

lemma component_does_calendar: "component_does f \<Longrightarrow> calendar_does acct run f"
  by (rule cr.st.keepsI) (drule (1) cc.st.keepsD, unfold cc.related_def cr.related_def, blast intro: component_changes)

section \<open>Operations are sequences of changes\<close>

lemma does_collection:
  "ks_account store = acct \<Longrightarrow> ks_run store = run \<Longrightarrow> calendar_does acct run (RCCalendarStoreCollection store c)"
  unfolding RCCalendarStoreCollection_def [abs_def] Let_def
  by (intro calendar_intros)
    (auto intro!: one_calendar_change intro: calendar_change.new_calendar calendar_change.described)

lemma seen_harmless: "harmless run (\<lambda>r. r\<lparr>re_seen := Some run, re_missing := False, re_excluded := False\<rparr>)"
  and kept_harmless: "harmless run (\<lambda>r. r\<lparr>re_seen := Some run\<rparr>)"
  by (simp_all add: harmless_def row_identity_def)

lemma does_calendar_seen: "ks_run store = run \<Longrightarrow> calendar_does acct run (RCCalendarStoreSeen store cal href etag)"
  unfolding RCCalendarStoreSeen_def [abs_def] Let_def
  by (intro calendar_intros) (auto intro!: one_calendar_change calendar_change.seen_rows seen_harmless)

lemma does_keep_calendar: "calendar_does acct run (calendar_exec (keep_calendar cal run))"
  by (intro calendar_intros)
    (auto simp: keep_calendar_def Let_def intro!: one_calendar_change calendar_change.seen_rows kept_harmless)

lemma store_parameters_Cons:
  "store_parameters prop_id i (text # rest) =
     (case text of None \<Rightarrow> (\<lambda>d. (Inl (RCErrorSet 1 ''Invalid iCalendar parameter''), d))
      | Some s \<Rightarrow> (\<lambda>d. if CHR ''='' \<notin> set s then (Inl (RCErrorSet 1 ''Invalid iCalendar parameter''), d)
          else chain (RCCalendarStoreSQL [sql_statement (add_ical_parameter prop_id i (takeWhile (\<lambda>c. c \<noteq> CHR ''='') s)
                 (tl (dropWhile (\<lambda>c. c \<noteq> CHR ''='') s)))] d) (\<lambda>_ d. store_parameters prop_id (i + 1) rest d)))"
  by (rule ext) (simp split: option.split)

lemma does_parameters: "component_does (store_parameters prop_id i texts)"
proof (induction texts arbitrary: i)
  case Nil
  then show ?case by (auto intro: cc.st.keepsI)
next
  case (Cons x texts)
  show ?case
  proof (cases x)
    case None
    then show ?thesis unfolding store_parameters_Cons by (simp add: cc.does_return)
  next
    case (Some s)
    show ?thesis unfolding store_parameters_Cons Some option.case
      by (intro component_intros Cons) (auto intro!: one_component_change intro: component_change.new_ical_parameter)
  qed
qed

lemma store_properties_Cons:
  "store_properties ical component i (p # ps) = (\<lambda>d.
     chain (calendar_exec (add_ical_property component i (property_name ical p) (property_text ical p)
       (case property_value ical p of None \<Rightarrow> None | v \<Rightarrow> Some (value_kind_string ical v)) (property_line ical p)) d) (\<lambda>prop_id d.
     chain (store_parameters prop_id 0 (property_parameters ical p) d) (\<lambda>_ d. store_properties ical component (i + 1) ps d)))"
  by (rule ext) simp

lemma does_properties: "component_does (store_properties ical component i ps)"
proof (induction ps arbitrary: i)
  case Nil
  then show ?case by (auto intro: cc.st.keepsI)
next
  case (Cons p ps)
  show ?case unfolding store_properties_Cons
    by (intro component_intros does_parameters Cons) (auto intro!: one_component_change intro: component_change.new_ical_property)
qed

lemma does_event: "component_does (store_event ical resource i c)"
  unfolding store_event_def [abs_def]
  by (intro component_intros) (auto intro!: one_component_change intro: component_change.new_event)

lemma store_component_step:
  "RCStoreComponent ical resource parent position (Component c children) = (\<lambda>d.
     chain (calendar_exec (add_component resource parent (component_kind ical c) position) d) (\<lambda>i d.
     chain (store_properties ical i 0 (component_properties ical c) d) (\<lambda>_ d.
     chain (store_event ical resource i c d) (\<lambda>_ d. store_children ical resource i 0 children d))))"
  by (rule ext) simp

lemma store_children_Cons:
  "store_children ical resource parent position (child # rest) = (\<lambda>d.
     chain (RCStoreComponent ical resource parent position child d) (\<lambda>_ d. store_children ical resource parent (position + 1) rest d))"
  by (rule ext) simp

lemma does_component: "component_does (RCStoreComponent ical resource parent position tree :: 'z kdb \<Rightarrow> _)"
proof (induction tree arbitrary: parent position)
  case (Component c children)
  have trees: "component_does (store_children ical resource i position trees :: 'z kdb \<Rightarrow> _)"
    if "set trees \<subseteq> set children" for i position trees
    using that
  proof (induction trees arbitrary: position)
    case Nil
    then show ?case by (auto intro: cc.st.keepsI)
  next
    case (Cons tree trees)
    then show ?case unfolding store_children_Cons by (intro component_intros Component) auto
  qed
  show ?case unfolding store_component_step
    by (intro component_intros does_properties does_event trees)
      (auto intro!: one_component_change intro: component_change.new_component)
qed

section \<open>Saving is a sequence of changes\<close>

lemma does_resolve: "calendar_does acct run (resolve_uid store cal uid resource)"
  unfolding resolve_uid_def [abs_def] Let_def by (intro calendar_intros)

lemma does_save_row:
  assumes "ks_run store = run"
  shows "calendar_does acct run (save_row resource href etag raw parse_error uid (ks_run store))"
proof (rule cr.st.keepsI)
  fix d d' r assume *: "save_row resource href etag raw parse_error uid (ks_run store) d = (r, d')"
  let ?f = "put_resource resource href etag raw parse_error uid (ks_run store)"
  obtain ok d1 where p: "sql_prepare d = (ok, d1)" by (cases "sql_prepare d")
  obtain x d2 where m: "sql_modify ?f d1 = (x, d2)" by (cases "sql_modify ?f d1")
  from * p m have "d' = (if ok then d2 else d1)" by (auto simp: save_row_def split: option.splits)
  moreover have "cr.related acct run d d1" using sql_prepare_keeps [OF p] by (intro cr.related_same) simp_all
  moreover have "cr.related acct run d1 d2"
    using sql_modify_result [OF m] assms
    by (intro cr.related_step) (auto split: option.splits intro: one_calendar_change calendar_change.saved_row)
  ultimately show "cr.related acct run d d'" by (auto intro: cr.related_trans)
qed

text \<open>The last step of a save, which replaces the parsed form.\<close>

lemma does_parsed:
  "component_does (\<lambda>d. case parsed of Inl e \<Rightarrow> (Inr (), d) | Inr (root, uid) \<Rightarrow>
     chain (RCCalendarStoreSQL [sql_statement (\<lambda>t. Some (drop_components {resource} t))] d) (\<lambda>_ d. RCStoreComponent ical resource 0 0 root d))"
  by (cases parsed; clarsimp intro!: cc.does_return; intro component_intros does_component)
    (auto intro!: one_component_change component_change.old_components)

lemma does_save:
  assumes "ks_run store = run"
  shows "calendar_does acct run (RCCalendarStoreSave ical store cal href etag bytes len)"
proof -
  have parts: "calendar_does acct run (\<lambda>d. case parsed of Inl e \<Rightarrow> (Inr (), d) | Inr (root, uid) \<Rightarrow>
      chain (RCCalendarStoreSQL [sql_statement (\<lambda>t. Some (drop_components {resource} t))] d) (\<lambda>_ d. RCStoreComponent ical resource 0 0 root d))"
    for parsed :: "(_ \<times> string) res" and resource
    by (rule component_does_calendar [OF does_parsed])
  show ?thesis unfolding RCCalendarStoreSave_def [abs_def] Let_def
    by (intro calendar_intros does_resolve does_save_row assms parts)
      (auto intro!: one_calendar_change intro: calendar_change.new_resource)
qed

lemma does_sync_save: "calendar_does acct run (RCDAVSyncStateSave acct' url token scope run')"
  and does_sync_finish: "calendar_does acct run (RCDAVSyncStateFinish acct' run')"
proof -
  have rows: "calendar_changes acct run t t'" if "t' = t \<or> (\<exists>rows. t' = (create_state t)\<lparr>dav_sync_state := rows\<rparr>)"
    for t t' :: "'z calendar_tables_scheme"
    using that
  proof (elim disjE exE)
    fix rows assume t': "t' = (create_state t)\<lparr>dav_sync_state := rows\<rparr>"
    have "(create_state t)\<lparr>dav_sync_state := rows\<rparr> = t\<lparr>schema := schema (create_state t), dav_sync_state := rows\<rparr>"
      by (simp add: create_state_def)
    with t' show ?thesis by (metis one_calendar_change calendar_change.sync_rows)
  qed simp
  show "calendar_does acct run (RCDAVSyncStateSave acct' url token scope run')"
    unfolding cr.st.keeps_def by (blast intro: cr.related_step rows dest: save_tables save_result)
  show "calendar_does acct run (RCDAVSyncStateFinish acct' run')"
    unfolding cr.st.keeps_def by (blast intro: cr.related_step rows dest: finish_tables finish_result)
qed

end
