(* ===== verification/CalendarMirrorContract.thy ===== *)
theory CalendarMirrorContract
  imports CalendarContract
begin

text \<open>
  The calendar mirror as its callers see it: the download leaves the store alone, and the run
  between its start and its finish is a sequence of elementary changes of the store.
\<close>

section \<open>The download leaves the store alone\<close>

definition calendar_untouched :: "'z calendar_mirror \<Rightarrow> 'z calendar_mirror \<Rightarrow> bool" where
  "calendar_untouched m m' \<longleftrightarrow> n_store m' = n_store m \<and> tables (n_db m') = tables (n_db m) \<and> txn (n_db m') = txn (n_db m) \<and>
     same_library (n_db m) (n_db m')"

interpretation lc: state_relation "\<lambda>(s :: 'z calendar_mirror \<times> 'w) s'. calendar_untouched (fst s) (fst s')"
  by unfold_locales (auto simp: calendar_untouched_def intro: same_library_trans)

abbreviation calendar_leaves :: "('z calendar_mirror \<times> 'w \<Rightarrow> 'a res \<times> 'z calendar_mirror \<times> 'w) \<Rightarrow> bool" where
  "calendar_leaves \<equiv> lc.keeps"

lemma leaves_in_world: "calendar_leaves (\<lambda>s. in_world (f s) s)"
  by (rule lc.keepsI) (auto simp: in_world_def calendar_untouched_def split: prod.splits)

lemma leaves_in_stage: "calendar_leaves (\<lambda>s. in_stage (f s) s)"
  by (rule lc.keepsI) (auto simp: in_stage_def calendar_untouched_def split: prod.splits)

lemma leaves_cancel: "calendar_leaves (cancel_check cu)"
  by (rule lc.keepsI) (auto simp: cancel_check_def calendar_untouched_def split: option.splits)

lemma calendar_current_result:
  assumes "RCDAVMirrorCalendarCurrent acct url href etag d = (r, d')"
  shows "tables d' = tables d \<and> txn d' = txn d \<and> same_library d d'"
proof -
  define q where "q = (\<lambda>t :: 'a calendar_tables_scheme. find (\<lambda>r. re_href r = href \<and> re_etag r \<noteq> None \<and> re_etag r = etag \<and> re_raw r \<noteq> [] \<and>
    (\<exists>c \<in> set (calendars t). ca_id c = re_calendar r \<and> named_calendar acct url c)) (calendar_resources t))"
  obtain ok d1 where p: "sql_prepare d = (ok, d1)" by (cases "sql_prepare d")
  obtain x d2 where s: "sql_query q d1 = (x, d2)" by (cases "sql_query q d1")
  from assms p s have "d' = d1 \<or> d' = d2"
    unfolding RCDAVMirrorCalendarCurrent_def Let_def q_def [symmetric] by (auto split: if_splits option.splits)
  with sql_prepare_keeps [OF p] sql_query_result [OF s] show ?thesis by (auto intro: same_library_trans)
qed

lemma leaves_reading:
  assumes "\<And>x d r d'. f x d = (r, d') \<Longrightarrow> tables d' = tables d \<and> txn d' = txn d \<and> same_library d d'"
  shows "calendar_leaves (\<lambda>s. in_database (f (g s)) s)"
  by (rule lc.keepsI) (auto simp: in_database_def calendar_untouched_def split: prod.splits dest!: assms)

lemma leaves_mirror_current: "calendar_leaves (\<lambda>s. in_database (RCDAVMirrorCalendarCurrent (acct s) url href etag) s)"
  by (rule leaves_reading [where f = "\<lambda>a. RCDAVMirrorCalendarCurrent a url href etag"]) (rule calendar_current_result)

lemma leaves_state_load: "calendar_leaves (\<lambda>s. in_database (RCDAVSyncStateLoad (acct s) (Some url)) s)"
  by (rule leaves_reading [where f = "\<lambda>a. RCDAVSyncStateLoad a (Some url)"]) (auto dest: load_result)

lemma leaves_tally: "calendar_leaves f \<Longrightarrow> calendar_leaves (\<lambda>s. f (tally (h s) s))"
  by (erule lc.keeps_after) (simp add: tally_def calendar_untouched_def)

lemma leaves_tallied: "calendar_leaves (\<lambda>s. (g s, tally (h s) s))"
  by (rule lc.keepsI) (simp add: tally_def calendar_untouched_def)

lemmas calendar_leaves_intros = lc.keeps_chain lc.keeps_when lc.keeps_if leaves_in_world leaves_in_stage leaves_cancel
  leaves_mirror_current leaves_state_load leaves_tallied lc.keeps_return

lemma leaves_stage_resource: "calendar_leaves (stage_resource cu client url k r)"
  unfolding stage_resource_def [abs_def] get_resource_def [abs_def] by (intro calendar_leaves_intros)

lemma stage_resources_Cons:
  "stage_resources cu client url k (r # rs) =
     (\<lambda>s. chain (stage_resource cu client url k r s) (\<lambda>_ s. stage_resources cu client url k rs s))"
  by (rule ext) simp

lemma leaves_stage_resources: "calendar_leaves (stage_resources cu client url k rs)"
proof (induction rs)
  case Nil
  show ?case by (rule lc.keepsI) (auto simp: calendar_untouched_def)
next
  case (Cons r rs)
  show ?case unfolding stage_resources_Cons by (intro calendar_leaves_intros leaves_stage_resource Cons)
qed

lemma leaves_fetch_calendar: "calendar_leaves (fetch_calendar lx cu client start coll k)"
  unfolding fetch_calendar_def [abs_def] split_def Let_def
  by (intro calendar_leaves_intros leaves_tally leaves_stage_resources)

lemma fetch_calendars_Cons:
  "fetch_calendars lx cu client start k (c # cs) = (\<lambda>s. chain (cancel_check cu s) (\<lambda>_ s.
     chain (fetch_calendar lx cu client start c k s) (\<lambda>f s.
     chain (fetch_calendars lx cu client start (k + 1) cs s) (\<lambda>fs s. (Inr (f # fs), s)))))"
  by (rule ext) simp

lemma leaves_fetch_calendars: "calendar_leaves (fetch_calendars lx cu client start k cs)"
proof (induction cs arbitrary: k)
  case Nil
  show ?case by (rule lc.keepsI) (auto simp: calendar_untouched_def)
next
  case (Cons c cs)
  show ?case unfolding fetch_calendars_Cons by (intro calendar_leaves_intros leaves_fetch_calendar Cons)
qed

lemma leaves_download_calendars: "calendar_leaves (download_calendars lx cu client start url)"
  unfolding download_calendars_def [abs_def] by (intro calendar_leaves_intros leaves_tally leaves_fetch_calendars)

section \<open>The run is a sequence of changes\<close>

abbreviation calendar_database :: "'z calendar_mirror \<times> 'w \<Rightarrow> 'z kdb" where
  "calendar_database s \<equiv> n_db (fst s)"

interpretation rk: state_relation "\<lambda>(s :: 'z calendar_mirror \<times> 'w) s'.
    ks_account (n_store (fst s)) = acct \<and> ks_run (n_store (fst s)) = run \<longrightarrow>
     n_store (fst s') = n_store (fst s) \<and> cr.related acct run (calendar_database s) (calendar_database s')" for acct run
  by unfold_locales (auto intro: cr.related_trans)

abbreviation calendar_runs_in :: "int \<Rightarrow> int \<Rightarrow> ('z calendar_mirror \<times> 'w \<Rightarrow> 'a res \<times> 'z calendar_mirror \<times> 'w) \<Rightarrow> bool" where
  "calendar_runs_in \<equiv> rk.keeps"

lemma calendar_runsD:
  "calendar_runs_in acct run f \<Longrightarrow> f s = (r, s') \<Longrightarrow> ks_account (n_store (fst s)) = acct \<Longrightarrow> ks_run (n_store (fst s)) = run \<Longrightarrow>
     n_store (fst s') = n_store (fst s) \<and> cr.related acct run (calendar_database s) (calendar_database s')"
  unfolding rk.keeps_def by blast

lemma runs_cancel: "calendar_runs_in acct run (cancel_check cu)"
  by (rule rk.keepsI) (auto simp: cancel_check_def split: option.splits)

lemma runs_in_database: "calendar_does acct run f \<Longrightarrow> calendar_runs_in acct run (in_database f)"
  by (rule rk.keepsI) (auto simp: in_database_def split: prod.splits dest: cr.st.keepsD)

lemma runs_of_store:
  "(\<And>store. ks_account store = acct \<Longrightarrow> ks_run store = run \<Longrightarrow> calendar_runs_in acct run (g store)) \<Longrightarrow>
     calendar_runs_in acct run (\<lambda>s. g (n_store (fst s)) s)"
  unfolding rk.keeps_def by blast

lemma runs_tallied: "calendar_runs_in acct run (\<lambda>s. (g s, tally (h s) s))"
  by (rule rk.keepsI) (simp add: tally_def)

lemma commit_item_related:
  assumes "commitCalendar ical store cal item (d, w) = (r, d', w')" and "ks_run store = run"
  shows "cr.related acct run d d'"
proof -
  obtain action href etag body len where item: "item = (action, href, etag, body, len)" by (metis prod_cases5)
  have seen: "calendar_does acct run (\<lambda>d. chain (RCCalendarStoreSeen store cal href etag d) (\<lambda>current d.
      (if current then Inr () else Inl (RCErrorSet 1 ''Calendar mirror changed during download''), d)))"
    by (intro calendar_intros does_calendar_seen assms)
  show ?thesis
  proof (cases "action = RCDAVStageSeen")
    case True
    with assms(1) item show ?thesis by (auto simp: commitCalendar_def Let_def split: prod.splits dest: cr.st.keepsD [OF seen])
  next
    case False
    with assms(1) item show ?thesis
      by (auto simp: commitCalendar_def Let_def split: prod.splits dest: cr.st.keepsD [OF does_save [OF assms(2)]])
  qed
qed

lemma deliver_calendar_related:
  assumes "ks_run store = run"
  shows "deliver_items (commitCalendar ical store cal) items (d, w) = (r, d', w') \<Longrightarrow> cr.related acct run d d'"
proof (induction items arbitrary: d w)
  case (Cons i items)
  from Cons.prems [unfolded deliver_items.simps] show ?case
  proof (cases rule: chain_cases)
    case (stopped e)
    then show ?thesis by (blast dest: commit_item_related [OF _ assms])
  next
    case (goes_on x s)
    obtain d1 w1 where s: "s = (d1, w1)" by (cases s)
    from cr.related_trans [OF commit_item_related [OF goes_on(1) [unfolded s] assms] Cons.IH [OF goes_on(2) [unfolded s]]] show ?thesis .
  qed
qed simp

lemma calendar_apply_related:
  assumes "RCDAVStageApply st k (commitCalendar ical store cal) sd (d, w) = (r, sd', d', w')" and "ks_run store = run"
  shows "cr.related acct run d d'"
proof -
  obtain ok sd1 where p: "sql_prepare sd = (ok, sd1)" by (cases "sql_prepare sd")
  show ?thesis
  proof (cases ok)
    case False
    with p assms show ?thesis by (simp add: RCDAVStageApply_def)
  next
    case True
    with p assms have "apply_rows st (commitCalendar ical store cal) (staged k (tables sd1)) sd1 (d, w) = (r, sd', d', w')"
      by (simp add: RCDAVStageApply_def)
    from apply_rows_delivers [OF this] obtain dn where "snd (deliver_items (commitCalendar ical store cal) dn (d, w)) = (d', w')" by blast
    then obtain r1 where "deliver_items (commitCalendar ical store cal) dn (d, w) = (r1, d', w')" by (metis prod.collapse)
    then show ?thesis by (rule deliver_calendar_related [OF assms(2)])
  qed
qed

lemma runs_replay: "calendar_runs_in acct run (replay_stage ical (cu :: ('l::len word, 'w) curl) k cal :: 'z calendar_mirror \<times> 'w \<Rightarrow> _)"
proof (rule rk.keepsI, intro impI)
  fix s s' :: "'z calendar_mirror \<times> 'w" and r
  assume *: "replay_stage ical cu k cal s = (r, s')" and store: "ks_account (n_store (fst s)) = acct \<and> ks_run (n_store (fst s)) = run"
  obtain x st d w where a: "RCDAVStageApply (\<lambda>(d, w). stop cu w) k (commitCalendar ical (n_store (fst s)) cal)
      (n_stage (fst s)) (n_db (fst s), snd s) = (x, st, d, w)" by (metis prod_cases4)
  with * have "s' = ((fst s)\<lparr>n_stage := st, n_db := d\<rparr>, w)" by (simp add: replay_stage_def)
  with calendar_apply_related [OF a] store
  show "n_store (fst s') = n_store (fst s) \<and> cr.related acct run (calendar_database s) (calendar_database s')" by simp
qed

lemmas calendar_runs_intros = rk.keeps_chain rk.keeps_if runs_cancel rk.keeps_return runs_replay runs_in_database runs_tallied

lemma runs_retain: "calendar_runs_in acct run (retain_calendar cal run)"
  unfolding retain_calendar_def [abs_def] by (intro calendar_runs_intros does_keep_calendar)

lemma runs_calendar_steps:
  assumes "ks_account store = acct" and "ks_run store = run"
  shows "calendar_runs_in acct run (calendar_steps ical cu start k coll f store)"
  unfolding calendar_steps_def [abs_def] assms(2)
  by (intro calendar_runs_intros runs_retain does_collection does_sync_save assms)

lemma runs_commit_calendar: "calendar_runs_in acct run (commit_calendar ical cu start k coll f)"
  unfolding commit_calendar_def [abs_def]
  by (intro rk.keeps_chain runs_cancel runs_of_store [where g = "calendar_steps ical cu start k coll f"] runs_calendar_steps)

lemma commit_calendars_Cons:
  "commit_calendars ical cu start k ((c, f) # rest) =
     (\<lambda>s. chain (commit_calendar ical cu start k c f s) (\<lambda>_ s. commit_calendars ical cu start (k + 1) rest s))"
  by (rule ext) simp

lemma runs_commit_calendars: "calendar_runs_in acct run (commit_calendars ical cu start k work)"
proof (induction work arbitrary: k)
  case Nil
  then show ?case by (auto intro: rk.keepsI)
next
  case (Cons x work)
  obtain c f where x: "x = (c, f)" by (cases x)
  show ?case unfolding x commit_calendars_Cons by (intro calendar_runs_intros runs_commit_calendar Cons)
qed

lemma runs_calendar_body: "calendar_runs_in acct run (calendar_run ical cu start work)"
  unfolding calendar_run_def [abs_def]
  by (intro rk.keeps_chain runs_cancel runs_commit_calendars runs_in_database does_sync_finish
      runs_of_store [where g = "\<lambda>store. in_database (RCDAVSyncStateFinish (ks_account store) (ks_run store))"])

end
