(* ===== verification/CalendarInvariant.thy ===== *)
theory CalendarInvariant
  imports CalendarContract ContactInvariant
begin

text \<open>
  The well-formedness of the calendar mirror, as its schema intends it, and its preservation by
  every elementary change of a run and by the operations outside a run.
\<close>

section \<open>Well-formed tables\<close>

text \<open>Primary keys and unique columns.\<close>

definition calendar_keys :: "'z calendar_tables_scheme \<Rightarrow> bool" where
  "calendar_keys t \<longleftrightarrow> distinct (map acc_id (accounts t)) \<and> distinct (map acc_username (accounts t)) \<and>
     distinct (map ru_id (calendar_runs t)) \<and>
     distinct (map ca_id (calendars t)) \<and> distinct (map (\<lambda>c. (ca_account c, ca_url c)) (calendars t)) \<and>
     distinct (map re_id (calendar_resources t)) \<and> distinct (map (\<lambda>r. (re_calendar r, re_href r)) (calendar_resources t)) \<and>
     distinct (map (\<lambda>i. (sr_owner i, sr_key i)) (sync_record_ids t)) \<and> distinct (map sr_sync (sync_record_ids t)) \<and>
     distinct (map co_id (ical_components t)) \<and> distinct (map cp_id (ical_properties t)) \<and>
     distinct (map cq_id (ical_parameters t)) \<and> distinct (map ev_component (events t)) \<and>
     distinct (map (\<lambda>e. (ev_resource e, ev_recurrence e)) (events t))"

text \<open>Foreign keys, but for the parent of a component.\<close>

definition calendar_refs :: "'z calendar_tables_scheme \<Rightarrow> bool" where
  "calendar_refs t \<longleftrightarrow> ru_account ` set (calendar_runs t) \<subseteq> acc_id ` set (accounts t) \<and>
     ca_account ` set (calendars t) \<subseteq> acc_id ` set (accounts t) \<and>
     re_calendar ` set (calendar_resources t) \<subseteq> ca_id ` set (calendars t) \<and>
     co_resource ` set (ical_components t) \<subseteq> re_id ` set (calendar_resources t) \<and>
     cp_component ` set (ical_properties t) \<subseteq> co_id ` set (ical_components t) \<and>
     cq_property ` set (ical_parameters t) \<subseteq> cp_id ` set (ical_properties t) \<and>
     ev_component ` set (events t) \<subseteq> co_id ` set (ical_components t) \<and>
     ev_resource ` set (events t) \<subseteq> re_id ` set (calendar_resources t)"

definition calendar_ok :: "'z calendar_tables_scheme \<Rightarrow> bool" where
  "calendar_ok t \<longleftrightarrow> calendar_keys t \<and> calendar_refs t"

lemmas calendar_ok_defs = calendar_ok_def calendar_keys_def calendar_refs_def

text \<open>No resource is removed or moved to another calendar.\<close>

definition keeps_resources :: "'z calendar_tables_scheme \<Rightarrow> 'z calendar_tables_scheme \<Rightarrow> bool" where
  "keeps_resources t t' \<longleftrightarrow> row_identity ` set (calendar_resources t) \<subseteq> row_identity ` set (calendar_resources t')"

text \<open>No resource is newly declared missing.\<close>

definition none_missing :: "'z calendar_tables_scheme \<Rightarrow> 'z calendar_tables_scheme \<Rightarrow> bool" where
  "none_missing t t' \<longleftrightarrow> (\<forall>r' \<in> set (calendar_resources t'). re_missing r' \<longrightarrow>
     (\<exists>r \<in> set (calendar_resources t). row_identity r = row_identity r' \<and> re_missing r))"

lemma keeps_resources_refl [simp, intro]: "keeps_resources t t"
  and none_missing_refl [simp, intro]: "none_missing t t"
  by (auto simp: keeps_resources_def none_missing_def)

lemma keeps_resources_trans: "keeps_resources a b \<Longrightarrow> keeps_resources b c \<Longrightarrow> keeps_resources a c"
  by (auto simp: keeps_resources_def)

lemma none_missing_trans: "none_missing a b \<Longrightarrow> none_missing b c \<Longrightarrow> none_missing a c"
  unfolding none_missing_def by metis

section \<open>Elementary changes preserve it\<close>

lemma distinct_update_rows:
  assumes "distinct (map k xs)" and "\<And>r s. r \<in> set xs \<Longrightarrow> s \<in> set xs \<Longrightarrow> P r \<Longrightarrow> \<not> P s \<Longrightarrow> k (f r) \<noteq> k s"
    and "\<And>r s. r \<in> set xs \<Longrightarrow> s \<in> set xs \<Longrightarrow> P r \<Longrightarrow> P s \<Longrightarrow> r = s"
  shows "distinct (map k (update_rows P f xs))"
  using assms
proof (induction xs)
  case (Cons x xs)
  have x: "x \<notin> set xs" using Cons.prems(1) by auto
  have ne: "k (if P x then f x else x) \<noteq> k (if P y then f y else y)" if "y \<in> set xs" for y
  proof (cases "P x")
    case True
    with x that Cons.prems(3) [of x y] have "\<not> P y" by auto
    with True that Cons.prems(2) [of x y] show ?thesis by simp
  next
    case False
    from Cons.prems(1) that have "k x \<noteq> k y" by auto
    moreover from False that Cons.prems(2) [of y x] have "k (f y) \<noteq> k x" if "P y" using that by simp
    ultimately show ?thesis using False by auto
  qed
  have "k (if P x then f x else x) \<notin> k ` set (update_rows P f xs)"
  proof
    assume "k (if P x then f x else x) \<in> k ` set (update_rows P f xs)"
    then obtain y where "y \<in> set xs" "k (if P x then f x else x) = k (if P y then f y else y)"
      unfolding set_update_rows by blast
    with ne show False by blast
  qed
  moreover have "distinct (map k (update_rows P f xs))" by (rule Cons.IH) (use Cons.prems in simp_all)
  ultimately show ?case by (simp only: table_simps list.map distinct.simps(2) set_map) simp
qed (simp add: table_simps)

lemma resource_columns:
  assumes "\<And>r. P r \<Longrightarrow> row_identity (f r) = row_identity r"
  shows "map re_id (update_rows P f rs) = map re_id rs" "map re_calendar (update_rows P f rs) = map re_calendar rs"
  using assms by (auto intro!: map_update_rows simp: row_identity_def)

lemma resource_rows_ok:
  assumes "calendar_ok t" and "\<And>r. P r \<Longrightarrow> row_identity (f r) = row_identity r" and "\<And>r. P r \<Longrightarrow> re_href (f r) = re_href r"
  shows "calendar_ok (update_resources P f t)"
proof -
  have "map (\<lambda>r. (re_calendar r, re_href r)) (update_rows P f (calendar_resources t)) =
      map (\<lambda>r. (re_calendar r, re_href r)) (calendar_resources t)"
    using assms(2,3) by (auto intro!: map_update_rows simp: row_identity_def)
  with assms(1) resource_columns [OF assms(2), of P "calendar_resources t"] show ?thesis
    using image_of_map [OF resource_columns(1) [OF assms(2)], of P "calendar_resources t"]
      image_of_map [OF resource_columns(2) [OF assms(2)], of P "calendar_resources t"]
    by (simp add: calendar_ok_defs update_resources_def)
qed

lemma calendar_rows_ok:
  assumes "calendar_ok t" and "\<And>c. ca_id (f c) = ca_id c \<and> ca_account (f c) = ca_account c \<and> ca_url (f c) = ca_url c"
  shows "calendar_ok (update_calendars P f t)"
proof -
  have c: "map ca_id (update_rows P f (calendars t)) = map ca_id (calendars t)"
    "map ca_account (update_rows P f (calendars t)) = map ca_account (calendars t)"
    "map (\<lambda>c. (ca_account c, ca_url c)) (update_rows P f (calendars t)) = map (\<lambda>c. (ca_account c, ca_url c)) (calendars t)"
    using assms(2) by (auto intro!: map_update_rows)
  with assms(1) image_of_map [OF c(1)] image_of_map [OF c(2)] show ?thesis
    by (simp add: calendar_ok_defs update_calendars_def)
qed

lemma add_calendar_result:
  "add_calendar acct url sync t = Some t' \<Longrightarrow> t' = t \<or>
     (\<forall>c \<in> set (calendars t). \<not> named_calendar acct url c) \<and> acct \<in> acc_id ` set (accounts t) \<and>
     t' = t\<lparr>calendars := calendars t @ [fresh_calendar (next_rowid (map ca_id (calendars t))) acct url sync]\<rparr>"
  by (auto simp: add_calendar_def has_account_def split: if_splits)

lemma add_resource_result:
  "add_resource cal href t = Some (t', i) \<Longrightarrow> i = next_rowid (map re_id (calendar_resources t)) \<and>
     (\<forall>r \<in> set (calendar_resources t). \<not> at_resource cal href r) \<and> cal \<in> ca_id ` set (calendars t) \<and>
     t' = t\<lparr>calendar_resources := calendar_resources t @ [fresh_resource i cal href]\<rparr>"
  by (auto simp: add_resource_def Let_def split: if_splits)

lemma add_event_result:
  "add_event uid row t = Some t' \<Longrightarrow> \<exists>e. t' = t\<lparr>events := events t @ [e]\<rparr> \<and> ev_component e \<notin> ev_component ` set (events t) \<and>
     ev_component e \<in> co_id ` set (ical_components t) \<and> ev_resource e \<in> re_id ` set (calendar_resources t) \<and>
     (\<forall>x \<in> set (events t). \<not> (ev_resource x = ev_resource e \<and> ev_recurrence x = ev_recurrence e))"
  unfolding add_event_def Let_def by (cases uid) (simp_all split: if_splits, blast)

lemma new_calendar_ok:
  assumes "calendar_ok t" and "add_calendar acct url sync t = Some t'"
  shows "calendar_ok t'"
proof (cases "t' = t")
  case False
  with add_calendar_result [OF assms(2)] have a: "\<forall>c \<in> set (calendars t). \<not> named_calendar acct url c" "acct \<in> acc_id ` set (accounts t)"
    and t': "t' = t\<lparr>calendars := calendars t @ [fresh_calendar (next_rowid (map ca_id (calendars t))) acct url sync]\<rparr>" by blast+
  from a(1) have "(acct, url) \<notin> (\<lambda>c. (ca_account c, ca_url c)) ` set (calendars t)" by (auto simp: named_calendar_def)
  with assms(1) a(2) show ?thesis unfolding t' by (simp add: calendar_ok_defs subset_insertI2 fresh_calendar_def)
qed (use assms(1) in simp)

lemma new_resource_ok:
  assumes "calendar_ok t" and "add_resource cal href t = Some (t', i)"
  shows "calendar_ok t'"
proof -
  from add_resource_result [OF assms(2)] have a: "\<forall>r \<in> set (calendar_resources t). \<not> at_resource cal href r" "cal \<in> ca_id ` set (calendars t)"
    and i: "i = next_rowid (map re_id (calendar_resources t))"
    and t': "t' = t\<lparr>calendar_resources := calendar_resources t @ [fresh_resource i cal href]\<rparr>" by blast+
  from a(1) have "(cal, href) \<notin> (\<lambda>r. (re_calendar r, re_href r)) ` set (calendar_resources t)" by (auto simp: at_resource_def)
  with assms(1) a(2) show ?thesis unfolding t' i by (simp add: calendar_ok_defs subset_insertI2 fresh_resource_def)
qed

lemma new_event_ok:
  assumes "calendar_ok t" and "add_event uid row t = Some t'"
  shows "calendar_ok t'"
proof -
  from add_event_result [OF assms(2)] obtain e where t': "t' = t\<lparr>events := events t @ [e]\<rparr>" and e: "ev_component e \<notin> ev_component ` set (events t)"
    "ev_component e \<in> co_id ` set (ical_components t)" "ev_resource e \<in> re_id ` set (calendar_resources t)"
    "\<forall>x \<in> set (events t). \<not> (ev_resource x = ev_resource e \<and> ev_recurrence x = ev_recurrence e)" by blast
  from e(4) have "(ev_resource e, ev_recurrence e) \<notin> (\<lambda>e. (ev_resource e, ev_recurrence e)) ` set (events t)" by auto
  with assms(1) e(1-3) show ?thesis unfolding t' by (simp add: calendar_ok_defs)
qed

lemma add_component_result:
  "add_component resource parent k position t = Some (t', i) \<Longrightarrow> resource \<in> re_id ` set (calendar_resources t) \<and>
     (\<exists>x. t' = t\<lparr>ical_components := ical_components t @ [x]\<rparr> \<and> co_id x = next_rowid (map co_id (ical_components t)) \<and> co_resource x = resource)"
  unfolding add_component_def Let_def by (simp_all split: if_splits; (elim conjE)?; (rule exI, rule conjI, rule sym, assumption, simp))

lemma new_component_ok:
  assumes "calendar_ok t" and "add_component resource parent k position t = Some (t', i)"
  shows "calendar_ok t'"
proof -
  from add_component_result [OF assms(2)] obtain x where x: "t' = t\<lparr>ical_components := ical_components t @ [x]\<rparr>" "resource \<in> re_id ` set (calendar_resources t)"
    "co_id x = next_rowid (map co_id (ical_components t))" "co_resource x = resource" by blast
  with assms(1) show ?thesis unfolding x(1) by (simp add: calendar_ok_defs subset_insertI2)
qed

lemma add_ical_property_result:
  "add_ical_property component position name v type line t = Some (t', i) \<Longrightarrow> component \<in> co_id ` set (ical_components t) \<and>
     (\<exists>x. t' = t\<lparr>ical_properties := ical_properties t @ [x]\<rparr> \<and> cp_id x = next_rowid (map cp_id (ical_properties t)) \<and> cp_component x = component)"
  unfolding add_ical_property_def Let_def by (simp_all split: if_splits option.splits; (elim conjE)?; (rule exI, rule conjI, rule sym, assumption, simp))

lemma new_ical_property_ok:
  assumes "calendar_ok t" and "add_ical_property component position name v type line t = Some (t', i)"
  shows "calendar_ok t'"
proof -
  from add_ical_property_result [OF assms(2)] obtain x where x: "t' = t\<lparr>ical_properties := ical_properties t @ [x]\<rparr>" "component \<in> co_id ` set (ical_components t)"
    "cp_id x = next_rowid (map cp_id (ical_properties t))" "cp_component x = component" by blast
  with assms(1) show ?thesis unfolding x(1) by (simp add: calendar_ok_defs subset_insertI2)
qed

lemma add_ical_parameter_result:
  "add_ical_parameter p position name v t = Some t' \<Longrightarrow> p \<in> cp_id ` set (ical_properties t) \<and>
     (\<exists>x. t' = t\<lparr>ical_parameters := ical_parameters t @ [x]\<rparr> \<and> cq_id x = next_rowid (map cq_id (ical_parameters t)) \<and> cq_property x = p)"
  unfolding add_ical_parameter_def Let_def by (simp_all split: if_splits; (elim conjE)?; (rule exI, rule conjI, rule sym, assumption, simp))

lemma new_ical_parameter_ok:
  assumes "calendar_ok t" and "add_ical_parameter p position name v t = Some t'"
  shows "calendar_ok t'"
proof -
  from add_ical_parameter_result [OF assms(2)] obtain x where x: "t' = t\<lparr>ical_parameters := ical_parameters t @ [x]\<rparr>" "p \<in> cp_id ` set (ical_properties t)"
    "cq_id x = next_rowid (map cq_id (ical_parameters t))" "cq_property x = p" by blast
  with assms(1) show ?thesis unfolding x(1) by (simp add: calendar_ok_defs subset_insertI2)
qed

lemma kept_refs:
  assumes "r ` set qs \<subseteq> k ` set xs"
  shows "r ` set (filter (\<lambda>q. r q \<notin> k ` set (filter P xs)) qs) \<subseteq> k ` set (filter (\<lambda>x. \<not> P x) xs)"
proof
  fix i assume "i \<in> r ` set (filter (\<lambda>q. r q \<notin> k ` set (filter P xs)) qs)"
  then obtain q where q: "i = r q" "q \<in> set qs" "i \<notin> k ` set (filter P xs)" by auto
  with assms obtain x where "x \<in> set xs" "i = k x" by blast
  with q(3) show "i \<in> k ` set (filter (\<lambda>x. \<not> P x) xs)" by auto
qed

lemma drop_components_ok:
  assumes "calendar_ok t"
  shows "calendar_ok (drop_components R t)"
proof -
  let ?comps = "filter (\<lambda>c. co_resource c \<notin> R) (ical_components t)"
  let ?gone = "co_id ` set (filter (\<lambda>c. co_resource c \<in> R) (ical_components t))"
  let ?props = "filter (\<lambda>p. cp_component p \<notin> ?gone) (ical_properties t)"
  have refs: "calendar_refs t" using assms by (simp add: calendar_ok_def)
  then have c: "cp_component ` set (ical_properties t) \<subseteq> co_id ` set (ical_components t)"
    "ev_component ` set (events t) \<subseteq> co_id ` set (ical_components t)"
    "cq_property ` set (ical_parameters t) \<subseteq> cp_id ` set (ical_properties t)" by (simp_all add: calendar_refs_def)
  have "cp_component ` set ?props \<subseteq> co_id ` set ?comps" by (rule kept_refs [OF c(1)])
  moreover have "ev_component ` set (filter (\<lambda>e. ev_component e \<notin> ?gone) (events t)) \<subseteq> co_id ` set ?comps" by (rule kept_refs [OF c(2)])
  moreover have "cq_property ` set (filter (\<lambda>p. cq_property p \<notin> cp_id ` set (filter (\<lambda>p. cp_component p \<in> ?gone) (ical_properties t)))
      (ical_parameters t)) \<subseteq> cp_id ` set ?props" by (rule kept_refs [OF c(3)])
  moreover have "co_resource ` set ?comps \<subseteq> re_id ` set (calendar_resources t)"
    "ev_resource ` set (filter (\<lambda>e. ev_component e \<notin> ?gone) (events t)) \<subseteq> re_id ` set (calendar_resources t)"
    using refs unfolding calendar_refs_def by auto
  ultimately have "calendar_refs (drop_components R t)"
    using refs unfolding calendar_refs_def drop_components_def Let_def by (simp del: set_filter)
  moreover have "calendar_keys (drop_components R t)"
    using assms by (simp add: calendar_ok_defs drop_components_def Let_def filter_keys_distinct)
  ultimately show ?thesis by (simp add: calendar_ok_def)
qed

text \<open>A saved row may take a new address, which is unique in its calendar.\<close>

lemma saved_row_identity [simp]:
  "row_identity (saved_resource href etag raw e uid run r) = row_identity r"
  "re_href (saved_resource href etag raw e uid run r) = href"
  "\<not> re_missing (saved_resource href etag raw e uid run r)" "\<not> re_excluded (saved_resource href etag raw e uid run r)"
  "re_seen (saved_resource href etag raw e uid run r) = Some run"
  "re_raw (saved_resource href etag raw e uid run r) = raw"
  by (simp_all add: saved_resource_def row_identity_def)

lemma put_resource_result:
  assumes "put_resource resource href etag raw e uid run t = Some (t', u)"
  shows "t' = t \<or> (\<exists>row body. raw = Some body \<and> row \<in> set (calendar_resources t) \<and> re_id row = resource \<and>
    (\<forall>r \<in> set (calendar_resources t). re_id r \<noteq> resource \<longrightarrow> \<not> at_resource (re_calendar row) href r) \<and>
    t' = update_resources (\<lambda>r. re_id r = resource) (saved_resource href etag body e uid run) t)"
proof (cases "find (\<lambda>r. re_id r = resource) (calendar_resources t)")
  case (Some row)
  then have "row \<in> set (calendar_resources t)" "re_id row = resource" by (auto simp: find_Some_iff)
  with Some assms show ?thesis by (auto simp: put_resource_def split: option.splits if_splits)
qed (use assms in \<open>simp add: put_resource_def\<close>)

lemma put_resource_ok:
  assumes "calendar_ok t" and "put_resource resource href etag raw e uid run t = Some (t', u)"
  shows "calendar_ok t'"
proof (cases "t' = t")
  case False
  let ?f = "\<lambda>body. saved_resource href etag body e uid run" and ?P = "\<lambda>r. re_id r = resource"
  from put_resource_result [OF assms(2)] False obtain row body where row: "row \<in> set (calendar_resources t)" "re_id row = resource"
    "\<forall>r \<in> set (calendar_resources t). re_id r \<noteq> resource \<longrightarrow> \<not> at_resource (re_calendar row) href r"
    and t': "t' = update_resources ?P (?f body) t" by blast
  from assms(1) have keys: "distinct (map re_id (calendar_resources t))" "distinct (map (\<lambda>r. (re_calendar r, re_href r)) (calendar_resources t))"
    by (simp_all add: calendar_ok_defs)
  have one: "r = s" if "r \<in> set (calendar_resources t)" "s \<in> set (calendar_resources t)" "re_id r = resource" "re_id s = resource" for r s
    using keys(1) that by (simp add: distinct_map inj_on_def)
  have cal: "re_calendar (?f body r) = re_calendar r" for r by (simp add: saved_resource_def)
  have "distinct (map (\<lambda>r. (re_calendar r, re_href r)) (update_rows ?P (?f body) (calendar_resources t)))"
  proof (rule distinct_update_rows [OF keys(2)])
    fix r s assume r: "r \<in> set (calendar_resources t)" "s \<in> set (calendar_resources t)" "?P r" "\<not> ?P s"
    with one [of r row] row have "r = row" "\<not> at_resource (re_calendar row) href s" by blast+
    then show "(re_calendar (?f body r), re_href (?f body r)) \<noteq> (re_calendar s, re_href s)" by (auto simp: at_resource_def cal)
  qed (rule one)
  moreover have id: "row_identity (?f body r) = row_identity r" for r by simp
  note cols = resource_columns [where P = "?P" and f = "?f body" and rs = "calendar_resources t", OF id]
  moreover note image_of_map [OF cols(1)] image_of_map [OF cols(2)]
  ultimately show ?thesis using assms(1) unfolding t' by (simp add: calendar_ok_defs update_resources_def)
qed (use assms(1) in simp)

lemma component_change_ok: "component_change t t' \<Longrightarrow> calendar_ok t \<Longrightarrow> calendar_ok t'"
  by (erule component_change.cases)
    (blast intro: drop_components_ok new_component_ok new_ical_property_ok new_ical_parameter_ok new_event_ok)+

lemma calendar_change_ok:
  assumes "calendar_change acct run t t'" and "calendar_ok t"
  shows "calendar_ok t'"
  using assms(1)
proof (cases rule: calendar_change.cases)
  case described
  with assms(2) show ?thesis by (simp add: calendar_rows_ok describe_calendar_def)
next
  case (seen_rows f P)
  with assms(2) show ?thesis by (simp add: resource_rows_ok harmless_def)
next
  case sync_rows
  with assms(2) show ?thesis by (simp add: calendar_ok_defs)
qed (use assms(2) in \<open>blast intro: new_calendar_ok new_resource_ok put_resource_ok component_change_ok\<close>)+

section \<open>Resources keep their identity and are not declared missing\<close>

lemma components_leave:
  "calendar_resources (drop_components R t) = calendar_resources t" "calendars (drop_components R t) = calendars t"
  "accounts (drop_components R t) = accounts t" "calendar_runs (drop_components R t) = calendar_runs t"
  by (simp_all add: drop_components_def Let_def)

lemma additions_leave:
  "add_component resource parent k position t = Some (t', i) \<Longrightarrow> calendar_resources t' = calendar_resources t \<and> calendars t' = calendars t \<and> accounts t' = accounts t \<and> calendar_runs t' = calendar_runs t"
  "add_ical_property component position name v type line t = Some (t', i) \<Longrightarrow> calendar_resources t' = calendar_resources t \<and> calendars t' = calendars t \<and> accounts t' = accounts t \<and> calendar_runs t' = calendar_runs t"
  "add_ical_parameter p position n w t = Some t' \<Longrightarrow> calendar_resources t' = calendar_resources t \<and> calendars t' = calendars t \<and> accounts t' = accounts t \<and> calendar_runs t' = calendar_runs t"
  "add_event uid row t = Some t' \<Longrightarrow> calendar_resources t' = calendar_resources t \<and> calendars t' = calendars t \<and> accounts t' = accounts t \<and> calendar_runs t' = calendar_runs t"
  "add_calendar acct url sync t = Some t' \<Longrightarrow> calendar_resources t' = calendar_resources t \<and> accounts t' = accounts t \<and> calendar_runs t' = calendar_runs t"
proof -
  show "calendar_resources t' = calendar_resources t \<and> calendars t' = calendars t \<and> accounts t' = accounts t \<and> calendar_runs t' = calendar_runs t"
    if "add_component resource parent k position t = Some (t', i)" using add_component_result [OF that] by force
  show "calendar_resources t' = calendar_resources t \<and> calendars t' = calendars t \<and> accounts t' = accounts t \<and> calendar_runs t' = calendar_runs t"
    if "add_ical_property component position name v type line t = Some (t', i)" using add_ical_property_result [OF that] by force
  show "calendar_resources t' = calendar_resources t \<and> calendars t' = calendars t \<and> accounts t' = accounts t \<and> calendar_runs t' = calendar_runs t"
    if "add_ical_parameter p position n w t = Some t'" using add_ical_parameter_result [OF that] by force
  show "calendar_resources t' = calendar_resources t \<and> calendars t' = calendars t \<and> accounts t' = accounts t \<and> calendar_runs t' = calendar_runs t"
    if "add_event uid row t = Some t'" using add_event_result [OF that] by force
  show "calendar_resources t' = calendar_resources t \<and> accounts t' = accounts t \<and> calendar_runs t' = calendar_runs t"
    if "add_calendar acct url sync t = Some t'" using add_calendar_result [OF that] by force
qed

lemma parsed_form_leaves:
  assumes "component_change t t'"
  shows "calendar_resources t' = calendar_resources t \<and> calendars t' = calendars t \<and> accounts t' = accounts t \<and> calendar_runs t' = calendar_runs t"
  using assms by cases (simp_all add: components_leave, (blast dest: additions_leave)+)

lemma same_rows:
  "calendar_resources t' = calendar_resources t \<Longrightarrow> keeps_resources t t'"
  "calendar_resources t' = calendar_resources t \<Longrightarrow> none_missing t t'"
  by (auto simp: keeps_resources_def none_missing_def)

lemma updated_keeps:
  assumes "\<And>r. row_identity (f r) = row_identity r" and "\<And>r. re_missing (f r) \<Longrightarrow> re_missing r"
  shows "keeps_resources t (update_resources P f t) \<and> none_missing t (update_resources P f t)"
proof
  have "map row_identity (update_rows P f (calendar_resources t)) = map row_identity (calendar_resources t)"
    using assms(1) by (simp add: map_update_rows)
  from image_of_map [OF this] show "keeps_resources t (update_resources P f t)" by (simp add: keeps_resources_def update_resources_def)
  show "none_missing t (update_resources P f t)" unfolding none_missing_def update_resources_def
    by (auto elim!: in_update_rowsE simp: assms(1) dest: assms(2))
qed

text \<open>A step of a run, as a relation of its own: identities, missing flags, accounts and the log.\<close>

definition run_step :: "'z calendar_tables_scheme \<Rightarrow> 'z calendar_tables_scheme \<Rightarrow> bool" where
  "run_step t t' \<longleftrightarrow> keeps_resources t t' \<and> none_missing t t' \<and> accounts t' = accounts t \<and> calendar_runs t' = calendar_runs t \<and>
     (calendar_ok t \<longrightarrow> calendar_ok t')"

lemma calendar_change_step:
  assumes "calendar_change acct run t t'"
  shows "run_step t t'"
proof -
  have "keeps_resources t t' \<and> none_missing t t' \<and> accounts t' = accounts t \<and> calendar_runs t' = calendar_runs t"
    using assms
  proof (cases rule: calendar_change.cases)
    case described
    then show ?thesis by (simp add: update_calendars_def keeps_resources_def none_missing_def) blast
  next
    case (seen_rows f P)
    with updated_keeps [of f t P] show ?thesis by (simp add: harmless_def update_resources_def)
  next
    case (new_resource cal href i)
    then have "t' = t\<lparr>calendar_resources := calendar_resources t @ [fresh_resource i cal href]\<rparr>" by (blast dest: add_resource_result)
    then show ?thesis by (auto simp: keeps_resources_def none_missing_def fresh_resource_def)
  next
    case (saved_row resource href etag raw e uid u)
    then consider "t' = t" | body where "t' = update_resources (\<lambda>r. re_id r = resource) (saved_resource href etag body e uid run) t"
      by (blast dest: put_resource_result)
    then show ?thesis
    proof cases
      case 2
      with updated_keeps [of "saved_resource href etag body e uid run" t "\<lambda>r. re_id r = resource"] show ?thesis
        by (simp add: update_resources_def)
    qed auto
  next
    case parsed_form
    then show ?thesis by (auto intro: same_rows dest: parsed_form_leaves)
  qed (auto intro: same_rows dest!: additions_leave)
  with calendar_change_ok [OF assms] show ?thesis by (simp add: run_step_def)
qed

lemma calendar_changes_step: "calendar_changes acct run t t' \<Longrightarrow> run_step t t'"
proof (induction rule: rtranclp_induct)
  case base
  then show ?case by (auto simp: run_step_def)
next
  case (step b c)
  from calendar_change_step [OF step.hyps(2)] step.IH show ?case
    by (auto simp: run_step_def intro: keeps_resources_trans none_missing_trans)
qed

end
