(* ===== verification/CalendarAtomicity.thy ===== *)
theory CalendarAtomicity
  imports CalendarMirrorContract CalendarInvariant MirrorAtomicity
begin

text \<open>
  The transaction of the calendar mirror: a synchronisation leaves no transaction open, and the
  store has either what it had, but for the log of runs, or the whole run.
\<close>

section \<open>Beginning and finishing a run\<close>

definition logless :: "'z calendar_tables_scheme \<Rightarrow> 'z calendar_tables_scheme" where
  "logless t = t\<lparr>calendar_runs := []\<rparr>"

text \<open>Nothing but the log has changed, and the tables are as well-formed as before.\<close>

definition calendar_undone :: "'z calendar_tables_scheme \<Rightarrow> 'z calendar_tables_scheme \<Rightarrow> bool" where
  "calendar_undone t t' \<longleftrightarrow> logless t' = logless t \<and> (calendar_ok t \<longrightarrow> calendar_ok t')"

lemma calendar_undone_refl [simp, intro]: "calendar_undone t t"
  by (simp add: calendar_undone_def)

lemma calendar_undone_trans: "calendar_undone a b \<Longrightarrow> calendar_undone b c \<Longrightarrow> calendar_undone a c"
  by (simp add: calendar_undone_def)

text \<open>The tables when a run of the account has begun.\<close>

definition run_begun :: "int \<Rightarrow> int \<Rightarrow> 'z calendar_tables_scheme \<Rightarrow> 'z calendar_tables_scheme \<Rightarrow> bool" where
  "run_begun acct run t t' \<longleftrightarrow> 0 < run \<and> run \<notin> ru_id ` set (calendar_runs t) \<and>
     (\<exists>r. ru_account r = acct \<and> t' = t\<lparr>calendar_runs := calendar_runs t @ [r]\<rparr>) \<and> (calendar_ok t \<longrightarrow> calendar_ok t')"

lemma run_begun_undone: "run_begun acct run t t' \<Longrightarrow> calendar_undone t t'"
  by (auto simp: run_begun_def calendar_undone_def logless_def)

lemma add_calendar_run_begun:
  assumes "add_calendar_run acct t = Some (t', run)"
  shows "run_begun acct run t t'"
proof -
  let ?r = "\<lparr>ru_id = next_rowid (map ru_id (calendar_runs t)), ru_account = acct, ru_finished = False, ru_succeeded = None, ru_message = None\<rparr>"
  from assms have a: "acct \<in> acc_id ` set (accounts t)" "run = next_rowid (map ru_id (calendar_runs t))"
    and t': "t' = t\<lparr>calendar_runs := calendar_runs t @ [?r]\<rparr>"
    by (auto simp: add_calendar_run_def has_account_def Let_def split: if_splits)
  have "calendar_ok t \<longrightarrow> calendar_ok t'" using a(1) unfolding t' by (simp add: calendar_ok_defs)
  moreover have "\<exists>r. ru_account r = acct \<and> t' = t\<lparr>calendar_runs := calendar_runs t @ [r]\<rparr>" by (rule exI [of _ ?r]) (simp add: t')
  ultimately show ?thesis by (simp add: run_begun_def a(2) next_rowid_pos)
qed

lemma begin_script:
  assumes "RCCalendarStoreSQL [sql_begin] d = (r, d')"
  shows "sql_begin d = (is_ok r, d')"
  using script_result [OF assms] by (auto split: prod.splits if_splits)

lemma rollback_script: "snd (RCCalendarStoreSQL [sql_rollback] d) = snd (sql_rollback d)"
  by (auto simp: RCCalendarStoreSQL_def split: prod.splits if_splits)

lemma begin_calendar_result:
  assumes "RCCalendarStoreBeginScopedRun store scoped d = (r, store', d')" and "txn d = []"
  shows "same_library d d' \<and>
    (case r of Inl _ \<Rightarrow> store' = store \<and> txn d' = [] \<and> calendar_undone (tables d) (tables d')
     | Inr _ \<Rightarrow> ks_run store = 0 \<and> (\<exists>run. store' = store\<lparr>ks_run := run, ks_scopedRun := scoped\<rparr> \<and>
         run_begun (ks_account store) run (tables d) (tables d') \<and> txn d' = [(None, tables d')]))"
proof (cases "ks_run store = 0")
  case False
  with assms show ?thesis by (auto simp: RCCalendarStoreBeginScopedRun_def)
next
  case True
  obtain x d1 where m: "calendar_exec (add_calendar_run (ks_account store)) d = (x, d1)" by (metis surj_pair)
  note k = exec_result [OF m]
  show ?thesis
  proof (cases x)
    case (Inl e)
    with True m k assms show ?thesis by (auto simp: RCCalendarStoreBeginScopedRun_def)
  next
    case (Inr run)
    with k have run: "run_begun (ks_account store) run (tables d) (tables d1)" by (simp add: add_calendar_run_begun)
    obtain y d2 where b: "RCCalendarStoreSQL [sql_begin] d1 = (y, d2)" by (metis surj_pair)
    note bb = sql_begin_result [OF begin_script [OF b]]
    have zero: "store\<lparr>ks_run := 0\<rparr> = store" using True by (cases store) simp
    have lib: "same_library d d2" "tables d2 = tables d1" "txn d2 = (if is_ok y then [(None, tables d1)] else [])"
      using bb k assms(2) by (auto intro: same_library_trans)
    show ?thesis
    proof (cases y)
      case (Inl e)
      with True m b Inr assms(1) have "r = Inl e" "store' = store" "d' = d2"
        by (simp_all add: RCCalendarStoreBeginScopedRun_def zero)
      with Inl lib run_begun_undone [OF run] show ?thesis by (simp add: is_ok_def)
    next
      case (Inr u)
      with True m b \<open>x = Inr run\<close> assms(1) have "r = Inr ()" "store' = store\<lparr>ks_run := run, ks_scopedRun := scoped\<rparr>" "d' = d2"
        by (simp_all add: RCCalendarStoreBeginScopedRun_def)
      with Inr lib run True show ?thesis by (auto simp: is_ok_def)
    qed
  qed
qed

text \<open>What a successful finish leaves of the tables the run had.\<close>

definition published_tables :: "RCCalendarStore \<Rightarrow> 'z calendar_tables_scheme \<Rightarrow> 'z calendar_tables_scheme" where
  "published_tables store t = update_accounts (ks_account store) (\<lambda>a. a\<lparr>acc_generation := ks_run store\<rparr>)
     (retire_calendars (ks_account store) (ks_run store)
       (retire_resources (ks_scopedRun store) (ks_account store) (ks_run store) t))"

lemma two_statements:
  assumes "RCCalendarStoreSQL [sql_statement f, sql_statement g] d = (r, d')"
  shows "txn d' = txn d \<and> same_library d d' \<and> (is_ok r \<longrightarrow> Option.bind (f (tables d)) g = Some (tables d'))"
proof -
  obtain ok d1 where s: "sql_statement f d = (ok, d1)" by (cases "sql_statement f d")
  obtain ok2 d2 where s2: "sql_statement g d1 = (ok2, d2)" by (cases "sql_statement g d1")
  from script_result [OF assms] s s2 have "d' = (if ok then d2 else d1)" "is_ok r = (ok \<and> ok2)"
    by (cases ok; cases ok2; simp)+
  with statement_result [OF s] statement_result [OF s2] show ?thesis by (auto intro: same_library_trans)
qed

lemma commit_script:
  "RCCalendarStoreSQL [sql_commit] d = (r, d') \<Longrightarrow>
     tables d' = tables d \<and> same_library d d' \<and> txn d' = (if is_ok r then [] else txn d)"
  using script_result [of "[sql_commit]" d r d'] by (auto split: prod.splits if_splits dest: sql_commit_result)

lemma publish_result:
  assumes "publish_run store d = (r, d')"
  shows "same_library d d' \<and>
    (if is_ok r then txn d' = [] \<and> tables d' = published_tables store (tables d) else txn d' = txn d)"
  using assms unfolding publish_run_def
  by (elim chain_cases)
    (auto simp: published_tables_def is_ok_def dest!: one_statement two_statements commit_script intro: same_library_trans)

lemma close_run_undone: "calendar_undone t (close_run run b message t)"
proof -
  let ?f = "\<lambda>r. r\<lparr>ru_finished := True, ru_succeeded := Some b, ru_message := message\<rparr>"
  let ?runs = "update_rows (\<lambda>r. ru_id r = run) ?f (calendar_runs t)"
  have id: "map ru_id ?runs = map ru_id (calendar_runs t)" "map ru_account ?runs = map ru_account (calendar_runs t)"
    by (auto intro!: map_update_rows)
  from id image_of_map [OF id(1)] image_of_map [OF id(2)] show ?thesis
    by (simp add: calendar_undone_def logless_def close_run_def calendar_ok_defs)
qed

text \<open>
  The finish of a run, given the transaction it runs in: a run that is not published is rolled
  back. Its entry in the log is written after the transaction has ended, so that a published
  run whose entry cannot be written reports a failure.
\<close>

lemma finish_calendar_result:
  assumes f: "RCCalendarStoreFinishRun store b message d = (r, store', d')" and run: "ks_run store \<noteq> 0"
    and d: "can_roll_back d" "txn d = ext @ [(None, t1)]"
  shows "store' = store\<lparr>ks_run := 0, ks_scopedRun := False\<rparr> \<and> txn d' = [] \<and>
    (calendar_undone (published_tables store (tables d)) (tables d') \<or> \<not> is_ok r \<and> calendar_undone t1 (tables d')) \<and>
    (is_ok r \<longrightarrow> b)"
proof -
  obtain p d1 where p: "(if b then publish_run store d else (Inl RCErrorClear, d)) = (p, d1)" by (metis surj_pair)
  define d2 where "d2 = (if is_ok p then d1 else snd (RCCalendarStoreSQL [sql_rollback] d1))"
  obtain c d3 where c: "RCCalendarStoreSQL [sql_statement (\<lambda>t. Some (close_run (ks_run store) (is_ok p) message t))] d2 = (c, d3)"
    by (metis surj_pair)
  from f run p c have out: "store' = store\<lparr>ks_run := 0, ks_scopedRun := False\<rparr>" "d' = d3" "r = (case c of Inl e \<Rightarrow> Inl e | Inr _ \<Rightarrow> p)"
    unfolding RCCalendarStoreFinishRun_def d2_def by (simp_all add: Let_def)
  from one_statement [OF c] have log: "txn d3 = txn d2"
    and "tables d3 = tables d2 \<or> tables d3 = close_run (ks_run store) (is_ok p) message (tables d2)" by (auto split: if_splits)
  then have log: "txn d3 = txn d2" "calendar_undone (tables d2) (tables d3)" using close_run_undone by auto
  have ok: "is_ok r \<longrightarrow> is_ok p" using out(3) by (auto simp: is_ok_def split: sum.splits)
  show ?thesis
  proof (cases "is_ok p")
    case True
    with p have b: b "publish_run store d = (p, d1)" by (auto simp: is_ok_def split: if_splits)
    from publish_result [OF b(2)] True have "txn d2 = []" "tables d2 = published_tables store (tables d)" by (simp_all add: d2_def)
    with log out(1,2) b(1) show ?thesis by simp
  next
    case False
    have d1: "same_library d d1" "txn d1 = txn d"
      using p publish_result [of store d p d1] False by (auto split: if_splits)
    with d have rb: "can_roll_back d1" "txn d1 = ext @ [(None, t1)]" by (auto dest: can_roll_back_same)
    obtain okr e where e: "sql_rollback d1 = (okr, e)" by (cases "sql_rollback d1")
    from rollback_works [OF rb(1) _ e] rb(2) e have "txn d2 = []" "tables d2 = t1"
      using False by (simp_all add: d2_def rollback_script)
    with log out(1,2) ok False show ?thesis by auto
  qed
qed

section \<open>A whole run\<close>

text \<open>
  What a published run leaves: its generation; the resources that its inventory did not list,
  excluded from the window or, when the inventory was complete, missing; every resource that was
  there before; and, for a window, none that is newly missing.
\<close>

definition whole_run :: "int \<Rightarrow> bool \<Rightarrow> int \<Rightarrow> 'z calendar_tables_scheme \<Rightarrow> 'z calendar_tables_scheme \<Rightarrow> bool" where
  "whole_run acct scoped run t t' \<longleftrightarrow> run \<notin> ru_id ` set (calendar_runs t) \<and>
     (\<forall>a \<in> set (accounts t'). acc_id a = acct \<longrightarrow> acc_generation a = run) \<and>
     (\<forall>c \<in> set (calendars t'). ca_account c = acct \<longrightarrow> ca_missing c = (ca_seen c \<noteq> Some run)) \<and>
     (\<forall>r \<in> set (calendar_resources t'). re_calendar r \<in> calendars_of acct t' \<longrightarrow>
        (if scoped then re_excluded r = (re_seen r \<noteq> Some run)
         else \<not> re_excluded r \<and> re_missing r = (re_seen r \<noteq> Some run))) \<and>
     keeps_resources t t' \<and> (scoped \<longrightarrow> none_missing t t')"

lemma logless_fields:
  assumes "logless t' = logless t"
  shows "accounts t' = accounts t" "calendars t' = calendars t" "calendar_resources t' = calendar_resources t"
  using arg_cong [OF assms, of accounts] arg_cong [OF assms, of calendars] arg_cong [OF assms, of calendar_resources]
  by (simp_all add: logless_def)

lemma whole_run_log: "whole_run acct scoped run t t1 \<Longrightarrow> logless t' = logless t1 \<Longrightarrow> whole_run acct scoped run t t'"
  using logless_fields [of t' t1] by (simp add: whole_run_def calendars_of_def keeps_resources_def none_missing_def)

lemma not_seen_iff [simp]: "not_seen run seen \<longleftrightarrow> seen \<noteq> Some run"
  by (auto simp: not_seen_def)

lemma account_rows_ok:
  assumes "calendar_ok t" and "\<And>a. acc_id (f a) = acc_id a" and "\<And>a. acc_username (f a) = acc_username a"
  shows "calendar_ok (update_accounts acct f t)"
proof -
  have id: "map acc_id (update_rows P f as) = map acc_id as" "map acc_username (update_rows P f as) = map acc_username as" for P as
    using assms(2,3) by (auto intro!: map_update_rows)
  with assms(1) image_of_map [OF id(1)] show ?thesis by (simp add: update_accounts_def calendar_ok_defs)
qed

lemma published_ok: "calendar_ok t \<Longrightarrow> calendar_ok (published_tables store t)"
proof -
  assume ok: "calendar_ok t"
  let ?r = "retire_resources (ks_scopedRun store) (ks_account store) (ks_run store) t"
  have "calendar_ok ?r" unfolding retire_resources_def using ok by (rule resource_rows_ok) (auto simp: row_identity_def)
  then have "calendar_ok (retire_calendars (ks_account store) (ks_run store) ?r)"
    unfolding retire_calendars_def by (rule calendar_rows_ok) simp
  then show ?thesis unfolding published_tables_def by (rule account_rows_ok) simp_all
qed

lemma published_resources:
  "calendar_resources (published_tables store t) = update_rows (\<lambda>r. re_calendar r \<in> calendars_of (ks_account store) t)
     (\<lambda>r. if ks_scopedRun store then r\<lparr>re_excluded := (re_seen r \<noteq> Some (ks_run store))\<rparr>
          else r\<lparr>re_excluded := False, re_missing := (re_seen r \<noteq> Some (ks_run store))\<rparr>) (calendar_resources t)"
  unfolding published_tables_def update_accounts_def retire_calendars_def update_calendars_def retire_resources_def
    update_resources_def not_seen_iff by simp

lemma published_calendars:
  "calendars (published_tables store t) = update_rows (\<lambda>c. ca_account c = ks_account store)
     (\<lambda>c. c\<lparr>ca_missing := (ca_seen c \<noteq> Some (ks_run store))\<rparr>) (calendars t)"
  "accounts (published_tables store t) = update_rows (\<lambda>a. acc_id a = ks_account store) (\<lambda>a. a\<lparr>acc_generation := ks_run store\<rparr>) (accounts t)"
  by (simp_all add: published_tables_def update_accounts_def retire_calendars_def update_calendars_def retire_resources_def
      update_resources_def)

lemma filter_update_rows:
  "(\<And>x. P (f x) = P x) \<Longrightarrow> (\<And>x. k (f x) = k x) \<Longrightarrow> map k (filter P (update_rows Q f xs)) = map k (filter P xs)"
  by (induction xs) (auto simp: table_simps)

lemma published_calendars_of: "calendars_of acct (published_tables store t) = calendars_of acct t"
  unfolding calendars_of_def published_calendars by (rule image_of_map [OF filter_update_rows]) simp_all

lemma published_whole:
  assumes step: "keeps_resources t t1" "none_missing t t1" and fresh: "ks_run store \<notin> ru_id ` set (calendar_runs t)"
  shows "whole_run (ks_account store) (ks_scopedRun store) (ks_run store) t (published_tables store t1)"
proof -
  let ?t = "published_tables store t1"
  have id: "map row_identity (calendar_resources ?t) = map row_identity (calendar_resources t1)"
    unfolding published_resources by (rule map_update_rows) (simp add: row_identity_def)
  from image_of_map [OF id] have "keeps_resources t1 ?t" by (simp add: keeps_resources_def)
  moreover have "none_missing t1 ?t" if "ks_scopedRun store"
    using that unfolding none_missing_def published_resources by (auto elim!: in_update_rowsE simp: row_identity_def)
  moreover have "if ks_scopedRun store then re_excluded r = (re_seen r \<noteq> Some (ks_run store))
      else \<not> re_excluded r \<and> re_missing r = (re_seen r \<noteq> Some (ks_run store))"
    if "r \<in> set (calendar_resources ?t)" "re_calendar r \<in> calendars_of (ks_account store) ?t" for r
    using that unfolding published_calendars_of published_resources by (auto elim!: in_update_rowsE split: if_splits)
  moreover have "\<forall>c \<in> set (calendars ?t). ca_account c = ks_account store \<longrightarrow> ca_missing c = (ca_seen c \<noteq> Some (ks_run store))"
    "\<forall>a \<in> set (accounts ?t). acc_id a = ks_account store \<longrightarrow> acc_generation a = ks_run store"
    unfolding published_calendars by (auto elim!: in_update_rowsE)
  ultimately show ?thesis using fresh step unfolding whole_run_def
    by (blast intro: keeps_resources_trans none_missing_trans)
qed

section \<open>The synchronisation\<close>

text \<open>What any synchronisation leaves: an idle connection with the old tables or a whole run.\<close>

definition calendar_outcome ::
  "RCCalendarStore \<Rightarrow> bool \<Rightarrow> unit res \<Rightarrow> 'z calendar_tables_scheme \<Rightarrow> 'z calendar_tables_scheme \<Rightarrow> bool" where
  "calendar_outcome store scoped r t t' \<longleftrightarrow> (calendar_ok t \<longrightarrow> calendar_ok t') \<and>
     (\<not> is_ok r \<and> logless t' = logless t \<or> (\<exists>run. whole_run (ks_account store) scoped run t t'))"

definition same_account :: "RCCalendarStore \<Rightarrow> RCCalendarStore \<Rightarrow> bool" where
  "same_account store store' \<longleftrightarrow> ks_account store' = ks_account store \<and> ks_run store' = ks_run store"

lemma cancel_result: "cancel_check cu s = (r, s') \<Longrightarrow> s' = s"
  by (auto simp: cancel_check_def split: option.splits)

lemma begun_step: "run_begun acct run t t1 \<Longrightarrow> run_step t1 t2 \<Longrightarrow> keeps_resources t t2 \<and> none_missing t t2"
  by (auto simp: run_begun_def run_step_def keeps_resources_def none_missing_def)

lemma begun_whole:
  assumes "run_begun (ks_account store) (ks_run store) t t1" and "run_step t1 t2"
  shows "whole_run (ks_account store) (ks_scopedRun store) (ks_run store) t (published_tables store t2)"
  using assms(1) begun_step [OF assms] by (intro published_whole) (simp_all add: run_begun_def)

lemma commit_window_result:
  assumes c: "commit_window ical cu start work s = (r, s')" and idle: "txn (calendar_database s) = []"
    and rb: "can_roll_back (calendar_database s)"
  shows "same_account (n_store (fst s)) (n_store (fst s')) \<and> txn (calendar_database s') = [] \<and>
    calendar_outcome (n_store (fst s)) (start \<noteq> None) r (tables (calendar_database s)) (tables (calendar_database s'))"
proof -
  let ?t = "tables (calendar_database s)" and ?store = "n_store (fst s)"
  obtain x store d where b: "RCCalendarStoreBeginScopedRun (n_store (fst s)) (start \<noteq> None) (n_db (fst s)) = (x, store, d)"
    by (metis prod_cases3)
  note k = begin_calendar_result [OF b idle]
  consider (stopped) e where "s' = s" "r = Inl e"
    | (failed) e where "x = Inl e" "r = Inl e" "s' = ((fst s)\<lparr>n_store := store, n_db := d\<rparr>, snd s)"
    | (run) u where "x = Inr u"
      "(let (r0, s0) = calendar_run ical cu start work ((fst s)\<lparr>n_store := store, n_db := d\<rparr>, snd s) in finish_calendars r0 s0) = (r, s')"
    using c [unfolded commit_window_def]
  proof (cases rule: chain_cases)
    case (stopped e)
    with that(1) cancel_result show ?thesis by metis
  next
    case (goes_on u s1)
    have s1: "s1 = s" by (rule cancel_result [OF goes_on(1)])
    show ?thesis
    proof (cases x)
      case (Inl e)
      with goes_on(2) b that(2) [of e] show ?thesis unfolding s1 by force
    next
      case (Inr u)
      with goes_on(2) b that(3) [of u] show ?thesis unfolding s1 by simp
    qed
  qed
  then show ?thesis
  proof cases
    case (run u)
    with k obtain i where zero: "ks_run ?store = 0" and store: "store = ?store\<lparr>ks_run := i, ks_scopedRun := (start \<noteq> None)\<rparr>"
      and begun: "run_begun (ks_account ?store) i ?t (tables d)" "txn d = [(None, tables d)]" "same_library (n_db (fst s)) d" by auto
    obtain r0 s0 where body: "calendar_run ical cu start work ((fst s)\<lparr>n_store := store, n_db := d\<rparr>, snd s) = (r0, s0)" by (metis surj_pair)
    with run have fin: "finish_calendars r0 s0 = (r, s')" by simp
    from calendar_runsD [OF runs_calendar_body body refl refl] have s0: "n_store (fst s0) = store"
      and rel: "cr.related (ks_account store) (ks_run store) d (n_db (fst s0))" by simp_all
    then obtain ext where t: "txn (n_db (fst s0)) = ext @ [(None, tables d)]" "same_library d (n_db (fst s0))"
      using begun(2) by (auto simp: cr.related_def)
    have step: "run_step (tables d) (tables (n_db (fst s0)))" by (rule calendar_changes_step [OF cr.related_tables [OF rel]])
    from begun(3) t(2) rb have rb0: "can_roll_back (n_db (fst s0))" by (blast dest: can_roll_back_same)
    obtain f store2 d2 where fr: "RCCalendarStoreFinishRun (n_store (fst s0)) (is_ok r0)
        (case r0 of Inr _ \<Rightarrow> None | Inl e \<Rightarrow> Some (err_message e)) (n_db (fst s0)) = (f, store2, d2)" by (metis prod_cases3)
    from begun(1) store s0 have "ks_run (n_store (fst s0)) \<noteq> 0" by (auto simp: run_begun_def)
    note fres = finish_calendar_result [OF fr this rb0 t(1)]
    from fin fr have s': "s' = ((fst s0)\<lparr>n_store := store2, n_db := d2\<rparr>, snd s0)" and r: "is_ok r = (is_ok r0 \<and> is_ok f)"
      by (auto simp: finish_calendars_def is_ok_def split: sum.splits)
    let ?p = "published_tables store (tables (n_db (fst s0)))"
    have "whole_run (ks_account ?store) (start \<noteq> None) i ?t ?p"
      using begun_whole [of store ?t "tables d"] begun(1) step store by simp
    moreover have "calendar_ok ?t \<longrightarrow> calendar_ok ?p"
      using begun(1) step published_ok by (auto simp: run_begun_def run_step_def)
    moreover from fres s0 r consider "calendar_undone ?p (tables d2)" | "\<not> is_ok r" "calendar_undone (tables d) (tables d2)" by auto
    ultimately have "calendar_outcome ?store (start \<noteq> None) r ?t (tables d2)"
      using run_begun_undone [OF begun(1)] unfolding calendar_outcome_def calendar_undone_def
      by (metis (no_types, lifting) whole_run_log)
    with fres s' s0 store zero show ?thesis by (simp add: same_account_def)
  qed (use idle k in \<open>auto simp: same_account_def calendar_outcome_def calendar_undone_def is_ok_def\<close>)
qed

lemma calendar_fetch_result:
  assumes "RCCalDAVMirrorFetchSince version ical lx cu staging config store d start w = ((result, r), store', d', w')"
    and "can_roll_back d"
  shows "same_account store store' \<and> txn d' = txn d \<and> calendar_outcome store (start \<noteq> None) r (tables d) (tables d')"
proof (cases "d' = d \<and> store' = store \<and> \<not> is_ok r")
  case True
  then show ?thesis by (simp add: same_account_def calendar_outcome_def)
next
  case False
  with assms(1) obtain client m stage url where idle: "txn d = []"
    and m: "calendars_with ical lx cu client start url (\<lparr>n_store = store, n_db = d, n_stage = stage, n_result = no_result\<rparr>, w) = (r, m, w')"
    and out: "store' = n_store m" "d' = n_db m"
    by (auto simp: RCCalDAVMirrorFetchSince_def Let_def autocommit_def is_ok_def split: option.splits if_splits sum.splits prod.splits)
  from m [unfolded calendars_with_def] show ?thesis
  proof (cases rule: chain_cases)
    case (stopped e)
    from lc.keepsD [OF leaves_download_calendars stopped(1)] stopped(2) out idle show ?thesis
      by (simp add: calendar_untouched_def same_account_def calendar_outcome_def is_ok_def)
  next
    case (goes_on work s1)
    from lc.keepsD [OF leaves_download_calendars goes_on(1)]
    have u: "n_store (fst s1) = store" "tables (n_db (fst s1)) = tables d" "txn (n_db (fst s1)) = txn d" "same_library d (n_db (fst s1))"
      by (simp_all add: calendar_untouched_def)
    with idle assms(2) have "txn (calendar_database s1) = []" "can_roll_back (calendar_database s1)" by (auto dest: can_roll_back_same)
    from commit_window_result [OF goes_on(2) this] u out idle show ?thesis by simp
  qed
qed

end
