(* ===== verification/CalendarDemo.thy ===== *)
theory CalendarDemo
  imports CalDAVMirror MirrorDemo
begin

text \<open>
  A concrete synchronisation of calendars: the server of the address book example, whose document
  here names a home without calendars, and a store with one calendar and two resources, of which
  the server has stopped listing both and one was already missing.
\<close>

definition plain_ical :: "(unit, unit, unit, unit) libical_walk" where
  "plain_ical = \<lparr>icalparser_parse_string = (\<lambda>_. None), is_vcalendar = (\<lambda>_. False), count_errors = (\<lambda>_. 0),
     first_property = (\<lambda>_ _. None), RECURRENCEID_PROPERTY = (), property_value = (\<lambda>_. None), is_text_value = (\<lambda>_. False),
     value_get_text = (\<lambda>_. None), value_as_string = (\<lambda>_. None), value_kind_string = (\<lambda>_. []), tzid_parameter = (\<lambda>_. None),
     is_null_time = (\<lambda>_. True), is_utc = (\<lambda>_. False), component_tree = (\<lambda>_. Component () []), component_kind = (\<lambda>_. []),
     is_vevent = (\<lambda>_. False), is_vtimezone = (\<lambda>_. False), component_properties = (\<lambda>_. []), property_name = (\<lambda>_. None),
     property_line = (\<lambda>_. None), property_parameters = (\<lambda>_. []), get_dtstart = (\<lambda>_. \<lparr>t_year = 0, t_month = 0, t_day = 0,
       t_hour = 0, t_minute = 0, t_second = 0, t_is_date = False\<rparr>), get_dtend = (\<lambda>_. \<lparr>t_year = 0, t_month = 0, t_day = 0,
       t_hour = 0, t_minute = 0, t_second = 0, t_is_date = False\<rparr>), get_sequence = (\<lambda>_. 0), UID_PROPERTY = (),
     SUMMARY_PROPERTY = (), DESCRIPTION_PROPERTY = (), LOCATION_PROPERTY = (), URL_PROPERTY = (), STATUS_PROPERTY = (),
     CLASS_PROPERTY = (), PRIORITY_PROPERTY = (), DURATION_PROPERTY = (), DTSTART_PROPERTY = (), DTEND_PROPERTY = ()\<rparr>"

definition plan_xml :: libxml where
  "plan_xml = dav_xml\<lparr>xml_read := (\<lambda>_ _. Some \<lparr>doc_dtd = False, doc_root = Some (dav_node ''multistatus''
     [dav_node ''response'' [dav_node ''href'' [] ''https://h/'', dav_node ''propstat'' [dav_node ''status'' [] ''HTTP/1.1 200 OK'',
        dav_node ''prop'' [dav_node ''current-user-principal'' [dav_node ''href'' [] ''https://h/p/''] [],
          XmlNode True ''calendar-home-set'' (Some kCalDAVNamespace) [dav_node ''href'' [] ''https://h/b/''] [],
          dav_node ''resourcetype'' [] []] []] []] []] [])\<rparr>)\<rparr>"

definition plan_resource :: "int \<Rightarrow> string \<Rightarrow> bool \<Rightarrow> resource_row" where
  "plan_resource i href missing = \<lparr>re_id = i, re_calendar = 1, re_href = href, re_uid = Some ''u'', re_etag = Some ''e'', re_raw = ''B'',
     re_export = None, re_export_etag = None, re_parse_error = None, re_export_error = None, re_export_status = ''pending'',
     re_seen = Some 1, re_missing = missing, re_excluded = False\<rparr>"

definition plan_tables :: calendar_tables where
  "plan_tables = \<lparr>schema = [], accounts = [\<lparr>acc_id = 1, acc_username = ''u'', acc_sync_id = ''i'', acc_generation = 1, acc_published = 1\<rparr>],
     write_bases = [], write_operations = [], write_resolutions = [], write_attention = [], dav_sync_state = [], calendar_version = [3],
     calendar_runs = [\<lparr>ru_id = 1, ru_account = 1, ru_finished = True, ru_succeeded = Some True, ru_message = None\<rparr>],
     calendars = [\<lparr>ca_id = 1, ca_account = 1, ca_url = ''https://h/b/c/'', ca_name = None, ca_description = None, ca_color = None,
       ca_sync = ''s'', ca_seen = Some 1, ca_missing = False\<rparr>],
     calendar_resources = [plan_resource 1 ''a'' False, plan_resource 2 ''b'' True], sync_record_ids = [], ical_components = [],
     ical_properties = [], ical_parameters = [], events = []\<rparr>"

definition plan_store :: RCCalendarStore where
  "plan_store = \<lparr>ks_account = 1, ks_run = 0, ks_scopedRun = False\<rparr>"

definition plan_start :: string where
  "plan_start = ''20240229T000000Z''"

lemma plan_multistatus:
  "multistatus plan_xml dav_server book_client op ''PROPFIND'' url depth request () =
     (Inr (url, the (doc_root (the (xml_read plan_xml [] None)))), ())"
  unfolding multistatus_def
  by (simp add: book_request) (simp add: book_response_def RCRequireMultiStatus_def RCParseXML_def plan_xml_def book_eval
      bodyLength_def MAX_XML_def RCHTTPResponseInit_def)

lemma plan_discovery:
  "RCDAVDiscoverHref plan_xml dav_server book_client url principalRequest ''current-user-principal'' kDAVNamespace () = (Inr ''https://h/p/'', ())"
  "RCDAVDiscoverHref plan_xml dav_server book_client url homeRequest ''calendar-home-set'' kCalDAVNamespace () = (Inr ''https://h/b/'', ())"
  "RCDAVListCollections plan_xml dav_server book_client url ''calendar'' kCalDAVNamespace () = (Inr [], ())"
  unfolding RCDAVDiscoverHref_def RCDAVListCollections_def plan_multistatus
  by (simp_all add: plan_xml_def dav_xml_def book_eval kCalDAVNamespace_def dav_server_def busy_server_def)

definition narrowed_tables :: calendar_tables where
  "narrowed_tables = plan_tables\<lparr>schema := [state_table], accounts := map (\<lambda>a. a\<lparr>acc_generation := 2\<rparr>) (accounts plan_tables),
     calendar_runs := calendar_runs plan_tables @ [\<lparr>ru_id = 2, ru_account = 1, ru_finished = True, ru_succeeded = Some True, ru_message = None\<rparr>],
     calendars := map (\<lambda>c. c\<lparr>ca_missing := True\<rparr>) (calendars plan_tables),
     calendar_resources := map (\<lambda>r. r\<lparr>re_excluded := True\<rparr>) (calendar_resources plan_tables)\<rparr>"

lemmas plan_run_eval = commit_window_def cancel_check_def RCCheckCancellation_def RCCalendarStoreBeginScopedRun_def calendar_exec_def
  sql_statement_def RCCalendarStoreSQL_def sql_call_def sql_prepare_def sql_modify_def sql_begin_def sql_commit_def calendar_run_def
  in_database_def RCDAVSyncStateFinish_def state_prepare_def state_step_def sweep_state_def create_state_def autocommit_def
  finish_calendars_def RCCalendarStoreFinishRun_def publish_run_def retire_resources_def retire_calendars_def update_resources_def
  update_calendars_def update_accounts_def calendars_of_def not_seen_def close_run_def add_calendar_run_def has_account_def
  next_rowid_def table_simps is_ok_def

lemma plan_mirror:
  "calendars_with plain_ical plan_xml dav_server book_client (Some plan_start) url
     (\<lparr>n_store = plan_store, n_db = open_db plan_tables, n_stage = st, n_result = no_result\<rparr>, ()) =
   (Inr (), \<lparr>n_store = plan_store, n_db = (open_db narrowed_tables)\<lparr>calls := 10\<rparr>, n_stage = st, n_result = book_result\<rparr>, ())"
  by (simp add: calendars_with_def download_calendars_def in_world_def plan_discovery tally_def book_fields plan_store_def
    open_db_def plan_tables_def plan_resource_def no_result_def book_result_def plan_run_eval narrowed_tables_def image_iff)

lemma plan_run:
  "RCCalDAVMirrorFetchSince ''1'' plain_ical plan_xml dav_server (Some (open_db [])) (Some book_config) plan_store (open_db plan_tables)
     (Some plan_start) () = ((book_result, Inr ()), plan_store, (open_db narrowed_tables)\<lparr>calls := 10\<rparr>, ())"
  unfolding RCCalDAVMirrorFetchSince_def book_open book_create Let_def
  by (simp add: book_fields book_create plan_mirror autocommit_def) (simp add: open_db_def)

text \<open>The same run against a database that refuses to commit.\<close>

definition stubborn_plan :: "calendar_tables db" where
  "stubborn_plan = (open_db plan_tables)\<lparr>outcome := (\<lambda>op _. op \<noteq> Commit)\<rparr>"

lemma plan_mirror_refused:
  "\<exists>e d'. calendars_with plain_ical plan_xml dav_server book_client (Some plan_start) url
     (\<lparr>n_store = plan_store, n_db = stubborn_plan, n_stage = st, n_result = no_result\<rparr>, ()) =
   (Inl e, \<lparr>n_store = plan_store, n_db = d', n_stage = st, n_result = book_result\<rparr>, ())"
  by (simp add: calendars_with_def download_calendars_def in_world_def plan_discovery tally_def book_fields plan_store_def
    stubborn_plan_def open_db_def plan_tables_def plan_resource_def no_result_def book_result_def plan_run_eval sql_rollback_def)

lemma plan_refused:
  "\<exists>e d'. RCCalDAVMirrorFetchSince ''1'' plain_ical plan_xml dav_server (Some (open_db [])) (Some book_config) plan_store stubborn_plan
     (Some plan_start) () = ((book_result, Inl e), plan_store, d', ())"
proof -
  have idle: "autocommit stubborn_plan" by (simp add: autocommit_def stubborn_plan_def open_db_def)
  obtain e d' where "calendars_with plain_ical plan_xml dav_server book_client (Some plan_start) ''https://h/''
     (\<lparr>n_store = plan_store, n_db = stubborn_plan, n_stage = (open_db [])\<lparr>calls := 1\<rparr>, n_result = no_result\<rparr>, ()) =
   (Inl e, \<lparr>n_store = plan_store, n_db = d', n_stage = (open_db [])\<lparr>calls := 1\<rparr>, n_result = book_result\<rparr>, ())"
    using plan_mirror_refused by blast
  then show ?thesis unfolding RCCalDAVMirrorFetchSince_def book_open book_create Let_def
    by (simp add: book_fields book_create idle)
qed

end
