(* ===== verification/CalendarOutcome.thy ===== *)
theory CalendarOutcome
  imports CalendarAtomicity CalendarDemo
begin

text \<open>
  What a synchronisation of the calendars guarantees: it is kept whole or not at all, it keeps
  the tables well-formed and every resource in them, and it declares a resource missing only
  after a complete inventory.
\<close>

text \<open>C7: all or nothing for calendars. However a synchronisation ends, with any server, any bodies and any
  failures of SQLite but that of \<open>ROLLBACK\<close>, no transaction is left open and the store has no
  active run; and either it failed and every table but the log of runs has the rows it had, or
  the whole run is there: its generation is published, and every calendar and resource of the
  account is accounted for by it.\<close>

theorem calendar_all_or_nothing:
  assumes "RCCalDAVMirrorFetchSince version ical lx cu staging config store d start w = ((result, r), store', d', w')"
    and "can_roll_back d"
  shows "ks_account store' = ks_account store \<and> ks_run store' = ks_run store \<and> txn d' = txn d \<and>
    (\<not> is_ok r \<and> logless (tables d') = logless (tables d) \<or>
     (\<exists>run. whole_run (ks_account store) (start \<noteq> None) run (tables d) (tables d')))"
  using calendar_fetch_result [OF assms] by (simp add: same_account_def calendar_outcome_def)

text \<open>The witness: a commit that SQLite refuses leaves the generation and the rows as they were.\<close>

theorem calendar_all_or_nothing_witness:
  "\<exists>e d'. RCCalDAVMirrorFetchSince ''1'' plain_ical plan_xml dav_server (Some (open_db [])) (Some book_config) plan_store stubborn_plan
     (Some plan_start) () = ((book_result, Inl e), plan_store, d', ()) \<and> txn d' = [] \<and>
     (logless (tables d') = logless plan_tables \<or> (\<exists>run. whole_run 1 True run plan_tables (tables d')))"
proof -
  obtain e d' where r: "RCCalDAVMirrorFetchSince ''1'' plain_ical plan_xml dav_server (Some (open_db [])) (Some book_config) plan_store
      stubborn_plan (Some plan_start) () = ((book_result, Inl e), plan_store, d', ())" using plan_refused by blast
  have "can_roll_back stubborn_plan" by (simp add: can_roll_back_def stubborn_plan_def)
  from calendar_all_or_nothing [OF r this] r show ?thesis by (auto simp: stubborn_plan_def open_db_def plan_store_def)
qed

text \<open>C9: a synchronisation of the calendars keeps the store well-formed: with any server, any bodies and any
  failures of SQLite but that of \<open>ROLLBACK\<close>, keys stay unique, in particular a calendar never
  has two resources at one address nor a resource two events of one recurrence, references stay
  valid, and every resource keeps its identifier and its calendar.\<close>

theorem calendar_well_formed:
  assumes "RCCalDAVMirrorFetchSince version ical lx cu staging config store d start w = ((result, r), store', d', w')"
    and "can_roll_back d" and "calendar_ok (tables d)"
  shows "calendar_ok (tables d') \<and>
    row_identity ` set (calendar_resources (tables d)) \<subseteq> row_identity ` set (calendar_resources (tables d'))"
proof -
  have "keeps_resources (tables d) (tables d')"
    using calendar_fetch_result [OF assms(1,2)] logless_fields [of "tables d'" "tables d"]
    by (auto simp: calendar_outcome_def whole_run_def keeps_resources_def)
  with calendar_fetch_result [OF assms(1,2)] assms(3) show ?thesis by (simp add: calendar_outcome_def keeps_resources_def)
qed

lemma plan_ok: "calendar_ok plan_tables"
  by (simp add: calendar_ok_defs plan_tables_def plan_resource_def)

theorem calendar_well_formed_witness: "calendar_ok narrowed_tables \<and> length (calendar_resources narrowed_tables) = 2"
proof -
  have "can_roll_back (open_db plan_tables)" by (simp add: can_roll_back_def open_db_def)
  with calendar_well_formed [OF plan_run this] plan_ok show ?thesis
    by (simp add: open_db_def narrowed_tables_def plan_tables_def)
qed



end
