(* ===== verification/CalendarReparse.thy ===== *)
theory CalendarReparse
  imports CalendarInvariant CalendarDemo
begin

text \<open>
  Opening a calendar store retries the bodies that could not be parsed. The loop over them ends:
  saving a resource that is in the store adds none, so there are never more turns than rows.
\<close>

section \<open>A resource that is in the store is not added\<close>

definition addressed :: "int \<Rightarrow> string \<Rightarrow> int list \<Rightarrow> 'z calendar_tables_scheme \<Rightarrow> bool" where
  "addressed cal href ids t \<longleftrightarrow> map re_id (calendar_resources t) = ids \<and> (\<exists>r \<in> set (calendar_resources t). at_resource cal href r)"

definition keeps_address :: "int \<Rightarrow> string \<Rightarrow> int list \<Rightarrow> 'z calendar_tables_scheme \<Rightarrow> 'z calendar_tables_scheme \<Rightarrow> bool" where
  "keeps_address cal href ids t t' \<longleftrightarrow> addressed cal href ids t \<longrightarrow> addressed cal href ids t'"

interpretation ar: table_relation "keeps_address cal href ids" for cal href ids
  by unfold_locales (auto simp: keeps_address_def)

lemmas address_intros = ar.does_return ar.does_chain ar.does_if ar.does_find ar.does_exec

lemma put_keeps_address: "put_resource resource href etag raw e uid run t = Some (t', u) \<Longrightarrow> keeps_address cal href ids t t'"
proof (drule put_resource_result, elim disjE exE conjE)
  fix row body assume t': "t' = update_resources (\<lambda>r. re_id r = resource) (saved_resource href etag body e uid run) t"
  have id: "map re_id (calendar_resources t') = map re_id (calendar_resources t)"
    unfolding t' update_resources_def by (simp, rule resource_columns) simp
  have "\<exists>r' \<in> set (calendar_resources t'). at_resource cal href r'" if "r \<in> set (calendar_resources t)" "at_resource cal href r" for r
  proof -
    have "at_resource cal href (if re_id r = resource then saved_resource href etag body e uid run r else r)"
      using that(2) by (simp add: at_resource_def saved_resource_def)
    moreover have "(if re_id r = resource then saved_resource href etag body e uid run r else r) \<in> set (calendar_resources t')"
      using that(1) unfolding t' update_resources_def by (simp add: set_update_rows)
    ultimately show ?thesis by (rule bexI)
  qed
  with id show ?thesis by (auto simp: keeps_address_def addressed_def)
qed (simp add: keeps_address_def)

lemma save_row_keeps_address: "ar.st.keeps cal href ids (save_row resource href etag raw e uid run)"
proof (rule ar.st.keepsI)
  fix d d' r assume *: "save_row resource href etag raw e uid run d = (r, d')"
  let ?f = "put_resource resource href etag raw e uid run"
  obtain ok d1 where p: "sql_prepare d = (ok, d1)" by (cases "sql_prepare d")
  obtain x d2 where m: "sql_modify ?f d1 = (x, d2)" by (cases "sql_modify ?f d1")
  from * p m have "d' = (if ok then d2 else d1)" by (auto simp: save_row_def split: option.splits)
  moreover have "ar.related cal href ids d d1" using sql_prepare_keeps [OF p] by (intro ar.related_same) simp_all
  moreover have "ar.related cal href ids d1 d2"
    using sql_modify_result [OF m]
    by (intro ar.related_step) (auto split: option.splits intro: put_keeps_address ar.R_refl)
  ultimately show "ar.related cal href ids d d'" by (auto intro: ar.related_trans)
qed

lemma component_keeps_address: "component_change\<^sup>*\<^sup>* t t' \<Longrightarrow> keeps_address cal href ids t t'"
  by (induction rule: rtranclp_induct) (auto simp: keeps_address_def addressed_def dest!: parsed_form_leaves)

lemma save_keeps_address: "ar.st.keeps cal href ids (RCCalendarStoreSave ical store cal href etag bytes len)"
proof -
  have form: "ar.st.keeps cal href ids f" if "component_does f" for f :: "'z kdb \<Rightarrow> unit res \<times> 'z kdb"
    by (rule ar.st.keepsI, drule cc.st.keepsD [OF that], unfold cc.related_def ar.related_def, blast intro: component_keeps_address)
  have uid: "ar.st.keeps cal href ids (resolve_uid store cal uid resource)" for uid resource
    unfolding resolve_uid_def [abs_def] Let_def by (intro address_intros)
  have row: "keeps_address cal href ids t t'" if "add_resource cal href t = Some (t', i)" for t t' i
    using add_resource_result [OF that] by (auto simp: keeps_address_def addressed_def)
  show ?thesis unfolding RCCalendarStoreSave_def [abs_def] Let_def
    by (intro address_intros uid save_row_keeps_address form [OF does_parsed]) (rule row)
qed

section \<open>The loop\<close>

definition contents :: "'t db \<Rightarrow> 't set" where
  "contents d = insert (tables d) {t. \<exists>n. (n, t) \<in> set (txn d)}"

definition ids_everywhere :: "int list \<Rightarrow> 'z kdb \<Rightarrow> bool" where
  "ids_everywhere ids d \<longleftrightarrow> (\<forall>t \<in> contents d. map re_id (calendar_resources t) = ids)"

lemma ids_subset: "contents d' \<subseteq> contents d \<Longrightarrow> ids_everywhere ids d \<Longrightarrow> ids_everywhere ids d'"
  unfolding ids_everywhere_def by blast

lemma ids_same: "tables d' = tables d \<Longrightarrow> txn d' = txn d \<Longrightarrow> ids_everywhere ids d \<Longrightarrow> ids_everywhere ids d'"
  by (rule ids_subset) (simp_all add: contents_def)

lemma find_savepoint_in: "find_savepoint n st = Some (t, st') \<Longrightarrow> (\<exists>m. (m, t) \<in> set st) \<and> set st' \<subseteq> set st"
proof (induction st)
  case (Cons x st)
  then show ?case by (cases x) (auto split: if_splits)
qed simp

lemma control_contents:
  "sql_savepoint n d = (ok, d') \<Longrightarrow> contents d' \<subseteq> contents d"
  "sql_release n d = (ok, d') \<Longrightarrow> contents d' \<subseteq> contents d"
  "undo_statement n d = (ok, d') \<Longrightarrow> contents d' \<subseteq> contents d"
proof -
  show "contents d' \<subseteq> contents d" if "sql_savepoint n d = (ok, d')"
    using that by (auto simp: sql_savepoint_def Let_def contents_def split: prod.splits if_splits dest!: sql_call_keeps)
  show "contents d' \<subseteq> contents d" if "sql_release n d = (ok, d')"
    using that unfolding sql_release_def Let_def contents_def
    by (auto split: prod.splits if_splits option.splits dest!: sql_call_keeps find_savepoint_in) blast
  show "contents d' \<subseteq> contents d" if "undo_statement n d = (ok, d')"
    using that unfolding undo_statement_def sql_undo_def Let_def contents_def
    by (auto split: prod.splits if_splits option.splits dest!: sql_call_keeps
        find_savepoint_in) blast+
qed

lemma ids_reparsed:
  assumes "sql_statement (\<lambda>t. Some (reparsed row t)) d = (ok, d')" and "ids_everywhere ids d"
  shows "ids_everywhere ids d'"
proof -
  have "map re_id (calendar_resources (reparsed row t)) = map re_id (calendar_resources t)" for t :: "'a calendar_tables_scheme"
    unfolding reparsed_def update_resources_def by (simp, rule map_update_rows) simp
  moreover from statement_result [OF assms(1)] have "txn d' = txn d" "tables d' = tables d \<or> tables d' = reparsed row (tables d)"
    by (auto split: if_splits)
  ultimately show ?thesis using assms(2) by (auto simp: ids_everywhere_def contents_def)
qed

lemma ids_script:
  "(\<And>s d ok d'. s \<in> set script \<Longrightarrow> s d = (ok, d') \<Longrightarrow> ids_everywhere ids d \<Longrightarrow> ids_everywhere ids d') \<Longrightarrow>
     sql_statements script d = (r, d') \<Longrightarrow> ids_everywhere ids d \<Longrightarrow> ids_everywhere ids d'"
proof (induction script arbitrary: d)
  case (Cons s script)
  obtain ok d1 where s: "s d = (ok, d1)" by (cases "s d")
  from Cons.prems(1) [of s d ok d1] s Cons.prems(3) have d1: "ids_everywhere ids d1" by simp
  show ?case
  proof (cases ok)
    case True
    with s Cons.prems(2) have "sql_statements script d1 = (r, d')" by simp
    with d1 Cons.prems(1) show ?thesis by (intro Cons.IH) (auto)
  next
    case False
    with s Cons.prems(2) d1 show ?thesis by simp
  qed
qed simp

lemma ids_save:
  assumes "RCCalendarStoreSave ical store (re_calendar row) (re_href row) etag bytes len d = (r, d')"
    and "ids_everywhere ids d" and "row \<in> set (calendar_resources (tables d))"
  shows "ids_everywhere ids d'"
proof -
  let ?cal = "re_calendar row" and ?href = "re_href row"
  have a: "addressed ?cal ?href ids (tables d)" using assms(2,3) by (auto simp: addressed_def ids_everywhere_def contents_def at_resource_def)
  from ar.st.keepsD [OF save_keeps_address assms(1)] obtain ext where "keeps_address ?cal ?href ids (tables d) (tables d')"
    "txn d' = ext @ txn d" "\<forall>x \<in> set ext. keeps_address ?cal ?href ids (tables d) (snd x)"
    unfolding ar.related_def by blast
  with a assms(2) show ?thesis by (auto simp: keeps_address_def addressed_def ids_everywhere_def contents_def)
qed

lemma reparse_row_ids:
  assumes "reparse_row ical store row d = (r, d')" and ids: "ids_everywhere ids d" and row: "row \<in> set (calendar_resources (tables d))"
  shows "ids_everywhere ids d'"
proof (cases "is_ok (RCICalendarParse ical (column_blob (Some (re_raw row))) (length (re_raw row)))")
  case False
  with assms show ?thesis by (simp add: reparse_row_def)
next
  case True
  let ?undo = "RCCalendarStoreSQL [undo_statement reparse_savepoint]" and ?body = "column_blob (Some (re_raw row))"
  let ?fix = "RCCalendarStoreSQL [sql_statement (\<lambda>t. Some (reparsed row t)), sql_release reparse_savepoint]"
  obtain x d1 where s: "RCCalendarStoreSQL [sql_savepoint reparse_savepoint] d = (x, d1)" by (metis surj_pair)
  then have "sql_savepoint reparse_savepoint d = (is_ok x, d1)" using script_result [OF s] by (auto split: prod.splits if_splits)
  from ids_subset [OF control_contents(1) [OF this] ids] have d1: "ids_everywhere ids d1" .
  have undo: "ids_everywhere ids e'" if "?undo e = (y, e')" "ids_everywhere ids e" for e e' y
    by (rule ids_script [OF _ script_result [OF that(1)] that(2)]) (auto intro: ids_subset dest: control_contents(3))
  have fix_row: "ids_everywhere ids e'" if "?fix e = (y, e')" "ids_everywhere ids e" for e e' y
    by (rule ids_script [OF _ script_result [OF that(1)] that(2)]) (auto intro: ids_subset ids_reparsed dest: control_contents(2))
  show ?thesis
  proof (cases x)
    case (Inl e)
    with s d1 True assms(1) show ?thesis by (simp add: reparse_row_def)
  next
    case (Inr u)
    obtain y d2 where save: "RCCalendarStoreSave ical store (re_calendar row) (re_href row) (re_etag row) ?body (length (re_raw row)) d1 = (y, d2)"
      by (metis surj_pair)
    have "tables d1 = tables d"
      using s script_result [OF s] by (auto simp: sql_savepoint_def Let_def split: prod.splits if_splits dest!: sql_call_keeps)
    with row have d2: "ids_everywhere ids d2" by (intro ids_save [OF save d1]) simp
    obtain v d3 where f: "RCFind (\<lambda>t. map_option re_id (find (\<lambda>r. re_id r = re_id row \<and> re_parse_error r = None) (calendar_resources t))) d2 = (v, d3)"
      by (metis surj_pair)
    have d3: "ids_everywhere ids d3" using find_result [OF f] d2 by (auto intro: ids_same [of d3 d2])
    have turn: "reparse_row ical store row d = (case y of Inl e \<Rightarrow> chain (?undo d2) (\<lambda>_ d. (Inl e, d))
        | Inr _ \<Rightarrow> if v < 0 then ?undo d3 else ?fix d3)"
      unfolding reparse_row_def Let_def by (simp only: True not_True_eq_False if_False s Inr chain_simps save f prod.case)
    show ?thesis
    proof (cases y)
      case (Inl e)
      with assms(1) turn have "chain (?undo d2) (\<lambda>_ d. (Inl e, d)) = (r, d')" by simp
      then show ?thesis by (cases rule: chain_cases) (use undo d2 in auto)
    next
      case (Inr w)
      with assms(1) turn have "(if v < 0 then ?undo d3 else ?fix d3) = (r, d')" by simp
      then show ?thesis using undo fix_row d3 by (cases "v < 0") (simp_all, blast+)
    qed
  qed
qed

lemma reparse_next_row:
  assumes "reparse_next acct previous t = Some row"
  shows "row \<in> set (calendar_resources t) \<and> previous < re_id row"
proof -
  let ?rows = "filter (\<lambda>r. re_id r > previous \<and> re_parse_error r \<noteq> None \<and> present acct t r) (calendar_resources t)"
  from assms obtain rows where "sort_key re_id ?rows = row # rows"
    unfolding reparse_next_def by (cases "sort_key re_id ?rows") simp_all
  then have "row \<in> set ?rows" by (metis list.set_intros(1) set_sort)
  then show ?thesis by simp
qed

text \<open>The rows still to come are those with greater identifiers, which are fewer after each turn.\<close>

lemma reparse_loop_returns:
  "ids_everywhere ids d \<Longrightarrow> length (filter (\<lambda>i. previous < i) ids) < fuel \<Longrightarrow> fst (reparse_loop ical store fuel previous d) \<noteq> None"
proof (induction fuel arbitrary: previous d)
  case (Suc fuel)
  obtain ok d1 where p: "sql_prepare d = (ok, d1)" by (cases "sql_prepare d")
  obtain q d2 where s: "sql_query (reparse_next (ks_account store) previous) d1 = (q, d2)" by (metis surj_pair)
  note k = sql_prepare_keeps [OF p] sql_query_result [OF s]
  show ?case
  proof (cases "ok \<and> (\<exists>row. q = Some (Some row))")
    case False
    with p s show ?thesis by (auto split: option.split)
  next
    case True
    then obtain row where row: ok "q = Some (Some row)" by blast
    obtain r d3 where t: "reparse_row ical store row d2 = (r, d3)" by (metis surj_pair)
    from k row(2) have next_row: "row \<in> set (calendar_resources (tables d2))" "previous < re_id row"
      using reparse_next_row [of "ks_account store" previous "tables d1" row] by simp_all
    from k Suc.prems(1) have "ids_everywhere ids d2" by (intro ids_same [of d2 d]) simp_all
    from reparse_row_ids [OF t this next_row(1)] have d3: "ids_everywhere ids d3" .
    from k next_row Suc.prems(1) have "re_id row \<in> set (filter (\<lambda>i. previous < i) ids)" by (auto simp: ids_everywhere_def contents_def)
    then have "length (filter (\<lambda>i. re_id row < i) (filter (\<lambda>i. previous < i) ids)) < length (filter (\<lambda>i. previous < i) ids)"
      by (intro length_filter_less [where x = "re_id row"]) simp_all
    moreover have "filter (\<lambda>i. re_id row < i) (filter (\<lambda>i. previous < i) ids) = filter (\<lambda>i. re_id row < i) ids"
      using next_row(2) by (auto intro!: filter_cong)
    ultimately have "length (filter (\<lambda>i. re_id row < i) ids) < fuel" using Suc.prems(2) by simp
    from Suc.IH [OF d3 this] p s row t show ?thesis by (auto split: sum.split)
  qed
qed simp

section \<open>Opening ends\<close>

lemma map_script:
  "sql_statements (map (\<lambda>f. sql_statement (\<lambda>t. Some (f t))) fs) d = (ok, d') \<Longrightarrow> txn d' = txn d"
proof (induction fs arbitrary: d)
  case (Cons f fs)
  obtain ok1 d1 where s: "sql_statement (\<lambda>t. Some (f t)) d = (ok1, d1)" by (metis surj_pair)
  with Cons show ?case using statement_result [OF s] by (cases ok1) auto
qed simp

lemma last_statement:
  "sql_statements (script @ [s]) d = (True, d') \<Longrightarrow> \<exists>d1. s d1 = (True, d')"
  by (induction script arbitrary: d) (auto split: prod.splits if_splits)

lemma migrate_commits: "RCCalendarStoreSQL migrate_scope d = (Inr u, d') \<Longrightarrow> txn d' = []"
proof -
  assume "RCCalendarStoreSQL migrate_scope d = (Inr u, d')"
  from script_result [OF this] have "sql_statements (butlast migrate_scope @ [sql_commit]) d = (True, d')"
    by (simp add: migrate_scope_def is_ok_def)
  from last_statement [OF this] sql_commit_result show ?thesis by fastforce
qed

lemma upgrade_idle:
  assumes "upgrade d = (Inr u, d')" and "txn d = []"
  shows "txn d' = []"
proof -
  obtain v d1 where s: "RCScalar read_version d = (v, d1)" by (metis surj_pair)
  let ?migrated = "if v \<noteq> 2 then (Inr (), d1) else case RCCalendarStoreSQL migrate_scope d1 of
      (Inl e, d) \<Rightarrow> (Inl e, snd (RCCalendarStoreSQL [sql_rollback] d)) | r \<Rightarrow> r"
  let ?check = "\<lambda>d. let (version, d) = RCScalar read_version d in
      (if version \<noteq> 3 then Inl (RCErrorSet 1 ''Unsupported calendar database version'') else Inr (), d)"
  from assms(1) have "chain ?migrated (\<lambda>_. ?check) = (Inr u, d')" unfolding upgrade_def Let_def s prod.case .
  then obtain x d2 where m: "?migrated = (Inr x, d2)" and c: "?check d2 = (Inr u, d')" by (rule chain_InrE)
  obtain v2 d3 where s2: "RCScalar read_version d2 = (v2, d3)" by (metis surj_pair)
  from c s2 have "d' = d3" by (simp split: if_splits)
  moreover have "txn d2 = []"
  proof (cases "v = 2")
    case False
    with m scalar_result [OF s] assms(2) show ?thesis by simp
  next
    case True
    obtain y d4 where y: "RCCalendarStoreSQL migrate_scope d1 = (y, d4)" by (metis surj_pair)
    with m True show ?thesis by (cases y) (auto dest: migrate_commits)
  qed
  ultimately show ?thesis using scalar_result [OF s2] by simp
qed

lemma account_idle: "open_calendar_account username d = (r, d') \<Longrightarrow> txn d' = txn d"
  unfolding open_calendar_account_def Let_def
  by (elim chain_cases) (auto dest!: one_statement find_result split: prod.splits)

lemma journal_idle: "RCWriteJournalInitialize d = (r, d') \<Longrightarrow> txn d' = txn d"
  by (auto simp: RCWriteJournalInitialize_def journal_exec_def Let_def split: prod.splits if_splits dest!: sql_call_keeps)

lemma opening_idle:
  assumes "chain (RCCalendarStoreSQL [unchanged] d) (\<lambda>_ d.
      chain (RCCalendarStoreSQL (map (\<lambda>f. sql_statement (\<lambda>t. Some (f t))) calendar_schema) d) (\<lambda>_ d.
      chain (upgrade d) (\<lambda>_ d.
      chain (RCWriteJournalInitialize d) (\<lambda>_ d. open_calendar_account username d)))) = (Inr store, d')" and "txn d = []"
  shows "txn d' = []"
proof -
  from assms(1) obtain d1 d2 d3 d4 u v w x where s: "RCCalendarStoreSQL [unchanged] d = (Inr u, d1)"
    "RCCalendarStoreSQL (map (\<lambda>f. sql_statement (\<lambda>t. Some (f t))) calendar_schema) d1 = (Inr v, d2)"
    "upgrade d2 = (Inr w, d3)" "RCWriteJournalInitialize d3 = (Inr x, d4)" "open_calendar_account username d4 = (Inr store, d')"
    by (elim chain_InrE) blast
  have "txn d1 = txn d" using one_statement [of "\<lambda>_. Some" d "Inr u" d1] s(1) by (simp add: unchanged_def [abs_def])
  moreover have "txn d2 = txn d1" using map_script [OF script_result [OF s(2)]] .
  ultimately have "txn d3 = []" using upgrade_idle [OF s(3)] assms(2) by simp
  with journal_idle [OF s(4)] account_idle [OF s(5)] show ?thesis by simp
qed

lemma reparse_returns: "txn d = [] \<Longrightarrow> fst (RCReparseCachedResources ical store d) \<noteq> None"
proof -
  assume "txn d = []"
  then have "ids_everywhere (map re_id (calendar_resources (tables d))) d" by (simp add: ids_everywhere_def contents_def)
  from reparse_loop_returns [OF this, of 0 "Suc (length (calendar_resources (tables d)))" ical store]
  have "fst (reparse_loop ical store (Suc (length (calendar_resources (tables d)))) 0 d) \<noteq> None"
    by (simp add: le_imp_less_Suc [OF order_trans [OF length_filter_le]])
  then show ?thesis unfolding RCReparseCachedResources_def by (auto split: prod.splits option.splits sum.splits)
qed

text \<open>C11: opening a calendar store returns. Whatever the database file holds, whatever libical makes of the cached
  bodies and whichever calls of SQLite fail, the loop that retries the bodies ends within one
  turn more than there are resources, with the store or with an error.\<close>

theorem calendar_open_returns:
  assumes "\<And>d. opened = Some d \<Longrightarrow> txn d = []"
  shows "fst (RCCalendarStoreOpen ical path username opened restricted legacy) \<noteq> None"
proof (cases "path = None \<or> empty_text username \<or> opened = None \<or> \<not> restricted \<or> \<not> legacy")
  case True
  then show ?thesis by (auto simp: RCCalendarStoreOpen_def split: option.split)
next
  case False
  then obtain d where d: "opened = Some d" by (cases opened) simp_all
  let ?open = "chain (RCCalendarStoreSQL [unchanged] d) (\<lambda>_ d.
      chain (RCCalendarStoreSQL (map (\<lambda>f. sql_statement (\<lambda>t. Some (f t))) calendar_schema) d) (\<lambda>_ d.
      chain (upgrade d) (\<lambda>_ d.
      chain (RCWriteJournalInitialize d) (\<lambda>_ d. open_calendar_account (the username) d))))"
  obtain r d1 where o: "?open = (r, d1)" by (metis surj_pair)
  have "fst (RCReparseCachedResources ical store d1) \<noteq> None" if "r = Inr store" for store
    using reparse_returns opening_idle [OF o [unfolded that]] assms [OF d] by blast
  with False d o show ?thesis by (cases r) (auto simp: RCCalendarStoreOpen_def split: prod.splits option.splits sum.splits)
qed

theorem calendar_open_returns_witness:
  "txn (open_db plan_tables) = [] \<and>
     fst (RCCalendarStoreOpen plain_ical (Some ''db'') (Some ''u'') (Some (open_db plan_tables)) True True) \<noteq> None"
proof
  show idle: "txn (open_db plan_tables) = []" by (simp add: open_db_def)
  show "fst (RCCalendarStoreOpen plain_ical (Some ''db'') (Some ''u'') (Some (open_db plan_tables)) True True) \<noteq> None"
    by (rule calendar_open_returns) (use idle in simp)
qed

end
