(* ===== verification/CalendarPrune.thy ===== *)
theory CalendarPrune
  imports CalendarAtomicity CalendarDemo
begin

text \<open>
  The pruning of what has left the history window: it is one transaction, it releases cached
  bodies and parsed rows only, and it leaves alone whatever an outgoing write still needs.
\<close>

section \<open>Scripts of total statements\<close>




section \<open>The script\<close>






section \<open>What pruning keeps\<close>

definition retained :: "resource_row \<Rightarrow> (int \<times> int) \<times> string \<times> string option \<times> int option \<times> bool \<times> bool" where
  "retained r = (row_identity r, re_href r, re_uid r, re_seen r, re_missing r, re_excluded r)"

lemma retained_pruned [simp]: "retained (pruned_resource r) = retained r"
  by (simp add: retained_def pruned_resource_def row_identity_def)
















end
