(* ===== verification/CalendarProjection.thy ===== *)
theory CalendarProjection
  imports ICalendar Complex_Main "HOL-Library.Signed_Division"
begin

text \<open>
  \<^verbatim>\<open>source/shared/RCCalendarProjection.c\<close>: the rewriting of an event for a platform that knows only
  daily rules with exceptions and has time zones of its own. libical is an argument: its components
  and properties are opaque, a recurrence rule is the sequence of its occurrences, and what
  mutates a component returns the new one. A calendar is its events in order, which is where
  the code appends, and the rest of the document.
\<close>

section \<open>libical\<close>

record 'z caltime = icaltimetype +
  t_zone :: "'z option"

datatype property_kind = RRULE | RDATE | EXRULE | EXDATE | DTSTART | DTEND | DURATION | RECURRENCEID | TRIGGER | TZOFFSETFROM | TZOFFSETTO

text \<open>
  \<open>iterate r start\<close> is an iterator: what its calls return one after the other, a null time at the
  end. \<open>daily n\<close> is the rule \<open>FREQ=DAILY\<close> with \<open>COUNT\<close> \<open>n\<close>, \<open>adjust t d h m s\<close> is \<open>icaltime_adjust\<close>.
\<close>

record ('c, 'p, 'v, 'r, 'z, 'd) libical_recur = "('c, 'p, 'v, property_kind) libical" +
  properties_of :: "'c \<Rightarrow> property_kind \<Rightarrow> 'p list"
  remove_property :: "'c \<Rightarrow> 'p \<Rightarrow> 'c"
  add_property :: "'c \<Rightarrow> 'p \<Rightarrow> 'c"
  start_of :: "'c \<Rightarrow> 'z caltime"
  end_of :: "'c \<Rightarrow> 'z caltime"
  duration_seconds :: "'c \<Rightarrow> int"
  alarms_of :: "'c \<Rightarrow> 'c list"
  trigger_time :: "'p \<Rightarrow> 'z caltime"
  rdate_time :: "'p \<Rightarrow> 'z caltime"
  exdate_time :: "'p \<Rightarrow> 'z caltime"
  rule_of :: "'p \<Rightarrow> 'r"
  rule_count :: "'r \<Rightarrow> int"
  rule_until :: "'r \<Rightarrow> 'z caltime"
  iterate :: "'r \<Rightarrow> 'z caltime \<Rightarrow> (nat \<Rightarrow> 'z caltime) option"
  daily :: "nat \<Rightarrow> 'r"
  new_rrule :: "'r \<Rightarrow> 'p"
  new_time :: "property_kind \<Rightarrow> 'z caltime \<Rightarrow> 'p"
  with_tzid :: "string \<Rightarrow> 'p \<Rightarrow> 'p"
  null_time :: "'z caltime"
  valid_time :: "'z caltime \<Rightarrow> bool"
  utc_time :: "'z caltime \<Rightarrow> bool"
  day_of_year :: "'z caltime \<Rightarrow> int"
  adjust :: "'z caltime \<Rightarrow> int \<Rightarrow> int \<Rightarrow> int \<Rightarrow> int \<Rightarrow> 'z caltime"
  compare_times :: "'z caltime \<Rightarrow> 'z caltime \<Rightarrow> int"
  add_duration :: "'z caltime \<Rightarrow> 'c \<Rightarrow> 'z caltime"
  get_timezone :: "'d \<Rightarrow> string \<Rightarrow> 'z option"
  builtin_timezone :: "string \<Rightarrow> 'z option"
  utc_timezone :: 'z
  zone_parts :: "'z \<Rightarrow> 'c list"
  offset_of :: "'p \<Rightarrow> int"
  utc_offset :: "'z \<Rightarrow> 'z caltime \<Rightarrow> int"
  convert_time :: "'z caltime \<Rightarrow> 'z \<Rightarrow> 'z \<Rightarrow> 'z caltime"
  null_caltime :: "'z caltime \<Rightarrow> bool"

type_synonym ('c, 'd) calendar_root = "'d \<times> 'c list"

section \<open>Dates\<close>

text \<open>A finite double is a rational; \<open>None\<close> is an infinity or not a number. The sum is rounded.\<close>

definition RCCalendarImportSecondsFit :: "(rat \<Rightarrow> rat) \<Rightarrow> rat option \<Rightarrow> bool" where
  "RCCalendarImportSecondsFit rounded seconds = (case seconds of None \<Rightarrow> False
     | Some x \<Rightarrow> (let unixSeconds = rounded (x + 978307200) in
         x \<ge> -2147483648 \<and> x \<le> 2147483647 \<and> unixSeconds \<ge> -2147483648 \<and> unixSeconds \<le> 2147483647))"

definition CivilDay :: "('c, 'p, 'v, 'r, 'z, 'd) libical_recur \<Rightarrow> 'z caltime \<Rightarrow> int" where
  "CivilDay ical t = (let y = t_year t - 1 in 365 * y + y sdiv 4 - y sdiv 100 + y sdiv 400 + day_of_year ical t)"

definition RCRecurrenceDay :: "('c, 'p, 'v, 'r, 'z, 'd) libical_recur \<Rightarrow> 'z caltime \<Rightarrow> 'z caltime \<Rightarrow> nat option" where
  "RCRecurrenceDay ical start date =
     (if null_caltime ical date \<or> \<not> valid_time ical date \<or> \<not> valid_time ical start \<or> t_is_date start \<noteq> t_is_date date \<or>
         t_hour start \<noteq> t_hour date \<or> t_minute start \<noteq> t_minute date \<or> t_second start \<noteq> t_second date then None
      else let days = CivilDay ical date - CivilDay ical start in
        if days < 0 \<or> days > 3660 then None else Some (nat days))"

section \<open>Rules and extra dates as a daily rule with exceptions\<close>

definition unsupported_recurrence :: RCError where
  "unsupported_recurrence = RCErrorSet 1 ''RDATE/EXRULE requires a finite set within ten years at the DTSTART wall time and timezone''"

fun mark_dates :: "('c, 'p, 'v, 'r, 'z, 'd) libical_recur \<Rightarrow> 'z caltime \<Rightarrow> string option \<Rightarrow> 'p list \<Rightarrow> bool list \<Rightarrow> nat \<Rightarrow> (bool list \<times> nat) option" where
  "mark_dates ical start tz [] days lastDay = Some (days, lastDay)"
| "mark_dates ical start tz (p # ps) days lastDay =
     (let t = rdate_time ical p in
      if tz \<noteq> RCICalendarTZID ical (Some p) \<or> utc_time ical start \<noteq> utc_time ical t then None
      else case RCRecurrenceDay ical start t of
        None \<Rightarrow> None
      | Some day \<Rightarrow> mark_dates ical start tz ps (days[day := True]) (max lastDay day))"

text \<open>
  One rule: the calls of its iterator from the \<open>k\<close>th on, while \<open>inside\<close> holds. The budget of 10000
  occurrences, shared by all rules of the event, ends the loop.
\<close>

function rule_turns ::
  "('c, 'p, 'v, 'r, 'z, 'd) libical_recur \<Rightarrow> 'z caltime \<Rightarrow> ('z caltime \<Rightarrow> bool) \<Rightarrow> (nat \<Rightarrow> 'z caltime) \<Rightarrow> nat \<Rightarrow> nat \<Rightarrow> nat list \<Rightarrow> (nat \<times> nat list) option" where
  "rule_turns ical start inside seq k budget acc =
     (if null_caltime ical (seq k) \<or> \<not> inside (seq k) then Some (budget, acc)
      else if budget + 1 > 10000 then None
      else case RCRecurrenceDay ical start (seq k) of
        None \<Rightarrow> None
      | Some day \<Rightarrow> rule_turns ical start inside seq (Suc k) (budget + 1) (acc @ [day]))"
  by pat_completeness auto
termination
  by (relation "measure (\<lambda>(_, _, _, _, _, budget, _). 10000 - budget)") auto

declare rule_turns.simps [simp del]

text \<open>The days of the rules of an event, in the order in which the code marks or clears them.\<close>

fun rules_days ::
  "('c, 'p, 'v, 'r, 'z, 'd) libical_recur \<Rightarrow> 'z caltime \<Rightarrow> ('r \<Rightarrow> bool) \<Rightarrow> ('z caltime \<Rightarrow> bool) \<Rightarrow> 'p list \<Rightarrow> nat \<Rightarrow> (nat \<times> nat list) option" where
  "rules_days ical start usable inside [] budget = Some (budget, [])"
| "rules_days ical start usable inside (p # ps) budget =
     (let rule = rule_of ical p in
      if \<not> usable rule then None
      else case iterate ical rule start of
        None \<Rightarrow> None
      | Some seq \<Rightarrow>
          (case rule_turns ical start inside seq 0 budget [] of
             None \<Rightarrow> None
           | Some (budget, ds) \<Rightarrow>
               (case rules_days ical start usable inside ps budget of None \<Rightarrow> None | Some (budget, es) \<Rightarrow> Some (budget, ds @ es))))"

definition mark_all :: "bool \<Rightarrow> nat list \<Rightarrow> bool list \<Rightarrow> bool list" where
  "mark_all b ds days = fold (\<lambda>d days. days[d := b]) ds days"

definition finite_rule :: "('c, 'p, 'v, 'r, 'z, 'd) libical_recur \<Rightarrow> 'r \<Rightarrow> bool" where
  "finite_rule ical rule \<longleftrightarrow> \<not> (rule_count ical rule = 0 \<and> null_caltime ical (rule_until ical rule))"

text \<open>Removing the properties of a kind; the loop is given as many turns as there are properties, and one to find none.\<close>

fun remove_loop :: "('c, 'p, 'v, 'r, 'z, 'd) libical_recur \<Rightarrow> nat \<Rightarrow> property_kind \<Rightarrow> 'c \<Rightarrow> 'c option" where
  "remove_loop ical 0 kind event = None"
| "remove_loop ical (Suc fuel) kind event =
     (case first_property ical event kind of
        None \<Rightarrow> Some event
      | Some p \<Rightarrow> remove_loop ical fuel kind (remove_property ical event p))"

definition RemoveProperties :: "('c, 'p, 'v, 'r, 'z, 'd) libical_recur \<Rightarrow> property_kind \<Rightarrow> 'c \<Rightarrow> 'c option" where
  "RemoveProperties ical kind event = remove_loop ical (Suc (length (properties_of ical event kind))) kind event"

fun remove_kinds :: "('c, 'p, 'v, 'r, 'z, 'd) libical_recur \<Rightarrow> property_kind list \<Rightarrow> 'c \<Rightarrow> 'c option" where
  "remove_kinds ical [] event = Some event"
| "remove_kinds ical (k # ks) event = (case RemoveProperties ical k event of None \<Rightarrow> None | Some event \<Rightarrow> remove_kinds ical ks event)"

definition exception_property :: "('c, 'p, 'v, 'r, 'z, 'd) libical_recur \<Rightarrow> 'z caltime \<Rightarrow> string option \<Rightarrow> nat \<Rightarrow> 'p" where
  "exception_property ical start tz day =
     (let p = new_time ical EXDATE (adjust ical start (int day) 0 0 0) in case tz of None \<Rightarrow> p | Some z \<Rightarrow> with_tzid ical z p)"

definition write_daily :: "('c, 'p, 'v, 'r, 'z, 'd) libical_recur \<Rightarrow> 'z caltime \<Rightarrow> string option \<Rightarrow> bool list \<Rightarrow> nat \<Rightarrow> 'c \<Rightarrow> 'c" where
  "write_daily ical start tz days lastDay event =
     fold (\<lambda>day event. if days ! day then event else add_property ical event (exception_property ical start tz day)) [0..<lastDay + 1]
       (add_property ical event (new_rrule ical (daily ical (lastDay + 1))))"

definition start_only :: "bool list" where
  "start_only = True # replicate 3660 False"

definition RCExpandFiniteRecurrence :: "('c, 'p, 'v, 'r, 'z, 'd) libical_recur \<Rightarrow> 'c \<Rightarrow> 'c res option" where
  "RCExpandFiniteRecurrence ical event =
     (if properties_of ical event RDATE = [] \<and> properties_of ical event EXRULE = [] then Some (Inr event)
      else let start = start_of ical event; tz = RCICalendarTZID ical (first_property ical event DTSTART);
               unsupported = Some (Inl unsupported_recurrence)
      in case mark_dates ical start tz (properties_of ical event RDATE) start_only 0 of
           None \<Rightarrow> unsupported
         | Some (days, lastDay) \<Rightarrow>
             (case rules_days ical start (finite_rule ical) (\<lambda>_. True) (properties_of ical event RRULE) 0 of
                None \<Rightarrow> unsupported
              | Some (budget, ds) \<Rightarrow>
                  (let days = mark_all True ds days; lastDay = fold max ds lastDay; limit = adjust ical start (int lastDay) 0 0 0 in
                   case rules_days ical start (\<lambda>_. True) (\<lambda>t. compare_times ical t limit \<le> 0) (properties_of ical event EXRULE) budget of
                     None \<Rightarrow> unsupported
                   | Some (budget, es) \<Rightarrow>
                       (let days = mark_all False es days in
                        case remove_kinds ical [RRULE, RDATE, EXRULE] event of
                          None \<Rightarrow> None
                        | Some event \<Rightarrow> Some (Inr (write_daily ical start tz days lastDay event))))))"

section \<open>Time zones\<close>

definition RCCalendarSourceZone :: "('c, 'p, 'v, 'r, 'z, 'd) libical_recur \<Rightarrow> 'd \<Rightarrow> 'p option \<Rightarrow> 'z option" where
  "RCCalendarSourceZone ical document p =
     (case RCICalendarTZID ical p of None \<Rightarrow> None
      | Some tz \<Rightarrow>
          (case (case get_timezone ical document tz of None \<Rightarrow> builtin_timezone ical tz | z \<Rightarrow> z) of
             None \<Rightarrow> None
           | Some zone \<Rightarrow>
               if zone = utc_timezone ical then Some zone
               else if zone_parts ical zone \<noteq> [] \<and>
                   list_all (\<lambda>part. first_property ical part TZOFFSETFROM \<noteq> None \<and> first_property ical part TZOFFSETTO \<noteq> None \<and>
                     \<not> null_caltime ical (start_of ical part) \<and> valid_time ical (start_of ical part)) (zone_parts ical zone)
               then Some zone else None))"

definition RCSourceZoneIsFixed :: "('c, 'p, 'v, 'r, 'z, 'd) libical_recur \<Rightarrow> 'z \<Rightarrow> int \<Rightarrow> bool" where
  "RCSourceZoneIsFixed ical zone offset \<longleftrightarrow> zone_parts ical zone \<noteq> [] \<and>
     list_all (\<lambda>part. case (first_property ical part TZOFFSETFROM, first_property ical part TZOFFSETTO) of
         (Some f, Some t) \<Rightarrow> offset_of ical f = offset \<and> offset_of ical t = offset | _ \<Rightarrow> False) (zone_parts ical zone)"

text \<open>
  The comparison with the offsets of the platform, day by day at noon, to the end of the fifth year after
  the start. Six years have less than 2200 days, which is the fuel.
\<close>

fun offsets_differ ::
  "('c, 'p, 'v, 'r, 'z, 'd) libical_recur \<Rightarrow> nat \<Rightarrow> (string option \<Rightarrow> 'z caltime \<Rightarrow> int option) option \<Rightarrow> string option \<Rightarrow> 'z \<Rightarrow> int \<Rightarrow>
   'z caltime \<Rightarrow> bool option" where
  "offsets_differ ical 0 nativeOffset tz source lastYear t = None"
| "offsets_differ ical (Suc fuel) nativeOffset tz source lastYear t =
     (if t_year t > lastYear then Some False
      else let offset = utc_offset ical source t;
               utc = (adjust ical t 0 0 0 (- offset))\<lparr>t_zone := Some (utc_timezone ical)\<rparr>
      in if nativeOffset = None \<or> the nativeOffset tz utc \<noteq> Some offset then Some True
         else offsets_differ ical fuel nativeOffset tz source lastYear (adjust ical t 1 0 0 0))"

definition RCCalendarNeedsUTCProjection ::
  "('c, 'p, 'v, 'r, 'z, 'd) libical_recur \<Rightarrow> (string option \<Rightarrow> 'z caltime \<Rightarrow> int option) option \<Rightarrow> 'd \<Rightarrow> 'c \<Rightarrow> bool option" where
  "RCCalendarNeedsUTCProjection ical nativeOffset document event =
     (let p = first_property ical event DTSTART; start = start_of ical event in
      if t_is_date start \<or> RCICalendarTZID ical p = None \<or> properties_of ical event RRULE = [] then Some False
      else case RCCalendarSourceZone ical document p of
        None \<Rightarrow> Some False
      | Some source \<Rightarrow>
          if RCSourceZoneIsFixed ical source (utc_offset ical source start) then Some False
          else offsets_differ ical 2200 nativeOffset (RCICalendarTZID ical p) source (t_year start + 5)
                 (start\<lparr>t_month := 1, t_day := 1, t_hour := 12\<rparr>))"

definition UTC :: "('c, 'p, 'v, 'r, 'z, 'd) libical_recur \<Rightarrow> 'z caltime \<Rightarrow> int \<Rightarrow> 'z caltime" where
  "UTC ical wall offset = (adjust ical wall 0 0 0 (- offset))\<lparr>t_zone := Some (utc_timezone ical)\<rparr>"

text \<open>The occurrences by day, as instants.\<close>

function occurrence_turns ::
  "('c, 'p, 'v, 'r, 'z, 'd) libical_recur \<Rightarrow> 'c \<Rightarrow> 'z \<Rightarrow> 'z caltime \<Rightarrow> (nat \<Rightarrow> 'z caltime) \<Rightarrow> nat \<Rightarrow> nat \<Rightarrow> 'z caltime list \<Rightarrow> nat \<Rightarrow>
   ('z caltime list \<times> nat) option" where
  "occurrence_turns ical event zone start seq k budget occurrences lastDay =
     (let t = seq k in
      if null_caltime ical t then Some (occurrences, lastDay)
      else if budget + 1 > 10000 \<or> t_year t > 2037 \<or> t_year (add_duration ical t event) > 2037 then None
      else case RCRecurrenceDay ical start t of
        None \<Rightarrow> None
      | Some day \<Rightarrow> occurrence_turns ical event zone start seq (Suc k) (budget + 1)
          (occurrences[day := UTC ical t (utc_offset ical zone t)]) (max lastDay day))"
  by pat_completeness auto
termination
  by (relation "measure (\<lambda>(_, _, _, _, _, _, budget, _). 10000 - budget)") auto

declare occurrence_turns.simps [simp del]

fun except_occurrences ::
  "('c, 'p, 'v, 'r, 'z, 'd) libical_recur \<Rightarrow> 'd \<Rightarrow> 'z \<Rightarrow> 'z caltime \<Rightarrow> 'p list \<Rightarrow> 'z caltime list \<Rightarrow> 'z caltime list option" where
  "except_occurrences ical document zone start [] occurrences = Some occurrences"
| "except_occurrences ical document zone start (p # ps) occurrences =
     (let t = exdate_time ical p;
          source = (if utc_time ical t then Some (utc_timezone ical) else RCCalendarSourceZone ical document (Some p)) in
      case source of
        None \<Rightarrow> None
      | Some z \<Rightarrow>
          if t_is_date t then None
          else except_occurrences ical document zone start ps
            (case RCRecurrenceDay ical start (convert_time ical t z zone) of
               None \<Rightarrow> occurrences | Some day \<Rightarrow> occurrences[day := null_time ical]))"

definition time_kinds :: "property_kind list" where
  "time_kinds = [RRULE, RDATE, EXRULE, EXDATE, DTSTART, DTEND]"

definition detached_occurrence ::
  "('c, 'p, 'v, 'r, 'z, 'd) libical_recur \<Rightarrow> int \<Rightarrow> 'c \<Rightarrow> 'z caltime \<Rightarrow> 'z caltime \<Rightarrow> 'c option" where
  "detached_occurrence ical seconds template baseline actual =
     (case remove_kinds ical time_kinds template of
        None \<Rightarrow> None
      | Some c \<Rightarrow>
          (let c = add_property ical c (new_time ical RECURRENCEID baseline);
               c = add_property ical c (new_time ical DTSTART actual)
           in Some (add_property ical c (new_time ical DTEND (adjust ical actual 0 0 0 seconds)))))"

text \<open>The loop over the days: the event with its exceptions, and the detached occurrences in order.\<close>

fun write_occurrences ::
  "('c, 'p, 'v, 'r, 'z, 'd) libical_recur \<Rightarrow> int \<Rightarrow> 'c \<Rightarrow> 'z caltime \<Rightarrow> 'z caltime list \<Rightarrow> nat list \<Rightarrow> 'c \<Rightarrow> 'c list \<Rightarrow> ('c \<times> 'c list) option" where
  "write_occurrences ical seconds template first occurrences [] event detached = Some (event, detached)"
| "write_occurrences ical seconds template first occurrences (day # rest) event detached =
     (let baseline = adjust ical first (int day) 0 0 0; actual = occurrences ! day in
      if null_caltime ical actual
      then write_occurrences ical seconds template first occurrences rest (add_property ical event (new_time ical EXDATE baseline)) detached
      else if compare_times ical actual baseline = 0
      then write_occurrences ical seconds template first occurrences rest event detached
      else case detached_occurrence ical seconds template baseline actual of
        None \<Rightarrow> None
      | Some c \<Rightarrow> write_occurrences ical seconds template first occurrences rest event (detached @ [c]))"

definition unsupported_projection :: RCError where
  "unsupported_projection = RCErrorSet 1
     ''Changed timezone rules require a finite series ending by 2037, spanning at most ten years, without existing detached instances, absolute reminders or DURATION''"

text \<open>The limits of what can be projected, apart from those found while the occurrences are made.\<close>

definition projectable :: "('c, 'p, 'v, 'r, 'z, 'd) libical_recur \<Rightarrow> 'c list \<Rightarrow> 'c \<Rightarrow> bool" where
  "projectable ical events event \<longleftrightarrow>
     list_all (\<lambda>e. properties_of ical e RECURRENCEID = []) events \<and>
     list_all (\<lambda>a. case first_property ical a TRIGGER of None \<Rightarrow> True | Some t \<Rightarrow> null_caltime ical (trigger_time ical t)) (alarms_of ical event) \<and>
     (case properties_of ical event RRULE of [p] \<Rightarrow> finite_rule ical (rule_of ical p) | _ \<Rightarrow> False) \<and>
     t_year (start_of ical event) \<le> 2037 \<and> t_year (end_of ical event) \<le> 2037 \<and>
     0 \<le> duration_seconds ical event \<and> duration_seconds ical event \<le> 86400 \<and> properties_of ical event DURATION = []"

definition ProjectTimezone ::
  "('c, 'p, 'v, 'r, 'z, 'd) libical_recur \<Rightarrow> (string option \<Rightarrow> 'z caltime \<Rightarrow> int option) option \<Rightarrow> nat \<Rightarrow> ('c, 'd) calendar_root \<Rightarrow>
   ('c, 'd) calendar_root res option" where
  "ProjectTimezone ical nativeOffset i calendar =
     (let document = fst calendar; events = snd calendar; event = events ! i; unsupported = Some (Inl unsupported_projection) in
      case RCCalendarNeedsUTCProjection ical nativeOffset document event of
        None \<Rightarrow> None
      | Some False \<Rightarrow> Some (Inr calendar)
      | Some True \<Rightarrow>
          if \<not> projectable ical events event then unsupported
          else let zone = the (RCCalendarSourceZone ical document (first_property ical event DTSTART)); start = start_of ical event;
                   first = UTC ical start (utc_offset ical zone start); seconds = duration_seconds ical event;
                   blank = replicate 3661 (null_time ical)
          in case iterate ical (rule_of ical (hd (properties_of ical event RRULE))) start of
               None \<Rightarrow> unsupported
             | Some seq \<Rightarrow>
          (case occurrence_turns ical event zone start seq 0 0 (blank[0 := first]) 0 of
             None \<Rightarrow> unsupported
           | Some (occurrences, lastDay) \<Rightarrow>
          (case except_occurrences ical document zone start (properties_of ical event EXDATE) occurrences of
             None \<Rightarrow> unsupported
           | Some occurrences \<Rightarrow>
          (case remove_kinds ical time_kinds event of
             None \<Rightarrow> None
           | Some bare \<Rightarrow>
               (let bare = add_property ical bare (new_time ical DTSTART first);
                    bare = add_property ical bare (new_time ical DTEND (adjust ical first 0 0 0 seconds));
                    bare = add_property ical bare (new_rrule ical (daily ical (lastDay + 1)))
                in case write_occurrences ical seconds event first occurrences [0..<lastDay + 1] bare [] of
                     None \<Rightarrow> None
                   | Some (rewritten, detached) \<Rightarrow> Some (Inr (document, events[i := rewritten] @ detached)))))))"

section \<open>The whole calendar\<close>

text \<open>The events are those there at first; what a projection appends is left alone.\<close>

fun expand_events :: "('c, 'p, 'v, 'r, 'z, 'd) libical_recur \<Rightarrow> nat list \<Rightarrow> ('c, 'd) calendar_root \<Rightarrow> ('c, 'd) calendar_root res option" where
  "expand_events ical [] calendar = Some (Inr calendar)"
| "expand_events ical (i # rest) calendar =
     (case RCExpandFiniteRecurrence ical (snd calendar ! i) of
        None \<Rightarrow> None
      | Some (Inl e) \<Rightarrow> Some (Inl e)
      | Some (Inr event) \<Rightarrow> expand_events ical rest (fst calendar, (snd calendar)[i := event]))"

fun project_events ::
  "('c, 'p, 'v, 'r, 'z, 'd) libical_recur \<Rightarrow> (string option \<Rightarrow> 'z caltime \<Rightarrow> int option) option \<Rightarrow> nat list \<Rightarrow> ('c, 'd) calendar_root \<Rightarrow>
   ('c, 'd) calendar_root res option" where
  "project_events ical nativeOffset [] calendar = Some (Inr calendar)"
| "project_events ical nativeOffset (i # rest) calendar =
     (case ProjectTimezone ical nativeOffset i calendar of
        None \<Rightarrow> None
      | Some (Inl e) \<Rightarrow> Some (Inl e)
      | Some (Inr calendar) \<Rightarrow> project_events ical nativeOffset rest calendar)"

definition RCCalendarPrepareProjection ::
  "('c, 'p, 'v, 'r, 'z, 'd) libical_recur \<Rightarrow> (string option \<Rightarrow> 'z caltime \<Rightarrow> int option) option \<Rightarrow> ('c, 'd) calendar_root \<Rightarrow>
   ('c, 'd) calendar_root res option" where
  "RCCalendarPrepareProjection ical nativeOffset calendar =
     (let originals = [0..<length (snd calendar)] in
      case expand_events ical originals calendar of
        Some (Inr calendar) \<Rightarrow> project_events ical nativeOffset originals calendar
      | r \<Rightarrow> r)"

end
