(* ===== verification/ProjectionContract.thy ===== *)
theory ProjectionContract
  imports CalendarProjection
begin

text \<open>
  The finite recurrences of \<open>CalendarProjection\<close>: the daily rule with exceptions that replaces extra
  dates and exclusion rules shows exactly the days they describe.
\<close>

section \<open>What libical documents\<close>

text \<open>Properties are kept in order by kind; adding appends, removing takes out the one given.\<close>

definition keeps_properties :: "('c, 'p, 'v, 'r, 'z, 'd) libical_recur \<Rightarrow> ('p \<Rightarrow> property_kind) \<Rightarrow> bool" where
  "keeps_properties ical kind \<longleftrightarrow>
     (\<forall>c k. first_property ical c k = (case properties_of ical c k of [] \<Rightarrow> None | p # _ \<Rightarrow> Some p)) \<and>
     (\<forall>c k p. p \<in> set (properties_of ical c k) \<longrightarrow> kind p = k) \<and>
     (\<forall>c k p. properties_of ical (remove_property ical c p) k = remove1 p (properties_of ical c k)) \<and>
     (\<forall>c k p. properties_of ical (add_property ical c p) k = properties_of ical c k @ (if kind p = k then [p] else [])) \<and>
     (\<forall>r. kind (new_rrule ical r) = RRULE) \<and> (\<forall>k t. kind (new_time ical k t) = k) \<and> (\<forall>z p. kind (with_tzid ical z p) = kind p)"

lemma keeps_propertiesD:
  assumes "keeps_properties ical kind"
  shows "first_property ical c k = (case properties_of ical c k of [] \<Rightarrow> None | p # _ \<Rightarrow> Some p)"
    and "p \<in> set (properties_of ical c k) \<Longrightarrow> kind p = k"
    and "properties_of ical (remove_property ical c p) k = remove1 p (properties_of ical c k)"
    and "properties_of ical (add_property ical c p) k = properties_of ical c k @ (if kind p = k then [p] else [])"
    and "kind (new_rrule ical r) = RRULE" and "kind (new_time ical k t) = k" and "kind (with_tzid ical z p) = kind p"
  using assms by (simp_all add: keeps_properties_def)

lemma remove_loop_result:
  assumes "keeps_properties ical kind"
  shows "length (properties_of ical c k) < fuel \<Longrightarrow> \<exists>c'. remove_loop ical fuel k c = Some c' \<and> properties_of ical c' k = [] \<and>
    (\<forall>k'. k' \<noteq> k \<longrightarrow> properties_of ical c' k' = properties_of ical c k')"
proof (induction fuel arbitrary: c)
  case (Suc fuel)
  note d = keeps_propertiesD [OF assms]
  show ?case
  proof (cases "properties_of ical c k")
    case Nil
    then show ?thesis by (simp add: d(1))
  next
    case (Cons p ps)
    let ?c = "remove_property ical c p"
    have "kind p = k" using d(2) [of p c k] Cons by simp
    then have "p \<notin> set (properties_of ical c k')" if "k' \<noteq> k" for k' using d(2) that by metis
    then have other: "properties_of ical ?c k' = properties_of ical c k'" if "k' \<noteq> k" for k' using that by (simp add: d(3) remove1_idem)
    have "length (properties_of ical ?c k) < fuel" using Suc.prems Cons by (simp add: d(3))
    from Suc.IH [OF this] other Cons show ?thesis by (auto simp: d(1))
  qed
qed simp

lemma remove_kinds_result:
  assumes "keeps_properties ical kind"
  shows "\<exists>c'. remove_kinds ical ks c = Some c' \<and> (\<forall>k. properties_of ical c' k = (if k \<in> set ks then [] else properties_of ical c k))"
proof (induction ks arbitrary: c)
  case (Cons k ks)
  from remove_loop_result [OF assms, of c k "Suc (length (properties_of ical c k))"]
  obtain c1 where c1: "RemoveProperties ical k c = Some c1" "properties_of ical c1 k = []"
    "\<forall>k'. k' \<noteq> k \<longrightarrow> properties_of ical c1 k' = properties_of ical c k'" by (auto simp: RemoveProperties_def)
  from Cons.IH [of c1] obtain c2 where "remove_kinds ical ks c1 = Some c2"
    "\<forall>k. properties_of ical c2 k = (if k \<in> set ks then [] else properties_of ical c1 k)" by blast
  with c1 show ?case by (intro exI [where x = c2]) auto
qed simp

section \<open>The days that are marked\<close>

text \<open>The days of one rule: its iterator up to the first time that is null or beyond the limit.\<close>

definition series :: "('c, 'p, 'v, 'r, 'z, 'd) libical_recur \<Rightarrow> 'z caltime \<Rightarrow> ('z caltime \<Rightarrow> bool) \<Rightarrow> 'p \<Rightarrow> nat list \<Rightarrow> bool" where
  "series ical start inside p ds \<longleftrightarrow> (\<exists>seq. iterate ical (rule_of ical p) start = Some seq \<and>
     (null_caltime ical (seq (length ds)) \<or> \<not> inside (seq (length ds))) \<and>
     (\<forall>j < length ds. \<not> null_caltime ical (seq j) \<and> inside (seq j) \<and> RCRecurrenceDay ical start (seq j) = Some (ds ! j)))"

lemma recurrence_day_bound: "RCRecurrenceDay ical start t = Some day \<Longrightarrow> day \<le> 3660"
  by (auto simp: RCRecurrenceDay_def Let_def split: if_splits)

lemma turns_result:
  "rule_turns ical start inside seq k budget acc = Some (b, acc') \<Longrightarrow> budget \<le> 10000 \<Longrightarrow>
     \<exists>ds. acc' = acc @ ds \<and> b = budget + length ds \<and> b \<le> 10000 \<and>
       (null_caltime ical (seq (k + length ds)) \<or> \<not> inside (seq (k + length ds))) \<and>
       (\<forall>j < length ds. \<not> null_caltime ical (seq (k + j)) \<and> inside (seq (k + j)) \<and> RCRecurrenceDay ical start (seq (k + j)) = Some (ds ! j))"
proof (induction ical start inside seq k budget acc rule: rule_turns.induct)
  case (1 ical start inside seq k budget acc)
  note step = "1.prems"(1) [unfolded rule_turns.simps [of ical start inside seq k budget acc]]
  show ?case
  proof (cases "null_caltime ical (seq k) \<or> \<not> inside (seq k)")
    case True
    with step "1.prems"(2) show ?thesis by (intro exI [where x = "[]"]) auto
  next
    case False
    with step have b: "\<not> budget + 1 > 10000" by (auto split: if_splits)
    with False step obtain day where day: "RCRecurrenceDay ical start (seq k) = Some day" by (auto split: option.splits)
    with False b step have "rule_turns ical start inside seq (Suc k) (budget + 1) (acc @ [day]) = Some (b, acc')" by simp
    from "1.IH" [OF False b day this] b obtain ds where ds: "acc' = (acc @ [day]) @ ds" "b = budget + 1 + length ds" "b \<le> 10000"
      "null_caltime ical (seq (Suc k + length ds)) \<or> \<not> inside (seq (Suc k + length ds))"
      "\<forall>j < length ds. \<not> null_caltime ical (seq (Suc k + j)) \<and> inside (seq (Suc k + j)) \<and> RCRecurrenceDay ical start (seq (Suc k + j)) = Some (ds ! j)"
      by auto
    have "\<not> null_caltime ical (seq (k + j)) \<and> inside (seq (k + j)) \<and> RCRecurrenceDay ical start (seq (k + j)) = Some ((day # ds) ! j)"
      if "j < Suc (length ds)" for j using that False day ds(5) by (cases j) auto
    with ds show ?thesis by (intro exI [where x = "day # ds"]) auto
  qed
qed

lemma rules_result:
  "rules_days ical start usable inside ps budget = Some (b, es) \<Longrightarrow> budget \<le> 10000 \<Longrightarrow>
     \<exists>dss. list_all2 (\<lambda>p ds. usable (rule_of ical p) \<and> series ical start inside p ds) ps dss \<and> es = concat dss \<and>
       b = budget + length es \<and> b \<le> 10000"
proof (induction ps arbitrary: budget es)
  case (Cons p ps)
  from Cons.prems(1) obtain seq where i: "usable (rule_of ical p)" "iterate ical (rule_of ical p) start = Some seq"
    by (auto simp: Let_def split: if_splits option.splits)
  with Cons.prems(1) obtain b1 ds es1 where t: "rule_turns ical start inside seq 0 budget [] = Some (b1, ds)"
    and r: "rules_days ical start usable inside ps b1 = Some (b, es1)" and es: "es = ds @ es1"
    by (auto simp: Let_def split: option.splits)
  from turns_result [OF t Cons.prems(2)] have d: "series ical start inside p ds" "b1 = budget + length ds" "b1 \<le> 10000"
    using i(2) by (auto simp: series_def)
  from Cons.IH [OF r d(3)] obtain dss where "list_all2 (\<lambda>p ds. usable (rule_of ical p) \<and> series ical start inside p ds) ps dss"
    "es1 = concat dss" "b = b1 + length es1" "b \<le> 10000" by blast
  with d i(1) es show ?case by (intro exI [where x = "ds # dss"]) simp
qed simp

lemma turns_complete:
  "null_caltime ical (seq (k + length ds)) \<or> \<not> inside (seq (k + length ds)) \<Longrightarrow> budget + length ds \<le> 10000 \<Longrightarrow>
   \<forall>j < length ds. \<not> null_caltime ical (seq (k + j)) \<and> inside (seq (k + j)) \<and> RCRecurrenceDay ical start (seq (k + j)) = Some (ds ! j) \<Longrightarrow>
     rule_turns ical start inside seq k budget acc = Some (budget + length ds, acc @ ds)"
proof (induction ds arbitrary: k budget acc)
  case Nil
  then show ?case by (simp add: rule_turns.simps [of ical start inside seq k])
next
  case (Cons d ds)
  have "\<forall>j < length ds. \<not> null_caltime ical (seq (Suc k + j)) \<and> inside (seq (Suc k + j)) \<and> RCRecurrenceDay ical start (seq (Suc k + j)) = Some (ds ! j)"
    using Cons.prems(3) by (auto dest: spec [where x = "Suc _"])
  with Cons.IH [of "Suc k" "budget + 1" "acc @ [d]"] Cons.prems(1,2)
  have "rule_turns ical start inside seq (Suc k) (budget + 1) (acc @ [d]) = Some (budget + length (d # ds), acc @ d # ds)" by simp
  with Cons.prems(2) spec [OF Cons.prems(3), of 0] show ?case by (simp add: rule_turns.simps [of ical start inside seq k])
qed

lemma rules_complete:
  "list_all2 (\<lambda>p ds. usable (rule_of ical p) \<and> series ical start inside p ds) ps dss \<Longrightarrow> budget + length (concat dss) \<le> 10000 \<Longrightarrow>
     rules_days ical start usable inside ps budget = Some (budget + length (concat dss), concat dss)"
proof (induction ps dss arbitrary: budget rule: list_all2_induct)
  case (Cons p ps ds dss)
  from Cons.hyps(1) obtain seq where "iterate ical (rule_of ical p) start = Some seq"
    "null_caltime ical (seq (0 + length ds)) \<or> \<not> inside (seq (0 + length ds))"
    "\<forall>j < length ds. \<not> null_caltime ical (seq (0 + j)) \<and> inside (seq (0 + j)) \<and> RCRecurrenceDay ical start (seq (0 + j)) = Some (ds ! j)"
    by (auto simp: series_def)
  with turns_complete [of ical seq 0 ds inside budget start "[]"] Cons show ?case by (simp add: Let_def)
qed simp

lemma mark_dates_iff:
  "mark_dates ical start tz ps days lastDay = Some r \<longleftrightarrow>
     (\<exists>ds. list_all2 (\<lambda>p d. (tz = RCICalendarTZID ical (Some p) \<and> utc_time ical start = utc_time ical (rdate_time ical p)) \<and>
         RCRecurrenceDay ical start (rdate_time ical p) = Some d) ps ds \<and>
       r = (mark_all True ds days, fold max ds lastDay))"
proof (induction ps arbitrary: days lastDay)
  case Nil
  then show ?case by (auto simp: mark_all_def)
next
  case (Cons p ps)
  show ?case
  proof (cases "(tz = RCICalendarTZID ical (Some p) \<and> utc_time ical start = utc_time ical (rdate_time ical p)) \<and>
      RCRecurrenceDay ical start (rdate_time ical p) \<noteq> None")
    case True
    then obtain day where day: "RCRecurrenceDay ical start (rdate_time ical p) = Some day" by auto
    with True have "mark_dates ical start tz (p # ps) days lastDay = mark_dates ical start tz ps (days[day := True]) (max lastDay day)"
      by (simp add: Let_def)
    from True day show ?thesis unfolding \<open>mark_dates _ _ _ (p # ps) _ _ = _\<close> Cons.IH list_all2_Cons1
      by (fastforce simp: mark_all_def max.commute)
  next
    case False
    then have "mark_dates ical start tz (p # ps) days lastDay = None" by (auto simp: Let_def)
    with False show ?thesis by (auto simp: list_all2_Cons1)
  qed
qed

lemma mark_all_nth:
  "(\<And>d. d \<in> set ds \<Longrightarrow> d < length days) \<Longrightarrow> length (mark_all b ds days) = length days \<and>
     (\<forall>i < length days. mark_all b ds days ! i = (if i \<in> set ds then b else days ! i))"
  unfolding mark_all_def by (induction ds arbitrary: days) (auto simp: nth_list_update)

lemma series_bound: "series ical start inside p ds \<Longrightarrow> d \<in> set ds \<Longrightarrow> d \<le> 3660"
  by (auto simp: series_def in_set_conv_nth dest: recurrence_day_bound)

lemma all_series_bound: "list_all2 (series ical start inside) ps dss \<Longrightarrow> d \<in> set (concat dss) \<Longrightarrow> d \<le> 3660"
  by (induction rule: list_all2_induct) (auto dest: series_bound)

lemma dates_bound: "list_all2 (\<lambda>p d. RCRecurrenceDay ical start (f p) = Some d) ps ds \<Longrightarrow> d \<in> set ds \<Longrightarrow> d \<le> 3660"
  by (induction rule: list_all2_induct) (auto dest: recurrence_day_bound)

lemma fold_max: "fold max ds (m :: nat) = Max (insert m (set ds))"
  by (simp add: Max.set_eq_fold [symmetric] del: fold_simps)

section \<open>The rewritten event\<close>

lemma exceptions_result:
  assumes "keeps_properties ical kind"
  shows "properties_of ical (fold (\<lambda>day event. if days ! day then event else add_property ical event (exception_property ical start tz day)) ns event) k =
    properties_of ical event k @ (if k = EXDATE then map (exception_property ical start tz) (filter (\<lambda>d. \<not> days ! d) ns) else [])"
proof -
  note d = keeps_propertiesD [OF assms]
  have "kind (exception_property ical start tz day) = EXDATE" for day by (simp add: exception_property_def d Let_def split: option.split)
  then show ?thesis by (induction ns arbitrary: event) (auto simp: d(4))
qed

lemma write_daily_result:
  assumes "keeps_properties ical kind"
  shows "properties_of ical (write_daily ical start tz days lastDay event) k = properties_of ical event k @
    (if k = RRULE then [new_rrule ical (daily ical (lastDay + 1))] else
     if k = EXDATE then map (exception_property ical start tz) (filter (\<lambda>d. \<not> days ! d) [0..<lastDay + 1]) else [])"
  unfolding write_daily_def exceptions_result [OF assms] by (simp add: keeps_propertiesD [OF assms])

text \<open>
  The specification. \<open>ds\<close> are the days of the extra dates, \<open>rss\<close> and \<open>xss\<close> those of the rules and of the
  exclusion rules up to the last day. The days shown are the start and the former two without the latter.
\<close>

definition same_zone :: "('c, 'p, 'v, 'r, 'z, 'd) libical_recur \<Rightarrow> 'c \<Rightarrow> 'p \<Rightarrow> bool" where
  "same_zone ical event p \<longleftrightarrow> RCICalendarTZID ical (first_property ical event DTSTART) = RCICalendarTZID ical (Some p) \<and>
     utc_time ical (start_of ical event) = utc_time ical (rdate_time ical p)"

definition last_day :: "nat list \<Rightarrow> nat list list \<Rightarrow> nat" where
  "last_day ds rss = Max (insert 0 (set ds \<union> set (concat rss)))"

definition described :: "('c, 'p, 'v, 'r, 'z, 'd) libical_recur \<Rightarrow> 'c \<Rightarrow> nat list \<Rightarrow> nat list list \<Rightarrow> nat list list \<Rightarrow> bool" where
  "described ical event ds rss xss \<longleftrightarrow> (let start = start_of ical event; limit = adjust ical start (int (last_day ds rss)) 0 0 0 in
     list_all2 (\<lambda>p d. same_zone ical event p \<and> RCRecurrenceDay ical start (rdate_time ical p) = Some d) (properties_of ical event RDATE) ds \<and>
     list_all2 (\<lambda>p ds. finite_rule ical (rule_of ical p) \<and> series ical start (\<lambda>_. True) p ds) (properties_of ical event RRULE) rss \<and>
     list_all2 (series ical start (\<lambda>t. compare_times ical t limit \<le> 0)) (properties_of ical event EXRULE) xss \<and>
     length (concat rss) + length (concat xss) \<le> 10000)"

definition rewritten :: "('c, 'p, 'v, 'r, 'z, 'd) libical_recur \<Rightarrow> 'c \<Rightarrow> nat list \<Rightarrow> nat list list \<Rightarrow> nat list list \<Rightarrow> 'c \<Rightarrow> bool" where
  "rewritten ical event ds rss xss event' \<longleftrightarrow>
     properties_of ical event' RDATE = [] \<and> properties_of ical event' EXRULE = [] \<and>
     properties_of ical event' RRULE = [new_rrule ical (daily ical (last_day ds rss + 1))] \<and>
     properties_of ical event' EXDATE = properties_of ical event EXDATE @
       map (exception_property ical (start_of ical event) (RCICalendarTZID ical (first_property ical event DTSTART)))
         (filter (\<lambda>d. d \<notin> insert 0 (set ds \<union> set (concat rss)) - set (concat xss)) [0..<last_day ds rss + 1]) \<and>
     (\<forall>k. k \<notin> {RDATE, EXRULE, RRULE, EXDATE} \<longrightarrow> properties_of ical event' k = properties_of ical event k)"

lemma last_day_fold: "fold max (concat rss) (fold max ds 0) = last_day ds rss"
  using fold_max [of "ds @ concat rss" 0] by (simp add: last_day_def)

lemma marked_days:
  assumes "\<forall>d \<in> set ds. d \<le> 3660" and "\<forall>d \<in> set es. d \<le> 3660" and "i \<le> 3660"
  shows "mark_all False es (mark_all True ds start_only) ! i \<longleftrightarrow> i \<in> insert 0 (set ds) - set es"
proof -
  have l: "length start_only = 3661" and start: "start_only ! i \<longleftrightarrow> i = 0"
    using assms(3) by (auto simp: start_only_def nth_Cons')
  have "d < length start_only" if "d \<in> set ds" for d using that assms(1) unfolding l by fastforce
  note one = mark_all_nth [OF this, where b = True]
  have "d < length (mark_all True ds start_only)" if "d \<in> set es" for d using that assms(2) one unfolding l by fastforce
  note two = mark_all_nth [OF this, where b = False]
  have "i < length start_only" using assms(3) unfolding l by simp
  with one two start show ?thesis by simp
qed

lemma expansion_steps:
  assumes "RCExpandFiniteRecurrence ical event = Some (Inr event')"
    and "properties_of ical event RDATE \<noteq> [] \<or> properties_of ical event EXRULE \<noteq> []"
  obtains days lastDay budget ds b es bare where
    "mark_dates ical (start_of ical event) (RCICalendarTZID ical (first_property ical event DTSTART)) (properties_of ical event RDATE)
       start_only 0 = Some (days, lastDay)"
    and "rules_days ical (start_of ical event) (finite_rule ical) (\<lambda>_. True) (properties_of ical event RRULE) 0 = Some (budget, ds)"
    and "rules_days ical (start_of ical event) (\<lambda>_. True)
       (\<lambda>t. compare_times ical t (adjust ical (start_of ical event) (int (fold max ds lastDay)) 0 0 0) \<le> 0)
       (properties_of ical event EXRULE) budget = Some (b, es)"
    and "remove_kinds ical [RRULE, RDATE, EXRULE] event = Some bare"
    and "event' = write_daily ical (start_of ical event) (RCICalendarTZID ical (first_property ical event DTSTART))
       (mark_all False es (mark_all True ds days)) (fold max ds lastDay) bare"
proof -
  let ?start = "start_of ical event" and ?tz = "RCICalendarTZID ical (first_property ical event DTSTART)"
  have "\<not> (properties_of ical event RDATE = [] \<and> properties_of ical event EXRULE = [])" using assms(2) by blast
  note body = assms(1) [unfolded RCExpandFiniteRecurrence_def Let_def if_not_P [OF this]]
  show thesis
  proof (cases "mark_dates ical ?start ?tz (properties_of ical event RDATE) start_only 0")
    case None
    with body show thesis by simp
  next
    case m: (Some x)
    obtain days lastDay where x: "x = (days, lastDay)" by (cases x)
    note body = body [unfolded m x option.case prod.case]
    show thesis
    proof (cases "rules_days ical ?start (finite_rule ical) (\<lambda>_. True) (properties_of ical event RRULE) 0")
      case None
      with body show thesis by simp
    next
      case r: (Some y)
      obtain budget ds where y: "y = (budget, ds)" by (cases y)
      note body = body [unfolded r y option.case prod.case]
      show thesis
      proof (cases "rules_days ical ?start (\<lambda>_. True) (\<lambda>t. compare_times ical t (adjust ical ?start (int (fold max ds lastDay)) 0 0 0) \<le> 0)
          (properties_of ical event EXRULE) budget")
        case None
        with body show thesis by simp
      next
        case e: (Some z)
        obtain b es where z: "z = (b, es)" by (cases z)
        note body = body [unfolded e z option.case prod.case]
        show thesis
        proof (cases "remove_kinds ical [RRULE, RDATE, EXRULE] event")
          case None
          with body show thesis by simp
        next
          case k: (Some bare)
          from body [unfolded k option.case] have "event' = write_daily ical ?start ?tz (mark_all False es (mark_all True ds days)) (fold max ds lastDay) bare" by simp
          then show thesis using that m x r y e z k by metis
        qed
      qed
    qed
  qed
qed

lemma described_marks:
  assumes "described ical event ds rss xss"
  shows "mark_dates ical (start_of ical event) (RCICalendarTZID ical (first_property ical event DTSTART)) (properties_of ical event RDATE)
      start_only 0 = Some (mark_all True ds start_only, fold max ds 0)"
    and "rules_days ical (start_of ical event) (finite_rule ical) (\<lambda>_. True) (properties_of ical event RRULE) 0 =
      Some (length (concat rss), concat rss)"
    and "rules_days ical (start_of ical event) (\<lambda>_. True)
      (\<lambda>t. compare_times ical t (adjust ical (start_of ical event) (int (last_day ds rss)) 0 0 0) \<le> 0)
      (properties_of ical event EXRULE) (length (concat rss)) = Some (length (concat rss) + length (concat xss), concat xss)"
proof -
  note d = assms [unfolded described_def Let_def]
  show "mark_dates ical (start_of ical event) (RCICalendarTZID ical (first_property ical event DTSTART)) (properties_of ical event RDATE)
      start_only 0 = Some (mark_all True ds start_only, fold max ds 0)"
    using d unfolding mark_dates_iff same_zone_def by (intro exI [where x = ds]) simp
  show "rules_days ical (start_of ical event) (finite_rule ical) (\<lambda>_. True) (properties_of ical event RRULE) 0 =
      Some (length (concat rss), concat rss)"
    using rules_complete [of "finite_rule ical" ical "start_of ical event" "\<lambda>_. True" "properties_of ical event RRULE" rss 0] d by simp
  show "rules_days ical (start_of ical event) (\<lambda>_. True)
      (\<lambda>t. compare_times ical t (adjust ical (start_of ical event) (int (last_day ds rss)) 0 0 0) \<le> 0)
      (properties_of ical event EXRULE) (length (concat rss)) = Some (length (concat rss) + length (concat xss), concat xss)"
    by (rule rules_complete) (use d in simp_all)
qed

lemma described_rewritten:
  assumes "keeps_properties ical kind" and "described ical event ds rss xss" and "remove_kinds ical [RRULE, RDATE, EXRULE] event = Some bare"
  shows "rewritten ical event ds rss xss (write_daily ical (start_of ical event) (RCICalendarTZID ical (first_property ical event DTSTART))
    (mark_all False (concat xss) (mark_all True (concat rss) (mark_all True ds start_only))) (last_day ds rss) bare)"
proof -
  note d = assms(2) [unfolded described_def Let_def]
  have ds: "list_all2 (\<lambda>p d. RCRecurrenceDay ical (start_of ical event) (rdate_time ical p) = Some d) (properties_of ical event RDATE) ds"
    and rss: "list_all2 (series ical (start_of ical event) (\<lambda>_. True)) (properties_of ical event RRULE) rss"
    using d by (auto elim: list_all2_mono)
  from d have xss: "list_all2 (series ical (start_of ical event)
    (\<lambda>t. compare_times ical t (adjust ical (start_of ical event) (int (last_day ds rss)) 0 0 0) \<le> 0)) (properties_of ical event EXRULE) xss" by blast
  have "\<forall>d \<in> set (ds @ concat rss). d \<le> 3660" "\<forall>d \<in> set (concat xss). d \<le> 3660"
    using dates_bound [OF ds] all_series_bound [OF rss] all_series_bound [OF xss] by auto
  note marked = marked_days [OF this]
  have "last_day ds rss \<le> 3660" using \<open>\<forall>d \<in> set (ds @ concat rss). d \<le> 3660\<close> by (auto simp: last_day_def)
  moreover have "mark_all True (concat rss) (mark_all True ds start_only) = mark_all True (ds @ concat rss) start_only" by (simp add: mark_all_def)
  ultimately have "filter (\<lambda>d. \<not> mark_all False (concat xss) (mark_all True (concat rss) (mark_all True ds start_only)) ! d) [0..<last_day ds rss + 1] =
      filter (\<lambda>d. d \<notin> insert 0 (set ds \<union> set (concat rss)) - set (concat xss)) [0..<last_day ds rss + 1]"
    using marked by (intro filter_cong) auto
  then show ?thesis using remove_kinds_result [OF assms(1), of "[RRULE, RDATE, EXRULE]" event] assms(3)
    unfolding rewritten_def write_daily_result [OF assms(1)] by auto
qed

lemma described_expands:
  assumes "keeps_properties ical kind" and "described ical event ds rss xss"
    and "properties_of ical event RDATE \<noteq> [] \<or> properties_of ical event EXRULE \<noteq> []"
  shows "\<exists>event'. RCExpandFiniteRecurrence ical event = Some (Inr event') \<and> rewritten ical event ds rss xss event'"
proof -
  from remove_kinds_result [OF assms(1), of "[RRULE, RDATE, EXRULE]" event]
  obtain bare where bare: "remove_kinds ical [RRULE, RDATE, EXRULE] event = Some bare" by blast
  have "\<not> (properties_of ical event RDATE = [] \<and> properties_of ical event EXRULE = [])" using assms(3) by blast
  then show ?thesis using described_rewritten [OF assms(1,2) bare]
    unfolding RCExpandFiniteRecurrence_def Let_def if_not_P [OF \<open>\<not> _\<close>] described_marks(1,2) [OF assms(2)] option.case prod.case bare
      last_day_fold described_marks(3) [OF assms(2)] by blast
qed

lemma expansion_described:
  assumes "RCExpandFiniteRecurrence ical event = Some (Inr event')"
    and "properties_of ical event RDATE \<noteq> [] \<or> properties_of ical event EXRULE \<noteq> []"
  shows "\<exists>ds rss xss. described ical event ds rss xss"
proof -
  from expansion_steps [OF assms] obtain days last0 budget rs b es bare where
    m: "mark_dates ical (start_of ical event) (RCICalendarTZID ical (first_property ical event DTSTART)) (properties_of ical event RDATE)
       start_only 0 = Some (days, last0)"
    and rr: "rules_days ical (start_of ical event) (finite_rule ical) (\<lambda>_. True) (properties_of ical event RRULE) 0 = Some (budget, rs)"
    and xr: "rules_days ical (start_of ical event) (\<lambda>_. True)
       (\<lambda>t. compare_times ical t (adjust ical (start_of ical event) (int (fold max rs last0)) 0 0 0) \<le> 0)
       (properties_of ical event EXRULE) budget = Some (b, es)"
    and "remove_kinds ical [RRULE, RDATE, EXRULE] event = Some bare"
    and "event' = write_daily ical (start_of ical event) (RCICalendarTZID ical (first_property ical event DTSTART))
       (mark_all False es (mark_all True rs days)) (fold max rs last0) bare" by blast
  from m obtain ds where ds: "list_all2 (\<lambda>p d. same_zone ical event p \<and> RCRecurrenceDay ical (start_of ical event) (rdate_time ical p) = Some d)
      (properties_of ical event RDATE) ds" "last0 = fold max ds 0" unfolding mark_dates_iff same_zone_def by blast
  from rules_result [OF rr] obtain rss where rss:
    "list_all2 (\<lambda>p ds. finite_rule ical (rule_of ical p) \<and> series ical (start_of ical event) (\<lambda>_. True) p ds) (properties_of ical event RRULE) rss"
    "rs = concat rss" "budget = length rs" "budget \<le> 10000" by auto
  from rules_result [OF xr rss(4)] obtain xss where xss:
    "list_all2 (series ical (start_of ical event) (\<lambda>t. compare_times ical t (adjust ical (start_of ical event) (int (fold max rs last0)) 0 0 0) \<le> 0))
      (properties_of ical event EXRULE) xss" "es = concat xss" "b = budget + length es" "b \<le> 10000" by auto
  have "described ical event ds rss xss" unfolding described_def Let_def
    using ds(1) rss(1,3) xss(1,3,4) unfolding ds(2) rss(2) xss(2) last_day_fold by simp
  then show ?thesis by blast
qed

lemma expansion_error: "RCExpandFiniteRecurrence ical event = Some (Inl e) \<Longrightarrow> e = unsupported_recurrence"
  by (auto simp: RCExpandFiniteRecurrence_def Let_def simp del: remove_kinds.simps split: if_splits option.splits prod.splits)

lemma expansion_returns:
  assumes "keeps_properties ical kind"
  shows "RCExpandFiniteRecurrence ical event \<noteq> None"
proof -
  from remove_kinds_result [OF assms, of "[RRULE, RDATE, EXRULE]" event]
  obtain bare where "remove_kinds ical [RRULE, RDATE, EXRULE] event = Some bare" by blast
  then show ?thesis by (simp add: RCExpandFiniteRecurrence_def Let_def split: option.split)
qed

section \<open>A concrete calendar\<close>

text \<open>
  A component is the list of its properties, each a kind with days of one month; a rule is its days.
  The event starts on the first, recurs on the third, has an extra date on the sixth and an exclusion
  rule for the third.
\<close>

definition month_day :: "nat \<Rightarrow> unit caltime" where
  "month_day d = \<lparr>t_year = 2024, t_month = 1, t_day = int d, t_hour = 9, t_minute = 0, t_second = 0, t_is_date = False, t_zone = None\<rparr>"

definition no_day :: "unit caltime" where
  "no_day = (month_day 0)\<lparr>t_year := 0\<rparr>"

definition month_ical :: "((property_kind \<times> nat list) list, property_kind \<times> nat list, unit, nat list, unit, unit) libical_recur" where
  "month_ical = \<lparr>icalparser_parse_string = (\<lambda>_. None), is_vcalendar = (\<lambda>_. True), count_errors = (\<lambda>_. 0),
     first_property = (\<lambda>c k. List.find (\<lambda>p. fst p = k) c), RECURRENCEID_PROPERTY = RECURRENCEID, property_value = (\<lambda>_. None),
     is_text_value = (\<lambda>_. False), value_get_text = (\<lambda>_. None), value_as_string = (\<lambda>_. None), value_kind_string = (\<lambda>_. []),
     tzid_parameter = (\<lambda>_. None), is_null_time = (\<lambda>t. t_year t = 0), is_utc = (\<lambda>_. False),
     properties_of = (\<lambda>c k. filter (\<lambda>p. fst p = k) c), remove_property = (\<lambda>c p. remove1 p c), add_property = (\<lambda>c p. c @ [p]),
     start_of = (\<lambda>c. month_day (case List.find (\<lambda>p. fst p = DTSTART) c of Some p \<Rightarrow> hd (snd p) | None \<Rightarrow> 0)), end_of = (\<lambda>_. no_day),
     duration_seconds = (\<lambda>_. 0), alarms_of = (\<lambda>_. []), trigger_time = (\<lambda>_. no_day), rdate_time = (\<lambda>p. month_day (hd (snd p))),
     exdate_time = (\<lambda>p. month_day (hd (snd p))), rule_of = snd, rule_count = (\<lambda>r. int (length r)), rule_until = (\<lambda>_. no_day),
     iterate = (\<lambda>r _. Some (\<lambda>k. if k < length r then month_day (r ! k) else no_day)), daily = (\<lambda>n. [1..<Suc n]),
     new_rrule = (\<lambda>r. (RRULE, r)), new_time = (\<lambda>k t. (k, [nat (t_day t)])), with_tzid = (\<lambda>_ p. p), null_time = no_day,
     valid_time = (\<lambda>_. True), utc_time = (\<lambda>_. False), day_of_year = t_day, adjust = (\<lambda>t d _ _ _. t\<lparr>t_day := t_day t + d\<rparr>),
     compare_times = (\<lambda>t u. t_day t - t_day u), add_duration = (\<lambda>t _. t), get_timezone = (\<lambda>_ _. None), builtin_timezone = (\<lambda>_. None),
     utc_timezone = (), zone_parts = (\<lambda>_. []), offset_of = (\<lambda>_. 0), utc_offset = (\<lambda>_ _. 0), convert_time = (\<lambda>t _ _. t),
     null_caltime = (\<lambda>t. t_year t = 0)\<rparr>"

definition month_event :: "(property_kind \<times> nat list) list" where
  "month_event = [(DTSTART, [1]), (RRULE, [1, 3]), (RDATE, [6]), (EXRULE, [3])]"

lemma month_keeps: "keeps_properties month_ical fst"
proof -
  have "List.find (\<lambda>p. fst p = k) c = (case filter (\<lambda>p. fst p = k) c of [] \<Rightarrow> None | p # _ \<Rightarrow> Some p)"
    for c :: "(property_kind \<times> nat list) list" and k by (induction c) auto
  then show ?thesis by (auto simp: keeps_properties_def month_ical_def filter_remove1)
qed

lemma start_only_nth: "length start_only = 3661" "i \<le> 3660 \<Longrightarrow> start_only ! i \<longleftrightarrow> i = 0"
  by (auto simp: start_only_def nth_Cons')

lemma month_expands:
  "RCExpandFiniteRecurrence month_ical month_event =
     Some (Inr [(DTSTART, [1]), (RRULE, [1, 2, 3, 4, 5, 6]), (EXDATE, [2]), (EXDATE, [3]), (EXDATE, [4]), (EXDATE, [5])])"
  by (simp add: RCExpandFiniteRecurrence_def month_ical_def month_event_def month_day_def no_day_def RCICalendarTZID_def RCRecurrenceDay_def
      CivilDay_def rule_turns.simps finite_rule_def mark_all_def RemoveProperties_def write_daily_def exception_property_def start_only_nth
      nth_list_update upt_rec numeral_eq_Suc)

text \<open>C40: an event with extra dates or exclusion rules is rewritten if and only if its dates can be described: finite rules, extra dates
  in the zone of the start, everything at its wall time, no later than 3660 days after it, and at most 10000
  occurrences. The new event has one daily rule to the last day and an exception for every day that is not
  shown, and keeps its other properties; otherwise the error says so.\<close>
theorem expansion_exact:
  assumes "keeps_properties ical kind" and "properties_of ical event RDATE \<noteq> [] \<or> properties_of ical event EXRULE \<noteq> []"
  shows "case RCExpandFiniteRecurrence ical event of
      None \<Rightarrow> False
    | Some (Inr event') \<Rightarrow> \<exists>ds rss xss. described ical event ds rss xss \<and> rewritten ical event ds rss xss event'
    | Some (Inl e) \<Rightarrow> e = unsupported_recurrence \<and> (\<nexists>ds rss xss. described ical event ds rss xss)"
proof (cases "RCExpandFiniteRecurrence ical event")
  case None
  with expansion_returns [OF assms(1)] show ?thesis by blast
next
  case (Some r)
  show ?thesis
  proof (cases r)
    case (Inl e)
    with Some expansion_error described_expands [OF assms(1) _ assms(2)] show ?thesis by fastforce
  next
    case (Inr event')
    with Some expansion_described [OF _ assms(2)] described_expands [OF assms(1) _ assms(2)] show ?thesis by fastforce
  qed
qed

theorem expansion_exact_witness:
  "\<exists>ds rss xss. described month_ical month_event ds rss xss \<and> rewritten month_ical month_event ds rss xss
     [(DTSTART, [1]), (RRULE, [1, 2, 3, 4, 5, 6]), (EXDATE, [2]), (EXDATE, [3]), (EXDATE, [4]), (EXDATE, [5])]"
proof -
  have "properties_of month_ical month_event RDATE \<noteq> []" by (simp add: month_ical_def month_event_def)
  with expansion_exact [OF month_keeps, of month_event] show ?thesis by (simp add: month_expands)
qed

end
