(* ===== verification/Connection.thy ===== *)
theory Connection
  imports Prelude
begin

text \<open>
  \<^verbatim>\<open>source/shared/RCConnection.c\<close>: waiting for a socket and connecting to a host, over the
  calls of the operating system. The system is an argument: a record of calls that take and
  return its state. Every call is also noted in a trace, which the lemmas
  speak about; the code neither sees nor needs it. A call interrupted by a signal is retried
  without bound, hence the fuel: \<open>None\<close> is its exhaustion.
\<close>

unbundle bit_operations_syntax

section \<open>The operating system\<close>

datatype errno = EINTR | EINPROGRESS | ETIMEDOUT | ECONNREFUSED | Errno int

text \<open>What \<open>getaddrinfo\<close> returns instead of addresses: \<open>EAI_SYSTEM\<close> with \<open>errno\<close>, or a code of the resolver.\<close>

datatype resolver_error = EAI_SYSTEM errno | EAI int

text \<open>What the trace notes. The last five are the events of the TLS library of the mail proxy.\<close>

datatype net_event =
    Opened int
  | Closed int
  | Connected int
  | Bound int nat nat
  | Sent int bytes
  | Received int bytes
  | Interrupted
  | HostPinned string
  | Handshake
  | Verified
  | TLSWritten bytes
  | TLSRead bytes

record ('a, 'w) os =
  os_getaddrinfo :: "string \<Rightarrow> string \<Rightarrow> 'w \<Rightarrow> (resolver_error + 'a list) \<times> 'w"
  os_socket :: "'a \<Rightarrow> 'w \<Rightarrow> (errno + int) \<times> 'w"
  os_getfl :: "int \<Rightarrow> 'w \<Rightarrow> int \<times> 'w"
  os_setfl :: "int \<Rightarrow> int \<Rightarrow> 'w \<Rightarrow> 'w"
  os_connect :: "int \<Rightarrow> 'a \<Rightarrow> 'w \<Rightarrow> errno option \<times> 'w"
  os_select :: "int list \<Rightarrow> int list \<Rightarrow> int \<Rightarrow> 'w \<Rightarrow> (errno + int set) \<times> 'w"
  os_so_error :: "int \<Rightarrow> 'w \<Rightarrow> (errno + errno option) \<times> 'w"
  os_send :: "int \<Rightarrow> bytes \<Rightarrow> 'w \<Rightarrow> (errno + nat) \<times> 'w"
  os_recv :: "int \<Rightarrow> nat \<Rightarrow> 'w \<Rightarrow> (errno + bytes) \<times> 'w"
  os_inet_socket :: "'w \<Rightarrow> (errno + int) \<times> 'w"
  os_reuse_address :: "int \<Rightarrow> 'w \<Rightarrow> 'w"
  os_bind :: "int \<Rightarrow> nat \<Rightarrow> nat \<Rightarrow> 'w \<Rightarrow> errno option \<times> 'w"
  os_listen :: "int \<Rightarrow> nat \<Rightarrow> 'w \<Rightarrow> errno option \<times> 'w"
  os_timeouts :: "int \<Rightarrow> nat \<Rightarrow> 'w \<Rightarrow> 'w"
  os_close :: "int \<Rightarrow> 'w \<Rightarrow> 'w"
  O_NONBLOCK :: int
  strerror :: "errno \<Rightarrow> string"
  gai_strerror :: "int \<Rightarrow> string"
  errno_number :: "errno \<Rightarrow> int"

record 'w net =
  world :: 'w
  trace :: "net_event list"

definition noted :: "net_event list \<Rightarrow> 'w net \<Rightarrow> 'w net" where
  "noted es s = s\<lparr>trace := trace s @ es\<rparr>"

text \<open>A call: its result, the events it causes, and the new state of the system.\<close>

definition net_call :: "('w \<Rightarrow> 'r \<times> 'w) \<Rightarrow> ('r \<Rightarrow> net_event list) \<Rightarrow> 'w net \<Rightarrow> 'r \<times> 'w net" where
  "net_call f events s = (case f (world s) of (r, w) \<Rightarrow> (r, noted (events r) (s\<lparr>world := w\<rparr>)))"

definition net_do :: "('w \<Rightarrow> 'w) \<Rightarrow> net_event list \<Rightarrow> 'w net \<Rightarrow> 'w net" where
  "net_do f events s = noted events (s\<lparr>world := f (world s)\<rparr>)"

definition interruption :: "errno + 'b \<Rightarrow> net_event list" where
  "interruption r = (if r = Inl EINTR then [Interrupted] else [])"

text \<open>The number of times a call was interrupted, and the sockets opened and closed in order.\<close>

definition interruptions :: "net_event list \<Rightarrow> nat" where
  "interruptions es = length (filter (\<lambda>e. e = Interrupted) es)"

definition opened :: "net_event list \<Rightarrow> int list" where
  "opened es = concat (map (\<lambda>e. case e of Opened fd \<Rightarrow> [fd] | _ \<Rightarrow> []) es)"

definition closed :: "net_event list \<Rightarrow> int list" where
  "closed es = concat (map (\<lambda>e. case e of Closed fd \<Rightarrow> [fd] | _ \<Rightarrow> []) es)"

text \<open>\<open>adds s es s'\<close>: from one state to the other exactly the given events were noted.\<close>

definition adds :: "'w net \<Rightarrow> net_event list \<Rightarrow> 'w net \<Rightarrow> bool" where
  "adds s es s' \<longleftrightarrow> trace s' = trace s @ es"

lemma adds_refl: "adds s [] s"
  by (simp add: adds_def)

lemma adds_trans: "adds s es s1 \<Longrightarrow> adds s1 fs s2 \<Longrightarrow> adds s (es @ fs) s2"
  by (simp add: adds_def)

lemma adds_unique: "adds s es s' \<Longrightarrow> adds s fs s' \<Longrightarrow> es = fs"
  by (simp add: adds_def)

lemma net_call_adds: "net_call f events s = (r, s') \<Longrightarrow> adds s (events r) s'"
  by (auto simp: net_call_def noted_def adds_def split: prod.splits)

lemma net_do_adds: "adds s es (net_do f es s)"
  by (simp add: net_do_def noted_def adds_def)

lemma count_simps [simp]:
  "interruptions [] = 0" "interruptions (e # es) = (if e = Interrupted then 1 else 0) + interruptions es"
  "interruptions (es @ fs) = interruptions es + interruptions fs"
  "opened [] = []" "opened (es @ fs) = opened es @ opened fs" "closed [] = []" "closed (es @ fs) = closed es @ closed fs"
  by (simp_all add: interruptions_def opened_def closed_def)

lemma opened_Cons [simp]: "opened (e # es) = (case e of Opened fd \<Rightarrow> fd # opened es | _ \<Rightarrow> opened es)"
  by (simp add: opened_def split: net_event.split)

lemma closed_Cons [simp]: "closed (e # es) = (case e of Closed fd \<Rightarrow> fd # closed es | _ \<Rightarrow> closed es)"
  by (simp add: closed_def split: net_event.split)

section \<open>Waiting\<close>

text \<open>\<open>1\<close> ready, \<open>0\<close> timed out, or the error.\<close>

fun RCWaitForSocket :: "('a, 'w) os \<Rightarrow> nat \<Rightarrow> int \<Rightarrow> bool \<Rightarrow> int \<Rightarrow> 'w net \<Rightarrow> (errno + bool) option \<times> 'w net" where
  "RCWaitForSocket os 0 socketDescriptor writeReady timeoutSeconds s = (None, s)"
| "RCWaitForSocket os (Suc fuel) socketDescriptor writeReady timeoutSeconds s =
     (case net_call (os_select os (if writeReady then [] else [socketDescriptor])
              (if writeReady then [socketDescriptor] else []) timeoutSeconds) interruption s of
        (Inl EINTR, s) \<Rightarrow> RCWaitForSocket os fuel socketDescriptor writeReady timeoutSeconds s
      | (Inl e, s) \<Rightarrow> (Some (Inl e), s)
      | (Inr ready, s) \<Rightarrow> (Some (Inr (ready \<noteq> {})), s))"

section \<open>Connecting\<close>

text \<open>The outcome of an attempt that \<open>connect\<close> left in progress: \<open>None\<close> is success.\<close>

definition await_connection :: "('a, 'w) os \<Rightarrow> nat \<Rightarrow> int \<Rightarrow> 'w net \<Rightarrow> errno option option \<times> 'w net" where
  "await_connection os fuel remoteSocket s =
     (case RCWaitForSocket os fuel remoteSocket True 20 s of
        (None, s) \<Rightarrow> (None, s)
      | (Some (Inr False), s) \<Rightarrow> (Some (Some ETIMEDOUT), s)
      | (Some (Inl e), s) \<Rightarrow> (Some (Some e), s)
      | (Some (Inr True), s) \<Rightarrow>
          (case net_call (os_so_error os remoteSocket) (\<lambda>r. if r = Inr None then [Connected remoteSocket] else []) s of
             (Inl e, s) \<Rightarrow> (Some (Some e), s)
           | (Inr socketError, s) \<Rightarrow> (Some socketError, s)))"

text \<open>
  One address: the connected socket, or the last error. The flags of a socket that
  \<open>fcntl\<close> could read are put back whether or not the connection succeeded.
\<close>

definition try_address :: "('a, 'w) os \<Rightarrow> nat \<Rightarrow> 'a \<Rightarrow> 'w net \<Rightarrow> (errno + int) option \<times> 'w net" where
  "try_address os fuel address s =
     (case net_call (os_socket os address) (\<lambda>r. case r of Inr fd \<Rightarrow> [Opened fd] | Inl _ \<Rightarrow> []) s of
        (Inl e, s) \<Rightarrow> (Some (Inl e), s)
      | (Inr remoteSocket, s) \<Rightarrow>
          (let (flags, s) = net_call (os_getfl os remoteSocket) (\<lambda>_. []) s;
               s = (if flags \<ge> 0 then net_do (os_setfl os remoteSocket (flags OR O_NONBLOCK os)) [] s else s);
               (failure, s) = net_call (os_connect os remoteSocket address)
                 (\<lambda>r. if r = None then [Connected remoteSocket] else []) s;
               (outcome, s) = (if failure = Some EINPROGRESS then await_connection os fuel remoteSocket s else (Some failure, s));
               s = (if flags \<ge> 0 then net_do (os_setfl os remoteSocket flags) [] s else s)
           in case outcome of
                None \<Rightarrow> (None, s)
              | Some None \<Rightarrow> (Some (Inr remoteSocket), s)
              | Some (Some e) \<Rightarrow> (Some (Inl e), net_do (os_close os remoteSocket) [Closed remoteSocket] s)))"

fun try_addresses :: "('a, 'w) os \<Rightarrow> nat \<Rightarrow> errno \<Rightarrow> 'a list \<Rightarrow> 'w net \<Rightarrow> (errno + int) option \<times> 'w net" where
  "try_addresses os fuel lastError [] s = (Some (Inl lastError), s)"
| "try_addresses os fuel lastError (address # rest) s =
     (case try_address os fuel address s of
        (None, s) \<Rightarrow> (None, s)
      | (Some (Inr remoteSocket), s) \<Rightarrow> (Some (Inr remoteSocket), s)
      | (Some (Inl e), s) \<Rightarrow> try_addresses os fuel e rest s)"

definition resolver_detail :: "('a, 'w) os \<Rightarrow> resolver_error \<Rightarrow> string" where
  "resolver_detail os e = (case e of
     EAI_SYSTEM errno \<Rightarrow> ''DNS lookup failed (socket error '' @ show_int (errno_number os errno) @ ''): '' @ strerror os errno
   | EAI code \<Rightarrow> ''DNS lookup failed (resolver error '' @ show_int code @ ''): '' @ gai_strerror os code)"

definition RCConnectToHost ::
  "('a, 'w) os \<Rightarrow> nat \<Rightarrow> string \<Rightarrow> nat \<Rightarrow> nat \<Rightarrow> 'w net \<Rightarrow> (string + int) option \<times> 'w net" where
  "RCConnectToHost os fuel host port capacity s =
     (case net_call (os_getaddrinfo os host (show_nat port)) (\<lambda>_. []) s of
        (Inl e, s) \<Rightarrow> (Some (Inl (take (capacity - 1) (resolver_detail os e))), s)
      | (Inr addresses, s) \<Rightarrow>
          (case try_addresses os fuel ECONNREFUSED addresses s of
             (None, s) \<Rightarrow> (None, s)
           | (Some (Inr remoteSocket), s) \<Rightarrow> (Some (Inr remoteSocket), s)
           | (Some (Inl lastError), s) \<Rightarrow>
               (Some (Inl (take (capacity - 1) (''TCP connection failed (socket error '' @
                  show_int (errno_number os lastError) @ ''): '' @ strerror os lastError))), s)))"

section \<open>What a connection attempt leaves behind\<close>

lemma wait_result:
  "RCWaitForSocket os fuel fd writeReady timeoutSeconds s = (r, s') \<Longrightarrow>
     \<exists>n. adds s (replicate n Interrupted) s' \<and> (r = None \<longrightarrow> n = fuel)"
proof (induction fuel arbitrary: s)
  case 0
  then show ?case by (auto intro: exI [where x = 0] simp: adds_refl)
next
  case (Suc fuel)
  obtain x s1 where c: "net_call (os_select os (if writeReady then [] else [fd]) (if writeReady then [fd] else []) timeoutSeconds)
      interruption s = (x, s1)" by (metis surj_pair)
  note a = net_call_adds [OF c]
  show ?case
  proof (cases "x = Inl EINTR")
    case True
    with Suc.prems c have "RCWaitForSocket os fuel fd writeReady timeoutSeconds s1 = (r, s')" by simp
    from Suc.IH [OF this] obtain n where n: "adds s1 (replicate n Interrupted) s'" "r = None \<longrightarrow> n = fuel" by blast
    from True a have "adds s [Interrupted] s1" by (simp add: interruption_def)
    from adds_trans [OF this n(1)] n(2) show ?thesis by (intro exI [where x = "Suc n"]) simp
  next
    case False
    with Suc.prems c have "r \<noteq> None" "s' = s1" by (auto split: sum.splits errno.splits)
    with False a show ?thesis by (intro exI [where x = 0]) (simp add: interruption_def)
  qed
qed

text \<open>Only events of the sockets themselves: nothing is sent or received.\<close>

definition connecting :: "net_event \<Rightarrow> bool" where
  "connecting e \<longleftrightarrow> (case e of Opened _ \<Rightarrow> True | Closed _ \<Rightarrow> True | Connected _ \<Rightarrow> True | Interrupted \<Rightarrow> True | _ \<Rightarrow> False)"

lemma connecting_simps [simp]:
  "connecting (Opened fd)" "connecting (Closed fd)" "connecting (Connected fd)" "connecting Interrupted"
  by (simp_all add: connecting_def)

definition plain_wait :: "net_event list \<Rightarrow> bool" where
  "plain_wait es \<longleftrightarrow> list_all connecting es \<and> opened es = [] \<and> closed es = []"

lemma plain_wait_append: "plain_wait es \<Longrightarrow> plain_wait fs \<Longrightarrow> plain_wait (es @ fs)"
  by (simp add: plain_wait_def)

lemma plain_wait_simps [simp]: "plain_wait []" "plain_wait [Connected fd]" "plain_wait (replicate n Interrupted)"
  by (simp_all add: plain_wait_def, induction n) simp_all

lemma await_result:
  assumes "await_connection os fuel fd s = (r, s')"
  shows "\<exists>es. adds s es s' \<and> plain_wait es \<and> (r = None \<longrightarrow> fuel \<le> interruptions es) \<and> (r = Some None \<longrightarrow> Connected fd \<in> set es)"
proof -
  obtain x s1 where w: "RCWaitForSocket os fuel fd True 20 s = (x, s1)" by (metis surj_pair)
  from wait_result [OF w] obtain n where n: "adds s (replicate n Interrupted) s1" "x = None \<longrightarrow> n = fuel" by blast
  have i: "interruptions (replicate n Interrupted) = n" by (induction n) simp_all
  show ?thesis
  proof (cases "x = Some (Inr True)")
    case False
    with assms w have "s' = s1" "r \<noteq> Some None" "r = None \<longleftrightarrow> x = None"
      by (auto simp: await_connection_def split: option.splits sum.splits bool.splits)
    with n i show ?thesis by auto
  next
    case True
    obtain y s2 where c: "net_call (os_so_error os fd) (\<lambda>r. if r = Inr None then [Connected fd] else []) s1 = (y, s2)" by (metis surj_pair)
    from assms w True c have r: "s' = s2" "r \<noteq> None" "r = Some None \<longrightarrow> y = Inr None"
      by (auto simp: await_connection_def split: sum.splits)
    let ?es = "replicate n Interrupted @ (if y = Inr None then [Connected fd] else [])"
    from adds_trans [OF n(1) net_call_adds [OF c]] r have "adds s ?es s'" by simp
    with r show ?thesis by (intro exI [where x = ?es]) (auto simp: plain_wait_append)
  qed
qed

text \<open>Sockets in balance: all that were opened are closed, but the one that is returned, which is connected.\<close>

definition no_leak :: "errno + int \<Rightarrow> net_event list \<Rightarrow> bool" where
  "no_leak r es = (case r of Inl _ \<Rightarrow> opened es = closed es | Inr fd \<Rightarrow> opened es = closed es @ [fd] \<and> Connected fd \<in> set es)"

definition attempt_ok :: "nat \<Rightarrow> (errno + int) option \<Rightarrow> net_event list \<Rightarrow> bool" where
  "attempt_ok fuel r es \<longleftrightarrow> list_all connecting es \<and> (case r of None \<Rightarrow> fuel \<le> interruptions es | Some x \<Rightarrow> no_leak x es)"

lemma attempt_result:
  assumes "try_address os fuel address s = (r, s')"
  shows "\<exists>es. adds s es s' \<and> attempt_ok fuel r es"
proof -
  obtain x s1 where o: "net_call (os_socket os address) (\<lambda>r. case r of Inr fd \<Rightarrow> [Opened fd] | Inl _ \<Rightarrow> []) s = (x, s1)" by (metis surj_pair)
  note a1 = net_call_adds [OF o]
  show ?thesis
  proof (cases x)
    case (Inl e)
    with assms o a1 show ?thesis by (intro exI [where x = "[]"]) (auto simp: try_address_def attempt_ok_def no_leak_def)
  next
    case (Inr fd)
    obtain flags s2 where g: "net_call (os_getfl os fd) (\<lambda>_. []) s1 = (flags, s2)" by (metis surj_pair)
    define s3 where "s3 = (if flags \<ge> 0 then net_do (os_setfl os fd (flags OR O_NONBLOCK os)) [] s2 else s2)"
    obtain f s4 where c: "net_call (os_connect os fd address) (\<lambda>r. if r = None then [Connected fd] else []) s3 = (f, s4)" by (metis surj_pair)
    obtain y s5 where w: "(if f = Some EINPROGRESS then await_connection os fuel fd s4 else (Some f, s4)) = (y, s5)" by (metis surj_pair)
    define s6 where "s6 = (if flags \<ge> 0 then net_do (os_setfl os fd flags) [] s5 else s5)"
    from assms o Inr g c w have r: "(case y of None \<Rightarrow> (None, s6) | Some None \<Rightarrow> (Some (Inr fd), s6)
        | Some (Some e) \<Rightarrow> (Some (Inl e), net_do (os_close os fd) [Closed fd] s6)) = (r, s')"
      unfolding s3_def s6_def by (simp add: try_address_def Let_def)
    let ?c = "if f = None then [Connected fd] else []"
    have a3: "adds s2 [] s3" by (simp add: s3_def adds_refl net_do_adds)
    have a4: "adds s ([Opened fd] @ ([] @ ([] @ ?c))) s4"
      using adds_trans [OF a1 adds_trans [OF net_call_adds [OF g] adds_trans [OF a3 net_call_adds [OF c]]]] Inr by simp
    have "\<exists>es. adds s4 es s5 \<and> plain_wait es \<and> (y = None \<longrightarrow> fuel \<le> interruptions es) \<and> (y = Some None \<longrightarrow> Connected fd \<in> set (?c @ es))"
    proof (cases "f = Some EINPROGRESS")
      case True
      with w await_result [of os fuel fd s4 y s5] show ?thesis by simp
    next
      case False
      with w show ?thesis by (intro exI [where x = "[]"]) (auto simp: adds_refl)
    qed
    then obtain es where es: "adds s4 es s5" "plain_wait es" "y = None \<longrightarrow> fuel \<le> interruptions es"
      "y = Some None \<longrightarrow> Connected fd \<in> set (?c @ es)" by blast
    have a6: "adds s5 [] s6" by (simp add: s6_def adds_refl net_do_adds)
    from adds_trans [OF a4 adds_trans [OF es(1) a6]] have all: "adds s ([Opened fd] @ ?c @ es) s6" by simp
    show ?thesis
    proof (cases "\<exists>e. y = Some (Some e)")
      case True
      then obtain e where "y = Some (Some e)" by blast
      with r have "r = Some (Inl e)" "s' = net_do (os_close os fd) [Closed fd] s6" by simp_all
      with adds_trans [OF all net_do_adds [of s6 "[Closed fd]" "os_close os fd"]] es(2) show ?thesis
        by (intro exI [where x = "([Opened fd] @ ?c @ es) @ [Closed fd]"]) (simp add: attempt_ok_def no_leak_def plain_wait_def)
    next
      case False
      with r have "s' = s6" "y = None \<and> r = None \<or> y = Some None \<and> r = Some (Inr fd)"
        by (cases y; auto split: option.splits)+
      with all es(2-4) show ?thesis
        by (intro exI [where x = "[Opened fd] @ ?c @ es"]) (auto simp: attempt_ok_def no_leak_def plain_wait_def)
    qed
  qed
qed

lemma attempts_result:
  "try_addresses os fuel lastError addresses s = (r, s') \<Longrightarrow> \<exists>es. adds s es s' \<and> attempt_ok fuel r es"
proof (induction addresses arbitrary: lastError s)
  case Nil
  then show ?case by (intro exI [where x = "[]"]) (auto simp: adds_refl attempt_ok_def no_leak_def)
next
  case (Cons address rest)
  obtain x s1 where t: "try_address os fuel address s = (x, s1)" by (metis surj_pair)
  from attempt_result [OF t] obtain es where es: "adds s es s1" "attempt_ok fuel x es" by blast
  show ?case
  proof (cases "\<exists>e. x = Some (Inl e)")
    case True
    then obtain e where e: "x = Some (Inl e)" by blast
    with Cons.prems t have "try_addresses os fuel e rest s1 = (r, s')" by simp
    from Cons.IH [OF this] obtain fs where fs: "adds s1 fs s'" "attempt_ok fuel r fs" by blast
    from es(2) e fs(2) have "attempt_ok fuel r (es @ fs)"
      by (auto simp: attempt_ok_def no_leak_def split: option.splits sum.splits)
    with adds_trans [OF es(1) fs(1)] show ?thesis by blast
  next
    case False
    with Cons.prems t have "r = x" "s' = s1" by (auto split: option.splits sum.splits)
    with es show ?thesis by blast
  qed
qed

lemma connect_result:
  assumes "RCConnectToHost os fuel host port capacity s = (r, s')"
  shows "\<exists>es. adds s es s' \<and> list_all connecting es \<and>
    (case r of None \<Rightarrow> fuel \<le> interruptions es
     | Some (Inl detail) \<Rightarrow> opened es = closed es \<and> length detail \<le> capacity - 1
     | Some (Inr fd) \<Rightarrow> opened es = closed es @ [fd] \<and> Connected fd \<in> set es)"
proof -
  obtain x s1 where g: "net_call (os_getaddrinfo os host (show_nat port)) (\<lambda>_. []) s = (x, s1)" by (metis surj_pair)
  note a = net_call_adds [OF g]
  show ?thesis
  proof (cases x)
    case (Inl e)
    with assms g a show ?thesis by (intro exI [where x = "[]"]) (auto simp: RCConnectToHost_def)
  next
    case (Inr addresses)
    obtain y s2 where t: "try_addresses os fuel ECONNREFUSED addresses s1 = (y, s2)" by (metis surj_pair)
    from attempts_result [OF t] obtain es where es: "adds s1 es s2" "attempt_ok fuel y es" by blast
    from adds_trans [OF a es(1)] have "adds s es s2" by simp
    with assms g Inr t es(2) show ?thesis
      by (intro exI [where x = es]) (auto simp: RCConnectToHost_def attempt_ok_def no_leak_def split: option.splits sum.splits)
  qed
qed

end
