(* ===== verification/MailProxy.thy ===== *)
theory MailProxy
  imports Connection
begin

text \<open>
  The connections of \<^verbatim>\<open>source/macOS-daemon/RCMailProxy.c\<close>: sending, reading the responses of an
  SMTP server, raising TLS, relaying, and the life of one connection. OpenSSL is an argument, as
  the operating system is; a call of it that sends or receives is noted in the trace with the plain
  bytes. The threads are in \<open>MailProxyThreads\<close>.
\<close>

section \<open>Configuration\<close>

datatype RCMailProxyMode = kRCMailProxyImplicitTLS | kRCMailProxySMTPStartTLS

record RCMailProxyConfig =
  serviceName :: string
  localPort :: nat
  remoteHost :: string
  remotePort :: nat
  proxyMode :: RCMailProxyMode

definition RC_MAX_LISTENERS :: nat where
  "RC_MAX_LISTENERS = 2"

definition RC_SMTP_RESPONSE_LIMIT :: nat where
  "RC_SMTP_RESPONSE_LIMIT = 16384"

definition RCMailScope :: "string \<Rightarrow> string" where
  "RCMailScope service = (if service = ''IMAP'' then ''Mail/IMAP'' else ''Mail/SMTP'')"

section \<open>OpenSSL\<close>

text \<open>\<open>SSL_read\<close> gives the bytes it read, or its non-positive result.\<close>

record ('t, 'w) openssl =
  SSL_new :: "'w \<Rightarrow> 't option \<times> 'w"
  set_hostflags :: "'t \<Rightarrow> 'w \<Rightarrow> 'w"
  set_tlsext_host_name :: "'t \<Rightarrow> string \<Rightarrow> 'w \<Rightarrow> int \<times> 'w"
  set1_host :: "'t \<Rightarrow> string \<Rightarrow> 'w \<Rightarrow> int \<times> 'w"
  SSL_set_fd :: "'t \<Rightarrow> int \<Rightarrow> 'w \<Rightarrow> int \<times> 'w"
  SSL_connect :: "'t \<Rightarrow> 'w \<Rightarrow> int \<times> 'w"
  verify_result_ok :: "'t \<Rightarrow> 'w \<Rightarrow> bool \<times> 'w"
  SSL_pending :: "'t \<Rightarrow> 'w \<Rightarrow> int"
  SSL_write :: "'t \<Rightarrow> bytes \<Rightarrow> 'w \<Rightarrow> int \<times> 'w"
  SSL_read :: "'t \<Rightarrow> nat \<Rightarrow> 'w \<Rightarrow> (int + bytes) \<times> 'w"
  SSL_shutdown :: "'t \<Rightarrow> 'w \<Rightarrow> 'w"
  SSL_free :: "'t \<Rightarrow> 'w \<Rightarrow> 'w"

section \<open>Sockets\<close>

definition INADDR_LOOPBACK :: nat where
  "INADDR_LOOPBACK = 0x7f000001"

definition RCCreateListener :: "('a, 'w) os \<Rightarrow> nat \<Rightarrow> 'w net \<Rightarrow> int option \<times> 'w net" where
  "RCCreateListener os port s =
     (case net_call (os_inet_socket os) (\<lambda>r. case r of Inr fd \<Rightarrow> [Opened fd] | Inl _ \<Rightarrow> []) s of
        (Inl e, s) \<Rightarrow> (None, s)
      | (Inr listenerSocket, s) \<Rightarrow>
          (let s = net_do (os_reuse_address os listenerSocket) [] s;
               failed = (\<lambda>s. (None, net_do (os_close os listenerSocket) [Closed listenerSocket] s));
               (bound, s) = net_call (os_bind os listenerSocket INADDR_LOOPBACK port)
                 (\<lambda>r. if r = None then [Bound listenerSocket INADDR_LOOPBACK port] else []) s
           in if bound \<noteq> None then failed s
              else let (listening, s) = net_call (os_listen os listenerSocket 16) (\<lambda>_. []) s
                in if listening \<noteq> None then failed s else (Some listenerSocket, s)))"

definition RCSetSocketTimeouts :: "('a, 'w) os \<Rightarrow> int \<Rightarrow> 'w net \<Rightarrow> 'w net" where
  "RCSetSocketTimeouts os socketDescriptor s = net_do (os_timeouts os socketDescriptor 120) [] s"

definition sent_event :: "int \<Rightarrow> bytes \<Rightarrow> errno + nat \<Rightarrow> net_event list" where
  "sent_event fd bs r = (case r of Inl EINTR \<Rightarrow> [Interrupted] | Inl _ \<Rightarrow> [] | Inr n \<Rightarrow> [Sent fd (take n bs)])"

fun RCSendAll :: "('a, 'w) os \<Rightarrow> nat \<Rightarrow> int \<Rightarrow> bytes \<Rightarrow> 'w net \<Rightarrow> bool option \<times> 'w net" where
  "RCSendAll os fuel socketDescriptor [] s = (Some True, s)"
| "RCSendAll os 0 socketDescriptor (b # bs) s = (None, s)"
| "RCSendAll os (Suc fuel) socketDescriptor (b # bs) s =
     (case net_call (os_send os socketDescriptor (b # bs)) (sent_event socketDescriptor (b # bs)) s of
        (Inl EINTR, s) \<Rightarrow> RCSendAll os fuel socketDescriptor (b # bs) s
      | (Inl e, s) \<Rightarrow> (Some False, s)
      | (Inr sent, s) \<Rightarrow> if sent = 0 then (Some False, s) else RCSendAll os fuel socketDescriptor (drop sent (b # bs)) s)"

definition written_event :: "bytes \<Rightarrow> int \<Rightarrow> net_event list" where
  "written_event bs n = (if n \<le> 0 then [] else [TLSWritten (take (nat n) bs)])"

function RCSSLWriteAll :: "('t, 'w) openssl \<Rightarrow> 't \<Rightarrow> bytes \<Rightarrow> 'w net \<Rightarrow> bool \<times> 'w net" where
  "RCSSLWriteAll ssl tls bs s =
     (if bs = [] then (True, s)
      else case net_call (SSL_write ssl tls (take INT_MAX bs)) (written_event bs) s of
        (written, s) \<Rightarrow> if written \<le> 0 then (False, s) else RCSSLWriteAll ssl tls (drop (nat written) bs) s)"
  by pat_completeness auto
termination
  by (relation "measure (\<lambda>(ssl, tls, bs, s). length bs)") auto

declare RCSSLWriteAll.simps [simp del]

section \<open>SMTP\<close>

text \<open>\<open>recv\<close> with its event; a negative result is an error, no bytes are the end of the stream.\<close>

definition receive :: "('a, 'w) os \<Rightarrow> int \<Rightarrow> nat \<Rightarrow> 'w net \<Rightarrow> (errno + bytes) \<times> 'w net" where
  "receive os fd n s = net_call (os_recv os fd n)
     (\<lambda>r. case r of Inl EINTR \<Rightarrow> [Interrupted] | Inl _ \<Rightarrow> [] | Inr bs \<Rightarrow> [Received fd bs]) s"

definition digit :: "int \<Rightarrow> char" where
  "digit d = char_of (nat (48 + d))"

text \<open>A line of a response, with its line feed: the last line of the response to a command has a space after the code.\<close>

definition final_line :: "int \<Rightarrow> bytes \<Rightarrow> bool" where
  "final_line code line \<longleftrightarrow> length line \<ge> 4 \<and>
     take 4 line = [digit (code div 100), digit (code div 10 mod 10), digit (code mod 10), CHR '' '']"

definition starttls_line :: "bytes \<Rightarrow> bool" where
  "starttls_line line \<longleftrightarrow> length line \<ge> 12 \<and> same_nocase_n 8 (drop 4 line) ''STARTTLS''"

text \<open>The response, of which a caller saves as much as it has room for, and whether a line offered STARTTLS.\<close>

fun read_response ::
  "('a, 'w) os \<Rightarrow> nat \<Rightarrow> int \<Rightarrow> int \<Rightarrow> bytes \<Rightarrow> nat \<Rightarrow> bool \<Rightarrow> 'w net \<Rightarrow> (bytes \<times> bool) option option \<times> 'w net" where
  "read_response os 0 fd code response lineStart hasStartTLS s = (None, s)"
| "read_response os (Suc fuel) fd code response lineStart hasStartTLS s =
     (if length response + 1 \<ge> RC_SMTP_RESPONSE_LIMIT then (Some None, s)
      else case receive os fd 1 s of
        (Inl EINTR, s) \<Rightarrow> read_response os fuel fd code response lineStart hasStartTLS s
      | (Inl e, s) \<Rightarrow> (Some None, s)
      | (Inr [], s) \<Rightarrow> (Some None, s)
      | (Inr (c # cs), s) \<Rightarrow>
          (let response = response @ [c] in
           if c \<noteq> CHR 0x0A then read_response os fuel fd code response lineStart hasStartTLS s
           else let line = drop lineStart response; hasStartTLS = (hasStartTLS \<or> starttls_line line) in
             if final_line code line then (Some (Some (response, hasStartTLS)), s)
             else read_response os fuel fd code response (length response) hasStartTLS s))"

definition RCReadSMTPResponse ::
  "('a, 'w) os \<Rightarrow> nat \<Rightarrow> int \<Rightarrow> int \<Rightarrow> nat \<Rightarrow> 'w net \<Rightarrow> (bytes \<times> bool) option option \<times> 'w net" where
  "RCReadSMTPResponse os fuel socketDescriptor expectedCode savedCapacity s =
     (case read_response os fuel socketDescriptor expectedCode [] 0 False s of
        (Some (Some (response, hasStartTLS)), s) \<Rightarrow> (Some (Some (take savedCapacity response, hasStartTLS)), s)
      | r \<Rightarrow> r)"

definition hello :: bytes where
  "hello = ''EHLO localhost'' @ [CHR 0x0D, CHR 0x0A]"

definition startTLS :: bytes where
  "startTLS = ''STARTTLS'' @ [CHR 0x0D, CHR 0x0A]"

text \<open>The greeting of the server, or \<open>None\<close> when the negotiation failed.\<close>

definition RCPrepareSMTPStartTLS :: "('a, 'w) os \<Rightarrow> nat \<Rightarrow> int \<Rightarrow> nat \<Rightarrow> 'w net \<Rightarrow> bytes option option \<times> 'w net" where
  "RCPrepareSMTPStartTLS os fuel remoteSocket greetingCapacity s =
     (case RCReadSMTPResponse os fuel remoteSocket 220 greetingCapacity s of
        (None, s) \<Rightarrow> (None, s) | (Some None, s) \<Rightarrow> (Some None, s)
      | (Some (Some (greeting, _)), s) \<Rightarrow>
     (case RCSendAll os fuel remoteSocket hello s of
        (None, s) \<Rightarrow> (None, s) | (Some False, s) \<Rightarrow> (Some None, s)
      | (Some True, s) \<Rightarrow>
     (case RCReadSMTPResponse os fuel remoteSocket 250 0 s of
        (None, s) \<Rightarrow> (None, s) | (Some None, s) \<Rightarrow> (Some None, s)
      | (Some (Some (_, hasStartTLS)), s) \<Rightarrow> if \<not> hasStartTLS then (Some None, s) else
     (case RCSendAll os fuel remoteSocket startTLS s of
        (None, s) \<Rightarrow> (None, s) | (Some False, s) \<Rightarrow> (Some None, s)
      | (Some True, s) \<Rightarrow>
     (case RCReadSMTPResponse os fuel remoteSocket 220 0 s of
        (None, s) \<Rightarrow> (None, s) | (Some None, s) \<Rightarrow> (Some None, s)
      | (Some (Some _), s) \<Rightarrow> (Some (Some greeting), s))))))"

section \<open>TLS\<close>

text \<open>A call of OpenSSL that must return 1, with the event of its success.\<close>

definition must_be_one :: "('w \<Rightarrow> int \<times> 'w) \<Rightarrow> net_event list \<Rightarrow> 'w net \<Rightarrow> bool \<times> 'w net" where
  "must_be_one f es s = (case net_call f (\<lambda>n. if n = 1 then es else []) s of (n, s) \<Rightarrow> (n = 1, s))"

fun tls_steps :: "('w net \<Rightarrow> bool \<times> 'w net) list \<Rightarrow> 'w net \<Rightarrow> bool \<times> 'w net" where
  "tls_steps [] s = (True, s)"
| "tls_steps (f # fs) s = (case f s of (False, s) \<Rightarrow> (False, s) | (True, s) \<Rightarrow> tls_steps fs s)"

definition RCConnectTLS :: "('t, 'w) openssl \<Rightarrow> int \<Rightarrow> string \<Rightarrow> 'w net \<Rightarrow> 't option \<times> 'w net" where
  "RCConnectTLS ssl remoteSocket host s =
     (case net_call (SSL_new ssl) (\<lambda>_. []) s of
        (None, s) \<Rightarrow> (None, s)
      | (Some tls, s) \<Rightarrow>
          (let s = net_do (set_hostflags ssl tls) [] s;
               (up, s) = tls_steps
                 [must_be_one (set_tlsext_host_name ssl tls host) [],
                  must_be_one (set1_host ssl tls host) [HostPinned host],
                  must_be_one (SSL_set_fd ssl tls remoteSocket) [],
                  must_be_one (SSL_connect ssl tls) [Handshake],
                  net_call (verify_result_ok ssl tls) (\<lambda>ok. if ok then [Verified] else [])] s
           in if up then (Some tls, s) else (None, net_do (SSL_free ssl tls) [] s)))"

section \<open>The relay\<close>

text \<open>\<open>select\<close> on the sockets to read from, retried when it is interrupted.\<close>

fun select_readable :: "('a, 'w) os \<Rightarrow> nat \<Rightarrow> int list \<Rightarrow> 'w net \<Rightarrow> (errno + int set) option \<times> 'w net" where
  "select_readable os 0 fds s = (None, s)"
| "select_readable os (Suc fuel) fds s =
     (case net_call (os_select os fds [] 1) interruption s of
        (Inl EINTR, s) \<Rightarrow> select_readable os fuel fds s
      | (r, s) \<Rightarrow> (Some r, s))"

text \<open>One direction at a time: \<open>Some r\<close> ends the relay with the result \<open>r\<close>, \<open>None\<close> goes on.\<close>

definition relay_up :: "('a, 'w) os \<Rightarrow> ('t, 'w) openssl \<Rightarrow> int \<Rightarrow> 't \<Rightarrow> 'w net \<Rightarrow> bool option \<times> 'w net" where
  "relay_up os ssl localSocket tls s =
     (case receive os localSocket 16384 s of
        (Inl e, s) \<Rightarrow> (Some False, s)
      | (Inr [], s) \<Rightarrow> (Some True, s)
      | (Inr bs, s) \<Rightarrow> (case RCSSLWriteAll ssl tls bs s of (ok, s) \<Rightarrow> (if ok then None else Some False, s)))"

definition relay_down :: "('a, 'w) os \<Rightarrow> ('t, 'w) openssl \<Rightarrow> nat \<Rightarrow> int \<Rightarrow> 't \<Rightarrow> 'w net \<Rightarrow> bool option option \<times> 'w net" where
  "relay_down os ssl fuel localSocket tls s =
     (case net_call (SSL_read ssl tls 16384) (\<lambda>r. case r of Inl _ \<Rightarrow> [] | Inr bs \<Rightarrow> [TLSRead bs]) s of
        (Inl received, s) \<Rightarrow> (Some (Some (received = 0)), s)
      | (Inr bs, s) \<Rightarrow>
          (case RCSendAll os fuel localSocket bs s of
             (None, s) \<Rightarrow> (None, s) | (Some ok, s) \<Rightarrow> (Some (if ok then None else Some False), s)))"

fun RCRelayConnection :: "('a, 'w) os \<Rightarrow> ('t, 'w) openssl \<Rightarrow> nat \<Rightarrow> int \<Rightarrow> int \<Rightarrow> 't \<Rightarrow> 'w net \<Rightarrow> bool option \<times> 'w net" where
  "RCRelayConnection os ssl 0 localSocket remoteSocket tls s = (None, s)"
| "RCRelayConnection os ssl (Suc fuel) localSocket remoteSocket tls s =
     (case (if SSL_pending ssl tls (world s) > 0 then (Some (Inr ({localSocket, remoteSocket} - {localSocket})), s)
            else select_readable os (Suc fuel) [localSocket, remoteSocket] s) of
        (None, s) \<Rightarrow> (None, s)
      | (Some (Inl e), s) \<Rightarrow> (Some False, s)
      | (Some (Inr readable), s) \<Rightarrow>
          if readable = {} then RCRelayConnection os ssl fuel localSocket remoteSocket tls s
          else case (if localSocket \<in> readable then relay_up os ssl localSocket tls s else (None, s)) of
            (Some r, s) \<Rightarrow> (Some r, s)
          | (None, s) \<Rightarrow>
              case (if SSL_pending ssl tls (world s) > 0 \<or> remoteSocket \<in> readable
                    then relay_down os ssl (Suc fuel) localSocket tls s else (Some None, s)) of
                (None, s) \<Rightarrow> (None, s)
              | (Some (Some r), s) \<Rightarrow> (Some r, s)
              | (Some None, s) \<Rightarrow> RCRelayConnection os ssl fuel localSocket remoteSocket tls s)"

section \<open>A connection\<close>

text \<open>What is left to do once both sockets are open: the messages of the log, and the TLS object if there is one.\<close>

definition serve ::
  "('a, 'w) os \<Rightarrow> ('t, 'w) openssl \<Rightarrow> nat \<Rightarrow> RCMailProxyConfig \<Rightarrow> int \<Rightarrow> int \<Rightarrow> 'w net \<Rightarrow> (string list \<times> 't option) option \<times> 'w net" where
  "serve os ssl fuel config localSocket remoteSocket s =
     (let s = RCSetSocketTimeouts os remoteSocket (RCSetSocketTimeouts os localSocket s);
          (greeting, s) = (if proxyMode config = kRCMailProxySMTPStartTLS
            then RCPrepareSMTPStartTLS os fuel remoteSocket RC_SMTP_RESPONSE_LIMIT s else (Some (Some []), s))
      in case greeting of
           None \<Rightarrow> (None, s)
         | Some None \<Rightarrow> (Some ([''Upstream STARTTLS negotiation failed''], None), s)
         | Some (Some greeting) \<Rightarrow>
             (case RCConnectTLS ssl remoteSocket (remoteHost config) s of
                (None, s) \<Rightarrow> (Some ([''Verified TLS connection failed''], None), s)
              | (Some tls, s) \<Rightarrow>
                  (case RCSendAll os fuel localSocket greeting s of
                     (None, s) \<Rightarrow> (None, s)
                   | (Some False, s) \<Rightarrow> (Some ([], Some tls), s)
                   | (Some True, s) \<Rightarrow>
                       (case RCRelayConnection os ssl fuel localSocket remoteSocket tls s of
                          (None, s) \<Rightarrow> (None, s)
                        | (Some atEnd, s) \<Rightarrow> (Some ([''TLS proxy connection established'',
                            if atEnd then ''Peer closed connection'' else ''Relay failed; closing connection''], Some tls), s)))))"

text \<open>
  The body of a connection thread, given whether the proxy was found to be stopping after the
  server was reached: the messages of the log. The removal from the list of connections is a step of the
  threads.
\<close>

definition RCConnectionMain ::
  "('a, 'w) os \<Rightarrow> ('t, 'w) openssl \<Rightarrow> nat \<Rightarrow> RCMailProxyConfig \<Rightarrow> int \<Rightarrow> bool \<Rightarrow> 'w net \<Rightarrow> string list option \<times> 'w net" where
  "RCConnectionMain os ssl fuel config localSocket stopping s =
     (let close_socket = (\<lambda>fd. net_do (os_close os fd) [Closed fd]) in
      case RCConnectToHost os fuel (remoteHost config) (remotePort config) 256 s of
        (None, s) \<Rightarrow> (None, s)
      | (Some (Inl detail), s) \<Rightarrow> (Some [detail], close_socket localSocket s)
      | (Some (Inr remoteSocket), s) \<Rightarrow>
          (case (if stopping then (Some ([], None), s) else serve os ssl fuel config localSocket remoteSocket s) of
             (None, s) \<Rightarrow> (None, s)
           | (Some (messages, tls), s) \<Rightarrow>
               (let s = (case tls of None \<Rightarrow> s | Some t \<Rightarrow> net_do (SSL_free ssl t) [] (net_do (SSL_shutdown ssl t) [] s))
                in (Some messages, close_socket localSocket (close_socket remoteSocket s)))))"

end
