(* ===== verification/MailProxySafety.thy ===== *)
theory MailProxySafety
  imports MailProxy "HOL-Library.Sublist"
begin

text \<open>
  What a connection of the mail proxy puts on the wire, read off the trace of its calls: nothing of
  the client leaves before the server has been verified, what is relayed is what was received, and
  the response of an SMTP server is read to its last line and no further.
\<close>

section \<open>Bytes of a trace\<close>

definition bytes_by :: "(net_event \<Rightarrow> bytes) \<Rightarrow> net_event list \<Rightarrow> bytes" where
  "bytes_by p es = concat (map p es)"

lemma bytes_by_simps [simp]:
  "bytes_by p [] = []" "bytes_by p (e # es) = p e @ bytes_by p es" "bytes_by p (es @ fs) = bytes_by p es @ bytes_by p fs"
  by (simp_all add: bytes_by_def)

fun sent_to :: "int \<Rightarrow> net_event \<Rightarrow> bytes" where
  "sent_to fd (Sent f bs) = (if f = fd then bs else [])"
| "sent_to fd _ = []"

fun received_from :: "int \<Rightarrow> net_event \<Rightarrow> bytes" where
  "received_from fd (Received f bs) = (if f = fd then bs else [])"
| "received_from fd _ = []"

fun tls_written :: "net_event \<Rightarrow> bytes" where
  "tls_written (TLSWritten bs) = bs"
| "tls_written _ = []"

fun tls_read :: "net_event \<Rightarrow> bytes" where
  "tls_read (TLSRead bs) = bs"
| "tls_read _ = []"

fun sending :: "int \<Rightarrow> net_event \<Rightarrow> bool" where
  "sending fd (Sent f bs) = (f = fd)"
| "sending fd Interrupted = True"
| "sending fd _ = False"

fun receiving :: "int \<Rightarrow> net_event \<Rightarrow> bool" where
  "receiving fd (Received f bs) = (f = fd)"
| "receiving fd Interrupted = True"
| "receiving fd _ = False"

lemma bytes_by_none: "(\<And>e. e \<in> set es \<Longrightarrow> p e = []) \<Longrightarrow> bytes_by p es = []"
  by (induction es) simp_all

section \<open>Sending\<close>

lemma send_result:
  "RCSendAll os fuel fd bs s = (r, s') \<Longrightarrow> \<exists>es. adds s es s' \<and> list_all (sending fd) es \<and>
     prefix (bytes_by (sent_to fd) es) bs \<and> (r = Some True \<longrightarrow> bytes_by (sent_to fd) es = bs) \<and>
     (r = None \<longrightarrow> fuel \<le> interruptions es + length bs)"
proof (induction os fuel fd bs s rule: RCSendAll.induct)
  case (3 os fuel fd b bs s)
  obtain x s1 where c: "net_call (os_send os fd (b # bs)) (sent_event fd (b # bs)) s = (x, s1)" by (metis surj_pair)
  note a = net_call_adds [OF c]
  consider "x = Inl EINTR" | e where "x = Inl e" "e \<noteq> EINTR" | "x = Inr 0" | n where "x = Inr (Suc n)"
    by (metis old.nat.exhaust sum.exhaust)
  then show ?case
  proof cases
    case 1
    with "3.prems" c have "RCSendAll os fuel fd (b # bs) s1 = (r, s')" by simp
    from "3.IH"(1) [OF c [symmetric] 1 refl] this 1 obtain es where es: "adds s1 es s'" "list_all (sending fd) es"
      "prefix (bytes_by (sent_to fd) es) (b # bs)" "r = Some True \<longrightarrow> bytes_by (sent_to fd) es = b # bs"
      "r = None \<longrightarrow> fuel \<le> interruptions es + length (b # bs)" by blast
    from adds_trans [OF a es(1)] 1 have "adds s (Interrupted # es) s'" by (simp add: sent_event_def)
    with es show ?thesis by (intro exI [where x = "Interrupted # es"]) auto
  next
    case 2
    with "3.prems" c a show ?thesis by (intro exI [where x = "[]"]) (auto simp: sent_event_def split: errno.splits)
  next
    case 3
    with "3.prems" c a show ?thesis by (intro exI [where x = "[Sent fd []]"]) (auto simp: sent_event_def)
  next
    case (4 n)
    with "3.prems" c have "RCSendAll os fuel fd (drop (Suc n) (b # bs)) s1 = (r, s')" by simp
    with "3.IH"(2) [OF c [symmetric] 4] obtain es where es: "adds s1 es s'" "list_all (sending fd) es"
      "prefix (bytes_by (sent_to fd) es) (drop n bs)" "r = Some True \<longrightarrow> bytes_by (sent_to fd) es = drop n bs"
      "r = None \<longrightarrow> fuel \<le> interruptions es + length (drop n bs)" by auto
    from adds_trans [OF a es(1)] 4 have "adds s (Sent fd (b # take n bs) # es) s'" by (simp add: sent_event_def)
    moreover have "prefix (b # take n bs @ bytes_by (sent_to fd) es) (b # bs)"
      using es(3) by (metis Cons_prefix_Cons append_take_drop_id same_prefix_prefix)
    ultimately show ?thesis using es by (intro exI [where x = "Sent fd (b # take n bs) # es"]) auto
  qed
qed (auto intro!: exI [where x = "[]"] simp: adds_refl)

lemma write_result:
  "RCSSLWriteAll ssl tls bs s = (ok, s') \<Longrightarrow> \<exists>es. adds s es s' \<and> list_all (\<lambda>e. \<exists>b. e = TLSWritten b) es \<and>
     prefix (bytes_by tls_written es) bs \<and> (ok \<longrightarrow> bytes_by tls_written es = bs)"
proof (induction ssl tls bs s rule: RCSSLWriteAll.induct)
  case (1 ssl tls bs s)
  show ?case
  proof (cases "bs = []")
    case True
    with "1.prems" show ?thesis by (auto simp: RCSSLWriteAll.simps adds_refl intro: exI [where x = "[]"])
  next
    case False
    obtain n s1 where c: "net_call (SSL_write ssl tls (take INT_MAX bs)) (written_event bs) s = (n, s1)" by (metis surj_pair)
    note a = net_call_adds [OF c]
    note step = "1.prems" [unfolded RCSSLWriteAll.simps [of ssl tls bs s]]
    show ?thesis
    proof (cases "n \<le> 0")
      case True
      with step False c a show ?thesis by (auto simp: written_event_def intro!: exI [where x = "[]"])
    next
      case go: False
      with step False c have "RCSSLWriteAll ssl tls (drop (nat n) bs) s1 = (ok, s')" by simp
      from "1.IH" [OF False c [symmetric] go this] obtain es where es: "adds s1 es s'" "list_all (\<lambda>e. \<exists>b. e = TLSWritten b) es"
        "prefix (bytes_by tls_written es) (drop (nat n) bs)" "ok \<longrightarrow> bytes_by tls_written es = drop (nat n) bs" by blast
      from adds_trans [OF a es(1)] go have "adds s (TLSWritten (take (nat n) bs) # es) s'" by (simp add: written_event_def)
      moreover have "prefix (take (nat n) bs @ bytes_by tls_written es) bs"
        using es(3) by (metis append_take_drop_id same_prefix_prefix)
      ultimately show ?thesis using es by (intro exI [where x = "TLSWritten (take (nat n) bs) # es"]) auto
    qed
  qed
qed

section \<open>The response of an SMTP server\<close>

text \<open>\<open>recv\<close> with room for one byte gives no more.\<close>

definition one_byte_reads :: "('a, 'w) os \<Rightarrow> bool" where
  "one_byte_reads os \<longleftrightarrow> (\<forall>fd w bs w'. os_recv os fd 1 w = (Inr bs, w') \<longrightarrow> length bs \<le> 1)"

text \<open>A response as the server sends it: complete lines, of which only the last is final.\<close>

definition smtp_line :: "bytes \<Rightarrow> bool" where
  "smtp_line line \<longleftrightarrow> (\<exists>text. line = text @ [CHR 0x0A] \<and> CHR 0x0A \<notin> set text)"

definition response_of :: "int \<Rightarrow> bytes list \<Rightarrow> bool" where
  "response_of code lines \<longleftrightarrow> (\<exists>first final. lines = first @ [final] \<and> list_all smtp_line lines \<and>
     list_all (\<lambda>l. \<not> final_line code l) first \<and> final_line code final)"

lemma response_result:
  assumes "one_byte_reads os"
  shows "read_response os fuel fd code response lineStart offered s = (r, s') \<Longrightarrow>
    response = concat lines @ partial \<Longrightarrow> lineStart = length (concat lines) \<Longrightarrow> CHR 0x0A \<notin> set partial \<Longrightarrow>
    list_all (\<lambda>l. smtp_line l \<and> \<not> final_line code l) lines \<Longrightarrow> offered = list_ex starttls_line lines \<Longrightarrow>
    \<exists>es. adds s es s' \<and> list_all (receiving fd) es \<and>
      (r = None \<longrightarrow> fuel \<le> interruptions es + (RC_SMTP_RESPONSE_LIMIT - length response)) \<and>
      (\<forall>whole flag. r = Some (Some (whole, flag)) \<longrightarrow> length whole < RC_SMTP_RESPONSE_LIMIT \<and>
         response @ bytes_by (received_from fd) es = whole \<and>
         (\<exists>ls. response_of code ls \<and> concat ls = whole \<and> flag = list_ex starttls_line ls))"
proof (induction fuel arbitrary: response lineStart offered s lines partial)
  case 0
  then show ?case by (auto simp: adds_refl intro!: exI [where x = "[]"])
next
  case (Suc fuel)
  show ?case
  proof (cases "length response + 1 \<ge> RC_SMTP_RESPONSE_LIMIT")
    case True
    with Suc.prems(1) show ?thesis by (auto simp: adds_refl intro!: exI [where x = "[]"])
  next
    case room: False
    obtain x s1 where c: "receive os fd 1 s = (x, s1)" by (metis surj_pair)
    note a = net_call_adds [OF c [unfolded receive_def]]
    consider "x = Inl EINTR" | e where "x = Inl e" "e \<noteq> EINTR" | "x = Inr []" | b cs where "x = Inr (b # cs)"
      by (metis list.exhaust sum.exhaust)
    then show ?thesis
    proof cases
      case 1
      with Suc.prems(1) room c have "read_response os fuel fd code response lineStart offered s1 = (r, s')" by simp
      from Suc.IH [OF this Suc.prems(2-6)] obtain es where es: "adds s1 es s'" "list_all (receiving fd) es"
        "r = None \<longrightarrow> fuel \<le> interruptions es + (RC_SMTP_RESPONSE_LIMIT - length response)"
        "\<forall>whole flag. r = Some (Some (whole, flag)) \<longrightarrow> length whole < RC_SMTP_RESPONSE_LIMIT \<and>
           response @ bytes_by (received_from fd) es = whole \<and>
           (\<exists>ls. response_of code ls \<and> concat ls = whole \<and> flag = list_ex starttls_line ls)" by blast
      from adds_trans [OF a es(1)] 1 have "adds s (Interrupted # es) s'" by simp
      with es show ?thesis by (intro exI [where x = "Interrupted # es"]) simp
    next
      case 2
      with Suc.prems(1) room c a show ?thesis by (intro exI [where x = "[]"]) (auto split: errno.splits)
    next
      case 3
      with Suc.prems(1) room c a show ?thesis by (intro exI [where x = "[Received fd []]"]) auto
    next
      case (4 b cs)
      from c assms 4 have cs: "cs = []" by (fastforce simp: receive_def net_call_def one_byte_reads_def split: prod.splits)
      let ?response = "response @ [b]" and ?partial = "partial @ [b]"
      from a 4 cs have a1: "adds s [Received fd [b]] s1" by simp
      show ?thesis
      proof (cases "b = CHR 0x0A \<and> final_line code ?partial")
        case finished: True
        then have b: "b = CHR 0x0A" and f: "final_line code ?partial" by auto
        from Suc.prems(2,3) have line: "drop lineStart ?response = ?partial" by simp
        from Suc.prems(1) room c 4 b f line have r: "r = Some (Some (?response, offered \<or> starttls_line ?partial))" "s' = s1"
          by (simp_all add: Let_def del: drop_append)
        have "smtp_line ?partial" using finished Suc.prems(4) by (auto simp: smtp_line_def)
        with finished Suc.prems(5) have "response_of code (lines @ [?partial])" by (auto simp: response_of_def list_all_iff)
        moreover have "concat (lines @ [?partial]) = ?response" using Suc.prems(2) by simp
        moreover have "(offered \<or> starttls_line ?partial) = list_ex starttls_line (lines @ [?partial])" using Suc.prems(6) by simp
        ultimately have "\<exists>ls. response_of code ls \<and> concat ls = ?response \<and> (offered \<or> starttls_line ?partial) = list_ex starttls_line ls" by blast
        with r a1 room show ?thesis by (intro exI [where x = "[Received fd [b]]"]) auto
      next
        case more: False
        define ls where "ls = (if b = CHR 0x0A then lines @ [?partial] else lines)"
        define rest where "rest = (if b = CHR 0x0A then [] else ?partial)"
        from Suc.prems(2,3) have line: "drop lineStart ?response = ?partial" by simp
        have next_call: "read_response os fuel fd code ?response (length (concat ls)) (list_ex starttls_line ls) s1 = (r, s')"
          using Suc.prems(1-3,6) room c 4 more line by (cases "b = CHR 0x0A") (simp_all add: Let_def ls_def disj_commute del: drop_append)
        have "smtp_line ?partial" if "b = CHR 0x0A" using that Suc.prems(4) by (auto simp: smtp_line_def)
        with more Suc.prems(5) have "list_all (\<lambda>l. smtp_line l \<and> \<not> final_line code l) ls" by (auto simp: ls_def)
        moreover have "?response = concat ls @ rest" "CHR 0x0A \<notin> set rest" using Suc.prems(2,4) by (auto simp: ls_def rest_def)
        ultimately obtain es where es: "adds s1 es s'" "list_all (receiving fd) es"
          "r = None \<longrightarrow> fuel \<le> interruptions es + (RC_SMTP_RESPONSE_LIMIT - length ?response)"
          "\<forall>whole flag. r = Some (Some (whole, flag)) \<longrightarrow> length whole < RC_SMTP_RESPONSE_LIMIT \<and>
             ?response @ bytes_by (received_from fd) es = whole \<and>
             (\<exists>ls. response_of code ls \<and> concat ls = whole \<and> flag = list_ex starttls_line ls)"
          using Suc.IH [OF next_call _ refl _ _ refl, of rest] by blast
        from adds_trans [OF a1 es(1)] have "adds s (Received fd [b] # es) s'" by simp
        with es room show ?thesis by (intro exI [where x = "Received fd [b] # es"]) auto
      qed
    qed
  qed
qed

lemma smtp_result:
  assumes "one_byte_reads os"
    and "RCReadSMTPResponse os fuel fd code savedCapacity s = (r, s')"
  shows "\<exists>es. adds s es s' \<and> list_all (receiving fd) es \<and> (r = None \<longrightarrow> fuel \<le> interruptions es + RC_SMTP_RESPONSE_LIMIT) \<and>
    (\<forall>saved flag. r = Some (Some (saved, flag)) \<longrightarrow> (\<exists>lines. response_of code lines \<and> bytes_by (received_from fd) es = concat lines \<and>
       length (concat lines) < RC_SMTP_RESPONSE_LIMIT \<and> saved = take savedCapacity (concat lines) \<and> flag = list_ex starttls_line lines))"
proof -
  obtain x s1 where c: "read_response os fuel fd code [] 0 False s = (x, s1)" by (metis surj_pair)
  from response_result [OF assms(1) c, where lines = "[]" and partial = "[]"] obtain es where es: "adds s es s1" "list_all (receiving fd) es"
    "x = None \<longrightarrow> fuel \<le> interruptions es + RC_SMTP_RESPONSE_LIMIT"
    "\<forall>whole flag. x = Some (Some (whole, flag)) \<longrightarrow> length whole < RC_SMTP_RESPONSE_LIMIT \<and> bytes_by (received_from fd) es = whole \<and>
       (\<exists>ls. response_of code ls \<and> concat ls = whole \<and> flag = list_ex starttls_line ls)" by auto
  have "s' = s1" "r = None \<longrightarrow> x = None"
    "\<forall>saved flag. r = Some (Some (saved, flag)) \<longrightarrow> (\<exists>whole. x = Some (Some (whole, flag)) \<and> saved = take savedCapacity whole)"
    using assms(2) c by (auto simp: RCReadSMTPResponse_def split: option.splits prod.splits)
  with es show ?thesis by (intro exI [where x = es]) fastforce
qed

text \<open>The negotiation sends nothing but its two commands.\<close>

definition in_the_clear :: "int \<Rightarrow> net_event list \<Rightarrow> bool" where
  "in_the_clear fd es \<longleftrightarrow> list_all (\<lambda>e. sending fd e \<or> receiving fd e) es"

lemma in_the_clear_simps [simp]:
  "in_the_clear fd []" "in_the_clear fd (es @ fs) \<longleftrightarrow> in_the_clear fd es \<and> in_the_clear fd fs"
  by (simp_all add: in_the_clear_def)

lemma in_the_clear_intros: "list_all (sending fd) es \<Longrightarrow> in_the_clear fd es" "list_all (receiving fd) es \<Longrightarrow> in_the_clear fd es"
  by (auto simp: in_the_clear_def list_all_iff)

lemma receiving_sends_nothing: "list_all (receiving fd) es \<Longrightarrow> bytes_by (sent_to f) es = []"
  by (rule bytes_by_none) (auto simp: list_all_iff elim!: receiving.elims)

lemma negotiation_result:
  assumes recv: "one_byte_reads os"
    and "RCPrepareSMTPStartTLS os fuel fd capacity s = (r, s')"
  shows "\<exists>es. adds s es s' \<and> in_the_clear fd es \<and> prefix (bytes_by (sent_to fd) es) (hello @ startTLS) \<and>
    (\<forall>greeting. r = Some (Some greeting) \<longrightarrow> bytes_by (sent_to fd) es = hello @ startTLS \<and>
       prefix greeting (bytes_by (received_from fd) es))"
proof -
  note read = smtp_result [OF recv]
  obtain x1 s1 where c1: "RCReadSMTPResponse os fuel fd 220 capacity s = (x1, s1)" by (metis surj_pair)
  obtain x2 s2 where c2: "RCSendAll os fuel fd hello s1 = (x2, s2)" by (metis surj_pair)
  obtain x3 s3 where c3: "RCReadSMTPResponse os fuel fd 250 0 s2 = (x3, s3)" by (metis surj_pair)
  obtain x4 s4 where c4: "RCSendAll os fuel fd startTLS s3 = (x4, s4)" by (metis surj_pair)
  obtain x5 s5 where c5: "RCReadSMTPResponse os fuel fd 220 0 s4 = (x5, s5)" by (metis surj_pair)
  from read [OF c1] obtain e1 where e1: "adds s e1 s1" "list_all (receiving fd) e1"
    "\<forall>saved flag. x1 = Some (Some (saved, flag)) \<longrightarrow> prefix saved (bytes_by (received_from fd) e1)" by (metis take_is_prefix)
  from send_result [OF c2] obtain e2 where e2: "adds s1 e2 s2" "list_all (sending fd) e2" "prefix (bytes_by (sent_to fd) e2) hello"
    "x2 = Some True \<longrightarrow> bytes_by (sent_to fd) e2 = hello" by blast
  from read [OF c3] obtain e3 where e3: "adds s2 e3 s3" "list_all (receiving fd) e3" by blast
  from send_result [OF c4] obtain e4 where e4: "adds s3 e4 s4" "list_all (sending fd) e4" "prefix (bytes_by (sent_to fd) e4) startTLS"
    "x4 = Some True \<longrightarrow> bytes_by (sent_to fd) e4 = startTLS" by blast
  from read [OF c5] obtain e5 where e5: "adds s4 e5 s5" "list_all (receiving fd) e5" by blast
  consider "s' = s1" "\<forall>g. r \<noteq> Some (Some g)" | "s' = s2" "\<forall>g. r \<noteq> Some (Some g)"
    | "x2 = Some True" "s' = s3" "\<forall>g. r \<noteq> Some (Some g)" | "x2 = Some True" "s' = s4" "\<forall>g. r \<noteq> Some (Some g)"
    | "x2 = Some True" "x4 = Some True" "s' = s5" "\<forall>g. r = Some (Some g) \<longrightarrow> (\<exists>flag. x1 = Some (Some (g, flag)))"
    using assms(2) c1 c2 c3 c4 c5 by (auto simp: RCPrepareSMTPStartTLS_def split: option.splits prod.splits bool.splits if_splits)
  then show ?thesis
  proof cases
    case 1
    with e1 show ?thesis by (intro exI [where x = e1]) (simp add: in_the_clear_intros receiving_sends_nothing)
  next
    case 2
    with adds_trans [OF e1(1) e2(1)] e1 e2 show ?thesis
      by (intro exI [where x = "e1 @ e2"]) (simp add: in_the_clear_intros receiving_sends_nothing prefix_append)
  next
    case 3
    with adds_trans [OF e1(1) adds_trans [OF e2(1) e3(1)]] e1 e2 e3 show ?thesis
      by (intro exI [where x = "e1 @ e2 @ e3"]) (simp add: in_the_clear_intros receiving_sends_nothing)
  next
    case 4
    with adds_trans [OF e1(1) adds_trans [OF e2(1) adds_trans [OF e3(1) e4(1)]]] e1 e2 e3 e4 show ?thesis
      by (intro exI [where x = "e1 @ e2 @ e3 @ e4"]) (simp add: in_the_clear_intros receiving_sends_nothing)
  next
    case 5
    with adds_trans [OF e1(1) adds_trans [OF e2(1) adds_trans [OF e3(1) adds_trans [OF e4(1) e5(1)]]]] e1 e2 e3 e4 e5 show ?thesis
      by (intro exI [where x = "e1 @ e2 @ e3 @ e4 @ e5"]) (auto simp: in_the_clear_intros receiving_sends_nothing intro!: prefix_prefix)
  qed
qed

section \<open>TLS\<close>

definition verified_for :: "string \<Rightarrow> net_event list" where
  "verified_for host = [HostPinned host, Handshake, Verified]"

lemma one_result: "must_be_one f es s = (ok, s') \<Longrightarrow> adds s (if ok then es else []) s'"
  by (auto simp: must_be_one_def split: prod.splits dest: net_call_adds)

lemma tls_result:
  assumes "RCConnectTLS ssl fd host s = (r, s')"
  shows "\<exists>es. adds s es s' \<and> prefix es (verified_for host) \<and> (r \<noteq> None \<longrightarrow> es = verified_for host)"
proof -
  obtain x s1 where n: "net_call (SSL_new ssl) (\<lambda>_. []) s = (x, s1)" by (metis surj_pair)
  note a1 = net_call_adds [OF n]
  show ?thesis
  proof (cases x)
    case None
    with assms n a1 show ?thesis by (auto simp: RCConnectTLS_def)
  next
    case (Some tls)
    define s2 where "s2 = net_do (set_hostflags ssl tls) [] s1"
    obtain o1 t1 where m1: "must_be_one (set_tlsext_host_name ssl tls host) [] s2 = (o1, t1)" by (metis surj_pair)
    obtain o2 t2 where m2: "must_be_one (set1_host ssl tls host) [HostPinned host] t1 = (o2, t2)" by (metis surj_pair)
    obtain o3 t3 where m3: "must_be_one (SSL_set_fd ssl tls fd) [] t2 = (o3, t3)" by (metis surj_pair)
    obtain o4 t4 where m4: "must_be_one (SSL_connect ssl tls) [Handshake] t3 = (o4, t4)" by (metis surj_pair)
    obtain o5 t5 where m5: "net_call (verify_result_ok ssl tls) (\<lambda>ok. if ok then [Verified] else []) t4 = (o5, t5)" by (metis surj_pair)
    from adds_trans [OF a1 net_do_adds [of s1 "[]" "set_hostflags ssl tls"]] have a2: "trace s2 = trace s"
      by (simp add: s2_def adds_def)
    note steps = one_result [OF m1, unfolded adds_def] one_result [OF m2, unfolded adds_def] one_result [OF m3, unfolded adds_def]
      one_result [OF m4, unfolded adds_def] net_call_adds [OF m5, unfolded adds_def]
    have free: "trace (net_do (SSL_free ssl tls) [] t) = trace t" for t using net_do_adds [of t "[]" "SSL_free ssl tls"] by (simp add: adds_def)
    from assms n Some m1 m2 m3 m4 m5 have r: "(r, s') =
        (if \<not> o1 then (None, net_do (SSL_free ssl tls) [] t1) else if \<not> o2 then (None, net_do (SSL_free ssl tls) [] t2)
         else if \<not> o3 then (None, net_do (SSL_free ssl tls) [] t3) else if \<not> o4 then (None, net_do (SSL_free ssl tls) [] t4)
         else if \<not> o5 then (None, net_do (SSL_free ssl tls) [] t5) else (Some tls, t5))"
      by (simp add: RCConnectTLS_def Let_def s2_def split: bool.splits)
    define es where "es = drop (length (trace s)) (trace s')"
    have "trace s' = trace s @ es \<and> prefix es (verified_for host) \<and> (r \<noteq> None \<longrightarrow> es = verified_for host)"
      using r steps a2 free by (simp add: es_def verified_for_def split: if_splits)
    then show ?thesis unfolding adds_def by blast
  qed
qed

section \<open>The relay\<close>

fun relaying :: "int \<Rightarrow> net_event \<Rightarrow> bool" where
  "relaying fd (Sent f bs) = (f = fd)"
| "relaying fd (Received f bs) = (f = fd)"
| "relaying fd (TLSWritten bs) = True"
| "relaying fd (TLSRead bs) = True"
| "relaying fd Interrupted = True"
| "relaying fd _ = False"

text \<open>Both directions up to date, and each at most behind.\<close>

definition relayed :: "int \<Rightarrow> net_event list \<Rightarrow> bool" where
  "relayed fd es \<longleftrightarrow> bytes_by tls_written es = bytes_by (received_from fd) es \<and> bytes_by (sent_to fd) es = bytes_by tls_read es"

definition relayed_prefix :: "int \<Rightarrow> net_event list \<Rightarrow> bool" where
  "relayed_prefix fd es \<longleftrightarrow> prefix (bytes_by tls_written es) (bytes_by (received_from fd) es) \<and>
     prefix (bytes_by (sent_to fd) es) (bytes_by tls_read es)"

lemma relayed_simps [simp]: "relayed fd []" "relayed fd (Interrupted # es) = relayed fd es"
  "relayed_prefix fd (Interrupted # es) = relayed_prefix fd es"
  by (simp_all add: relayed_def relayed_prefix_def)

lemma relayed_append:
  assumes "relayed fd es"
  shows "relayed fd fs \<Longrightarrow> relayed fd (es @ fs)" "relayed_prefix fd fs \<Longrightarrow> relayed_prefix fd (es @ fs)"
  using assms by (simp_all add: relayed_def relayed_prefix_def)

lemma relayed_lags: "relayed fd es \<Longrightarrow> relayed_prefix fd es"
  by (simp add: relayed_def relayed_prefix_def)

lemma readable_result:
  "select_readable os fuel fds s = (r, s') \<Longrightarrow> \<exists>n. adds s (replicate n Interrupted) s'"
proof (induction fuel arbitrary: s)
  case 0
  then show ?case by (auto intro: exI [where x = 0] simp: adds_refl)
next
  case (Suc fuel)
  obtain x s1 where c: "net_call (os_select os fds [] 1) interruption s = (x, s1)" by (metis surj_pair)
  note a = net_call_adds [OF c]
  show ?case
  proof (cases "x = Inl EINTR")
    case True
    with Suc.prems c have "select_readable os fuel fds s1 = (r, s')" by simp
    from Suc.IH [OF this] obtain n where n: "adds s1 (replicate n Interrupted) s'" by blast
    from True a have "adds s [Interrupted] s1" by (simp add: interruption_def)
    from adds_trans [OF this n] show ?thesis by (intro exI [where x = "Suc n"]) simp
  next
    case False
    with Suc.prems c have "s' = s1" by (auto split: sum.splits errno.splits)
    with False a show ?thesis by (intro exI [where x = 0]) (simp add: interruption_def)
  qed
qed

lemma written_only:
  assumes "list_all (\<lambda>e. \<exists>b. e = TLSWritten b) es"
  shows "list_all (relaying fd) es" "bytes_by (received_from fd) es = []" "bytes_by (sent_to fd) es = []" "bytes_by tls_read es = []"
  using assms by (auto simp: list_all_iff intro!: bytes_by_none)

lemma sent_only:
  assumes "list_all (sending fd) es"
  shows "list_all (relaying fd) es" "bytes_by (received_from f) es = []" "bytes_by tls_written es = []" "bytes_by tls_read es = []"
proof -
  have "relaying fd e \<and> received_from f e = [] \<and> tls_written e = [] \<and> tls_read e = []" if "sending fd e" for e
    using that by (cases e) simp_all
  with assms show "list_all (relaying fd) es" "bytes_by (received_from f) es = []" "bytes_by tls_written es = []" "bytes_by tls_read es = []"
    by (auto simp: list_all_iff intro!: bytes_by_none)
qed

lemma relay_up_result:
  assumes "relay_up os ssl fd tls s = (r, s')"
  shows "\<exists>es. adds s es s' \<and> list_all (relaying fd) es \<and> relayed_prefix fd es \<and> (r \<noteq> Some False \<longrightarrow> relayed fd es)"
proof -
  obtain x s1 where c: "receive os fd 16384 s = (x, s1)" by (metis surj_pair)
  note a = net_call_adds [OF c [unfolded receive_def]]
  consider "x = Inl EINTR" | e where "x = Inl e" "e \<noteq> EINTR" | "x = Inr []" | b bs where "x = Inr (b # bs)"
    by (metis list.exhaust sum.exhaust)
  then show ?thesis
  proof cases
    case 1
    with assms c a show ?thesis by (intro exI [where x = "[Interrupted]"]) (auto simp: relay_up_def relayed_lags)
  next
    case 2
    with assms c a show ?thesis
      by (intro exI [where x = "[]"]) (auto simp: relay_up_def relayed_lags split: errno.splits)
  next
    case 3
    with assms c a show ?thesis
      by (intro exI [where x = "[Received fd []]"]) (auto simp: relay_up_def relayed_def relayed_prefix_def)
  next
    case (4 b bs)
    obtain ok s2 where w: "RCSSLWriteAll ssl tls (b # bs) s1 = (ok, s2)" by (metis surj_pair)
    from write_result [OF w] obtain es where es: "adds s1 es s2" "list_all (\<lambda>e. \<exists>b. e = TLSWritten b) es"
      "prefix (bytes_by tls_written es) (b # bs)" "ok \<longrightarrow> bytes_by tls_written es = b # bs" by blast
    from assms c 4 w have "s' = s2" "r \<noteq> Some False \<longrightarrow> ok" by (auto simp: relay_up_def split: if_splits)
    moreover from adds_trans [OF a es(1)] 4 have "adds s (Received fd (b # bs) # es) s2" by simp
    ultimately show ?thesis using es written_only [OF es(2)]
      by (intro exI [where x = "Received fd (b # bs) # es"]) (simp add: relayed_def relayed_prefix_def)
  qed
qed

lemma relay_down_result:
  assumes "relay_down os ssl fuel fd tls s = (r, s')"
  shows "\<exists>es. adds s es s' \<and> list_all (relaying fd) es \<and> relayed_prefix fd es \<and>
    (r \<noteq> None \<and> r \<noteq> Some (Some False) \<longrightarrow> relayed fd es)"
proof -
  obtain x s1 where c: "net_call (SSL_read ssl tls 16384) (\<lambda>r. case r of Inl _ \<Rightarrow> [] | Inr bs \<Rightarrow> [TLSRead bs]) s = (x, s1)" by (metis surj_pair)
  note a = net_call_adds [OF c]
  show ?thesis
  proof (cases x)
    case (Inl n)
    with assms c a show ?thesis by (intro exI [where x = "[]"]) (auto simp: relay_down_def relayed_lags)
  next
    case (Inr bs)
    obtain ok s2 where w: "RCSendAll os fuel fd bs s1 = (ok, s2)" by (metis surj_pair)
    from send_result [OF w] obtain es where es: "adds s1 es s2" "list_all (sending fd) es" "prefix (bytes_by (sent_to fd) es) bs"
      "ok = Some True \<longrightarrow> bytes_by (sent_to fd) es = bs" by blast
    from assms c Inr w have "s' = s2" "r \<noteq> None \<and> r \<noteq> Some (Some False) \<longrightarrow> ok = Some True"
      by (auto simp: relay_down_def split: option.splits if_splits)
    moreover from adds_trans [OF a es(1)] Inr have "adds s (TLSRead bs # es) s2" by simp
    ultimately show ?thesis using es sent_only [OF es(2)]
      by (intro exI [where x = "TLSRead bs # es"]) (auto simp: relayed_def relayed_prefix_def)
  qed
qed

text \<open>One turn of the relay, apart from the two directions.\<close>

lemma relay_result:
  "RCRelayConnection os ssl fuel fd remote tls s = (r, s') \<Longrightarrow>
     \<exists>es. adds s es s' \<and> list_all (relaying fd) es \<and> relayed_prefix fd es \<and> (r = Some True \<longrightarrow> relayed fd es)"
proof (induction fuel arbitrary: s)
  case 0
  then show ?case by (auto simp: adds_refl relayed_lags intro!: exI [where x = "[]"])
next
  case (Suc fuel)
  obtain x s1 where c: "(if SSL_pending ssl tls (world s) > 0 then (Some (Inr ({fd, remote} - {fd})), s)
      else select_readable os (Suc fuel) [fd, remote] s) = (x, s1)" by (metis surj_pair)
  have "\<exists>n. adds s (replicate n Interrupted) s1"
    using c readable_result [of os "Suc fuel" "[fd, remote]" s x s1] by (auto simp: adds_refl intro: exI [where x = 0] split: if_splits)
  then obtain n where a1: "adds s (replicate n Interrupted) s1" by blast
  have i: "list_all (relaying fd) (replicate n Interrupted)" "relayed fd (replicate n Interrupted)" by (induction n) simp_all
  show ?case
  proof (cases "\<exists>readable. x = Some (Inr readable)")
    case False
    with Suc.prems c have "s' = s1" "r \<noteq> Some True" by (auto split: option.splits sum.splits)
    with a1 i show ?thesis by (blast intro: relayed_lags)
  next
    case True
    then obtain readable where x: "x = Some (Inr readable)" by blast
    define up where "up = (if fd \<in> readable then relay_up os ssl fd tls s1 else (None, s1))"
    obtain y s2 where y: "up = (y, s2)" by (cases up)
    have "\<exists>es. adds s1 es s2 \<and> list_all (relaying fd) es \<and> relayed_prefix fd es \<and> (y \<noteq> Some False \<longrightarrow> relayed fd es)"
      using y relay_up_result [of os ssl fd tls s1 y s2] by (auto simp: up_def adds_refl relayed_lags split: if_splits intro: exI [where x = "[]"])
    then obtain e2 where e2: "adds s1 e2 s2" "list_all (relaying fd) e2" "relayed_prefix fd e2" "y \<noteq> Some False \<longrightarrow> relayed fd e2" by blast
    define down where "down = (if SSL_pending ssl tls (world s2) > 0 \<or> remote \<in> readable then relay_down os ssl (Suc fuel) fd tls s2 else (Some None, s2))"
    obtain z s3 where z: "down = (z, s3)" by (cases down)
    have "\<exists>es. adds s2 es s3 \<and> list_all (relaying fd) es \<and> relayed_prefix fd es \<and> (z \<noteq> None \<and> z \<noteq> Some (Some False) \<longrightarrow> relayed fd es)"
      using z relay_down_result [of os ssl "Suc fuel" fd tls s2 z s3] by (auto simp: down_def adds_refl relayed_lags split: if_splits intro: exI [where x = "[]"])
    then obtain e3 where e3: "adds s2 e3 s3" "list_all (relaying fd) e3" "relayed_prefix fd e3"
      "z \<noteq> None \<and> z \<noteq> Some (Some False) \<longrightarrow> relayed fd e3" by blast
    note r = Suc.prems [unfolded RCRelayConnection.simps c x option.case sum.case prod.case, folded up_def, unfolded y prod.case, folded down_def, unfolded z prod.case]
    note a2 = adds_trans [OF a1 e2(1)]
    note a3 = adds_trans [OF a2 e3(1)]
    let ?e1 = "replicate n Interrupted"
    consider "readable = {}" | "readable \<noteq> {}" "y \<noteq> None" | "readable \<noteq> {}" "y = None" "z \<noteq> Some None" | "readable \<noteq> {}" "y = None" "z = Some None" by blast
    then show ?thesis
    proof cases
      case 1
      with r have "RCRelayConnection os ssl fuel fd remote tls s1 = (r, s')" by simp
      from Suc.IH [OF this] obtain fs where fs: "adds s1 fs s'" "list_all (relaying fd) fs" "relayed_prefix fd fs" "r = Some True \<longrightarrow> relayed fd fs" by blast
      show ?thesis using adds_trans [OF a1 fs(1)] fs i relayed_append [OF i(2)] by (intro exI [where x = "?e1 @ fs"]) simp
    next
      case 2
      with r have "s' = s2" "r = y" by auto
      with a2 e2 i relayed_append [OF i(2)] show ?thesis by (intro exI [where x = "?e1 @ e2"]) simp
    next
      case 3
      with e2 have sync: "relayed fd (?e1 @ e2)" using relayed_append [OF i(2)] by simp
      from r 3 have "s' = s3" "r = Some True \<longrightarrow> z = Some (Some True)" by (auto split: option.splits)
      with a3 e2 e3 i relayed_append [OF sync] show ?thesis by (intro exI [where x = "(?e1 @ e2) @ e3"]) simp
    next
      case 4
      with r have "RCRelayConnection os ssl fuel fd remote tls s3 = (r, s')" by simp
      from Suc.IH [OF this] obtain fs where fs: "adds s3 fs s'" "list_all (relaying fd) fs" "relayed_prefix fd fs" "r = Some True \<longrightarrow> relayed fd fs" by blast
      from 4 e2 e3 have sync: "relayed fd ((?e1 @ e2) @ e3)" using relayed_append [OF i(2)] by (simp add: relayed_def)
      from adds_trans [OF a3 fs(1)] e2 e3 fs i relayed_append [OF sync] show ?thesis by (intro exI [where x = "((?e1 @ e2) @ e3) @ fs"]) simp
    qed
  qed
qed

section \<open>A whole connection\<close>

text \<open>
  The phases between connecting and closing: what passes in the clear, the handshake, and what
  passes between the client and the TLS connection. The client is only served once the server is
  verified, and the clear phase carries at most the two commands and the answers to them.
\<close>

definition served :: "RCMailProxyConfig \<Rightarrow> int \<Rightarrow> int \<Rightarrow> net_event list \<Rightarrow> net_event list \<Rightarrow> net_event list \<Rightarrow> bool" where
  "served config local remote clear tls client \<longleftrightarrow>
     in_the_clear remote clear \<and> prefix (bytes_by (sent_to remote) clear) (hello @ startTLS) \<and>
     (proxyMode config \<noteq> kRCMailProxySMTPStartTLS \<longrightarrow> clear = []) \<and>
     prefix tls (verified_for (remoteHost config)) \<and>
     (tls \<noteq> [] \<and> proxyMode config = kRCMailProxySMTPStartTLS \<longrightarrow> bytes_by (sent_to remote) clear = hello @ startTLS) \<and>
     (client \<noteq> [] \<longrightarrow> tls = verified_for (remoteHost config)) \<and>
     list_all (relaying local) client \<and>
     prefix (bytes_by tls_written client) (bytes_by (received_from local) client) \<and>
     (\<exists>greeting. prefix greeting (bytes_by (received_from remote) clear) \<and>
        prefix (bytes_by (sent_to local) client) (greeting @ bytes_by tls_read client))"

lemma served_nothing: "served config local remote [] [] []"
  by (simp add: served_def)

lemma phasesI:
  "adds s (clear @ tls @ client) s' \<Longrightarrow> served config local remote clear tls client \<Longrightarrow>
     \<exists>clear tls client. adds s (clear @ tls @ client) s' \<and> served config local remote clear tls client"
  by blast

lemma timeouts_add: "adds s [] (RCSetSocketTimeouts os fd s)"
  by (simp add: RCSetSocketTimeouts_def net_do_adds)

lemma serve_result:
  assumes recv: "one_byte_reads os" and "serve os ssl fuel config local remote s = (r, s')"
  shows "\<exists>clear tls client. adds s (clear @ tls @ client) s' \<and> served config local remote clear tls client"
proof -
  define s0 where "s0 = RCSetSocketTimeouts os remote (RCSetSocketTimeouts os local s)"
  have a0: "adds s [] s0" using adds_trans [OF timeouts_add timeouts_add] by (simp add: s0_def)
  let ?mode = "proxyMode config = kRCMailProxySMTPStartTLS"
  obtain g s1 where g: "(if ?mode then RCPrepareSMTPStartTLS os fuel remote RC_SMTP_RESPONSE_LIMIT s0 else (Some (Some []), s0)) = (g, s1)"
    by (metis surj_pair)
  note body = assms(2) [unfolded serve_def Let_def, folded s0_def, unfolded g prod.case]
  have "\<exists>es. adds s0 es s1 \<and> in_the_clear remote es \<and> prefix (bytes_by (sent_to remote) es) (hello @ startTLS) \<and> (\<not> ?mode \<longrightarrow> es = []) \<and>
      (\<forall>x. g = Some (Some x) \<longrightarrow> prefix x (bytes_by (received_from remote) es) \<and> (?mode \<longrightarrow> bytes_by (sent_to remote) es = hello @ startTLS))"
    using g negotiation_result [OF recv, of fuel remote RC_SMTP_RESPONSE_LIMIT s0 g s1] by (cases ?mode) (auto simp: adds_refl intro: exI [where x = "[]"])
  then obtain e1 where e1: "adds s0 e1 s1" "in_the_clear remote e1" "prefix (bytes_by (sent_to remote) e1) (hello @ startTLS)" "\<not> ?mode \<longrightarrow> e1 = []"
    "\<forall>x. g = Some (Some x) \<longrightarrow> prefix x (bytes_by (received_from remote) e1) \<and> (?mode \<longrightarrow> bytes_by (sent_to remote) e1 = hello @ startTLS)" by blast
  from adds_trans [OF a0 e1(1)] have a1: "adds s e1 s1" by simp
  show ?thesis
  proof (cases "\<exists>x. g = Some (Some x)")
    case False
    with body have "s' = s1" by (auto split: option.splits)
    with a1 e1 show ?thesis by (intro phasesI [of s e1 "[]" "[]"]) (auto simp: served_def)
  next
    case True
    then obtain x where x: "g = Some (Some x)" by blast
    with e1(5) have x1: "prefix x (bytes_by (received_from remote) e1)" "?mode \<longrightarrow> bytes_by (sent_to remote) e1 = hello @ startTLS" by auto
    obtain t s2 where t: "RCConnectTLS ssl remote (remoteHost config) s1 = (t, s2)" by (metis surj_pair)
    from tls_result [OF t] obtain e2 where e2: "adds s1 e2 s2" "prefix e2 (verified_for (remoteHost config))"
      "t \<noteq> None \<longrightarrow> e2 = verified_for (remoteHost config)" by blast
    note a2 = adds_trans [OF a1 e2(1)]
    show ?thesis
    proof (cases t)
      case None
      with body x t have "s' = s2" by simp
      with a2 e1 e2 x1 show ?thesis by (intro phasesI [of s e1 e2 "[]"]) (auto simp: served_def)
    next
      case (Some tls)
      obtain y s3 where y: "RCSendAll os fuel local x s2 = (y, s3)" by (metis surj_pair)
      from send_result [OF y] obtain e3 where e3: "adds s2 e3 s3" "list_all (sending local) e3" "prefix (bytes_by (sent_to local) e3) x"
        "y = Some True \<longrightarrow> bytes_by (sent_to local) e3 = x" by blast
      note a3 = adds_trans [OF a2 e3(1)]
      obtain z s4 where z: "RCRelayConnection os ssl fuel local remote tls s3 = (z, s4)" by (metis surj_pair)
      from relay_result [OF z] obtain e4 where e4: "adds s3 e4 s4" "list_all (relaying local) e4" "relayed_prefix local e4" by blast
      note a4 = adds_trans [OF a3 e4(1)]
      have ok: "served config local remote e1 e2 client"
        if "list_all (relaying local) client" "prefix (bytes_by tls_written client) (bytes_by (received_from local) client)"
          "prefix (bytes_by (sent_to local) client) (x @ bytes_by tls_read client)" for client
        using that e1 e2 x1 Some by (auto simp: served_def)
      show ?thesis
      proof (cases "y = Some True")
        case False
        with body x t Some y have "s' = s3" by (auto split: option.splits bool.splits)
        moreover have "served config local remote e1 e2 e3" using ok [of e3] e3 sent_only [OF e3(2)] by (simp add: prefix_append)
        ultimately show ?thesis using a3 by (intro phasesI [of s e1 e2 e3]) simp
      next
        case True
        with body x t Some y z have "s' = s4" by (auto split: option.splits)
        moreover have "served config local remote e1 e2 (e3 @ e4)"
          using ok [of "e3 @ e4"] e3 e4 True sent_only [OF e3(2)] by (simp add: relayed_prefix_def)
        ultimately show ?thesis using a4 by (intro phasesI [of s e1 e2 "e3 @ e4"]) simp
      qed
    qed
  qed
qed

end
