(* ===== verification/MailProxyOutcome.thy ===== *)
theory MailProxyOutcome
  imports MailProxySafety
begin

text \<open>The properties of a connection of the mail proxy, with concrete runs.\<close>

section \<open>A whole connection\<close>

lemma close_adds: "adds s [Closed fd] (net_do (os_close os fd) [Closed fd] s)"
  by (rule net_do_adds)

text \<open>C14: the mail proxy serves a client only over a verified connection. Whatever the operating system and
  OpenSSL answer, the calls of a connection come in phases. The upstream sockets are opened and connected, without
  sending anything. For SMTP the two commands \<open>EHLO\<close> and \<open>STARTTLS\<close> are sent in the clear and
  nothing else. Then the certificate is checked for the configured host, the handshake is made and its result
  verified, in this order and for this host. Only after all of it is anything read from or
  sent to the client, and what reaches the server is a prefix of what the client sent, inside
  TLS. When the proxy is stopping nothing happens after connecting, and a connection that
  ends has closed each of its sockets exactly once.\<close>

theorem proxy_serves_verified:
  assumes "one_byte_reads os"
    and "RCConnectionMain os ssl fuel config local stopping s = (r, s')"
  shows "\<exists>connect remote clear tls client finish. adds s (connect @ clear @ tls @ client @ finish) s' \<and>
    list_all connecting connect \<and> served config local remote clear tls client \<and>
    (stopping \<longrightarrow> clear = [] \<and> tls = [] \<and> client = []) \<and>
    (r \<noteq> None \<longrightarrow> opened connect = closed connect \<and> clear @ tls @ client = [] \<and> finish = [Closed local] \<or>
       opened connect = closed connect @ [remote] \<and> finish = [Closed remote, Closed local])"
proof -
  obtain x s1 where c: "RCConnectToHost os fuel (remoteHost config) (remotePort config) 256 s = (x, s1)" by (metis surj_pair)
  from connect_result [OF c] obtain e1 where e1: "adds s e1 s1" "list_all connecting e1"
    "case x of None \<Rightarrow> fuel \<le> interruptions e1 | Some (Inl detail) \<Rightarrow> opened e1 = closed e1 \<and> length detail \<le> 256 - 1
       | Some (Inr fd) \<Rightarrow> opened e1 = closed e1 @ [fd] \<and> Connected fd \<in> set e1" by blast
  note run = assms(2) [unfolded RCConnectionMain_def Let_def c prod.case]
  consider "x = None" | detail where "x = Some (Inl detail)" | remote where "x = Some (Inr remote)" by (metis option.exhaust sum.exhaust)
  then show ?thesis
  proof cases
    case 1
    with run have r: "r = None" "s' = s1" by simp_all
    with e1(1) have "adds s (e1 @ [] @ [] @ [] @ []) s'" by simp
    with e1(2) r(1) served_nothing show ?thesis by blast
  next
    case (2 detail)
    with run have r: "r = Some [detail]" "s' = net_do (os_close os local) [Closed local] s1" by simp_all
    from adds_trans [OF e1(1) close_adds] r(2) have "adds s (e1 @ [] @ [] @ [] @ [Closed local]) s'" by simp
    with e1 2 served_nothing show ?thesis by fastforce
  next
    case (3 remote)
    obtain y s2 where y: "(if stopping then (Some ([], None), s1) else serve os ssl fuel config local remote s1) = (y, s2)" by (metis surj_pair)
    have "\<exists>clear tls client. adds s1 (clear @ tls @ client) s2 \<and> served config local remote clear tls client \<and>
        (stopping \<longrightarrow> clear @ tls @ client = [])"
      using y serve_result [OF assms(1), of ssl fuel config local remote s1 y s2] served_nothing [of config local remote]
      by (cases stopping) (auto simp: adds_refl)
    then obtain clear tls client where e2: "adds s1 (clear @ tls @ client) s2" "served config local remote clear tls client"
      "stopping \<longrightarrow> clear @ tls @ client = []" by blast
    from adds_trans [OF e1(1) e2(1)] have a2: "adds s (e1 @ clear @ tls @ client) s2" by simp
    have "\<exists>finish. adds s2 finish s' \<and> (r \<noteq> None \<longrightarrow> finish = [Closed remote, Closed local])"
    proof (cases y)
      case None
      with run 3 y show ?thesis by (auto intro: exI [where x = "[]"] simp: adds_refl)
    next
      case (Some m)
      define t where "t = (case snd m of None \<Rightarrow> s2 | Some t \<Rightarrow> net_do (SSL_free ssl t) [] (net_do (SSL_shutdown ssl t) [] s2))"
      have "adds s2 [] t" by (simp add: t_def adds_def net_do_def noted_def split: option.split)
      from adds_trans [OF this adds_trans [OF close_adds close_adds]]
      have "adds s2 [Closed remote, Closed local] (net_do (os_close os local) [Closed local] (net_do (os_close os remote) [Closed remote] t))"
        by simp
      moreover from run 3 y Some have "s' = net_do (os_close os local) [Closed local] (net_do (os_close os remote) [Closed remote] t)"
        by (cases m) (simp add: t_def)
      ultimately show ?thesis by blast
    qed
    then obtain finish where f: "adds s2 finish s'" "r \<noteq> None \<longrightarrow> finish = [Closed remote, Closed local]" by blast
    from adds_trans [OF a2 f(1)] have "adds s (e1 @ clear @ tls @ client @ finish) s'" by simp
    moreover from e1(3) 3 have "opened e1 = closed e1 @ [remote]" by simp
    moreover from e2(3) have "stopping \<longrightarrow> clear = [] \<and> tls = [] \<and> client = []" by simp
    ultimately show ?thesis using e1(2) e2(2) f(2) by blast
  qed
qed

text \<open>The witness: a client that sends one byte and closes its connection.\<close>

definition script_os :: "bytes \<Rightarrow> (unit, nat) os" where
  "script_os script = \<lparr>os_getaddrinfo = (\<lambda>_ _ w. (Inr [()], w)), os_socket = (\<lambda>_ w. (Inr 5, w)), os_getfl = (\<lambda>_ w. (2, w)),
     os_setfl = (\<lambda>_ _ w. w), os_connect = (\<lambda>_ _ w. (None, w)), os_select = (\<lambda>r _ _ w. (Inr {3}, w)), os_so_error = (\<lambda>_ w. (Inr None, w)),
     os_send = (\<lambda>_ bs w. (Inr (length bs), w)), os_recv = (\<lambda>_ _ w. if w < length script then (Inr [script ! w], Suc w) else (Inr [], w)),
     os_inet_socket = (\<lambda>w. (Inr 6, w)), os_reuse_address = (\<lambda>_ w. w), os_bind = (\<lambda>_ _ _ w. (None, w)), os_listen = (\<lambda>_ _ w. (None, w)),
     os_timeouts = (\<lambda>_ _ w. w), os_close = (\<lambda>_ w. w), O_NONBLOCK = 4, strerror = (\<lambda>_. []), gai_strerror = (\<lambda>_. []),
     errno_number = (\<lambda>_. 0)\<rparr>"

definition plain_ssl :: "(unit, nat) openssl" where
  "plain_ssl = \<lparr>SSL_new = (\<lambda>w. (Some (), w)), set_hostflags = (\<lambda>_ w. w), set_tlsext_host_name = (\<lambda>_ _ w. (1, w)),
     set1_host = (\<lambda>_ _ w. (1, w)), SSL_set_fd = (\<lambda>_ _ w. (1, w)), SSL_connect = (\<lambda>_ w. (1, w)), verify_result_ok = (\<lambda>_ w. (True, w)),
     SSL_pending = (\<lambda>_ _. 0), SSL_write = (\<lambda>_ bs w. (int (length bs), w)), SSL_read = (\<lambda>_ _ w. (Inl 0, w)),
     SSL_shutdown = (\<lambda>_ w. w), SSL_free = (\<lambda>_ w. w)\<rparr>"

definition imap_config :: RCMailProxyConfig where
  "imap_config = \<lparr>serviceName = ''IMAP'', localPort = 1143, remoteHost = ''h'', remotePort = 993, proxyMode = kRCMailProxyImplicitTLS\<rparr>"

definition few :: nat where
  "few = Suc (Suc (Suc (Suc (Suc (Suc (Suc 0))))))"

lemma script_reads: "one_byte_reads (script_os script)"
  by (simp add: one_byte_reads_def script_os_def split: if_splits)

definition imap_trace :: "net_event list" where
  "imap_trace = [Opened 5, Connected 5, HostPinned ''h'', Handshake, Verified, Received 3 ''A'', TLSWritten ''A'', Received 3 [], Closed 5, Closed 3]"

lemma imap_run:
  "\<exists>messages. RCConnectionMain (script_os ''A'') plain_ssl few imap_config 3 False \<lparr>world = 0, trace = []\<rparr> =
     (Some messages, \<lparr>world = 1, trace = imap_trace\<rparr>)"
  by (simp add: RCConnectionMain_def RCConnectToHost_def script_os_def plain_ssl_def imap_config_def net_call_def net_do_def noted_def
      try_address_def serve_def RCSetSocketTimeouts_def RCConnectTLS_def must_be_one_def imap_trace_def few_def relay_up_def
      receive_def RCSSLWriteAll.simps written_event_def interruption_def INT_MAX_def)

theorem proxy_serves_verified_witness:
  "\<exists>connect remote clear tls client finish. imap_trace = connect @ clear @ tls @ client @ finish \<and>
     served imap_config 3 remote clear tls client \<and> opened connect = closed connect @ [remote] \<and> finish = [Closed remote, Closed 3]"
proof -
  obtain messages where "RCConnectionMain (script_os ''A'') plain_ssl few imap_config 3 False \<lparr>world = 0, trace = []\<rparr> =
     (Some messages, \<lparr>world = 1, trace = imap_trace\<rparr>)" using imap_run by blast
  from proxy_serves_verified [OF script_reads this] obtain connect remote clear tls client finish where
    t: "adds \<lparr>world = 0, trace = []\<rparr> (connect @ clear @ tls @ client @ finish) \<lparr>world = 1 :: nat, trace = imap_trace\<rparr>"
    and c: "list_all connecting connect" and s: "served imap_config 3 remote clear tls client"
    and f: "opened connect = closed connect \<and> clear @ tls @ client = [] \<and> finish = [Closed 3] \<or>
       opened connect = closed connect @ [remote] \<and> finish = [Closed remote, Closed 3]"
    by (metis option.distinct(1))
  from t have trace: "imap_trace = connect @ clear @ tls @ client @ finish" by (simp add: adds_def)
  have "Verified \<in> set imap_trace" by (simp add: imap_trace_def)
  moreover have "\<not> connecting Verified" by (simp add: connecting_def)
  with c have "Verified \<notin> set connect" by (auto simp: list_all_iff)
  ultimately have "opened connect = closed connect @ [remote] \<and> finish = [Closed remote, Closed 3]"
    using f unfolding trace by auto
  with trace s show ?thesis by blast
qed

section \<open>A response\<close>

text \<open>C25: the response of an SMTP server is read exactly. When \<open>RCReadSMTPResponse\<close> succeeds, the bytes it took
  from the socket are complete lines, of which the last and only the last has the expected code
  followed by a space, so that not one byte sent after the response has been consumed before TLS
  is raised; they fit the buffer with its terminator; the caller is given their prefix of the size it
  has room for; and STARTTLS is reported just when one of the lines offers it. The loop can only
  run on while calls are interrupted.\<close>

theorem smtp_response_exact:
  assumes "one_byte_reads os" and "RCReadSMTPResponse os fuel fd code savedCapacity s = (r, s')"
  shows "\<exists>es. adds s es s' \<and> list_all (receiving fd) es \<and> (r = None \<longrightarrow> fuel \<le> interruptions es + RC_SMTP_RESPONSE_LIMIT) \<and>
    (\<forall>saved flag. r = Some (Some (saved, flag)) \<longrightarrow> (\<exists>lines. response_of code lines \<and> bytes_by (received_from fd) es = concat lines \<and>
       length (concat lines) < RC_SMTP_RESPONSE_LIMIT \<and> saved = take savedCapacity (concat lines) \<and> flag = list_ex starttls_line lines))"
  by (rule smtp_result [OF assms])

text \<open>The witness: a greeting of one line, read from a stream that goes on.\<close>

definition greeting_line :: bytes where
  "greeting_line = ''220 a'' @ [CHR 0x0A]"

lemma digits: "digit 2 = CHR ''2''" "digit 0 = CHR ''0''"
  by code_simp+

lemma greeting_run:
  "\<exists>es. RCReadSMTPResponse (script_os (greeting_line @ ''XX'')) few 5 220 3 \<lparr>world = 0, trace = []\<rparr> =
     (Some (Some (''220'', False)), \<lparr>world = 6, trace = es\<rparr>)"
  by (simp add: RCReadSMTPResponse_def script_os_def greeting_line_def net_call_def noted_def receive_def few_def
      RC_SMTP_RESPONSE_LIMIT_def final_line_def starttls_line_def digits Let_def)

theorem smtp_response_exact_witness:
  "\<exists>s' es lines. RCReadSMTPResponse (script_os (greeting_line @ ''XX'')) few 5 220 3 \<lparr>world = 0, trace = []\<rparr> = (Some (Some (''220'', False)), s') \<and>
     trace s' = es \<and> response_of 220 lines \<and> bytes_by (received_from 5) es = concat lines \<and> ''220'' = take 3 (concat lines)"
proof -
  obtain es where r: "RCReadSMTPResponse (script_os (greeting_line @ ''XX'')) few 5 220 3 \<lparr>world = 0, trace = []\<rparr> =
     (Some (Some (''220'', False)), \<lparr>world = 6, trace = es\<rparr>)" using greeting_run by blast
  from smtp_response_exact [OF script_reads r] obtain fs lines where "adds \<lparr>world = 0, trace = []\<rparr> fs \<lparr>world = 6 :: nat, trace = es\<rparr>"
    "response_of 220 lines" "bytes_by (received_from 5) fs = concat lines" "''220'' = take 3 (concat lines)" by blast
  with r show ?thesis by (auto simp: adds_def)
qed

end
