(* ===== verification/MailProxyThreads.thy ===== *)
theory MailProxyThreads
  imports MailProxy "HOL-Library.Multiset"
begin

text \<open>
  The threads of \<^verbatim>\<open>source/macOS-daemon/RCMailProxy.c\<close> over the state they share: the owner, which
  starts and stops the proxy, one thread per listener, and one per connection. A step is what a
  thread does while it holds the mutex, or one call that opens or closes a descriptor; the scheduler and
  the results of the calls are the sequence of actions. What a connection does between its steps is
  \<open>RCConnectionMain\<close> of \<open>MailProxy\<close>. A connection is named by its identifier, which is
  counted up under the mutex.
\<close>

section \<open>State\<close>

text \<open>Where a connection is: still held by its listener, or at a point of its own thread.\<close>

datatype connection_pc = Held nat | Connecting | Reached int | Serving | ClosingRemote | ClosingLocal | Removing

record RCProxyConnection =
  localSocket :: int
  remoteSocket :: int
  connection_pc :: connection_pc

datatype listener_pc = Checking | Waiting | Accepting | Accepted int | Allocated int | Spawning nat int | Unregistering nat int
  | Discarding int | Exited

record RCProxyListener =
  listenerSocket :: int
  threadStarted :: bool
  listener_pc :: listener_pc

datatype owner_pc = Configuring | Creating | Starting | Running | Joining nat | Draining | Sleeping | Releasing | Freed | Abandoned

text \<open>
  The shared structure, the program counter of its owner, the descriptors that are open in the
  process, those of other parts of the daemon, and the descriptors shut down so far.
\<close>

record RCMailProxy =
  stopping :: bool
  connections :: "(nat \<times> RCProxyConnection) list"
  nextConnection :: nat
  listeners :: "RCProxyListener list"
  owner_pc :: owner_pc
  exiting :: bool
  open_fds :: "int list"
  other_fds :: "int list"
  shut_fds :: "int list"

definition fresh_fd :: "int \<Rightarrow> RCMailProxy \<Rightarrow> bool" where
  "fresh_fd fd p \<longleftrightarrow> 0 \<le> fd \<and> fd \<notin> set (open_fds p)"

definition open_fd :: "int \<Rightarrow> RCMailProxy \<Rightarrow> RCMailProxy" where
  "open_fd fd p = p\<lparr>open_fds := fd # open_fds p\<rparr>"

definition close_fd :: "int \<Rightarrow> RCMailProxy \<Rightarrow> RCMailProxy" where
  "close_fd fd p = p\<lparr>open_fds := remove1 fd (open_fds p)\<rparr>"

section \<open>Operations on the shared structure\<close>

definition RCRemoveConnection :: "nat \<Rightarrow> RCMailProxy \<Rightarrow> RCMailProxy" where
  "RCRemoveConnection n p = p\<lparr>connections := filter (\<lambda>(m, c). m \<noteq> n) (connections p)\<rparr>"

definition RCProxyIsStopping :: "RCMailProxy \<Rightarrow> bool" where
  "RCProxyIsStopping p = stopping p"

text \<open>The descriptors the loop over the connections shuts down.\<close>

definition listed_fds :: "RCMailProxy \<Rightarrow> int list" where
  "listed_fds p = concat (map (\<lambda>(n, c). localSocket c # (if remoteSocket c \<ge> 0 then [remoteSocket c] else [])) (connections p))"

definition shutdown_connections :: "RCMailProxy \<Rightarrow> RCMailProxy" where
  "shutdown_connections p = p\<lparr>shut_fds := shut_fds p @ listed_fds p\<rparr>"

definition RCMailProxyRequestStop :: "RCMailProxy \<Rightarrow> RCMailProxy" where
  "RCMailProxyRequestStop p = shutdown_connections (p\<lparr>stopping := True\<rparr>)"

section \<open>A listener\<close>

datatype listener_action = Check | Poll bool | Accept "int option" | Allocate bool | Register | Spawn bool | Unregister | Discard

definition listener_at :: "nat \<Rightarrow> listener_pc \<Rightarrow> RCMailProxy \<Rightarrow> RCMailProxy" where
  "listener_at i pc p = p\<lparr>listeners := (listeners p)[i := (listeners p ! i)\<lparr>listener_pc := pc\<rparr>]\<rparr>"

definition connection_at :: "nat \<Rightarrow> (RCProxyConnection \<Rightarrow> RCProxyConnection) \<Rightarrow> RCMailProxy \<Rightarrow> RCMailProxy" where
  "connection_at n f p = p\<lparr>connections := map (\<lambda>(m, c). (m, if m = n then f c else c)) (connections p)\<rparr>"

definition new_connection :: "nat \<Rightarrow> int \<Rightarrow> RCMailProxy \<Rightarrow> RCMailProxy" where
  "new_connection i fd p = p\<lparr>nextConnection := nextConnection p + 1,
     connections := (nextConnection p + 1, \<lparr>localSocket = fd, remoteSocket = -1, connection_pc = Held i\<rparr>) # connections p\<rparr>"

fun RCListenerMain :: "nat \<Rightarrow> listener_pc \<Rightarrow> listener_action \<Rightarrow> RCMailProxy \<Rightarrow> RCMailProxy option" where
  "RCListenerMain i pc Check p =
     (if pc = Checking then Some (listener_at i (if RCProxyIsStopping p then Exited else Waiting) p) else None)"
| "RCListenerMain i pc (Poll ready) p =
     (if pc = Waiting then Some (listener_at i (if ready then Accepting else Checking) p) else None)"
| "RCListenerMain i pc (Accept None) p = (if pc = Accepting then Some (listener_at i Checking p) else None)"
| "RCListenerMain i pc (Accept (Some fd)) p =
     (if pc = Accepting \<and> fresh_fd fd p then Some (listener_at i (Accepted fd) (open_fd fd p)) else None)"
| "RCListenerMain i pc (Allocate ok) p =
     (case pc of Accepted fd \<Rightarrow> Some (if ok then listener_at i (Allocated fd) p else listener_at i Checking (close_fd fd p)) | _ \<Rightarrow> None)"
| "RCListenerMain i pc Register p =
     (case pc of Allocated fd \<Rightarrow> Some (listener_at i (Spawning (nextConnection p + 1) fd) (new_connection i fd p)) | _ \<Rightarrow> None)"
| "RCListenerMain i pc (Spawn ok) p =
     (case pc of Spawning n fd \<Rightarrow>
        Some (if ok then listener_at i Checking (connection_at n (\<lambda>c. c\<lparr>connection_pc := Connecting\<rparr>) p)
              else listener_at i (Unregistering n fd) p) | _ \<Rightarrow> None)"
| "RCListenerMain i pc Unregister p =
     (case pc of Unregistering n fd \<Rightarrow> Some (listener_at i (Discarding fd) (RCRemoveConnection n p)) | _ \<Rightarrow> None)"
| "RCListenerMain i pc Discard p =
     (case pc of Discarding fd \<Rightarrow> Some (listener_at i Checking (close_fd fd p)) | _ \<Rightarrow> None)"

section \<open>A connection\<close>

datatype connection_action = Reach "int option" | Publish | Ended | CloseRemote | CloseLocal | Remove

definition published :: "int \<Rightarrow> bool \<Rightarrow> RCProxyConnection \<Rightarrow> RCProxyConnection" where
  "published fd stopped c = c\<lparr>remoteSocket := fd, connection_pc := if fd < 0 \<or> stopped then ClosingRemote else Serving\<rparr>"

fun connection_step :: "nat \<Rightarrow> RCProxyConnection \<Rightarrow> connection_action \<Rightarrow> RCMailProxy \<Rightarrow> RCMailProxy option" where
  "connection_step n c (Reach None) p =
     (if connection_pc c = Connecting then Some (connection_at n (\<lambda>c. c\<lparr>connection_pc := Reached (-1)\<rparr>) p) else None)"
| "connection_step n c (Reach (Some fd)) p =
     (if connection_pc c = Connecting \<and> fresh_fd fd p
      then Some (connection_at n (\<lambda>c. c\<lparr>connection_pc := Reached fd\<rparr>) (open_fd fd p)) else None)"
| "connection_step n c Publish p =
     (case connection_pc c of Reached fd \<Rightarrow> Some (connection_at n (published fd (stopping p)) p) | _ \<Rightarrow> None)"
| "connection_step n c Ended p =
     (if connection_pc c = Serving then Some (connection_at n (\<lambda>c. c\<lparr>connection_pc := ClosingRemote\<rparr>) p) else None)"
| "connection_step n c CloseRemote p =
     (if connection_pc c = ClosingRemote
      then Some (connection_at n (\<lambda>c. c\<lparr>connection_pc := ClosingLocal\<rparr>)
        (if remoteSocket c \<ge> 0 then close_fd (remoteSocket c) p else p)) else None)"
| "connection_step n c CloseLocal p =
     (if connection_pc c = ClosingLocal
      then Some (connection_at n (\<lambda>c. c\<lparr>connection_pc := Removing\<rparr>) (close_fd (localSocket c) p)) else None)"
| "connection_step n c Remove p = (if connection_pc c = Removing then Some (RCRemoveConnection n p) else None)"

section \<open>The owner\<close>

datatype owner_action = Configure bool | CreateListener "int option" | StartThread bool | RequestStop | Stop bool
  | Join | Drain | Wake bool | Release

definition stop_proxy :: "bool \<Rightarrow> RCMailProxy \<Rightarrow> RCMailProxy" where
  "stop_proxy e p = (RCMailProxyRequestStop p)\<lparr>owner_pc := Joining 0, exiting := e\<rparr>"

definition started_all :: "nat \<Rightarrow> RCMailProxy \<Rightarrow> RCMailProxy" where
  "started_all configCount p = p\<lparr>owner_pc := if length (listeners p) < configCount then Creating else Running\<rparr>"

text \<open>
  \<open>RCMailProxyStart\<close> for the given number of configurations. A failure stops the
  proxy; a listener whose thread could not be started is in the list without a thread. The mark
  that a thread was started, which only the owner reads, is set in the step that starts it.
\<close>

fun RCMailProxyStart :: "nat \<Rightarrow> owner_action \<Rightarrow> RCMailProxy \<Rightarrow> RCMailProxy option" where
  "RCMailProxyStart configCount (Configure ok) p =
     (if owner_pc p \<noteq> Configuring then None else Some (if ok then p\<lparr>owner_pc := Creating\<rparr> else stop_proxy False p))"
| "RCMailProxyStart configCount (CreateListener None) p =
     (if owner_pc p \<noteq> Creating then None else Some (stop_proxy False p))"
| "RCMailProxyStart configCount (CreateListener (Some fd)) p =
     (if owner_pc p \<noteq> Creating \<or> \<not> fresh_fd fd p then None
      else Some ((open_fd fd p)\<lparr>listeners := listeners p @ [\<lparr>listenerSocket = fd, threadStarted = False, listener_pc = Checking\<rparr>],
        owner_pc := Starting\<rparr>))"
| "RCMailProxyStart configCount (StartThread ok) p =
     (if owner_pc p \<noteq> Starting then None
      else Some (if ok
        then started_all configCount (p\<lparr>listeners := (listeners p)[length (listeners p) - 1 := (last (listeners p))\<lparr>threadStarted := True\<rparr>]\<rparr>)
        else stop_proxy False p))"
| "RCMailProxyStart configCount _ p = None"

definition close_listener :: "nat \<Rightarrow> RCMailProxy \<Rightarrow> RCMailProxy" where
  "close_listener i p = (let l = listeners p ! i in
     if listenerSocket l \<ge> 0
     then close_fd (listenerSocket l) (p\<lparr>listeners := (listeners p)[i := l\<lparr>listenerSocket := -1\<rparr>]\<rparr>)
     else p)"

text \<open>
  \<open>RCStopProxy\<close>: \<open>Stop\<close> calls it, with the mark whether the process is about to exit; it joins
  the listeners, waits until no connection is left, and frees the proxy; a process about to exit
  abandons it after the deadline instead.
\<close>

fun RCStopProxy :: "owner_action \<Rightarrow> RCMailProxy \<Rightarrow> RCMailProxy option" where
  "RCStopProxy RequestStop p = (if owner_pc p = Running then Some (RCMailProxyRequestStop p) else None)"
| "RCStopProxy (Stop e) p = (if owner_pc p = Running then Some (stop_proxy e p) else None)"
| "RCStopProxy Join p =
     (case owner_pc p of
        Joining i \<Rightarrow>
          (if i \<ge> length (listeners p) then Some (p\<lparr>owner_pc := Draining\<rparr>)
           else if threadStarted (listeners p ! i) \<and> listener_pc (listeners p ! i) \<noteq> Exited then None
           else Some ((close_listener i p)\<lparr>owner_pc := Joining (i + 1)\<rparr>))
      | _ \<Rightarrow> None)"
| "RCStopProxy Drain p =
     (if owner_pc p \<noteq> Draining then None
      else Some (if connections p = [] then p\<lparr>owner_pc := Releasing\<rparr> else (shutdown_connections p)\<lparr>owner_pc := Sleeping\<rparr>))"
| "RCStopProxy (Wake timedOut) p =
     (if owner_pc p \<noteq> Sleeping then None
      else Some (p\<lparr>owner_pc := if exiting p \<and> timedOut \<and> connections p \<noteq> [] then Abandoned else Draining\<rparr>))"
| "RCStopProxy Release p = (if owner_pc p = Releasing then Some (p\<lparr>owner_pc := Freed\<rparr>) else None)"
| "RCStopProxy _ p = None"

section \<open>Interleaving\<close>

datatype action = Owner owner_action | Listener nat listener_action | Connection nat connection_action
  | OtherOpen int | OtherClose int

fun perform :: "nat \<Rightarrow> action \<Rightarrow> RCMailProxy \<Rightarrow> RCMailProxy option" where
  "perform configCount (Owner a) p =
     (case RCMailProxyStart configCount a p of Some q \<Rightarrow> Some q | None \<Rightarrow> RCStopProxy a p)"
| "perform configCount (Listener i a) p =
     (if i < length (listeners p) \<and> threadStarted (listeners p ! i)
      then RCListenerMain i (listener_pc (listeners p ! i)) a p else None)"
| "perform configCount (Connection n a) p =
     (case map_of (connections p) n of None \<Rightarrow> None | Some c \<Rightarrow> connection_step n c a p)"
| "perform configCount (OtherOpen fd) p =
     (if fresh_fd fd p then Some ((open_fd fd p)\<lparr>other_fds := fd # other_fds p\<rparr>) else None)"
| "perform configCount (OtherClose fd) p =
     (if fd \<in> set (other_fds p) then Some ((close_fd fd p)\<lparr>other_fds := remove1 fd (other_fds p)\<rparr>) else None)"

fun run_actions :: "nat \<Rightarrow> action list \<Rightarrow> RCMailProxy \<Rightarrow> RCMailProxy option" where
  "run_actions configCount [] p = Some p"
| "run_actions configCount (a # rest) p =
     (case perform configCount a p of None \<Rightarrow> None | Some q \<Rightarrow> run_actions configCount rest q)"

text \<open>The arguments \<open>RCMailProxyStart\<close> accepts, and the structure it allocates for them.\<close>

definition start_accepted :: "RCMailProxyConfig list option \<Rightarrow> string option \<Rightarrow> bool" where
  "start_accepted configs certificatePath \<longleftrightarrow> certificatePath \<noteq> None \<and>
     (case configs of None \<Rightarrow> False | Some cs \<Rightarrow> cs \<noteq> [] \<and> length cs \<le> RC_MAX_LISTENERS)"

definition allocated_proxy :: "int list \<Rightarrow> RCMailProxy" where
  "allocated_proxy fds = \<lparr>stopping = False, connections = [], nextConnection = 0, listeners = [], owner_pc = Configuring,
     exiting = False, open_fds = fds, other_fds = fds, shut_fds = []\<rparr>"

end
