(* ===== verification/MailProxyRelease.thy ===== *)
theory MailProxyRelease
  imports MailProxyThreads
begin

text \<open>
  The descriptors and the memory of the mail proxy under every interleaving of its threads: every open
  descriptor has one owner, and the proxy is freed only when no thread can touch it again.
\<close>

section \<open>Who holds a descriptor\<close>

definition descriptor :: "int \<Rightarrow> int list" where
  "descriptor fd = (if 0 \<le> fd then [fd] else [])"

definition listener_fds :: "RCProxyListener \<Rightarrow> int list" where
  "listener_fds l = descriptor (listenerSocket l) @
     (case listener_pc l of Accepted fd \<Rightarrow> [fd] | Allocated fd \<Rightarrow> [fd] | Discarding fd \<Rightarrow> [fd] | _ \<Rightarrow> [])"

definition connection_fds :: "RCProxyConnection \<Rightarrow> int list" where
  "connection_fds c = (if connection_pc c = Removing then [] else [localSocket c]) @
     (case connection_pc c of Reached fd \<Rightarrow> descriptor fd | Serving \<Rightarrow> descriptor (remoteSocket c)
        | ClosingRemote \<Rightarrow> descriptor (remoteSocket c) | _ \<Rightarrow> [])"

definition by_listeners :: "RCMailProxy \<Rightarrow> int multiset" where
  "by_listeners p = (\<Sum>l\<leftarrow>listeners p. mset (listener_fds l))"

definition by_connections :: "RCMailProxy \<Rightarrow> int multiset" where
  "by_connections p = (\<Sum>(n, c)\<leftarrow>connections p. mset (connection_fds c))"

definition held :: "RCMailProxy \<Rightarrow> int multiset" where
  "held p = by_listeners p + by_connections p + mset (other_fds p)"




section \<open>The invariant\<close>


text \<open>A listener that has linked a connection finds it, still its own.\<close>

definition spawning_ok :: "(nat \<times> RCProxyConnection) list \<Rightarrow> nat \<Rightarrow> listener_pc \<Rightarrow> bool" where
  "spawning_ok cs i pc \<longleftrightarrow> (case pc of
     Spawning n fd \<Rightarrow> map_of cs n = Some \<lparr>localSocket = fd, remoteSocket = -1, connection_pc = Held i\<rparr>
   | Unregistering n fd \<Rightarrow> map_of cs n = Some \<lparr>localSocket = fd, remoteSocket = -1, connection_pc = Held i\<rparr>
   | _ \<Rightarrow> True)"

definition list_ok :: "RCMailProxy \<Rightarrow> bool" where
  "list_ok p \<longleftrightarrow> distinct (map fst (connections p)) \<and> (\<forall>n \<in> fst ` set (connections p). n \<le> nextConnection p) \<and>
     (\<forall>i < length (listeners p). spawning_ok (connections p) i (listener_pc (listeners p ! i)))"





section \<open>Bookkeeping\<close>


lemma mset_opened [simp]: "open_fds (open_fd fd p) = fd # open_fds p"
  by (simp add: open_fd_def)



lemma fd_frames [simp]:
  "listeners (open_fd fd p) = listeners p" "listeners (close_fd fd p) = listeners p"
  "connections (open_fd fd p) = connections p" "connections (close_fd fd p) = connections p"
  "other_fds (open_fd fd p) = other_fds p" "other_fds (close_fd fd p) = other_fds p"
  "owner_pc (open_fd fd p) = owner_pc p" "owner_pc (close_fd fd p) = owner_pc p"
  "nextConnection (open_fd fd p) = nextConnection p" "nextConnection (close_fd fd p) = nextConnection p"
  by (simp_all add: open_fd_def close_fd_def)

lemma list_ok_fds [simp]: "list_ok (open_fd fd p) = list_ok p" "list_ok (close_fd fd p) = list_ok p"
  by (simp_all add: list_ok_def)

lemma held_fds [simp]: "held (open_fd fd p) = held p" "held (close_fd fd p) = held p"
  by (simp_all add: held_def by_listeners_def by_connections_def)

lemma at_frames [simp]:
  "connections (listener_at i pc p) = connections p" "other_fds (listener_at i pc p) = other_fds p"
  "open_fds (listener_at i pc p) = open_fds p" "owner_pc (listener_at i pc p) = owner_pc p"
  "nextConnection (listener_at i pc p) = nextConnection p" "length (listeners (listener_at i pc p)) = length (listeners p)"
  "listeners (connection_at n f p) = listeners p" "other_fds (connection_at n f p) = other_fds p"
  "open_fds (connection_at n f p) = open_fds p" "owner_pc (connection_at n f p) = owner_pc p"
  "nextConnection (connection_at n f p) = nextConnection p" "map fst (connections (connection_at n f p)) = map fst (connections p)"
  "listeners (RCRemoveConnection n p) = listeners p" "other_fds (RCRemoveConnection n p) = other_fds p"
  "open_fds (RCRemoveConnection n p) = open_fds p" "owner_pc (RCRemoveConnection n p) = owner_pc p"
  "nextConnection (RCRemoveConnection n p) = nextConnection p"
  "listeners (new_connection i fd p) = listeners p" "other_fds (new_connection i fd p) = other_fds p"
  "open_fds (new_connection i fd p) = open_fds p" "owner_pc (new_connection i fd p) = owner_pc p"
  by (auto simp: listener_at_def connection_at_def RCRemoveConnection_def new_connection_def)





section \<open>The steps of a listener\<close>











lemma at_commutes [simp]:
  "listener_at i pc (open_fd fd p) = open_fd fd (listener_at i pc p)" "listener_at i pc (close_fd fd p) = close_fd fd (listener_at i pc p)"
  "connection_at n f (open_fd fd p) = open_fd fd (connection_at n f p)" "connection_at n f (close_fd fd p) = close_fd fd (connection_at n f p)"
  by (simp_all add: listener_at_def connection_at_def open_fd_def close_fd_def)


lemma closed_elsewhere [simp]:
  "open_fds (close_fd fd (listener_at i pc p)) = open_fds (close_fd fd p)"
  "open_fds (close_fd fd (connection_at n f p)) = open_fds (close_fd fd p)"
  by (simp_all add: close_fd_def)

lemma listener_fds_pc [simp]:
  "listener_fds (l\<lparr>listener_pc := pc\<rparr>) = descriptor (listenerSocket l) @
     (case pc of Accepted fd \<Rightarrow> [fd] | Allocated fd \<Rightarrow> [fd] | Discarding fd \<Rightarrow> [fd] | _ \<Rightarrow> [])"
  by (simp add: listener_fds_def)




section \<open>The steps of a connection\<close>





section \<open>The steps of the owner\<close>

lemma stop_frames [simp]:
  "listeners (stop_proxy e p) = listeners p" "connections (stop_proxy e p) = connections p" "open_fds (stop_proxy e p) = open_fds p"
  "other_fds (stop_proxy e p) = other_fds p" "nextConnection (stop_proxy e p) = nextConnection p" "owner_pc (stop_proxy e p) = Joining 0"
  "listeners (shutdown_connections p) = listeners p" "connections (shutdown_connections p) = connections p"
  "open_fds (shutdown_connections p) = open_fds p" "other_fds (shutdown_connections p) = other_fds p"
  "nextConnection (shutdown_connections p) = nextConnection p" "owner_pc (shutdown_connections p) = owner_pc p"
  by (simp_all add: stop_proxy_def RCMailProxyRequestStop_def shutdown_connections_def)









section \<open>Every interleaving\<close>





section \<open>The end of the proxy\<close>







text \<open>The witness: one listener and one connection from the start of the proxy to its release.\<close>

definition served_client :: "action list" where
  "served_client = [Owner (Configure True), Owner (CreateListener (Some 4)), Owner (StartThread True), Listener 0 Check,
     Listener 0 (Poll True), Listener 0 (Accept (Some 5)), Listener 0 (Allocate True), Listener 0 Register, Listener 0 (Spawn True),
     Connection 1 (Reach (Some 6)), Connection 1 Publish, Connection 1 Ended, Connection 1 CloseRemote, Connection 1 CloseLocal]"


lemmas run_eval = allocated_proxy_def fresh_fd_def open_fd_def close_fd_def listener_at_def connection_at_def new_connection_def
  published_def RCRemoveConnection_def RCProxyIsStopping_def RCMailProxyRequestStop_def shutdown_connections_def listed_fds_def
  stop_proxy_def started_all_def close_listener_def



text \<open>
  A connection closes its sockets before it leaves the list, and a descriptor that has been closed may
  be given to any other part of the process. A stop that is requested in between shuts
  down a descriptor the connection no longer owns.
\<close>

theorem stale_shutdown:
  "\<exists>p. run_actions 1 (served_client @ [OtherOpen 5, Owner RequestStop]) (allocated_proxy [3]) = Some p \<and> 5 \<in> set (other_fds p) \<and> 5 \<in> set (shut_fds p)"
  by (simp add: served_client_def run_eval)

end
