(* ===== verification/Spec2Isabelle.thy ===== *)
theory Spec2Isabelle
  imports JournalContract HTTPSafety WriterContract RecoveryContract VCardContract PhotoCodec ICalendarContract
    ResourcePatchContract SyncPolicy StatusPolicy
    DAVClientContract DAVSyncState DAVStaging MirrorOutcome MirrorReads
    CalendarOutcome CalendarReparse CalendarPrune ProjectionContract MailProxyOutcome MailProxyRelease
begin

text \<open>
  Verification development of Retro-Cloud-Sync, a synchronisation service that keeps the address books,
  calendars and mail of old Macintosh systems in step with CardDAV, CalDAV, IMAP and SMTP servers.
  It models the portable C code under \<^verbatim>\<open>source/shared\<close> and the mail proxy of the daemon,
  \<^verbatim>\<open>source/macOS-daemon/RCMailProxy.c\<close>. Every definition keeps the name of the C function,
  structure or constant it translates; the parts of a long function have names of their own.

  \<^bold>\<open>The program.\<close> A daemon mirrors the server into SQLite: the CardDAV and CalDAV mirrors discover the
  collections of an account through the DAV client, stage what changed, and commit a whole run into the contact
  store or the calendar store. Local changes travel the other way: an edit is patched into the bytes of
  the resource, queued in the write journal inside the transaction that publishes it, and
  sent by the DAV writer with a precondition; a conflict is settled by the recovery
  coordinators. The sync policy decides which fields take part, the status policy what the user
  is told. Mail only passes through: the proxy accepts plain connections on the loopback interface
  and relays them over verified TLS.

  \<^bold>\<open>Theories and sources.\<close>
  \<^item> \<open>Prelude\<close>: bytes, results and the error value of \<^verbatim>\<open>RCError.c\<close>; tables as lists of rows.
    \<open>SQLite\<close>: a connection as the tables, a stack of savepoints with the tables they return to,
    and a schedule that lets any call of the library fail. \<open>StateRelation\<close> and \<open>StoreSteps\<close>: the locales
    of state relations that sequences of calls preserve, and their instances for the database.
  \<^item> \<open>WriteJournal\<close> (\<^verbatim>\<open>RCWriteJournal.c\<close>): the tables, every exported function, the backup. \<open>JournalMachine\<close> is its
    specification, a transition system with an invariant; \<open>JournalRefine\<close> shows that every function makes at
    most one transition and none when it fails; \<open>JournalReach\<close> and \<open>JournalContract\<close> hold the
    reachable journals, exactly-once queuing, atomicity, progress and the export.
  \<^item> \<open>HTTPClient\<close> (\<^verbatim>\<open>RCHTTPClient.c\<close>) and \<open>HTTPSafety\<close>: requests over an arbitrary libcurl, whose transfers are
    logged; every transfer is confined to permitted HTTPS hosts, mutations are guarded and never redirected,
    responses are bounded although \<open>size_t\<close> wraps.
  \<^item> \<open>DAVWriter\<close>, \<open>WriterSafety\<close>, \<open>WriterContract\<close> (\<^verbatim>\<open>RCDAVWriter.c\<close>): one write attempt over the journal and the client.
    \<open>ConflictRecovery\<close>, \<open>RecoveryContract\<close> (\<^verbatim>\<open>RCConflictRecovery.c\<close>): the two coordinators.
  \<^item> \<open>VCard\<close>, \<open>VCardContract\<close> (\<^verbatim>\<open>RCVCard.c\<close>), \<open>PhotoCodec\<close> (\<^verbatim>\<open>RCPhotoCodec.c\<close>), \<open>ICalendar\<close>, \<open>ICalendarContract\<close>
    (\<^verbatim>\<open>RCICalendar.c\<close>), \<open>ResourcePatch\<close>, \<open>ResourcePatchContract\<close> (\<^verbatim>\<open>RCResourcePatch.c\<close>): the
    formats, with round trips, the equivalence of the framing machine with its grammar, and the byte-exact patcher.
  \<^item> \<open>SyncPolicy\<close> (\<^verbatim>\<open>RCSyncPolicy.c\<close>, \<^verbatim>\<open>RCSyncFollowup.h\<close>) and \<open>StatusPolicy\<close> (\<^verbatim>\<open>RCStatusPolicy.c\<close>).
  \<^item> \<open>DAVClient\<close>, \<open>DAVClientContract\<close> (\<^verbatim>\<open>RCDAVClient.c\<close>), \<open>DAVSyncState\<close> (\<^verbatim>\<open>RCDAVSyncState.c\<close>), \<open>DAVStaging\<close>
    (\<^verbatim>\<open>RCDAVStaging.c\<close>): multistatus documents over an arbitrary libxml2, discovery, inventories,
    collection synchronisation, the durable tokens and the staging table.
  \<^item> \<open>ContactStore\<close> (\<^verbatim>\<open>RCContactStore.c\<close>) and \<open>CardDAVMirror\<close> (\<^verbatim>\<open>RCCardDAVMirror.c\<close>), with \<open>ContactContract\<close> and
    \<open>MirrorContract\<close> (what each call changes), \<open>ContactInvariant\<close>, \<open>MirrorAtomicity\<close>, \<open>MirrorOutcome\<close>, \<open>MirrorReads\<close>,
    and \<open>MirrorDemo\<close>, a concrete run.
  \<^item> \<open>CalendarStore\<close> (\<^verbatim>\<open>RCCalendarStore.c\<close>) and \<open>CalDAVMirror\<close> (\<^verbatim>\<open>RCCalDAVMirror.c\<close>), with \<open>CalendarContract\<close>,
    \<open>CalendarMirrorContract\<close>, \<open>CalendarInvariant\<close>, \<open>CalendarAtomicity\<close>, \<open>CalendarOutcome\<close>, \<open>CalendarPrune\<close> (the history
    window), \<open>CalendarReparse\<close> (opening the store) and \<open>CalendarDemo\<close>.
  \<^item> \<open>CalendarProjection\<close> and \<open>ProjectionContract\<close> (\<^verbatim>\<open>RCCalendarProjection.c\<close>): extra dates and exclusion rules as
    a daily rule with exceptions, and the projection of changed time zones, over an arbitrary libical.
  \<^item> \<open>Connection\<close> (\<^verbatim>\<open>RCConnection.c\<close>) and \<open>MailProxy\<close> (\<^verbatim>\<open>RCMailProxy.c\<close>, one connection), over an arbitrary operating system
    and OpenSSL whose calls are noted in a trace; \<open>MailProxySafety\<close> and \<open>MailProxyOutcome\<close> read the
    properties off the trace. \<open>MailProxyThreads\<close> has the threads as steps over the shared structure,
    \<open>MailProxyRelease\<close> the invariant of every interleaving.

  \<^bold>\<open>What the lemmas show.\<close> The \<open>Contract\<close> theories state what each operation may change, as interpretations of
  the locales of \<open>StateRelation\<close> and \<open>StoreSteps\<close>, so that a property of a whole run is a property of its elementary
  changes; the \<open>Invariant\<close> theories show that every change keeps the tables well-formed; the
  \<open>Atomicity\<close> theories follow the transactions through every failure; the \<open>Outcome\<close> theories combine
  them. The properties stand after a numbered paragraph each, with a witness that applies them to a
  concrete input.

  \<^bold>\<open>Bounds and fuel.\<close> Loops that end by their structure are recursive without fuel. Fuel appears where the
  environment decides: six transfers of a request (the redirect limit of the code plus one), fifty backup
  steps and 1024 pages of a synchronisation, which are limits of the code; one turn more than there are rows for the reparsing of
  cached calendars, shown to suffice; as many turns as an event has properties of a kind, and one more, for
  their removal, shown to suffice; 2200 days for the comparison of offsets over six years; and the calls of the mail proxy that a signal may interrupt
  without bound, where \<open>None\<close> is shown to need that many interruptions, except for the relay, which runs as
  long as its peers do. Sizes that the code keeps in \<open>size_t\<close> are words where their overflow is checked.

  \<^bold>\<open>Parameters.\<close> libcurl, libxml2, libvc, libical, OpenSSL, the sockets and the callbacks of the
  platform are arguments of the definitions. What a property relies on is a
  hypothesis of its statement. SQLite is modelled by what the code uses of it: statements on tables,
  transactions, savepoints, constraints, and failures at any call; a \<open>ROLLBACK\<close> is assumed to work where a theorem
  says \<open>can_roll_back\<close>. Memory allocation succeeds, except where the proxy allocates a connection.

  \<^bold>\<open>Not modelled.\<close> The Objective-C code (the daemons and applications over Sync Services, EventKit, Core Data
  and AppKit), whose frameworks are not in the repository; \<^verbatim>\<open>RCCalendarStructure.h\<close>, which is Objective-C in a
  header; log
  levels, progress messages and user-interface strings; command-line probes and tests. Pointers, the
  freeing of memory and the SQL text are below the level of the model.
\<close>

end
